(* ===== verification/Prelude.thy ===== *)
theory Prelude
  imports Main "HOL-Library.AList" "HOL-Library.Multiset" "HOL-Library.Sublist" "HOL-Library.Word"
begin

text \<open>
  Shared vocabulary of the development.

  \<^item> Go's \<^verbatim>\<open>error\<close> values (\<open>go_error\<close>) with \<^verbatim>\<open>errors.As\<close>, \<^verbatim>\<open>errors.Is\<close>, \<^verbatim>\<open>errors.Join\<close> and the
    text an error prints;
  \<^item> the result of running a piece of Go code: it returns, it panics, or it blocks for ever
    (\<open>outcome\<close>), and world-passing programs over it (\<open>io\<close>) with their sequencing operators;
  \<^item> Go maps as association lists with distinct keys, where every \<^verbatim>\<open>range\<close> statement goes through an
    explicit visiting order;
  \<^item> the functions of Go's \<^verbatim>\<open>strings\<close>, \<^verbatim>\<open>strconv\<close> and \<^verbatim>\<open>net\<close> packages that the sources call.

  Log output is not modelled: no component reads it back.
\<close>

named_theorems io_simps \<open>evaluation rules of world-passing programs\<close>
named_theorems io_keeps \<open>composition rules for invariants of world-passing programs\<close>

section \<open>Errors\<close>

type_synonym bytes = string

datatype grpc_code = OK | InvalidArgument | Internal | Unauthenticated

text \<open>
  One constructor per way in which the sources make or inspect an error. \<open>ExtError\<close> stands for an
  error value of a third-party library that the sources only pass on.
\<close>

datatype go_error =
    ErrorString string
  | WrapError string go_error
  | JoinError "go_error list"
  | ValueUnsetError string
  | StatusError grpc_code string
  | Errno int
  | ExitError int string
  | EOF
  | Canceled
  | DeadlineExceeded
  | ErrNotExist
  | NotFound string
  | ExtError string

text \<open>
  \<^verbatim>\<open>errors.As\<close> with a target of type \<^verbatim>\<open>**store.ValueUnsetError\<close>: walk the wrapped errors until one has
  that dynamic type.
\<close>

fun as_value_unset :: "go_error \<Rightarrow> bool" where
  "as_value_unset (ValueUnsetError _) = True"
| "as_value_unset (WrapError _ e) = as_value_unset e"
| "as_value_unset (JoinError es) = (\<exists>e \<in> set es. as_value_unset e)"
| "as_value_unset _ = False"

text \<open>
  The second argument of \<^verbatim>\<open>errors.Is\<close>: a package-level error value, or a pointer to a struct that the
  caller has just allocated. Pointers compare by address, so the latter equals no error that exists.
\<close>

datatype is_target = Sentinel go_error | FreshPointer

fun same_error :: "go_error \<Rightarrow> is_target \<Rightarrow> bool" where
  "same_error e (Sentinel t) = (e = t)"
| "same_error e FreshPointer = False"

fun errors_Is :: "go_error \<Rightarrow> is_target \<Rightarrow> bool" where
  "errors_Is (WrapError m e) t = (same_error (WrapError m e) t \<or> errors_Is e t)"
| "errors_Is (JoinError es) t = (same_error (JoinError es) t \<or> (\<exists>e \<in> set es. errors_Is e t))"
| "errors_Is e t = same_error e t"

lemma errors_Is_FreshPointer [simp]: "\<not> errors_Is e FreshPointer"
  by (induction e FreshPointer rule: errors_Is.induct) auto

text \<open>\<^verbatim>\<open>errors.Join\<close> drops nil errors and is nil when nothing is left.\<close>

definition errors_Join :: "go_error option list \<Rightarrow> go_error option" where
  "errors_Join es = (let xs = [e. Some e \<leftarrow> es] in if xs = [] then None else Some (JoinError xs))"

lemma errors_Join_None: "errors_Join es = None \<longleftrightarrow> (\<forall>e \<in> set es. e = None)"
  by (induction es) (auto simp: errors_Join_def Let_def split: option.splits)

section \<open>Outcomes and world-passing programs\<close>

datatype 'a outcome = Ret 'a | Panic string | Block

type_synonym ('w, 'a) io = "'w \<Rightarrow> ((go_error + 'a) \<times> 'w) outcome"

definition ret :: "'a \<Rightarrow> ('w, 'a) io" where
  "ret x w = Ret (Inr x, w)"

definition throw :: "go_error \<Rightarrow> ('w, 'a) io" where
  "throw e w = Ret (Inl e, w)"

definition crash :: "string \<Rightarrow> ('w, 'a) io" where
  "crash m w = Panic m"

definition gets :: "('w \<Rightarrow> 'a) \<Rightarrow> ('w, 'a) io" where
  "gets f w = Ret (Inr (f w), w)"

definition modify :: "('w \<Rightarrow> 'w) \<Rightarrow> ('w, unit) io" where
  "modify f w = Ret (Inr (), f w)"

definition lift_result :: "go_error + 'a \<Rightarrow> ('w, 'a) io" where
  "lift_result r w = Ret (r, w)"

text \<open>
  \<open>bindR\<close> hands the error or the value to the continuation (Go's \<^verbatim>\<open>x, err := m()\<close>); \<open>bindE\<close> returns
  the error at once (\<^verbatim>\<open>if err != nil { return err }\<close>).
\<close>

definition bindR :: "('w, 'a) io \<Rightarrow> (go_error + 'a \<Rightarrow> ('w, 'b) io) \<Rightarrow> ('w, 'b) io" where
  "bindR m f w = (case m w of Ret (r, w') \<Rightarrow> f r w' | Panic p \<Rightarrow> Panic p | Block \<Rightarrow> Block)"

definition bindE :: "('w, 'a) io \<Rightarrow> ('a \<Rightarrow> ('w, 'b) io) \<Rightarrow> ('w, 'b) io" where
  "bindE m f = bindR m (\<lambda>r. case r of Inl e \<Rightarrow> throw e | Inr x \<Rightarrow> f x)"

text \<open>A call whose error is ignored, and a body with a deferred call, whose result is not used.\<close>

definition ignoring :: "('w, 'a) io \<Rightarrow> ('w, unit) io" where
  "ignoring m = bindR m (\<lambda>_. ret ())"

definition deferred :: "('w, 'a) io \<Rightarrow> ('w, 'b) io \<Rightarrow> ('w, 'a) io" where
  "deferred body d = bindR body (\<lambda>r. bindR d (\<lambda>_. lift_result r))"

text \<open>A \<^verbatim>\<open>range\<close> loop whose body may return an error, which ends the loop.\<close>

fun forE :: "'x list \<Rightarrow> ('x \<Rightarrow> ('w, unit) io) \<Rightarrow> ('w, unit) io" where
  "forE [] f = ret ()"
| "forE (x # xs) f = bindE (f x) (\<lambda>_. forE xs f)"

text \<open>
  An \<^verbatim>\<open>errgroup\<close>: all goroutines run to their end, in the given order, and the first error is the result.
\<close>

fun groupE :: "go_error option \<Rightarrow> ('w, unit) io list \<Rightarrow> ('w, unit) io" where
  "groupE failed [] = (case failed of None \<Rightarrow> ret () | Some e \<Rightarrow> throw e)"
| "groupE failed (m # ms) = bindR m (\<lambda>r. groupE (case failed of
      Some e \<Rightarrow> Some e
    | None \<Rightarrow> (case r of Inl e \<Rightarrow> Some e | Inr _ \<Rightarrow> None)) ms)"

text \<open>A \<^verbatim>\<open>range\<close> loop with an accumulator.\<close>

fun foldE :: "('x \<Rightarrow> 'a \<Rightarrow> ('w, 'a) io) \<Rightarrow> 'x list \<Rightarrow> 'a \<Rightarrow> ('w, 'a) io" where
  "foldE f [] a = ret a"
| "foldE f (x # xs) a = bindE (f x a) (\<lambda>a'. foldE f xs a')"

text \<open>For runs on concrete inputs.\<close>

definition returns_ok :: "((go_error + 'a) \<times> 'w) outcome \<Rightarrow> bool" where
  "returns_ok r = (case r of Ret (Inr _, _) \<Rightarrow> True | _ \<Rightarrow> False)"

lemma returns_ok_iff: "returns_ok r \<longleftrightarrow> (\<exists>x w. r = Ret (Inr x, w))"
  by (auto simp: returns_ok_def split: outcome.splits sum.splits)

lemma bindR_apply [io_simps]:
  "m w = Ret (r, w') \<Longrightarrow> bindR m f w = f r w'"
  "m w = Panic p \<Longrightarrow> bindR m f w = Panic p"
  "m w = Block \<Longrightarrow> bindR m f w = Block"
  by (simp_all add: bindR_def)

lemma bindE_apply [io_simps]:
  "m w = Ret (Inr x, w') \<Longrightarrow> bindE m f w = f x w'"
  "m w = Ret (Inl e, w') \<Longrightarrow> bindE m f w = Ret (Inl e, w')"
  "m w = Panic p \<Longrightarrow> bindE m f w = Panic p"
  "m w = Block \<Longrightarrow> bindE m f w = Block"
  by (simp_all add: bindE_def bindR_def throw_def)

lemmas io_defs = ret_def throw_def crash_def gets_def modify_def lift_result_def

lemma bindE_ret [simp]: "bindE (ret x) f = f x"
  by (rule ext) (simp add: bindE_def bindR_def ret_def)

lemma bindE_throw [simp]: "bindE (throw e) f = throw e"
  by (rule ext) (simp add: bindE_def bindR_def throw_def)

lemma bindE_ret_right [simp]: "bindE m ret = m"
  by (rule ext) (auto simp: bindE_def bindR_def ret_def throw_def split: outcome.splits sum.splits)

lemma bindE_assoc: "bindE (bindE m f) g = bindE m (\<lambda>x. bindE (f x) g)"
  by (rule ext) (auto simp: bindE_def bindR_def throw_def split: outcome.splits sum.splits)

lemma bindE_RetE:
  assumes "bindE m f w = Ret (r, w'')"
  obtains (failed) e where "m w = Ret (Inl e, w'')" "r = Inl e"
    | (returned) x w' where "m w = Ret (Inr x, w')" "f x w' = Ret (r, w'')"
  using assms by (auto simp: bindE_def bindR_def throw_def split: outcome.splits sum.splits prod.splits)

lemma bindE_Inr_iff:
  "bindE m f w = Ret (Inr y, w'') \<longleftrightarrow> (\<exists>x w'. m w = Ret (Inr x, w') \<and> f x w' = Ret (Inr y, w''))"
  by (auto simp: bindE_def bindR_def throw_def split: outcome.splits sum.splits prod.splits)

lemma bindR_Ret_iff:
  "bindR m f w = Ret (r, w'') \<longleftrightarrow> (\<exists>q w'. m w = Ret (q, w') \<and> f q w' = Ret (r, w''))"
  by (auto simp: bindR_def split: outcome.splits)

lemma bindR_case_iff:
  "bindR m (case_sum f g) w = Ret (r, w'') \<longleftrightarrow> (\<exists>e w'. m w = Ret (Inl e, w') \<and> f e w' = Ret (r, w''))
     \<or> (\<exists>x w'. m w = Ret (Inr x, w') \<and> g x w' = Ret (r, w''))"
  by (auto simp: bindR_def split: outcome.splits sum.splits)

lemma deferred_Ret_iff:
  "deferred m d w = Ret (r, w'') \<longleftrightarrow> (\<exists>w' q. m w = Ret (r, w') \<and> d w' = Ret (q, w''))"
  by (auto simp: deferred_def bindR_Ret_iff lift_result_def)

lemma ignoring_Ret_iff: "ignoring m w = Ret (r, w') \<longleftrightarrow> (\<exists>q. m w = Ret (q, w')) \<and> r = Inr ()"
  by (auto simp: ignoring_def bindR_Ret_iff ret_def)

lemma groupE_failed: "groupE (Some e) ms w = Ret (r, w') \<Longrightarrow> r = Inl e"
  by (induction ms arbitrary: w) (auto simp: throw_def bindR_Ret_iff)

lemma groupE_Inr:
  assumes "groupE None ms w = Ret (Inr (), w')" "m \<in> set ms"
  shows "\<exists>w1 w2. m w1 = Ret (Inr (), w2)"
  using assms
proof (induction ms arbitrary: w)
  case (Cons m' ms)
  then obtain r w1 where run: "m' w = Ret (r, w1)" "groupE (case r of Inl e \<Rightarrow> Some e | Inr _ \<Rightarrow> None) ms w1 = Ret (Inr (), w')"
    by (auto simp: bindR_Ret_iff)
  then have "r = Inr ()" by (cases r) (auto dest: groupE_failed)
  with run Cons show ?case by auto
qed simp

lemma forE_append: "forE (xs @ ys) f = bindE (forE xs f) (\<lambda>_. forE ys f)"
  by (induction xs) (simp_all add: bindE_assoc)

section \<open>Invariants of programs\<close>

text \<open>\<open>keeps I m\<close>: from a state with \<open>I\<close>, every return of \<open>m\<close> (with or without an error) has \<open>I\<close> again.\<close>

definition keeps :: "('w \<Rightarrow> bool) \<Rightarrow> ('w, 'a) io \<Rightarrow> bool" where
  "keeps I m \<longleftrightarrow> (\<forall>w r w'. I w \<longrightarrow> m w = Ret (r, w') \<longrightarrow> I w')"

lemma keepsI [intro?]: "(\<And>w r w'. I w \<Longrightarrow> m w = Ret (r, w') \<Longrightarrow> I w') \<Longrightarrow> keeps I m"
  by (auto simp: keeps_def)

lemma keepsD: "keeps I m \<Longrightarrow> I w \<Longrightarrow> m w = Ret (r, w') \<Longrightarrow> I w'"
  by (auto simp: keeps_def)

lemma keeps_pure [io_keeps]:
  "keeps I (ret x)" "keeps I (throw e)" "keeps I (crash p)" "keeps I (gets g)" "keeps I (lift_result r)"
  by (auto simp: keeps_def io_defs)

lemma keeps_bindR [io_keeps]:
  assumes "keeps I m" "\<And>r. keeps I (f r)"
  shows "keeps I (bindR m f)"
  proof (rule keepsI)
  fix w r w'
  assume I: "I w" and run: "bindR m f w = Ret (r, w')"
  from run obtain q v where mid: "m w = Ret (q, v)" "f q v = Ret (r, w')"
    by (auto simp: bindR_def split: outcome.splits)
  from keepsD [OF assms(1) I mid(1)] mid(2) show "I w'"
    using keepsD [OF assms(2)] by blast
qed

lemma keeps_bindE [io_keeps]:
  assumes "keeps I m" "\<And>x. keeps I (f x)"
  shows "keeps I (bindE m f)"
  unfolding bindE_def using assms by (intro keeps_bindR) (simp_all add: keeps_pure split: sum.split)

lemma keeps_forE [io_keeps]: "(\<And>x. x \<in> set xs \<Longrightarrow> keeps I (f x)) \<Longrightarrow> keeps I (forE xs f)"
  by (induction xs) (simp_all add: keeps_pure keeps_bindE)

lemma keeps_foldE [io_keeps]: "(\<And>x a. x \<in> set xs \<Longrightarrow> keeps I (f x a)) \<Longrightarrow> keeps I (foldE f xs a)"
  by (induction xs arbitrary: a) (simp_all add: keeps_pure keeps_bindE)

lemma keeps_if [io_keeps]: "(b \<Longrightarrow> keeps I m) \<Longrightarrow> (\<not> b \<Longrightarrow> keeps I n) \<Longrightarrow> keeps I (if b then m else n)"
  by simp

lemma keeps_case_option [io_keeps]:
  "(x = None \<Longrightarrow> keeps I m) \<Longrightarrow> (\<And>y. x = Some y \<Longrightarrow> keeps I (f y)) \<Longrightarrow>
   keeps I (case x of None \<Rightarrow> m | Some y \<Rightarrow> f y)"
  by (cases x) auto

lemma keeps_case_sum [io_keeps]:
  "(\<And>e. x = Inl e \<Longrightarrow> keeps I (g e)) \<Longrightarrow> (\<And>y. x = Inr y \<Longrightarrow> keeps I (f y)) \<Longrightarrow>
   keeps I (case x of Inl e \<Rightarrow> g e | Inr y \<Rightarrow> f y)"
  by (cases x) auto

text \<open>\<open>yields P m\<close>: every value that \<open>m\<close> returns without an error has \<open>P\<close>.\<close>

definition yields :: "('a \<Rightarrow> bool) \<Rightarrow> ('w, 'a) io \<Rightarrow> bool" where
  "yields P m \<longleftrightarrow> (\<forall>w x w'. m w = Ret (Inr x, w') \<longrightarrow> P x)"

lemma yieldsD: "yields P m \<Longrightarrow> m w = Ret (Inr x, w') \<Longrightarrow> P x"
  by (auto simp: yields_def)

lemma yields_pure:
  "yields P (ret x) \<longleftrightarrow> P x" "yields P (throw e)" "yields P (crash p)"
  by (auto simp: yields_def io_defs)

lemma yields_bindR: "(\<And>r. yields P (f r)) \<Longrightarrow> yields P (bindR m f)"
  by (auto simp: yields_def bindR_Ret_iff)

lemma yields_bindE: "(\<And>x. yields P (f x)) \<Longrightarrow> yields P (bindE m f)"
  by (auto simp: yields_def bindE_Inr_iff)

lemma yields_deferred: "yields P m \<Longrightarrow> yields P (deferred m d)"
  by (auto simp: yields_def deferred_Ret_iff)

lemma keeps_deferred [io_keeps]: "keeps I m \<Longrightarrow> keeps I d \<Longrightarrow> keeps I (deferred m d)"
  unfolding deferred_def by (intro keeps_bindR) (simp_all add: keeps_pure)

lemma keeps_ignoring [io_keeps]: "keeps I m \<Longrightarrow> keeps I (ignoring m)"
  unfolding ignoring_def by (intro keeps_bindR) (simp_all add: keeps_pure)

section \<open>Transition systems\<close>

text \<open>
  The states a step relation reaches from a start state. The locale \<open>machine\<close> is what every component with goroutines
  promises of its step relation: a start state in an invariant that every step keeps. Its interpretations give the
  invariant of every reachable state.
\<close>

inductive reach :: "('s \<Rightarrow> 's \<Rightarrow> bool) \<Rightarrow> 's \<Rightarrow> 's \<Rightarrow> bool" for step s0 where
  start: "reach step s0 s0"
| next_step: "reach step s0 s \<Longrightarrow> step s s' \<Longrightarrow> reach step s0 s'"

lemma reach_one: "step s t \<Longrightarrow> reach step s t"
  by (rule reach.next_step [OF reach.start])

lemma reach_run: "reach step s0 s \<Longrightarrow> step s t \<Longrightarrow> t = u \<Longrightarrow> reach step s0 u"
  by (auto intro: reach.next_step)

lemma reach_trans: "reach step s1 s2 \<Longrightarrow> reach step s0 s1 \<Longrightarrow> reach step s0 s2"
  by (induction rule: reach.induct) (auto intro: reach.next_step)

locale machine =
  fixes step :: "'s \<Rightarrow> 's \<Rightarrow> bool" and init :: 's and good :: "'s \<Rightarrow> bool"
  assumes good_init: "good init"
    and good_step: "step s s' \<Longrightarrow> good s \<Longrightarrow> good s'"
begin

lemma stays_good: "reach step s t \<Longrightarrow> good s \<Longrightarrow> good t"
  by (induction rule: reach.induct) (auto intro: good_step)

lemma invariant: "reach step init s \<Longrightarrow> good s"
  using stays_good good_init by blast

end

section \<open>Go maps\<close>

type_synonym 'v gomap = "(string \<times> 'v) list"

definition gm_wf :: "'v gomap \<Rightarrow> bool" where
  "gm_wf m \<longleftrightarrow> distinct (map fst m)"

text \<open>
  A \<^verbatim>\<open>range\<close> statement visits the entries of a map in an order the language leaves open; it is an
  argument of every loop over a map, and the loops are proved correct for each such argument.
\<close>

type_synonym range_order = "string list \<Rightarrow> string list"

definition is_range_order :: "range_order \<Rightarrow> bool" where
  "is_range_order ro \<longleftrightarrow> (\<forall>ks. mset (ro ks) = mset ks)"

definition range_keys :: "range_order \<Rightarrow> 'v gomap \<Rightarrow> string list" where
  "range_keys ro m = ro (map fst m)"

lemma gm_wf_Nil [simp]: "gm_wf []"
  by (simp add: gm_wf_def)

lemma gm_wf_update [simp]: "gm_wf m \<Longrightarrow> gm_wf (AList.update k v m)"
  by (simp add: gm_wf_def distinct_update)

lemma gm_wf_delete [simp]: "gm_wf m \<Longrightarrow> gm_wf (AList.delete k m)"
  by (simp add: gm_wf_def distinct_delete)

lemma gm_update [simp]: "map_of (AList.update k v m) = (map_of m)(k \<mapsto> v)"
  by (rule update_conv')

lemma gm_delete [simp]: "map_of (AList.delete k m) = (map_of m)(k := None)"
  by (rule delete_conv')

lemma set_range_keys: "is_range_order ro \<Longrightarrow> set (range_keys ro m) = dom (map_of m)"
  by (metis dom_map_of_conv_image_fst image_set is_range_order_def range_keys_def set_mset_mset)

lemma distinct_range_keys: "is_range_order ro \<Longrightarrow> gm_wf m \<Longrightarrow> distinct (range_keys ro m)"
  by (metis gm_wf_def is_range_order_def mset_eq_imp_distinct_iff range_keys_def)

lemma is_range_order_id [simp]: "is_range_order id" "is_range_order rev"
  by (simp_all add: is_range_order_def)

lemma map_of_rev_distinct: "distinct (map fst xs) \<Longrightarrow> map_of (rev xs) = map_of xs"
  by (subst map_of_inject_set) (simp_all add: rev_map [symmetric])

text \<open>Copying a map entry by entry, in any order, copies the map.\<close>

definition copy_map :: "range_order \<Rightarrow> 'v gomap \<Rightarrow> 'v gomap" where
  "copy_map ro m =
     foldl (\<lambda>acc k. case map_of m k of Some v \<Rightarrow> AList.update k v acc | None \<Rightarrow> acc) [] (range_keys ro m)"

lemma copy_fold_map_of:
  "map_of (foldl (\<lambda>acc k. case map_of m k of Some v \<Rightarrow> AList.update k v acc | None \<Rightarrow> acc) acc ks) x =
     (if x \<in> set ks \<and> x \<in> dom (map_of m) then map_of m x else map_of acc x)"
  by (induction ks arbitrary: acc) (auto split: option.splits)

lemma copy_fold_wf:
  "gm_wf acc \<Longrightarrow>
   gm_wf (foldl (\<lambda>acc k. case map_of m k of Some v \<Rightarrow> AList.update k v acc | None \<Rightarrow> acc) acc ks)"
  by (induction ks arbitrary: acc) (auto split: option.splits)

lemma map_of_copy_map [simp]: "is_range_order ro \<Longrightarrow> map_of (copy_map ro m) = map_of m"
  by (rule ext) (auto simp: copy_map_def copy_fold_map_of set_range_keys domIff)

lemma gm_wf_copy_map [simp]: "gm_wf (copy_map ro m)"
  by (simp add: copy_map_def copy_fold_wf)

section \<open>Strings\<close>

definition HasPrefix :: "string \<Rightarrow> string \<Rightarrow> bool" where
  "HasPrefix s pre \<longleftrightarrow> take (length pre) s = pre"

definition TrimPrefix :: "string \<Rightarrow> string \<Rightarrow> string" where
  "TrimPrefix s pre = (if HasPrefix s pre then drop (length pre) s else s)"

fun Contains :: "string \<Rightarrow> string \<Rightarrow> bool" where
  "Contains [] sub = (sub = [])"
| "Contains (c # s) sub = (HasPrefix (c # s) sub \<or> Contains s sub)"

lemma HasPrefix_iff: "HasPrefix s pre \<longleftrightarrow> (\<exists>t. s = pre @ t)"
  by (metis HasPrefix_def append_eq_conv_conj)

lemma HasPrefix_append [simp]: "HasPrefix (pre @ t) pre"
  by (auto simp: HasPrefix_iff)

lemma HasPrefix_Nil [simp]: "HasPrefix s []"
  by (simp add: HasPrefix_def)

lemma TrimPrefix_append [simp]: "TrimPrefix (pre @ t) pre = t"
  by (simp add: TrimPrefix_def)

lemma TrimPrefix_restore: "HasPrefix s pre \<Longrightarrow> pre @ TrimPrefix s pre = s"
  by (auto simp: HasPrefix_iff)

text \<open>Keys listed under a prefix, with the first part of it cut off.\<close>

lemma trim_keys:
  assumes "distinct ks" "set ks = {k \<in> D. HasPrefix k (p @ q)}"
  shows "distinct (map (\<lambda>k. TrimPrefix k p) ks)"
    and "set (map (\<lambda>k. TrimPrefix k p) ks) = {k. p @ k \<in> D \<and> HasPrefix k q}"
proof -
  have shape: "k = p @ TrimPrefix k p \<and> HasPrefix (TrimPrefix k p) q" if "k \<in> set ks" for k
    using that assms(2) by (auto simp: HasPrefix_iff)
  then have "inj_on (\<lambda>k. TrimPrefix k p) (set ks)" by (metis inj_onI)
  with assms(1) show "distinct (map (\<lambda>k. TrimPrefix k p) ks)" by (simp add: distinct_map)
  have "x \<in> set (map (\<lambda>k. TrimPrefix k p) ks) \<longleftrightarrow> p @ x \<in> D \<and> HasPrefix x q" for x
  proof
    assume "x \<in> set (map (\<lambda>k. TrimPrefix k p) ks)"
    then obtain k where "k \<in> set ks" "x = TrimPrefix k p" by auto
    with shape [of k] assms(2) show "p @ x \<in> D \<and> HasPrefix x q" by auto
  next
    assume x: "p @ x \<in> D \<and> HasPrefix x q"
    then have "p @ x \<in> set ks" using assms(2) by (auto simp: HasPrefix_iff)
    then show "x \<in> set (map (\<lambda>k. TrimPrefix k p) ks)" by (metis TrimPrefix_append image_eqI list.set_map)
  qed
  then show "set (map (\<lambda>k. TrimPrefix k p) ks) = {k. p @ k \<in> D \<and> HasPrefix k q}" by blast
qed

lemma Contains_iff: "Contains s sub \<longleftrightarrow> (\<exists>a b. s = a @ sub @ b)"
proof (induction s)
  case Nil
  show ?case by auto
next
  case (Cons c s)
  show ?case
  proof
    assume "Contains (c # s) sub"
    then consider "HasPrefix (c # s) sub" | "Contains s sub" by auto
    then show "\<exists>a b. c # s = a @ sub @ b"
    proof cases
      case 1
      then obtain b where "c # s = [] @ sub @ b" by (auto simp: HasPrefix_iff)
      then show ?thesis by blast
    next
      case 2
      then obtain a b where "c # s = (c # a) @ sub @ b" using Cons.IH by auto
      then show ?thesis by blast
    qed
  next
    assume "\<exists>a b. c # s = a @ sub @ b"
    then obtain a b where ab: "c # s = a @ sub @ b" by blast
    show "Contains (c # s) sub"
    proof (cases a)
      case Nil
      with ab have "HasPrefix (c # s) sub" unfolding HasPrefix_iff by auto
      then show ?thesis by simp
    next
      case (Cons d a')
      with ab have "Contains s sub" using Cons.IH by auto
      then show ?thesis by simp
    qed
  qed
qed

end
