(* ===== verification/Decimal.thy ===== *)
theory Decimal
  imports Prelude
begin

text \<open>
  Decimal text of integers, as \<^verbatim>\<open>strconv.Itoa\<close>, \<^verbatim>\<open>strconv.Atoi\<close>, \<^verbatim>\<open>fmt.Sprint\<close> and the verb \<^verbatim>\<open>%d\<close> write and
  read it, \<^verbatim>\<open>net.JoinHostPort\<close>, and the text of the errors of this code base. \<open>Atoi\<close> has the range of
  Go's 64-bit \<^verbatim>\<open>int\<close>.
\<close>

section \<open>Writing\<close>

definition digit_char :: "nat \<Rightarrow> char" where
  "digit_char d = char_of (48 + d)"

fun nat_dec :: "nat \<Rightarrow> string" where
  "nat_dec n = (if n < 10 then [digit_char n] else nat_dec (n div 10) @ [digit_char (n mod 10)])"

declare nat_dec.simps [simp del]

definition Itoa :: "int \<Rightarrow> string" where
  "Itoa i = (if i < 0 then ''-'' @ nat_dec (nat (- i)) else nat_dec (nat i))"

text \<open>Evaluation on binary numerals instead of successors.\<close>

function int_dec :: "int \<Rightarrow> string" where
  "int_dec n = (if n < 10 then [digit_char (nat n)] else int_dec (n div 10) @ [digit_char (nat (n mod 10))])"
  by pat_completeness auto

termination
  by (relation "measure nat") auto

declare int_dec.simps [simp del]

lemma int_dec_nat: "int_dec (int n) = nat_dec n"
proof (induction n rule: nat_dec.induct)
  case (1 n)
  have "int_dec (int n div 10) = nat_dec (n div 10)" if "\<not> n < 10" using 1 [OF that] by (simp add: zdiv_int)
  then show ?case by (subst nat_dec.simps, subst int_dec.simps) (simp add: nat_mod_distrib)
qed

lemma Itoa_code [code]: "Itoa i = (if i < 0 then ''-'' @ int_dec (- i) else int_dec i)"
  using int_dec_nat [of "nat (- i)"] int_dec_nat [of "nat i"] by (auto simp: Itoa_def)

section \<open>Reading\<close>

definition char_digit :: "char \<Rightarrow> nat option" where
  "char_digit c = (if 48 \<le> (of_char c :: nat) \<and> (of_char c :: nat) \<le> 57 then Some (of_char c - 48) else None)"

fun read_digits :: "nat \<Rightarrow> string \<Rightarrow> nat option" where
  "read_digits acc [] = Some acc"
| "read_digits acc (c # cs) =
     (case char_digit c of None \<Rightarrow> None | Some d \<Rightarrow> read_digits (10 * acc + d) cs)"

definition read_nat :: "string \<Rightarrow> nat option" where
  "read_nat s = (if s = [] then None else read_digits 0 s)"

definition max_int :: int where
  "max_int = 2 ^ 63 - 1"

definition min_int :: int where
  "min_int = - (2 ^ 63)"

definition in_range :: "int \<Rightarrow> go_error + int" where
  "in_range i = (if min_int \<le> i \<and> i \<le> max_int then Inr i else Inl (ErrorString ''value out of range''))"

definition Atoi :: "string \<Rightarrow> go_error + int" where
  "Atoi s =
     (let (neg, body) =
        (case s of
           [] \<Rightarrow> (False, [])
         | c # cs \<Rightarrow> if c = CHR ''-'' then (True, cs) else if c = CHR ''+'' then (False, cs) else (False, s))
      in case read_nat body of
           None \<Rightarrow> Inl (ErrorString ''invalid syntax'')
         | Some n \<Rightarrow> in_range (if neg then - int n else int n))"

section \<open>Round trip\<close>

lemma char_digit_digit_char [simp]: "d < 10 \<Longrightarrow> char_digit (digit_char d) = Some d"
  by (simp add: char_digit_def digit_char_def)

lemma digit_char_not_sign [simp]: "d < 10 \<Longrightarrow> digit_char d \<noteq> CHR ''-''" "d < 10 \<Longrightarrow> digit_char d \<noteq> CHR ''+''"
proof -
  assume "d < 10"
  then have "(of_char (digit_char d) :: nat) = 48 + d" by (simp add: digit_char_def)
  then show "digit_char d \<noteq> CHR ''-''" "digit_char d \<noteq> CHR ''+''" by auto
qed

lemma nat_dec_nonempty [simp]: "nat_dec n \<noteq> []"
  by (subst nat_dec.simps) simp

lemma read_digits_append:
  "read_digits acc (xs @ ys) = (case read_digits acc xs of None \<Rightarrow> None | Some a \<Rightarrow> read_digits a ys)"
  by (induction xs arbitrary: acc) (auto split: option.splits)

lemma read_digits_nat_dec: "read_digits 0 (nat_dec n) = Some n"
proof (induction n rule: nat_dec.induct)
  case (1 n)
  show ?case
  proof (cases "n < 10")
    case True
    then show ?thesis by (subst nat_dec.simps) simp
  next
    case False
    with "1.IH" have "read_digits 0 (nat_dec (n div 10)) = Some (n div 10)" by simp
    with False show ?thesis by (subst nat_dec.simps) (simp add: read_digits_append)
  qed
qed

lemma read_nat_nat_dec [simp]: "read_nat (nat_dec n) = Some n"
  by (simp add: read_nat_def read_digits_nat_dec)

lemma hd_nat_dec: "\<exists>d < 10. hd (nat_dec n) = digit_char d"
proof (induction n rule: nat_dec.induct)
  case (1 n)
  show ?case
  proof (cases "n < 10")
    case True
    then show ?thesis by (subst nat_dec.simps) auto
  next
    case False
    with "1.IH" obtain d where "d < 10" "hd (nat_dec (n div 10)) = digit_char d" by auto
    with False show ?thesis by (subst nat_dec.simps) auto
  qed
qed

lemma nat_dec_Cons: "\<exists>d cs. d < 10 \<and> nat_dec n = digit_char d # cs"
  using hd_nat_dec [of n] by (cases "nat_dec n") auto

lemma Atoi_Itoa: "min_int \<le> i \<Longrightarrow> i \<le> max_int \<Longrightarrow> Atoi (Itoa i) = Inr i"
proof (cases "i < 0")
  case True
  assume "min_int \<le> i" "i \<le> max_int"
  with True show ?thesis by (simp add: Atoi_def Itoa_def in_range_def)
next
  case False
  assume r: "min_int \<le> i" "i \<le> max_int"
  obtain d cs where d: "d < 10" "nat_dec (nat i) = digit_char d # cs" using nat_dec_Cons by blast
  have "read_nat (digit_char d # cs) = Some (nat i)" using d(2) read_nat_nat_dec by metis
  with False d r show ?thesis by (simp add: Atoi_def Itoa_def in_range_def)
qed

lemma nat_dec_inject [simp]: "nat_dec m = nat_dec n \<longleftrightarrow> m = n"
  by (metis option.inject read_nat_nat_dec)

lemma Itoa_inject [simp]: "0 \<le> i \<Longrightarrow> 0 \<le> j \<Longrightarrow> Itoa i = Itoa j \<longleftrightarrow> i = j"
  by (auto simp: Itoa_def)

section \<open>Texts\<close>

text \<open>\<^verbatim>\<open>net.JoinHostPort\<close>: a host with a colon is put in brackets.\<close>

definition JoinHostPort :: "string \<Rightarrow> string \<Rightarrow> string" where
  "JoinHostPort host port =
     (if CHR '':'' \<in> set host then ''['' @ host @ '']:'' @ port else host @ '':'' @ port)"

fun join_lines :: "string list \<Rightarrow> string" where
  "join_lines [] = []"
| "join_lines [x] = x"
| "join_lines (x # xs) = x @ [CHR 0x0A] @ join_lines xs"

text \<open>The texts of \<^verbatim>\<open>syscall.Errno\<close> on Linux; a number without one is printed as it is.\<close>

definition errno_table :: "(int \<times> string) list" where
  "errno_table = [
    (1, ''operation not permitted''), (2, ''no such file or directory''), (3, ''no such process''),
    (4, ''interrupted system call''), (5, ''input/output error''), (6, ''no such device or address''),
    (7, ''argument list too long''), (8, ''exec format error''), (9, ''bad file descriptor''), (10, ''no child processes''),
    (11, ''resource temporarily unavailable''), (12, ''cannot allocate memory''), (13, ''permission denied''),
    (14, ''bad address''), (15, ''block device required''), (16, ''device or resource busy''), (17, ''file exists''),
    (18, ''invalid cross-device link''), (19, ''no such device''), (20, ''not a directory''), (21, ''is a directory''),
    (22, ''invalid argument''), (23, ''too many open files in system''), (24, ''too many open files''),
    (25, ''inappropriate ioctl for device''), (26, ''text file busy''), (27, ''file too large''),
    (28, ''no space left on device''), (29, ''illegal seek''), (30, ''read-only file system''), (31, ''too many links''),
    (32, ''broken pipe''), (33, ''numerical argument out of domain''), (34, ''numerical result out of range''),
    (35, ''resource deadlock avoided''), (36, ''file name too long''), (37, ''no locks available''),
    (38, ''function not implemented''), (39, ''directory not empty''), (40, ''too many levels of symbolic links''),
    (42, ''no message of desired type''), (43, ''identifier removed''), (44, ''channel number out of range''),
    (45, ''level 2 not synchronized''), (46, ''level 3 halted''), (47, ''level 3 reset''),
    (48, ''link number out of range''), (49, ''protocol driver not attached''), (50, ''no CSI structure available''),
    (51, ''level 2 halted''), (52, ''invalid exchange''), (53, ''invalid request descriptor''), (54, ''exchange full''),
    (55, ''no anode''), (56, ''invalid request code''), (57, ''invalid slot''), (59, ''bad font file format''),
    (60, ''device not a stream''), (61, ''no data available''), (62, ''timer expired''), (63, ''out of streams resources''),
    (64, ''machine is not on the network''), (65, ''package not installed''), (66, ''object is remote''),
    (67, ''link has been severed''), (68, ''advertise error''), (69, ''srmount error''),
    (70, ''communication error on send''), (71, ''protocol error''), (72, ''multihop attempted''),
    (73, ''RFS specific error''), (74, ''bad message''), (75, ''value too large for defined data type''),
    (76, ''name not unique on network''), (77, ''file descriptor in bad state''), (78, ''remote address changed''),
    (79, ''can not access a needed shared library''), (80, ''accessing a corrupted shared library''),
    (81, ''.lib section in a.out corrupted''), (82, ''attempting to link in too many shared libraries''),
    (83, ''cannot exec a shared library directly''), (84, ''invalid or incomplete multibyte or wide character''),
    (85, ''interrupted system call should be restarted''), (86, ''streams pipe error''), (87, ''too many users''),
    (88, ''socket operation on non-socket''), (89, ''destination address required''), (90, ''message too long''),
    (91, ''protocol wrong type for socket''), (92, ''protocol not available''), (93, ''protocol not supported''),
    (94, ''socket type not supported''), (95, ''operation not supported''), (96, ''protocol family not supported''),
    (97, ''address family not supported by protocol''), (98, ''address already in use''),
    (99, ''cannot assign requested address''), (100, ''network is down''), (101, ''network is unreachable''),
    (102, ''network dropped connection on reset''), (103, ''software caused connection abort''),
    (104, ''connection reset by peer''), (105, ''no buffer space available''),
    (106, ''transport endpoint is already connected''), (107, ''transport endpoint is not connected''),
    (108, ''cannot send after transport endpoint shutdown''), (109, ''too many references: cannot splice''),
    (110, ''connection timed out''), (111, ''connection refused''), (112, ''host is down''), (113, ''no route to host''),
    (114, ''operation already in progress''), (115, ''operation now in progress''), (116, ''stale NFS file handle''),
    (117, ''structure needs cleaning''), (118, ''not a XENIX named type file''), (119, ''no XENIX semaphores available''),
    (120, ''is a named type file''), (121, ''remote I/O error''), (122, ''disk quota exceeded''),
    (123, ''no medium found''), (124, ''wrong medium type''), (125, ''operation canceled''),
    (126, ''required key not available''), (127, ''key has expired''), (128, ''key has been revoked''),
    (129, ''key was rejected by service''), (130, ''owner died''), (131, ''state not recoverable''),
    (132, ''operation not possible due to RF-kill'')]"

definition errno_text :: "int \<Rightarrow> string" where
  "errno_text n = (case map_of errno_table n of Some t \<Rightarrow> t | None \<Rightarrow> ''errno '' @ Itoa n)"

fun code_text :: "grpc_code \<Rightarrow> string" where
  "code_text OK = ''OK''"
| "code_text InvalidArgument = ''InvalidArgument''"
| "code_text Internal = ''Internal''"
| "code_text Unauthenticated = ''Unauthenticated''"

text \<open>The text \<^verbatim>\<open>err.Error()\<close> of an error.\<close>

fun Error :: "go_error \<Rightarrow> string" where
  "Error (ErrorString m) = m"
| "Error (WrapError m e) = m @ '': '' @ Error e"
| "Error (JoinError es) = join_lines (map Error es)"
| "Error (ValueUnsetError k) = ''store: requested value not set: '' @ k"
| "Error (StatusError c m) = ''rpc error: code = '' @ code_text c @ '' desc = '' @ m"
| "Error (Errno n) = errno_text n"
| "Error (ExitError c t) = t"
| "Error EOF = ''EOF''"
| "Error Canceled = ''context canceled''"
| "Error DeadlineExceeded = ''context deadline exceeded''"
| "Error ErrNotExist = ''file does not exist''"
| "Error (NotFound n) = n @ '' not found''"
| "Error (ExtError m) = m"

end
