(* ===== verification/Store_Spec.thy ===== *)
theory Store_Spec
  imports Decimal
begin

text \<open>
  The \<^verbatim>\<open>Store\<close> and \<^verbatim>\<open>Iterator\<close> interfaces of \<^verbatim>\<open>internal/store/store.go\<close>. An interface value is a record of
  its methods (\<open>store_iface\<close>); what a backend promises its clients is the locale \<open>kv_store\<close>, and what it
  promises when no lock is held is \<open>live_store\<close>. Both backends are interpreted in their own theories.
  The locales also hold the facts every client uses: reading back what was written, frames, and that
  draining an iterator yields exactly the keys it was made for.
\<close>

section \<open>Interfaces\<close>

text \<open>The struct behind both iterator implementations: a position in a slice of keys.\<close>

record key_iter =
  it_idx :: nat
  it_keys :: "string list"

record 's store_iface =
  SGet :: "string \<Rightarrow> ('s, bytes) io"
  SPut :: "string \<Rightarrow> bytes \<Rightarrow> ('s, unit) io"
  SDelete :: "string \<Rightarrow> ('s, unit) io"
  SIterator :: "string \<Rightarrow> ('s, key_iter) io"
  SHasNext :: "key_iter \<Rightarrow> bool"
  SGetNext :: "key_iter \<Rightarrow> (go_error + string) \<times> key_iter"

text \<open>
  The loop every client of an iterator runs: \<^verbatim>\<open>for it.HasNext() { key, err := it.GetNext(); ... }\<close>. The
  fuel is the number of rounds; a loop that is still running when it is used up has not returned, which
  is \<open>Block\<close>. One round more than there are keys is enough (\<open>drain_spec\<close>).
\<close>

fun drain :: "'s store_iface \<Rightarrow> nat \<Rightarrow> (string \<Rightarrow> 'a \<Rightarrow> ('s, 'a) io) \<Rightarrow> key_iter \<Rightarrow> 'a \<Rightarrow> ('s, 'a) io" where
  "drain S 0 body it acc = (\<lambda>_. Block)"
| "drain S (Suc n) body it acc =
     (if SHasNext S it then
        (case SGetNext S it of
           (Inl e, _) \<Rightarrow> throw e
         | (Inr key, it') \<Rightarrow> bindE (body key acc) (\<lambda>acc'. drain S n body it' acc'))
      else ret acc)"

definition drain_fuel :: "key_iter \<Rightarrow> nat" where
  "drain_fuel it = Suc (length (it_keys it))"

section \<open>Transactions\<close>

text \<open>What a transaction stands for: a list of writes that take effect together.\<close>

datatype tx_write = WPut string bytes | WDelete string

fun apply_write :: "tx_write \<Rightarrow> (string \<rightharpoonup> bytes) \<Rightarrow> (string \<rightharpoonup> bytes)" where
  "apply_write (WPut k v) m = m(k \<mapsto> v)"
| "apply_write (WDelete k) m = m(k := None)"

definition apply_writes :: "tx_write list \<Rightarrow> (string \<rightharpoonup> bytes) \<Rightarrow> (string \<rightharpoonup> bytes)" where
  "apply_writes ws m = fold apply_write ws m"

lemma apply_writes_simps [simp]:
  "apply_writes [] m = m" "apply_writes (xs @ ys) m = apply_writes ys (apply_writes xs m)"
  "apply_writes [w] m = apply_write w m"
  by (simp_all add: apply_writes_def)

lemma apply_writes_Cons [simp]: "apply_writes (w # ws) m = apply_writes ws (apply_write w m)"
  by (simp add: apply_writes_def)

section \<open>Contracts\<close>

text \<open>\<open>left it\<close> are the keys the iterator has not handed out.\<close>

definition left :: "key_iter \<Rightarrow> string list" where
  "left it = drop (it_idx it) (it_keys it)"

lemma left_Cons:
  "left it = k # ks \<Longrightarrow>
   it_idx it < length (it_keys it) \<and> it_keys it ! it_idx it = k \<and> drop (Suc (it_idx it)) (it_keys it) = ks"
  unfolding left_def by (metis Cons_nth_drop_Suc drop_eq_Nil leI list.inject list.simps(3))

locale key_iterator =
  fixes has_next :: "key_iter \<Rightarrow> bool"
    and get_next :: "key_iter \<Rightarrow> (go_error + string) \<times> key_iter"
  assumes has_next_iff: "has_next it \<longleftrightarrow> left it \<noteq> []"
    and get_next_Cons: "left it = k # ks \<Longrightarrow> \<exists>it'. get_next it = (Inr k, it') \<and> left it' = ks"
    and get_next_Nil: "left it = [] \<Longrightarrow> \<exists>e. get_next it = (Inl e, it)"

locale kv_store = key_iterator "SHasNext S" "SGetNext S" for S :: "'s store_iface" +
  fixes kv :: "'s \<Rightarrow> (string \<rightharpoonup> bytes)"
    and invar :: "'s \<Rightarrow> bool"
  assumes get_frame: "invar s \<Longrightarrow> SGet S k s = Ret (r, s') \<Longrightarrow> invar s' \<and> kv s' = kv s"
    and get_value: "invar s \<Longrightarrow> SGet S k s = Ret (Inr v, s') \<Longrightarrow> kv s k = Some v"
    and get_unset: "invar s \<Longrightarrow> SGet S k s = Ret (Inl e, s') \<Longrightarrow> as_value_unset e \<Longrightarrow> kv s k = None"
    and put_done: "invar s \<Longrightarrow> SPut S k v s = Ret (Inr (), s') \<Longrightarrow> invar s' \<and> kv s' = (kv s)(k \<mapsto> v)"
    and put_failed: "invar s \<Longrightarrow> SPut S k v s = Ret (Inl e, s') \<Longrightarrow>
      invar s' \<and> (kv s' = kv s \<or> kv s' = (kv s)(k \<mapsto> v))"
    and delete_done: "invar s \<Longrightarrow> SDelete S k s = Ret (Inr (), s') \<Longrightarrow>
      invar s' \<and> kv s' = (kv s)(k := None)"
    and delete_failed: "invar s \<Longrightarrow> SDelete S k s = Ret (Inl e, s') \<Longrightarrow>
      invar s' \<and> (kv s' = kv s \<or> kv s' = (kv s)(k := None))"
    and iterator_frame: "invar s \<Longrightarrow> SIterator S p s = Ret (ri, s') \<Longrightarrow> invar s' \<and> kv s' = kv s"
    and iterator_keys: "invar s \<Longrightarrow> SIterator S p s = Ret (Inr it, s') \<Longrightarrow>
      it_idx it = 0 \<and> distinct (it_keys it) \<and> set (it_keys it) = {k \<in> dom (kv s). HasPrefix k p}"
begin

lemma get_missing:
  assumes "invar s" "kv s k = None" "SGet S k s = Ret (r, s')"
  shows "\<exists>e. r = Inl e"
proof (cases r)
  case (Inr v)
  with assms get_value [of s k v s'] show ?thesis by simp
qed simp

lemma get_keeps: "keeps (\<lambda>s. invar s \<and> kv s = m) (SGet S k)"
  by (rule keepsI) (auto dest: get_frame)

lemma put_any:
  assumes "invar s" "SPut S k v s = Ret (r, s')"
  shows "invar s'" "x \<noteq> k \<Longrightarrow> kv s' x = kv s x" "kv s' k = kv s k \<or> kv s' k = Some v"
proof -
  have "invar s' \<and> (kv s' = kv s \<or> kv s' = (kv s)(k \<mapsto> v))"
  proof (cases r)
    case (Inl e)
    with assms show ?thesis by (blast dest: put_failed)
  next
    case (Inr u)
    with assms put_done [of s k v s'] show ?thesis by simp
  qed
  then show "invar s'" "x \<noteq> k \<Longrightarrow> kv s' x = kv s x" "kv s' k = kv s k \<or> kv s' k = Some v"
    by auto
qed

lemma put_get:
  assumes "invar s" "SPut S k v s = Ret (Inr (), s')" "SGet S k s' = Ret (Inr v', s'')"
  shows "v' = v"
  using put_done [OF assms(1,2)] get_value [of s' k v' s''] assms(3) by simp

lemma drain_Nil: "left it = [] \<Longrightarrow> drain S (Suc n) body it acc = ret acc"
  by (simp add: has_next_iff)

lemma drain_Cons:
  "left it = k # ks \<Longrightarrow>
   \<exists>it'. left it' = ks \<and> drain S (Suc n) body it acc = bindE (body k acc) (\<lambda>a. drain S n body it' a)"
  using get_next_Cons [of it k ks] by (auto simp: has_next_iff)

text \<open>With enough fuel the loop is a fold over the keys that are left.\<close>

lemma drain_spec: "length (left it) < n \<Longrightarrow> drain S n body it acc = foldE body (left it) acc"
proof (induction n arbitrary: it acc)
  case 0
  then show ?case by simp
next
  case (Suc n)
  show ?case
  proof (cases "left it")
    case Nil
    then show ?thesis by (simp add: drain_Nil del: drain.simps)
  next
    case (Cons k ks)
    then obtain it' where it': "left it' = ks"
      "drain S (Suc n) body it acc = bindE (body k acc) (\<lambda>a. drain S n body it' a)"
      using drain_Cons [of it k ks n body acc] by auto
    with Suc Cons show ?thesis by (simp del: drain.simps)
  qed
qed

lemma drain_all: "it_idx it = 0 \<Longrightarrow> drain S (drain_fuel it) body it acc = foldE body (it_keys it) acc"
  using drain_spec [of it "drain_fuel it" body acc] by (simp add: left_def drain_fuel_def del: drain.simps)

end

text \<open>
  \<open>free s\<close>: no lock of the backend is held. Then every call returns and leaves the locks free.
\<close>

locale live_store = kv_store S kv invar
  for S :: "'s store_iface" and kv :: "'s \<Rightarrow> (string \<rightharpoonup> bytes)" and invar :: "'s \<Rightarrow> bool" +
  fixes free :: "'s \<Rightarrow> bool"
  assumes get_returns: "invar s \<Longrightarrow> free s \<Longrightarrow> \<exists>r s'. SGet S k s = Ret (r, s') \<and> free s'"
    and put_returns: "invar s \<Longrightarrow> free s \<Longrightarrow> \<exists>r s'. SPut S k v s = Ret (r, s') \<and> free s'"
    and delete_returns: "invar s \<Longrightarrow> free s \<Longrightarrow> \<exists>r s'. SDelete S k s = Ret (r, s') \<and> free s'"

text \<open>A backend whose calls do not fail while no lock is held: the in-memory store.\<close>

locale reliable_store = live_store S kv invar free
  for S :: "'s store_iface" and kv :: "'s \<Rightarrow> (string \<rightharpoonup> bytes)" and invar :: "'s \<Rightarrow> bool"
    and free :: "'s \<Rightarrow> bool" +
  assumes get_answers: "invar s \<Longrightarrow> free s \<Longrightarrow>
      SGet S k s = Ret (case kv s k of Some v \<Rightarrow> Inr v | None \<Rightarrow> Inl (ValueUnsetError k), s)"
    and put_succeeds: "invar s \<Longrightarrow> free s \<Longrightarrow> \<exists>s'. SPut S k v s = Ret (Inr (), s') \<and> free s'"
    and iterator_succeeds: "invar s \<Longrightarrow> free s \<Longrightarrow> \<exists>it. SIterator S p s = Ret (Inr it, s)"

section \<open>Contract of transactions\<close>

text \<open>
  The interface \<^verbatim>\<open>Transaction\<close> with \<^verbatim>\<open>BeginTransaction\<close> of its store. A transaction is a value that each call that changes it
  returns anew.
\<close>

record ('s, 't) tx_iface =
  TBegin :: "('s, 't) io"
  TGet :: "'t \<Rightarrow> string \<Rightarrow> ('s, bytes) io"
  TPut :: "'t \<Rightarrow> string \<Rightarrow> bytes \<Rightarrow> ('s, 't) io"
  TDelete :: "'t \<Rightarrow> string \<Rightarrow> ('s, 't) io"
  TIterator :: "'t \<Rightarrow> string \<Rightarrow> ('s, key_iter) io"
  TCommit :: "'t \<Rightarrow> ('s, 't) io"
  TRollback :: "'t \<Rightarrow> ('s, 't) io"

text \<open>
  A transaction as its users run it: begin, some reads and writes, and the end. The answers are those of the reads. The reference
  \<open>spec_tx\<close> runs the same calls on a plain map.
\<close>

datatype tx_op = TxGet string | TxWrite tx_write

fun tx_key :: "tx_op \<Rightarrow> string" where
  "tx_key (TxGet k) = k"
| "tx_key (TxWrite (WPut k v)) = k"
| "tx_key (TxWrite (WDelete k)) = k"

definition found :: "(string \<rightharpoonup> bytes) \<Rightarrow> string \<Rightarrow> go_error + bytes" where
  "found m k = (case m k of Some v \<Rightarrow> Inr v | None \<Rightarrow> Inl (ValueUnsetError k))"

fun spec_tx :: "tx_op list \<Rightarrow> (string \<rightharpoonup> bytes) \<Rightarrow> (go_error + bytes) list \<times> (string \<rightharpoonup> bytes)" where
  "spec_tx [] m = ([], m)"
| "spec_tx (TxGet k # xs) m = (case spec_tx xs m of (as, m') \<Rightarrow> (found m k # as, m'))"
| "spec_tx (TxWrite w # xs) m = spec_tx xs (apply_write w m)"

fun write_tx :: "('s, 't) tx_iface \<Rightarrow> tx_write \<Rightarrow> 't \<Rightarrow> ('s, 't) io" where
  "write_tx T (WPut k v) t = TPut T t k v"
| "write_tx T (WDelete k) t = TDelete T t k"

fun run_tx :: "('s, 't) tx_iface \<Rightarrow> tx_op list \<Rightarrow> 't \<Rightarrow> ('s, (go_error + bytes) list \<times> 't) io" where
  "run_tx T [] t = ret ([], t)"
| "run_tx T (TxGet k # xs) t = bindR (TGet T t k) (\<lambda>r. bindE (run_tx T xs t) (\<lambda>(as, t'). ret (r # as, t')))"
| "run_tx T (TxWrite w # xs) t = bindE (write_tx T w t) (\<lambda>t'. run_tx T xs t')"

definition transact :: "('s, 't) tx_iface \<Rightarrow> tx_op list \<Rightarrow> bool \<Rightarrow> ('s, (go_error + bytes) list) io" where
  "transact T xs commit =
     bindE (TBegin T) (\<lambda>t.
     bindE (run_tx T xs t) (\<lambda>(as, t').
     bindE (if commit then TCommit T t' else TRollback T t') (\<lambda>_. ret as)))"

text \<open>A read may fail for a reason of its own, but never by claiming that the key is unset.\<close>

definition answers :: "go_error + bytes \<Rightarrow> go_error + bytes \<Rightarrow> bool" where
  "answers r a \<longleftrightarrow> r = a \<or> (\<exists>e. r = Inl e \<and> \<not> as_value_unset e)"

text \<open>
  \<open>ans\<close> relates what a read returns to the answer of the reference; \<open>opened t s\<close>: the transaction is going on in this state; \<open>view t s\<close> is what it shows of the store; \<open>shown\<close> are the keys the
  promise is about (a backend may keep keys of its own in the same space).
\<close>

locale transactions =
  fixes T :: "('s, 't) tx_iface" and kv :: "'s \<Rightarrow> (string \<rightharpoonup> bytes)" and invar :: "'s \<Rightarrow> bool"
    and opened :: "'t \<Rightarrow> 's \<Rightarrow> bool" and view :: "'t \<Rightarrow> 's \<Rightarrow> (string \<rightharpoonup> bytes)" and shown :: "string \<Rightarrow> bool"
    and ans :: "go_error + bytes \<Rightarrow> go_error + bytes \<Rightarrow> bool"
  assumes begin_opens: "invar s \<Longrightarrow> TBegin T s = Ret (Inr t, s') \<Longrightarrow>
      invar s' \<and> opened t s' \<and> (\<forall>k. shown k \<longrightarrow> kv s' k = kv s k \<and> view t s' k = kv s k)"
    and begin_failed: "invar s \<Longrightarrow> TBegin T s = Ret (Inl e, s') \<Longrightarrow> \<forall>k. shown k \<longrightarrow> kv s' k = kv s k"
    and tx_get: "invar s \<Longrightarrow> opened t s \<Longrightarrow> \<exists>r s'. TGet T t k s = Ret (r, s') \<and> invar s' \<and> opened t s'
      \<and> view t s' = view t s \<and> kv s' = kv s \<and> ans r (found (view t s) k)"
    and tx_write: "invar s \<Longrightarrow> opened t s \<Longrightarrow> \<exists>t' s'. write_tx T w t s = Ret (Inr t', s') \<and> invar s' \<and> opened t' s'
      \<and> view t' s' = apply_write w (view t s) \<and> kv s' = kv s"
    and tx_commit: "invar s \<Longrightarrow> opened t s \<Longrightarrow> \<exists>r s'. TCommit T t s = Ret (r, s') \<and> invar s'
      \<and> ((\<forall>k. shown k \<longrightarrow> kv s' k = view t s k) \<or> (\<exists>e. r = Inl e) \<and> (\<forall>k. shown k \<longrightarrow> kv s' k = kv s k))"
    and tx_rollback: "invar s \<Longrightarrow> opened t s \<Longrightarrow> \<exists>r s'. TRollback T t s = Ret (r, s') \<and> invar s'
      \<and> (\<forall>k. shown k \<longrightarrow> kv s' k = kv s k)"
begin

lemma write_agree:
  "(\<forall>k. shown k \<longrightarrow> m k = m' k) \<Longrightarrow> \<forall>k. shown k \<longrightarrow> apply_write w m k = apply_write w m' k"
  by (cases w) auto

text \<open>The calls of a transaction that is going on all return, answer like the reference, and leave the store alone.\<close>

lemma run_tx_spec:
  "invar s \<Longrightarrow> opened t s \<Longrightarrow> \<forall>k. shown k \<longrightarrow> view t s k = m k \<Longrightarrow> \<forall>x \<in> set xs. shown (tx_key x) \<Longrightarrow>
   \<exists>as t' s'. run_tx T xs t s = Ret (Inr (as, t'), s') \<and> invar s' \<and> opened t' s' \<and> kv s' = kv s
     \<and> list_all2 ans as (fst (spec_tx xs m)) \<and> (\<forall>k. shown k \<longrightarrow> view t' s' k = snd (spec_tx xs m) k)"
proof (induction xs arbitrary: t s m)
  case Nil
  then show ?case by (auto simp: ret_def)
next
  case (Cons x xs)
  have rest: "\<forall>x \<in> set xs. shown (tx_key x)" using Cons.prems(4) by simp
  show ?case
  proof (cases x)
    case (TxGet k)
    obtain r s1 where g: "TGet T t k s = Ret (r, s1)" "invar s1" "opened t s1" "view t s1 = view t s" "kv s1 = kv s"
      "ans r (found (view t s) k)" using tx_get [OF Cons.prems(1,2), of k] by blast
    have "found (view t s) k = found m k" using Cons.prems(3,4) TxGet by (simp add: found_def)
    moreover obtain as t' s' where "run_tx T xs t s1 = Ret (Inr (as, t'), s')" "invar s'" "opened t' s'" "kv s' = kv s"
      "list_all2 ans as (fst (spec_tx xs m))" "\<forall>k. shown k \<longrightarrow> view t' s' k = snd (spec_tx xs m) k"
      using Cons.IH [OF g(2,3) _ rest, of m] g(4,5) Cons.prems(3) by auto
    ultimately show ?thesis using TxGet g(1,6) by (simp add: bindR_def bindE_def ret_def split_beta)
  next
    case (TxWrite w)
    obtain t1 s1 where g: "write_tx T w t s = Ret (Inr t1, s1)" "invar s1" "opened t1 s1"
      "view t1 s1 = apply_write w (view t s)" "kv s1 = kv s" using tx_write [OF Cons.prems(1,2), of w] by blast
    have "\<forall>k. shown k \<longrightarrow> view t1 s1 k = apply_write w m k" unfolding g(4) by (rule write_agree [OF Cons.prems(3)])
    from Cons.IH [OF g(2,3) this rest] g(1,5) TxWrite show ?thesis by (simp add: bindR_def bindE_def)
  qed
qed

text \<open>A whole transaction is atomic: whatever it returns, all of its writes have happened or none; and when it returns its answers,
  they are those of the reference, and a commit has stored what the reference stores.\<close>

lemma transact_atomic:
  assumes "invar s" "\<forall>x \<in> set xs. shown (tx_key x)" "transact T xs c s = Ret (r, s')"
  shows "(\<forall>k. shown k \<longrightarrow> kv s' k = kv s k) \<or> c \<and> (\<forall>k. shown k \<longrightarrow> kv s' k = snd (spec_tx xs (kv s)) k)"
    and "r = Inr as \<Longrightarrow> list_all2 ans as (fst (spec_tx xs (kv s)))
      \<and> (\<forall>k. shown k \<longrightarrow> kv s' k = (if c then snd (spec_tx xs (kv s)) k else kv s k))"
proof -
  have "((\<forall>k. shown k \<longrightarrow> kv s' k = kv s k) \<or> c \<and> (\<forall>k. shown k \<longrightarrow> kv s' k = snd (spec_tx xs (kv s)) k))
    \<and> (\<forall>as. r = Inr as \<longrightarrow> list_all2 ans as (fst (spec_tx xs (kv s)))
      \<and> (\<forall>k. shown k \<longrightarrow> kv s' k = (if c then snd (spec_tx xs (kv s)) k else kv s k)))"
    using assms(3) unfolding transact_def
  proof (rule bindE_RetE)
    fix e
    assume "TBegin T s = Ret (Inl e, s')" "r = Inl e"
    with begin_failed [OF assms(1)] show ?thesis by simp
  next
    fix t s1
    assume b: "TBegin T s = Ret (Inr t, s1)"
      and run: "bindE (run_tx T xs t) (\<lambda>(as, t'). bindE (if c then TCommit T t' else TRollback T t') (\<lambda>_. ret as)) s1 = Ret (r, s')"
    note o = begin_opens [OF assms(1) b]
    obtain as t' s2 where x: "run_tx T xs t s1 = Ret (Inr (as, t'), s2)" "invar s2" "opened t' s2" "kv s2 = kv s1"
      "list_all2 ans as (fst (spec_tx xs (kv s)))" "\<forall>k. shown k \<longrightarrow> view t' s2 k = snd (spec_tx xs (kv s)) k"
      using run_tx_spec [of s1 t "kv s" xs] o assms(2) by blast
    from run x(1) have e: "bindE (if c then TCommit T t' else TRollback T t') (\<lambda>_. ret as) s2 = Ret (r, s')"
      by (simp add: bindE_def bindR_def)
    show ?thesis
    proof (cases c)
      case True
      obtain q s3 where "TCommit T t' s2 = Ret (q, s3)"
        "(\<forall>k. shown k \<longrightarrow> kv s3 k = view t' s2 k) \<or> (\<exists>e. q = Inl e) \<and> (\<forall>k. shown k \<longrightarrow> kv s3 k = kv s2 k)"
        using tx_commit [OF x(2,3)] by blast
      with e True x(4-6) o show ?thesis by (cases q) (auto simp: bindE_def bindR_def io_defs)
    next
      case False
      obtain q s3 where "TRollback T t' s2 = Ret (q, s3)" "\<forall>k. shown k \<longrightarrow> kv s3 k = kv s2 k" using tx_rollback [OF x(2,3)] by blast
      with e False x(4-6) o show ?thesis by (cases q) (auto simp: bindE_def bindR_def io_defs)
    qed
  qed
  then show "(\<forall>k. shown k \<longrightarrow> kv s' k = kv s k) \<or> c \<and> (\<forall>k. shown k \<longrightarrow> kv s' k = snd (spec_tx xs (kv s)) k)"
    "r = Inr as \<Longrightarrow> list_all2 ans as (fst (spec_tx xs (kv s)))
      \<and> (\<forall>k. shown k \<longrightarrow> kv s' k = (if c then snd (spec_tx xs (kv s)) k else kv s k))" by blast+
qed

end

text \<open>A backend whose transactions do not fail while no lock is held, and release the lock at their end.\<close>

locale reliable_transactions = transactions T kv invar opened view shown ans
  for T :: "('s, 't) tx_iface" and kv :: "'s \<Rightarrow> (string \<rightharpoonup> bytes)" and invar :: "'s \<Rightarrow> bool"
    and opened :: "'t \<Rightarrow> 's \<Rightarrow> bool" and view :: "'t \<Rightarrow> 's \<Rightarrow> (string \<rightharpoonup> bytes)" and shown :: "string \<Rightarrow> bool"
    and ans :: "go_error + bytes \<Rightarrow> go_error + bytes \<Rightarrow> bool" +
  fixes free :: "'s \<Rightarrow> bool"
  assumes begin_succeeds: "invar s \<Longrightarrow> free s \<Longrightarrow> \<exists>t s'. TBegin T s = Ret (Inr t, s')"
    and commit_succeeds: "invar s \<Longrightarrow> opened t s \<Longrightarrow> \<exists>t' s'. TCommit T t s = Ret (Inr t', s') \<and> free s'"
    and rollback_succeeds: "invar s \<Longrightarrow> opened t s \<Longrightarrow> \<exists>t' s'. TRollback T t s = Ret (Inr t', s') \<and> free s'"
begin

lemma transact_succeeds:
  assumes "invar s" "free s" "\<forall>x \<in> set xs. shown (tx_key x)"
  shows "\<exists>as s'. transact T xs c s = Ret (Inr as, s') \<and> free s'"
proof -
  obtain t s1 where b: "TBegin T s = Ret (Inr t, s1)" using begin_succeeds [OF assms(1,2)] by blast
  note o = begin_opens [OF assms(1) b]
  obtain as t' s2 where x: "run_tx T xs t s1 = Ret (Inr (as, t'), s2)" "invar s2" "opened t' s2"
    using run_tx_spec [of s1 t "kv s" xs] o assms(3) by blast
  obtain t2 s3 where "(if c then TCommit T t' else TRollback T t') s2 = Ret (Inr t2, s3)" "free s3"
    using commit_succeeds [OF x(2,3)] rollback_succeeds [OF x(2,3)] by (cases c) auto
  with b x(1) show ?thesis by (simp add: transact_def bindE_def bindR_def ret_def)
qed

end

end
