(* ===== verification/Std_Store.thy ===== *)
theory Std_Store
  imports Store_Spec
begin

text \<open>
  \<^verbatim>\<open>internal/store/stdstore.go\<close>: the in-memory backend, its two mutexes, its transactions and its
  iterator. \<^verbatim>\<open>Commit\<close> makes the transaction's own map the store's map, so the two share it from then on;
  the model therefore keeps the Go maps in a heap (\<open>st_heap\<close>) and the store and the transactions hold
  addresses. A mutex is a flag: locking a locked mutex blocks, unlocking an unlocked one is Go's fatal
  error. \<open>st_range\<close> is the order in which the next \<^verbatim>\<open>range\<close> statements visit a map.
\<close>

section \<open>State\<close>

record std_store =
  st_heap :: "nat \<Rightarrow> bytes gomap"
  st_next :: nat
  st_data :: nat
  st_mut :: bool
  st_txmut :: bool
  st_range :: range_order

record std_tx =
  tx_store :: bool
  tx_data :: nat

abbreviation cur_data :: "std_store \<Rightarrow> bytes gomap" where
  "cur_data s \<equiv> st_heap s (st_data s)"

definition NewStdStore :: "range_order \<Rightarrow> std_store" where
  "NewStdStore ro =
     \<lparr>st_heap = (\<lambda>_. []), st_next = 1, st_data = 0, st_mut = False, st_txmut = False, st_range = ro\<rparr>"

section \<open>Mutexes\<close>

definition lock_mut :: "(std_store, unit) io" where
  "lock_mut s = (if st_mut s then Block else Ret (Inr (), s\<lparr>st_mut := True\<rparr>))"

definition unlock_mut :: "(std_store, unit) io" where
  "unlock_mut s =
     (if st_mut s then Ret (Inr (), s\<lparr>st_mut := False\<rparr>) else Panic ''sync: unlock of unlocked mutex'')"

definition lock_txmut :: "(std_store, unit) io" where
  "lock_txmut s = (if st_txmut s then Block else Ret (Inr (), s\<lparr>st_txmut := True\<rparr>))"

definition unlock_txmut :: "(std_store, unit) io" where
  "unlock_txmut s =
     (if st_txmut s then Ret (Inr (), s\<lparr>st_txmut := False\<rparr>) else Panic ''sync: unlock of unlocked mutex'')"

definition make_map :: "(std_store, nat) io" where
  "make_map s =
     Ret (Inr (st_next s), s\<lparr>st_heap := (st_heap s)(st_next s := []), st_next := Suc (st_next s)\<rparr>)"

definition set_map :: "nat \<Rightarrow> (std_store \<Rightarrow> bytes gomap) \<Rightarrow> (std_store, unit) io" where
  "set_map a f = modify (\<lambda>s. s\<lparr>st_heap := (st_heap s)(a := f s)\<rparr>)"

section \<open>Iterator\<close>

definition StdIterator_GetNext :: "key_iter \<Rightarrow> (go_error + string) \<times> key_iter" where
  "StdIterator_GetNext i =
     (if it_idx i \<ge> length (it_keys i) then
        (Inl (ErrorString (''index out of range ['' @ Itoa (int (it_idx i)) @ ''] with length ''
                            @ Itoa (int (length (it_keys i))))), i)
      else (Inr (it_keys i ! it_idx i), i\<lparr>it_idx := Suc (it_idx i)\<rparr>))"

definition StdIterator_HasNext :: "key_iter \<Rightarrow> bool" where
  "StdIterator_HasNext i \<longleftrightarrow> it_idx i < length (it_keys i)"

section \<open>Transactions\<close>

definition std_BeginTransaction :: "(std_store, std_tx) io" where
  "std_BeginTransaction =
     bindE make_map (\<lambda>a.
     bindE lock_txmut (\<lambda>_.
     bindE lock_mut (\<lambda>_.
     bindE (set_map a (\<lambda>s. copy_map (st_range s) (cur_data s))) (\<lambda>_.
     bindE unlock_mut (\<lambda>_.
     ret \<lparr>tx_store = True, tx_data = a\<rparr>)))))"

definition std_commit :: "nat \<Rightarrow> (std_store, unit) io" where
  "std_commit a =
     bindE lock_mut (\<lambda>_.
     bindE (modify (\<lambda>s. s\<lparr>st_data := a\<rparr>)) (\<lambda>_.
     bindE unlock_mut (\<lambda>_.
     unlock_txmut)))"

definition std_tx_Get :: "std_tx \<Rightarrow> string \<Rightarrow> (std_store, bytes) io" where
  "std_tx_Get t request =
     bindE (gets (\<lambda>s. map_of (st_heap s (tx_data t)) request)) (\<lambda>value.
     case value of Some v \<Rightarrow> ret v | None \<Rightarrow> throw (ValueUnsetError request))"

definition std_tx_Put :: "std_tx \<Rightarrow> string \<Rightarrow> bytes \<Rightarrow> (std_store, unit) io" where
  "std_tx_Put t request requestData =
     set_map (tx_data t) (\<lambda>s. AList.update request requestData (st_heap s (tx_data t)))"

definition std_tx_Delete :: "std_tx \<Rightarrow> string \<Rightarrow> (std_store, unit) io" where
  "std_tx_Delete t key = set_map (tx_data t) (\<lambda>s. AList.delete key (st_heap s (tx_data t)))"

definition std_tx_Iterator :: "std_tx \<Rightarrow> string \<Rightarrow> (std_store, key_iter) io" where
  "std_tx_Iterator t pre =
     bindE (gets (\<lambda>s. [k \<leftarrow> range_keys (st_range s) (st_heap s (tx_data t)). HasPrefix k pre])) (\<lambda>keys.
     ret \<lparr>it_idx = 0, it_keys = keys\<rparr>)"

text \<open>
  \<^verbatim>\<open>Commit\<close> returns the transaction as it leaves it, with \<^verbatim>\<open>t.store = nil\<close>. With \<^verbatim>\<open>t.store\<close> nil the call
  \<^verbatim>\<open>t.store.commit\<close> dereferences it at its first lock.
\<close>

definition std_tx_Commit :: "std_tx \<Rightarrow> (std_store, std_tx) io" where
  "std_tx_Commit t =
     (if tx_store t then bindE (std_commit (tx_data t)) (\<lambda>_. ret (t\<lparr>tx_store := False\<rparr>))
      else crash ''invalid memory address or nil pointer dereference'')"

definition std_tx_Rollback :: "std_tx \<Rightarrow> (std_store, unit) io" where
  "std_tx_Rollback t = (if tx_store t then unlock_txmut else ret ())"

section \<open>Store operations\<close>

definition std_Get :: "string \<Rightarrow> (std_store, bytes) io" where
  "std_Get request =
     bindE lock_mut (\<lambda>_.
     bindE (gets (\<lambda>s. map_of (cur_data s) request)) (\<lambda>value.
     bindE unlock_mut (\<lambda>_.
     case value of Some v \<Rightarrow> ret v | None \<Rightarrow> throw (ValueUnsetError request))))"

text \<open>
  The body of \<^verbatim>\<open>Put\<close> and \<^verbatim>\<open>Delete\<close> with its deferred \<^verbatim>\<open>tx.Rollback()\<close>, which sees the transaction as
  \<^verbatim>\<open>Commit\<close> left it.
\<close>

definition with_tx :: "(std_tx \<Rightarrow> (std_store, unit) io) \<Rightarrow> (std_store, unit) io" where
  "with_tx body =
     bindE std_BeginTransaction (\<lambda>tx.
     bindR (bindE (body tx) (\<lambda>_. std_tx_Commit tx)) (\<lambda>r.
     case r of
       Inl e \<Rightarrow> bindE (std_tx_Rollback tx) (\<lambda>_. throw e)
     | Inr tx' \<Rightarrow> std_tx_Rollback tx'))"

definition std_Put :: "string \<Rightarrow> bytes \<Rightarrow> (std_store, unit) io" where
  "std_Put request requestData = with_tx (\<lambda>tx. std_tx_Put tx request requestData)"

definition std_Delete :: "string \<Rightarrow> (std_store, unit) io" where
  "std_Delete key = with_tx (\<lambda>tx. std_tx_Delete tx key)"

definition std_Iterator :: "string \<Rightarrow> (std_store, key_iter) io" where
  "std_Iterator pre =
     bindE lock_mut (\<lambda>_.
     bindE (gets (\<lambda>s. [k \<leftarrow> range_keys (st_range s) (cur_data s). HasPrefix k pre])) (\<lambda>keys.
     bindE unlock_mut (\<lambda>_.
     ret \<lparr>it_idx = 0, it_keys = keys\<rparr>)))"

definition std_iface :: "std_store store_iface" where
  "std_iface =
     \<lparr>SGet = std_Get, SPut = std_Put, SDelete = std_Delete, SIterator = std_Iterator,
      SHasNext = StdIterator_HasNext, SGetNext = StdIterator_GetNext\<rparr>"

text \<open>
  \<^verbatim>\<open>Transfer\<close> runs over the pair of this store and the other one, reached through its own \<^verbatim>\<open>Put\<close>;
  \<open>entries\<close> are the pairs its \<^verbatim>\<open>range\<close> statement visits. The mutex is held during the whole loop and an error returns before the \<^verbatim>\<open>Unlock\<close>.
\<close>

definition on_fst :: "('a, 'r) io \<Rightarrow> ('a \<times> 'b, 'r) io" where
  "on_fst m = (\<lambda>(a, b). case m a of Ret (r, a') \<Rightarrow> Ret (r, (a', b)) | Panic p \<Rightarrow> Panic p | Block \<Rightarrow> Block)"

definition on_snd :: "('b, 'r) io \<Rightarrow> ('a \<times> 'b, 'r) io" where
  "on_snd m = (\<lambda>(a, b). case m b of Ret (r, b') \<Rightarrow> Ret (r, (a, b')) | Panic p \<Rightarrow> Panic p | Block \<Rightarrow> Block)"

definition entries :: "std_store \<Rightarrow> (string \<times> bytes) list" where
  "entries s = [(k, the (map_of (cur_data s) k)). k \<leftarrow> range_keys (st_range s) (cur_data s)]"

definition std_Transfer :: "(string \<Rightarrow> bytes \<Rightarrow> ('b, unit) io) \<Rightarrow> (std_store \<times> 'b, unit) io" where
  "std_Transfer newstore_Put =
     bindE (on_fst lock_mut) (\<lambda>_.
     bindE (gets (\<lambda>(s, b). entries s)) (\<lambda>es.
     bindE (forE es (\<lambda>(key, value). on_snd (newstore_Put key value))) (\<lambda>_.
     on_fst unlock_mut)))"


section \<open>Reference semantics\<close>

text \<open>
  What the interface promises, on a plain map: \<open>spec_step\<close> answers one call and \<open>run_spec\<close> a sequence.
  \<open>run_std\<close> runs the same calls on the implementation and is \<open>None\<close> when one of them blocks or panics.
  The keys of an iterator are compared as a set, since their order is left open.
\<close>

datatype store_op = OGet string | OPut string bytes | ODelete string | OIterator string

datatype store_answer = AGet "go_error + bytes" | ADone "go_error + unit" | AKeys "go_error + string set"

fun spec_step :: "store_op \<Rightarrow> (string \<rightharpoonup> bytes) \<Rightarrow> store_answer \<times> (string \<rightharpoonup> bytes)" where
  "spec_step (OGet k) m = (AGet (case m k of Some v \<Rightarrow> Inr v | None \<Rightarrow> Inl (ValueUnsetError k)), m)"
| "spec_step (OPut k v) m = (ADone (Inr ()), m(k \<mapsto> v))"
| "spec_step (ODelete k) m = (ADone (Inr ()), m(k := None))"
| "spec_step (OIterator p) m = (AKeys (Inr {k \<in> dom m. HasPrefix k p}), m)"

fun run_spec :: "store_op list \<Rightarrow> (string \<rightharpoonup> bytes) \<Rightarrow> store_answer list" where
  "run_spec [] m = []"
| "run_spec (x # xs) m = (case spec_step x m of (a, m') \<Rightarrow> a # run_spec xs m')"

definition answer :: "('r \<Rightarrow> store_answer) \<Rightarrow> ('r \<times> 's) outcome \<Rightarrow> (store_answer \<times> 's) option" where
  "answer f out = (case out of Ret (r, s) \<Rightarrow> Some (f r, s) | _ \<Rightarrow> None)"

fun impl_step :: "'s store_iface \<Rightarrow> store_op \<Rightarrow> 's \<Rightarrow> (store_answer \<times> 's) option" where
  "impl_step S (OGet k) s = answer AGet (SGet S k s)"
| "impl_step S (OPut k v) s = answer ADone (SPut S k v s)"
| "impl_step S (ODelete k) s = answer ADone (SDelete S k s)"
| "impl_step S (OIterator p) s = answer (\<lambda>r. AKeys (map_sum id (\<lambda>it. set (it_keys it)) r)) (SIterator S p s)"

fun run_impl :: "'s store_iface \<Rightarrow> store_op list \<Rightarrow> 's \<Rightarrow> store_answer list option" where
  "run_impl S [] s = Some []"
| "run_impl S (x # xs) s =
     (case impl_step S x s of None \<Rightarrow> None | Some (a, s') \<Rightarrow> map_option ((#) a) (run_impl S xs s'))"

section \<open>Invariant and evaluation of the operations\<close>

definition std_wf :: "std_store \<Rightarrow> bool" where
  "std_wf s \<longleftrightarrow> (\<forall>a. gm_wf (st_heap s a)) \<and> st_data s < st_next s \<and> is_range_order (st_range s)"

definition std_kv :: "std_store \<Rightarrow> (string \<rightharpoonup> bytes)" where
  "std_kv s = map_of (cur_data s)"

definition std_free :: "std_store \<Rightarrow> bool" where
  "std_free s \<longleftrightarrow> \<not> st_mut s \<and> \<not> st_txmut s"

lemmas mutex_defs = lock_mut_def unlock_mut_def lock_txmut_def unlock_txmut_def

lemma NewStdStore_wf: "is_range_order ro \<Longrightarrow> std_wf (NewStdStore ro)"
  and NewStdStore_kv [simp]: "std_kv (NewStdStore ro) = Map.empty"
  and NewStdStore_free [simp]: "std_free (NewStdStore ro)"
  by (simp_all add: std_wf_def std_kv_def std_free_def NewStdStore_def)

lemma std_Get_free:
  "\<not> st_mut s \<Longrightarrow>
   std_Get k s = Ret (case std_kv s k of Some v \<Rightarrow> Inr v | None \<Rightarrow> Inl (ValueUnsetError k), s)"
  by (cases s) (auto simp: std_Get_def std_kv_def io_simps io_defs mutex_defs split: option.split)

lemma std_Get_locked: "st_mut s \<Longrightarrow> std_Get k s = Block"
  by (simp add: std_Get_def io_simps mutex_defs)

lemma std_Iterator_free:
  "\<not> st_mut s \<Longrightarrow>
   std_Iterator p s =
     Ret (Inr \<lparr>it_idx = 0, it_keys = [k \<leftarrow> range_keys (st_range s) (cur_data s). HasPrefix k p]\<rparr>, s)"
  by (cases s) (simp add: std_Iterator_def io_simps io_defs mutex_defs)

text \<open>The state in which a transaction has begun: a fresh copy of the data and the lock taken.\<close>

definition begun :: "std_store \<Rightarrow> std_store" where
  "begun s = s\<lparr>st_heap := (st_heap s)(st_next s := copy_map (st_range s) (cur_data s)),
               st_next := Suc (st_next s), st_txmut := True\<rparr>"

lemma std_BeginTransaction_free:
  "std_wf s \<Longrightarrow> std_free s \<Longrightarrow>
   std_BeginTransaction s = Ret (Inr \<lparr>tx_store = True, tx_data = st_next s\<rparr>, begun s)"
  by (cases s)
    (simp add: std_BeginTransaction_def begun_def std_wf_def std_free_def io_simps io_defs mutex_defs
      make_map_def set_map_def)

lemma std_BeginTransaction_locked: "st_txmut s \<or> st_mut s \<Longrightarrow> std_BeginTransaction s = Block"
  by (cases "st_txmut s") (auto simp: std_BeginTransaction_def io_simps io_defs mutex_defs make_map_def)

lemma std_BeginTransaction_RetD:
  "std_BeginTransaction s = Ret (r, s') \<Longrightarrow> std_free s"
  using std_BeginTransaction_locked [of s] by (force simp: std_free_def)

lemma begun_simps [simp]:
  "st_data (begun s) = st_data s" "st_next (begun s) = Suc (st_next s)" "st_mut (begun s) = st_mut s"
  "st_txmut (begun s)" "st_range (begun s) = st_range s"
  "st_heap (begun s) = (st_heap s)(st_next s := copy_map (st_range s) (cur_data s))"
  by (simp_all add: begun_def)

lemma std_tx_Put_run:
  "std_tx_Put t k v s =
     Ret (Inr (), s\<lparr>st_heap := (st_heap s)(tx_data t := AList.update k v (st_heap s (tx_data t)))\<rparr>)"
  by (simp add: std_tx_Put_def set_map_def modify_def)

lemma std_tx_Delete_run:
  "std_tx_Delete t k s =
     Ret (Inr (), s\<lparr>st_heap := (st_heap s)(tx_data t := AList.delete k (st_heap s (tx_data t)))\<rparr>)"
  by (simp add: std_tx_Delete_def set_map_def modify_def)

lemma std_tx_Get_run:
  "std_tx_Get t k s =
     Ret (case map_of (st_heap s (tx_data t)) k of Some v \<Rightarrow> Inr v | None \<Rightarrow> Inl (ValueUnsetError k), s)"
  by (auto simp: std_tx_Get_def io_simps io_defs split: option.split)

lemma std_tx_Commit_run:
  "tx_store t \<Longrightarrow> st_txmut s \<Longrightarrow> \<not> st_mut s \<Longrightarrow>
   std_tx_Commit t s = Ret (Inr (t\<lparr>tx_store := False\<rparr>), s\<lparr>st_data := tx_data t, st_txmut := False\<rparr>)"
  by (cases s) (simp add: std_tx_Commit_def std_commit_def io_simps io_defs mutex_defs)

text \<open>\<^verbatim>\<open>Put\<close> and \<^verbatim>\<open>Delete\<close> on a store with free locks: one lemma for both.\<close>

lemma with_tx_set_map:
  assumes "std_wf s" "std_free s"
  shows "with_tx (\<lambda>tx. set_map (tx_data tx) (\<lambda>s. f (st_heap s (tx_data tx)))) s =
    Ret (Inr (), s\<lparr>st_heap := (st_heap s)(st_next s := f (copy_map (st_range s) (cur_data s))),
                   st_next := Suc (st_next s), st_data := st_next s\<rparr>)"
  using assms
  by (cases s)
    (simp add: with_tx_def std_BeginTransaction_free io_simps set_map_def modify_def std_tx_Commit_run
      std_free_def std_tx_Rollback_def ret_def begun_def)

lemma with_tx_locked: "\<not> std_free s \<Longrightarrow> with_tx body s = Block"
  by (auto simp: with_tx_def std_free_def std_BeginTransaction_locked io_simps)

lemma std_Put_free:
  assumes "std_wf s" "std_free s"
  shows "\<exists>s'. std_Put k v s = Ret (Inr (), s') \<and> std_wf s' \<and> std_free s' \<and> std_kv s' = (std_kv s)(k \<mapsto> v)
    \<and> st_range s' = st_range s"
  using assms with_tx_set_map [OF assms, of "AList.update k v"]
  by (simp add: std_Put_def std_tx_Put_def std_wf_def std_free_def std_kv_def)

lemma std_Delete_free:
  assumes "std_wf s" "std_free s"
  shows "\<exists>s'. std_Delete k s = Ret (Inr (), s') \<and> std_wf s' \<and> std_free s' \<and> std_kv s' = (std_kv s)(k := None)
    \<and> st_range s' = st_range s"
  using assms with_tx_set_map [OF assms, of "AList.delete k"]
  by (simp add: std_Delete_def std_tx_Delete_def std_wf_def std_free_def std_kv_def)

lemma std_Put_RetD: "std_Put k v s = Ret (r, s') \<Longrightarrow> std_free s"
  using with_tx_locked [of s] by (force simp: std_Put_def)

lemma std_Delete_RetD: "std_Delete k s = Ret (r, s') \<Longrightarrow> std_free s"
  using with_tx_locked [of s] by (force simp: std_Delete_def)

lemma std_Get_RetD: "std_Get k s = Ret (r, s') \<Longrightarrow> \<not> st_mut s"
  using std_Get_locked [of s] by force

lemma std_Iterator_RetD: "std_Iterator p s = Ret (r, s') \<Longrightarrow> \<not> st_mut s"
  by (rule ccontr) (simp add: std_Iterator_def io_simps mutex_defs)

lemma std_iface_simps [simp]:
  "SGet std_iface = std_Get" "SPut std_iface = std_Put" "SDelete std_iface = std_Delete"
  "SIterator std_iface = std_Iterator" "SHasNext std_iface = StdIterator_HasNext"
  "SGetNext std_iface = StdIterator_GetNext"
  by (simp_all add: std_iface_def)

section \<open>The backend meets its contracts\<close>

interpretation std_iter: key_iterator StdIterator_HasNext StdIterator_GetNext
proof unfold_locales
  fix it :: key_iter and k ks
  show "StdIterator_HasNext it = (left it \<noteq> [])"
    by (simp add: StdIterator_HasNext_def left_def not_le)
  show "\<exists>it'. StdIterator_GetNext it = (Inr k, it') \<and> left it' = ks" if "left it = k # ks"
    using left_Cons [OF that] by (auto simp: StdIterator_GetNext_def left_def)
  show "\<exists>e. StdIterator_GetNext it = (Inl e, it)" if "left it = []"
    using that by (simp add: StdIterator_GetNext_def left_def)
qed

lemma std_iterator_keys:
  assumes "std_wf s" "std_Iterator p s = Ret (Inr it, s')"
  shows "it_idx it = 0 \<and> distinct (it_keys it) \<and> set (it_keys it) = {k \<in> dom (std_kv s). HasPrefix k p}"
  using assms std_Iterator_free [OF std_Iterator_RetD [OF assms(2)], of p]
  by (auto simp: std_wf_def std_kv_def distinct_range_keys set_range_keys)

interpretation std: live_store std_iface std_kv std_wf std_free
proof unfold_locales
  fix s s' :: std_store and k p :: string and v e and r :: "go_error + bytes" and ri :: "go_error + key_iter" and it
  assume wf: "std_wf s"
  show "std_wf s' \<and> std_kv s' = std_kv s" if "SGet std_iface k s = Ret (r, s')"
    using that wf std_Get_free [of s k] std_Get_RetD by force
  show "std_kv s k = Some v" if "SGet std_iface k s = Ret (Inr v, s')"
    using that std_Get_free [of s k] std_Get_RetD [of k s] by (auto split: option.splits)
  show "std_kv s k = None" if "SGet std_iface k s = Ret (Inl e, s')" "as_value_unset e"
    using that std_Get_free [of s k] std_Get_RetD [of k s] by (auto split: option.splits)
  show "std_wf s' \<and> std_kv s' = (std_kv s)(k \<mapsto> v)" if "SPut std_iface k v s = Ret (Inr (), s')"
    using that std_Put_free [OF wf, of k v] std_Put_RetD [of k v s] by auto
  show "std_wf s' \<and> (std_kv s' = std_kv s \<or> std_kv s' = (std_kv s)(k \<mapsto> v))"
    if "SPut std_iface k v s = Ret (Inl e, s')"
    using that std_Put_free [OF wf, of k v] std_Put_RetD [of k v s] by auto
  show "std_wf s' \<and> std_kv s' = (std_kv s)(k := None)" if "SDelete std_iface k s = Ret (Inr (), s')"
    using that std_Delete_free [OF wf, of k] std_Delete_RetD [of k s] by auto
  show "std_wf s' \<and> (std_kv s' = std_kv s \<or> std_kv s' = (std_kv s)(k := None))"
    if "SDelete std_iface k s = Ret (Inl e, s')"
    using that std_Delete_free [OF wf, of k] std_Delete_RetD [of k s] by auto
  show "std_wf s' \<and> std_kv s' = std_kv s" if "SIterator std_iface p s = Ret (ri, s')"
    using that wf std_Iterator_free [of s p] std_Iterator_RetD [of p s] by auto
  show "it_idx it = 0 \<and> distinct (it_keys it) \<and> set (it_keys it) = {k \<in> dom (std_kv s). HasPrefix k p}"
    if "SIterator std_iface p s = Ret (Inr it, s')"
    using that std_iterator_keys [OF wf] by simp
  assume free: "std_free s"
  show "\<exists>r s'. SGet std_iface k s = Ret (r, s') \<and> std_free s'"
    using free std_Get_free [of s k] by (auto simp: std_free_def)
  show "\<exists>r s'. SPut std_iface k v s = Ret (r, s') \<and> std_free s'"
    using std_Put_free [OF wf free] by fastforce
  show "\<exists>r s'. SDelete std_iface k s = Ret (r, s') \<and> std_free s'"
    using std_Delete_free [OF wf free] by fastforce
qed (auto simp: std_iter.has_next_iff std_iter.get_next_Cons std_iter.get_next_Nil)

interpretation std: reliable_store std_iface std_kv std_wf std_free
proof unfold_locales
  fix s :: std_store and k p v
  assume wf: "std_wf s" and free: "std_free s"
  show "SGet std_iface k s = Ret (case std_kv s k of Some v \<Rightarrow> Inr v | None \<Rightarrow> Inl (ValueUnsetError k), s)"
    using free std_Get_free [of s k] by (simp add: std_free_def)
  show "\<exists>s'. SPut std_iface k v s = Ret (Inr (), s') \<and> std_free s'"
    using std_Put_free [OF wf free, of k v] by fastforce
  show "\<exists>it. SIterator std_iface p s = Ret (Inr it, s)"
    using free std_Iterator_free [of s p] by (simp add: std_free_def)
qed

end
