(* ===== verification/Std_Correct.thy ===== *)
theory Std_Correct
  imports Std_Store
begin

text \<open>
  Correctness of the in-memory backend: every sequence of calls answers like a plain map, \<^verbatim>\<open>Transfer\<close>
  copies a store into another one, and the ways in which a finished transaction can still be used.
\<close>

section \<open>Sequences of calls\<close>

lemma std_impl_step:
  assumes "std_wf s" "std_free s"
  shows "\<exists>s'. impl_step std_iface x s = Some (fst (spec_step x (std_kv s)), s') \<and> std_wf s' \<and> std_free s'
    \<and> std_kv s' = snd (spec_step x (std_kv s))"
proof (cases x)
  case (OGet k)
  with assms std_Get_free [of s k] show ?thesis by (simp add: answer_def std_free_def)
next
  case (OPut k v)
  with std_Put_free [OF assms, of k v] show ?thesis by (auto simp: answer_def)
next
  case (ODelete k)
  with std_Delete_free [OF assms, of k] show ?thesis by (auto simp: answer_def)
next
  case (OIterator p)
  with assms std_Iterator_free [of s p] show ?thesis
    by (auto simp: answer_def std_free_def std_wf_def std_kv_def set_range_keys)
qed

lemma std_run_impl:
  "std_wf s \<Longrightarrow> std_free s \<Longrightarrow> run_impl std_iface xs s = Some (run_spec xs (std_kv s))"
proof (induction xs arbitrary: s)
  case (Cons x xs)
  obtain s' where s': "impl_step std_iface x s = Some (fst (spec_step x (std_kv s)), s')"
    "std_wf s'" "std_free s'" "std_kv s' = snd (spec_step x (std_kv s))"
    using std_impl_step [OF Cons.prems] by blast
  then show ?case using Cons.IH [of s'] by (auto split: prod.split)
qed simp

text \<open>
  C1: On a fresh in-memory store, every sequence of \<^verbatim>\<open>Get\<close>, \<^verbatim>\<open>Put\<close>, \<^verbatim>\<open>Delete\<close> and \<^verbatim>\<open>Iterator\<close> calls returns (no
  call blocks or panics) and gives the answers of a plain key-value map, whatever order the map iterations
  of the implementation take.
\<close>

theorem std_store_refines_map:
  "is_range_order ro \<Longrightarrow> run_impl std_iface ops (NewStdStore ro) = Some (run_spec ops Map.empty)"
  using std_run_impl [of "NewStdStore ro" ops] by (simp add: NewStdStore_wf)

theorem std_store_refines_map_witness:
  "run_impl std_iface [OPut ''k'' ''v'', OGet ''k'', ODelete ''k'', OGet ''k''] (NewStdStore rev) =
     Some [ADone (Inr ()), AGet (Inr ''v''), ADone (Inr ()), AGet (Inl (ValueUnsetError ''k''))]"
  using std_store_refines_map [of rev "[OPut ''k'' ''v'', OGet ''k'', ODelete ''k'', OGet ''k'']"]
  by simp

section \<open>Transfer\<close>

lemma on_fst_simps [io_simps]:
  "m a = Ret (r, a') \<Longrightarrow> on_fst m (a, b) = Ret (r, (a', b))" "m a = Block \<Longrightarrow> on_fst m (a, b) = Block"
  "m a = Panic p \<Longrightarrow> on_fst m (a, b) = Panic p"
  by (simp_all add: on_fst_def)

lemma on_snd_simps [io_simps]:
  "m b = Ret (r, b') \<Longrightarrow> on_snd m (a, b) = Ret (r, (a, b'))" "m b = Block \<Longrightarrow> on_snd m (a, b) = Block"
  "m b = Panic p \<Longrightarrow> on_snd m (a, b) = Panic p"
  by (simp_all add: on_snd_def)

lemma entries_facts:
  assumes "std_wf s"
  shows "distinct (map fst (entries s))" "map_of (entries s) = std_kv s"
proof -
  show d: "distinct (map fst (entries s))"
    using assms by (simp add: entries_def std_wf_def distinct_range_keys comp_def)
  show "map_of (entries s) = std_kv s"
  proof
    fix k
    have "map_of (entries s) k = (if k \<in> set (range_keys (st_range s) (cur_data s))
        then Some (the (map_of (cur_data s) k)) else None)"
      by (simp add: entries_def map_of_map_restrict restrict_map_def)
    then show "map_of (entries s) k = std_kv s k"
      using assms by (auto simp: std_wf_def std_kv_def set_range_keys domIff)
  qed
qed

definition put_all :: "(string \<Rightarrow> bytes \<Rightarrow> ('b, unit) io) \<Rightarrow> (string \<times> bytes) list \<Rightarrow> ('b, unit) io" where
  "put_all put es = forE es (\<lambda>(k, v). put k v)"

lemma put_all_on_snd:
  "forE es (\<lambda>(k, v). on_snd (put k v)) (s, b) =
     (case put_all put es b of Ret (r, b') \<Rightarrow> Ret (r, (s, b')) | Panic p \<Rightarrow> Panic p | Block \<Rightarrow> Block)"
proof (induction es arbitrary: b)
  case Nil
  show ?case by (simp add: put_all_def ret_def)
next
  case (Cons e es)
  then show ?case
    by (cases e; cases "put (fst e) (snd e) b")
      (auto simp: put_all_def bindE_def bindR_def throw_def on_snd_def split: prod.split sum.split outcome.split)
qed

lemma std_Transfer_run:
  "\<not> st_mut s \<Longrightarrow>
   std_Transfer put (s, b) =
     (case put_all put (entries s) b of
        Ret (Inr _, b') \<Rightarrow> Ret (Inr (), (s, b'))
      | Ret (Inl e, b') \<Rightarrow> Ret (Inl e, (s\<lparr>st_mut := True\<rparr>, b'))
      | Panic p \<Rightarrow> Panic p | Block \<Rightarrow> Block)"
proof -
  assume free: "\<not> st_mut s"
  have e: "entries (s\<lparr>st_mut := True\<rparr>) = entries s" by (simp add: entries_def)
  have u: "unlock_mut (s\<lparr>st_mut := True\<rparr>) = Ret (Inr (), s)" using free by (cases s) (simp add: unlock_mut_def)
  have "std_Transfer put (s, b) =
      bindE (forE (entries s) (\<lambda>(k, v). on_snd (put k v))) (\<lambda>_. on_fst unlock_mut) (s\<lparr>st_mut := True\<rparr>, b)"
    using free e by (simp add: std_Transfer_def io_simps lock_mut_def gets_def)
  then show ?thesis
    by (auto simp: put_all_on_snd bindE_def bindR_def throw_def on_fst_def u
        split: outcome.split sum.split prod.split)
qed

text \<open>Against a destination that meets the contract, the loop adds every entry.\<close>

lemma std_put_all:
  assumes "std_wf d" "std_free d"
  shows "\<exists>d'. put_all std_Put es d = Ret (Inr (), d') \<and> std_wf d' \<and> std_free d'
    \<and> std_kv d' = std_kv d ++ map_of (rev es)"
  using assms
proof (induction es arbitrary: d)
  case Nil
  then show ?case by (simp add: put_all_def ret_def)
next
  case (Cons e es)
  obtain k v where e: "e = (k, v)" by (cases e)
  obtain d1 where d1: "std_Put k v d = Ret (Inr (), d1)" "std_wf d1" "std_free d1" "std_kv d1 = (std_kv d)(k \<mapsto> v)"
    using std_Put_free [OF Cons.prems, of k v] by blast
  obtain d2 where d2: "put_all std_Put es d1 = Ret (Inr (), d2)" "std_wf d2" "std_free d2"
    "std_kv d2 = std_kv d1 ++ map_of (rev es)"
    using Cons.IH [OF d1(2,3)] by blast
  have "put_all std_Put (e # es) d = Ret (Inr (), d2)"
    using d1(1) d2(1) by (simp add: put_all_def e io_simps)
  moreover have "std_kv d2 = std_kv d ++ map_of (rev (e # es))"
    by (rule ext) (auto simp: d1(4) d2(4) e map_add_def split: option.split)
  ultimately show ?case using d2 by blast
qed

text \<open>
  \<^verbatim>\<open>Transfer\<close> from one in-memory store to another copies every entry, overwrites entries of the same
  key, keeps the other entries of the destination, and leaves the source unchanged and unlocked.
\<close>

theorem std_Transfer_copies:
  assumes "std_wf s" "std_free s" "std_wf d" "std_free d"
  shows "\<exists>d'. std_Transfer std_Put (s, d) = Ret (Inr (), (s, d')) \<and> std_kv d' = std_kv d ++ std_kv s"
proof -
  obtain d' where d': "put_all std_Put (entries s) d = Ret (Inr (), d')"
    "std_kv d' = std_kv d ++ map_of (rev (entries s))"
    using std_put_all [OF assms(3,4)] by blast
  have "map_of (rev (entries s)) = std_kv s"
    using entries_facts [OF assms(1)] by (simp add: map_of_rev_distinct)
  then show ?thesis using d' assms(2) by (simp add: std_Transfer_run std_free_def)
qed

definition two_stores :: "std_store \<times> std_store" where
  "two_stores =
     (\<lparr>st_heap = (\<lambda>a. if a = 0 then [(''a'', ''1''), (''b'', ''2'')] else []), st_next = 1, st_data = 0,
       st_mut = False, st_txmut = False, st_range = rev\<rparr>, NewStdStore id)"

theorem std_Transfer_copies_witness:
  "\<exists>d'. std_Transfer std_Put two_stores = Ret (Inr (), (fst two_stores, d')) \<and> std_kv d' ''b'' = Some ''2''"
proof -
  have "std_wf (fst two_stores)" "std_free (fst two_stores)"
    by (simp_all add: two_stores_def std_wf_def std_free_def gm_wf_def)
  then obtain d' where d': "std_Transfer std_Put two_stores = Ret (Inr (), (fst two_stores, d'))"
    "std_kv d' = std_kv (snd two_stores) ++ std_kv (fst two_stores)"
    using std_Transfer_copies [of "fst two_stores" "snd two_stores"]
    by (auto simp: NewStdStore_wf two_stores_def)
  moreover have "(std_kv (snd two_stores) ++ std_kv (fst two_stores)) ''b'' = Some ''2''"
    by (simp add: two_stores_def std_kv_def map_add_def)
  ultimately show ?thesis by metis
qed

text \<open>
  When the destination refuses an entry, \<^verbatim>\<open>Transfer\<close> returns the error with the mutex of the source
  still locked: from then on every \<^verbatim>\<open>Get\<close>, \<^verbatim>\<open>Put\<close> and \<^verbatim>\<open>Delete\<close> of the source blocks for ever.
\<close>

theorem std_Transfer_failure_locks:
  assumes "\<not> st_mut s" "std_Transfer put (s, b) = Ret (Inl e, (s', b'))"
  shows "std_Get k s' = Block \<and> std_Put k v s' = Block \<and> std_Delete k s' = Block"
proof -
  have "st_mut s'"
    using assms by (auto simp: std_Transfer_run split: outcome.splits sum.splits)
  then show ?thesis
    by (simp_all add: std_Get_locked std_Put_def std_Delete_def with_tx_locked std_free_def)
qed

definition refuse_put :: "string \<Rightarrow> bytes \<Rightarrow> (unit, unit) io" where
  "refuse_put k v = throw (ErrorString ''unavailable'')"

theorem std_Transfer_failure_locks_witness:
  "\<exists>s'. std_Transfer refuse_put (fst two_stores, ()) = Ret (Inl (ErrorString ''unavailable''), (s', ()))
     \<and> std_Get ''a'' s' = Block"
proof -
  have run: "std_Transfer refuse_put (fst two_stores, ()) =
      Ret (Inl (ErrorString ''unavailable''), ((fst two_stores)\<lparr>st_mut := True\<rparr>, ()))"
    by (simp add: std_Transfer_run two_stores_def put_all_def entries_def range_keys_def refuse_put_def throw_def)
  have "\<not> st_mut (fst two_stores)" by (simp add: two_stores_def)
  from std_Transfer_failure_locks [OF this run] run show ?thesis by blast
qed

section \<open>Transactions after their end\<close>

text \<open>
  A transaction of the in-memory store stays connected to the store after a successful \<^verbatim>\<open>Commit\<close>: the
  store has taken over the transaction's own map, so a later \<^verbatim>\<open>Put\<close> on the finished transaction succeeds
  and changes what the store returns, without any lock.
\<close>

theorem std_tx_Put_after_Commit:
  assumes "std_wf s" "std_free s"
  shows "\<exists>t s1 t' s2 s3. std_BeginTransaction s = Ret (Inr t, s1) \<and> std_tx_Commit t s1 = Ret (Inr t', s2)
    \<and> std_tx_Put t' k v s2 = Ret (Inr (), s3) \<and> std_kv s2 = std_kv s \<and> std_kv s3 = (std_kv s)(k \<mapsto> v)"
proof -
  let ?t = "\<lparr>tx_store = True, tx_data = st_next s\<rparr>"
  let ?s2 = "(begun s)\<lparr>st_data := st_next s, st_txmut := False\<rparr>"
  have ro: "is_range_order (st_range s)" using assms by (simp add: std_wf_def)
  have "std_BeginTransaction s = Ret (Inr ?t, begun s)"
    using assms by (rule std_BeginTransaction_free)
  moreover have "std_tx_Commit ?t (begun s) = Ret (Inr (?t\<lparr>tx_store := False\<rparr>), ?s2)"
    using assms by (simp add: std_tx_Commit_run std_free_def)
  moreover have "std_kv ?s2 = std_kv s" using ro by (simp add: std_kv_def)
  moreover have "\<exists>s3. std_tx_Put (?t\<lparr>tx_store := False\<rparr>) k v ?s2 = Ret (Inr (), s3) \<and> std_kv s3 = (std_kv s)(k \<mapsto> v)"
    using ro by (simp add: std_tx_Put_run std_kv_def)
  ultimately show ?thesis by blast
qed

theorem std_tx_Put_after_Commit_witness:
  "\<exists>t s1 t' s2 s3. std_BeginTransaction (NewStdStore id) = Ret (Inr t, s1) \<and> std_tx_Commit t s1 = Ret (Inr t', s2)
     \<and> std_tx_Put t' ''k'' ''v'' s2 = Ret (Inr (), s3) \<and> std_kv s2 = Map.empty \<and> std_kv s3 = [''k'' \<mapsto> ''v'']"
  using std_tx_Put_after_Commit [OF NewStdStore_wf [of id] NewStdStore_free, of "''k''" "''v''"] by simp

text \<open>
  Ending a transaction of the in-memory store twice: after \<^verbatim>\<open>Commit\<close>, \<^verbatim>\<open>Rollback\<close> does nothing and a
  second \<^verbatim>\<open>Commit\<close> dereferences nil; after \<^verbatim>\<open>Rollback\<close>, both a second \<^verbatim>\<open>Rollback\<close> and a \<^verbatim>\<open>Commit\<close> are the
  fatal unlock of an unlocked mutex.
\<close>

theorem std_tx_ended_twice:
  assumes "std_wf s" "std_BeginTransaction s = Ret (Inr t, s1)"
  shows "(\<exists>t' s2. std_tx_Commit t s1 = Ret (Inr t', s2) \<and> std_tx_Rollback t' s2 = Ret (Inr (), s2)
      \<and> std_tx_Commit t' s2 = Panic ''invalid memory address or nil pointer dereference'')
    \<and> (\<exists>s3. std_tx_Rollback t s1 = Ret (Inr (), s3) \<and> std_tx_Rollback t s3 = Panic ''sync: unlock of unlocked mutex''
      \<and> std_tx_Commit t s3 = Panic ''sync: unlock of unlocked mutex'')"
proof -
  have free: "std_free s" using assms(2) by (rule std_BeginTransaction_RetD)
  have t: "t = \<lparr>tx_store = True, tx_data = st_next s\<rparr>" "s1 = begun s"
    using assms std_BeginTransaction_free [OF assms(1) free] by auto
  have m: "\<not> st_mut s" using free by (simp add: std_free_def)
  have "std_tx_Commit t s1 = Ret (Inr (t\<lparr>tx_store := False\<rparr>), s1\<lparr>st_data := tx_data t, st_txmut := False\<rparr>)"
    using m by (simp add: t std_tx_Commit_run)
  moreover have "std_tx_Rollback (t\<lparr>tx_store := False\<rparr>) s2 = Ret (Inr (), s2)"
    "std_tx_Commit (t\<lparr>tx_store := False\<rparr>) s2 = Panic ''invalid memory address or nil pointer dereference''" for s2
    by (simp_all add: std_tx_Rollback_def std_tx_Commit_def ret_def crash_def)
  moreover have "std_tx_Rollback t s1 = Ret (Inr (), s1\<lparr>st_txmut := False\<rparr>)"
    by (simp add: t std_tx_Rollback_def unlock_txmut_def)
  moreover have "std_tx_Rollback t (s1\<lparr>st_txmut := False\<rparr>) = Panic ''sync: unlock of unlocked mutex''"
    "std_tx_Commit t (s1\<lparr>st_txmut := False\<rparr>) = Panic ''sync: unlock of unlocked mutex''"
    using m by (simp_all add: t std_tx_Rollback_def std_tx_Commit_def std_commit_def mutex_defs io_simps io_defs)
  ultimately show ?thesis by blast
qed

theorem std_tx_ended_twice_witness:
  "\<exists>t s1 s3. std_BeginTransaction (NewStdStore id) = Ret (Inr t, s1) \<and> std_tx_Rollback t s1 = Ret (Inr (), s3)
     \<and> std_tx_Rollback t s3 = Panic ''sync: unlock of unlocked mutex''"
proof -
  have "is_range_order id" by simp
  note wf = NewStdStore_wf [OF this]
  note run = std_BeginTransaction_free [OF wf NewStdStore_free]
  from std_tx_ended_twice [OF wf run] run show ?thesis by blast
qed

section \<open>The contract of transactions\<close>

definition std_txi :: "(std_store, std_tx) tx_iface" where
  "std_txi = \<lparr>TBegin = std_BeginTransaction, TGet = std_tx_Get, TPut = (\<lambda>t k v. bindE (std_tx_Put t k v) (\<lambda>_. ret t)),
     TDelete = (\<lambda>t k. bindE (std_tx_Delete t k) (\<lambda>_. ret t)), TIterator = std_tx_Iterator, TCommit = std_tx_Commit,
     TRollback = (\<lambda>t. bindE (std_tx_Rollback t) (\<lambda>_. ret t))\<rparr>"

definition std_opened :: "std_tx \<Rightarrow> std_store \<Rightarrow> bool" where
  "std_opened t s \<longleftrightarrow> tx_store t \<and> st_txmut s \<and> \<not> st_mut s \<and> tx_data t \<noteq> st_data s \<and> tx_data t < st_next s"

definition std_view :: "std_tx \<Rightarrow> std_store \<Rightarrow> (string \<rightharpoonup> bytes)" where
  "std_view t s = map_of (st_heap s (tx_data t))"

lemmas std_txi_defs = std_txi_def std_opened_def std_view_def

lemma std_begin_opens:
  assumes "std_wf s" "std_BeginTransaction s = Ret (Inr t, s')"
  shows "std_wf s'" "std_opened t s'" "std_kv s' = std_kv s" "std_view t s' = std_kv s"
proof -
  have free: "std_free s" by (rule std_BeginTransaction_RetD [OF assms(2)])
  have st: "t = \<lparr>tx_store = True, tx_data = st_next s\<rparr>" "s' = begun s"
    using assms(2) std_BeginTransaction_free [OF assms(1) free] by auto
  show "std_wf s'" "std_opened t s'" "std_kv s' = std_kv s" "std_view t s' = std_kv s"
    using assms(1) free unfolding st by (auto simp: std_wf_def std_opened_def std_free_def std_kv_def std_view_def)
qed

lemma std_write_run:
  assumes "std_wf s" "std_opened t s"
  shows "\<exists>s'. write_tx std_txi w t s = Ret (Inr t, s') \<and> std_wf s' \<and> std_opened t s'
    \<and> std_view t s' = apply_write w (std_view t s) \<and> std_kv s' = std_kv s"
  using assms
  by (cases w) (auto simp: std_txi_defs std_tx_Put_run std_tx_Delete_run bindE_def bindR_def ret_def std_wf_def std_kv_def)

lemma std_tx_end:
  assumes "std_wf s" "std_opened t s"
  shows "\<exists>s'. std_tx_Commit t s = Ret (Inr (t\<lparr>tx_store := False\<rparr>), s') \<and> std_wf s' \<and> std_free s' \<and> std_kv s' = std_view t s"
    and "\<exists>s'. bindE (std_tx_Rollback t) (\<lambda>_. ret t) s = Ret (Inr t, s') \<and> std_wf s' \<and> std_free s' \<and> std_kv s' = std_kv s"
  using assms
  by (auto simp: std_tx_Commit_run std_tx_Rollback_def unlock_txmut_def bindE_def bindR_def io_defs std_wf_def std_free_def std_kv_def
      std_opened_def std_view_def)

interpretation std_txs: reliable_transactions std_txi std_kv std_wf std_opened std_view "\<lambda>_. True" "(=)" std_free
proof
  have ops: "TBegin std_txi = std_BeginTransaction" "TGet std_txi = std_tx_Get" "TCommit std_txi = std_tx_Commit"
    "TRollback std_txi = (\<lambda>t. bindE (std_tx_Rollback t) (\<lambda>_. ret t))" by (simp_all add: std_txi_def)
  fix s t k w e s'
  assume wf: "std_wf s"
  show "std_wf s' \<and> std_opened t s' \<and> (\<forall>k. True \<longrightarrow> std_kv s' k = std_kv s k \<and> std_view t s' k = std_kv s k)"
    if "TBegin std_txi s = Ret (Inr t, s')" using std_begin_opens [OF wf that [unfolded ops]] by simp
  show "\<forall>k. True \<longrightarrow> std_kv s' k = std_kv s k" if "TBegin std_txi s = Ret (Inl e, s')"
    using that [unfolded ops] std_BeginTransaction_RetD [of s "Inl e" s'] std_BeginTransaction_free [OF wf] by simp
  show "\<exists>t s'. TBegin std_txi s = Ret (Inr t, s')" if "std_free s"
    unfolding ops using std_BeginTransaction_free [OF wf that] by blast
  assume op: "std_opened t s"
  show "\<exists>r s'. TGet std_txi t k s = Ret (r, s') \<and> std_wf s' \<and> std_opened t s' \<and> std_view t s' = std_view t s
      \<and> std_kv s' = std_kv s \<and> r = found (std_view t s) k"
    using wf op unfolding ops by (simp add: std_tx_Get_run found_def std_view_def)
  show "\<exists>t' s'. write_tx std_txi w t s = Ret (Inr t', s') \<and> std_wf s' \<and> std_opened t' s'
      \<and> std_view t' s' = apply_write w (std_view t s) \<and> std_kv s' = std_kv s" using std_write_run [OF wf op] by blast
  show "\<exists>r s'. TCommit std_txi t s = Ret (r, s') \<and> std_wf s'
      \<and> ((\<forall>k. True \<longrightarrow> std_kv s' k = std_view t s k) \<or> (\<exists>e. r = Inl e) \<and> (\<forall>k. True \<longrightarrow> std_kv s' k = std_kv s k))"
    "\<exists>t' s'. TCommit std_txi t s = Ret (Inr t', s') \<and> std_free s'"
    unfolding ops using std_tx_end(1) [OF wf op] by auto
  show "\<exists>r s'. TRollback std_txi t s = Ret (r, s') \<and> std_wf s' \<and> (\<forall>k. True \<longrightarrow> std_kv s' k = std_kv s k)"
    "\<exists>t' s'. TRollback std_txi t s = Ret (Inr t', s') \<and> std_free s'"
    unfolding ops using std_tx_end(2) [OF wf op] by auto
qed

end
