(* ===== verification/Etcd_Store.thy ===== *)
theory Etcd_Store
  imports Store_Spec
begin

text \<open>
  \<^verbatim>\<open>internal/store/etcdstore.go\<close>: the etcd backend. The etcd client library and the server behind it are not
  part of the sources; they are the record \<open>etcd_client\<close> of the calls the code makes, over a server state
  \<open>'s\<close>. What the code relies on is \<open>etcd_laws\<close>, the documented behaviour of those calls, in terms of the ghost
  field \<open>cl_view\<close>, the key-value pairs the server holds. A call may fail with an error of its own.
\<close>

section \<open>The client library\<close>

record etcd_resp =
  resp_count :: int
  resp_kvs :: "(string \<times> bytes) list"

datatype etcd_cmd = OpPut string bytes | OpDelete string

record 's etcd_client =
  cl_get :: "string \<Rightarrow> ('s, etcd_resp) io"
  cl_get_prefix :: "string \<Rightarrow> ('s, etcd_resp) io"
  cl_put :: "string \<Rightarrow> bytes \<Rightarrow> ('s, unit) io"
  cl_delete :: "string \<Rightarrow> ('s, unit) io"
  cl_txn :: "etcd_cmd list \<Rightarrow> ('s, unit) io"
  cl_new_session :: "('s, nat) io"
  cl_lock :: "nat \<Rightarrow> string \<Rightarrow> ('s, unit) io"
  cl_unlock :: "nat \<Rightarrow> string \<Rightarrow> ('s, unit) io"
  cl_close_session :: "nat \<Rightarrow> ('s, unit) io"
  cl_close :: "('s, unit) io"
  cl_view :: "'s \<Rightarrow> (string \<rightharpoonup> bytes)"

text \<open>The struct \<^verbatim>\<open>EtcdStore\<close> with the server it talks to and the visiting order of Go's map loops.\<close>

record 's etcd_store =
  es_client :: "'s etcd_client"
  es_server :: 's
  es_range :: range_order

definition etcdPrefix :: string where
  "etcdPrefix = ''delegatioRegion''"

definition call :: "('s etcd_client \<Rightarrow> ('s, 'a) io) \<Rightarrow> ('s etcd_store, 'a) io" where
  "call f w =
     (case f (es_client w) (es_server w) of
        Ret (r, s') \<Rightarrow> Ret (r, w\<lparr>es_server := s'\<rparr>) | Panic p \<Rightarrow> Panic p | Block \<Rightarrow> Block)"

section \<open>Construction\<close>

text \<open>
  \<^verbatim>\<open>NewEtcdStore\<close>: TLS is configured when all three of CA certificate, certificate and key are given (a nil
  slice is \<open>None\<close>). Parsing the key pair and opening the connection are library calls.
\<close>

record tls_config =
  tls_certificate :: "bytes \<times> bytes"
  tls_root_ca :: bytes

definition NewEtcdStore ::
  "(bytes \<Rightarrow> bytes \<Rightarrow> go_error + unit) \<Rightarrow> (string list \<Rightarrow> tls_config option \<Rightarrow> go_error + 's etcd_store)
   \<Rightarrow> string list \<Rightarrow> bytes option \<Rightarrow> bytes option \<Rightarrow> bytes option \<Rightarrow> go_error + 's etcd_store" where
  "NewEtcdStore X509KeyPair New endpoints caCert cert key =
     (case (caCert, cert, key) of
        (Some ca, Some crt, Some k) \<Rightarrow>
          (case X509KeyPair crt k of
             Inl err \<Rightarrow> Inl err
           | Inr _ \<Rightarrow> New endpoints (Some \<lparr>tls_certificate = (crt, k), tls_root_ca = ca\<rparr>))
      | _ \<Rightarrow> New endpoints None)"

text \<open>\<^verbatim>\<open>EtcdStoreFactory\<close>.\<close>

record EtcdStoreFactory =
  sf_Endpoint :: string
  sf_ForceTLS :: bool
  sf_caCert :: "bytes option"
  sf_cert :: "bytes option"
  sf_key :: "bytes option"

definition EtcdStoreFactory_New ::
  "(bytes \<Rightarrow> bytes \<Rightarrow> go_error + unit) \<Rightarrow> (string list \<Rightarrow> tls_config option \<Rightarrow> go_error + 's etcd_store)
   \<Rightarrow> EtcdStoreFactory \<Rightarrow> go_error + 's etcd_store" where
  "EtcdStoreFactory_New X509KeyPair New f = NewEtcdStore X509KeyPair New [sf_Endpoint f] (sf_caCert f) (sf_cert f) (sf_key f)"

text \<open>\<^verbatim>\<open>ForceTLS\<close> forces nothing: without certificates the factory connects in the clear.\<close>

lemma factory_ignores_ForceTLS:
  "sf_caCert f = None \<or> sf_cert f = None \<or> sf_key f = None \<Longrightarrow> EtcdStoreFactory_New X509KeyPair New f = New [sf_Endpoint f] None"
  by (auto simp: EtcdStoreFactory_New_def NewEtcdStore_def split: option.split)

section \<open>Store operations\<close>

definition etcd_Get :: "string \<Rightarrow> ('s etcd_store, bytes) io" where
  "etcd_Get request =
     bindE (call (\<lambda>c. cl_get c (etcdPrefix @ request))) (\<lambda>values.
     if resp_count values = 0 then throw (ValueUnsetError request)
     else if resp_count values = 1 then
       (case resp_kvs values of (_, v) # _ \<Rightarrow> ret v | [] \<Rightarrow> crash ''index out of range [0] with length 0'')
     else throw (ErrorString (''got multiple entries for key ['' @ request @ ''] in etcd'')))"

definition etcd_Put :: "string \<Rightarrow> bytes \<Rightarrow> ('s etcd_store, unit) io" where
  "etcd_Put request requestData = call (\<lambda>c. cl_put c (etcdPrefix @ request) requestData)"

text \<open>
  On an error the response is nil, and \<^verbatim>\<open>len(resp.Kvs)\<close> is evaluated before the error is looked at.
\<close>

definition etcd_Iterator :: "string \<Rightarrow> ('s etcd_store, key_iter) io" where
  "etcd_Iterator pre =
     bindR (call (\<lambda>c. cl_get_prefix c (etcdPrefix @ pre))) (\<lambda>r.
     case r of
       Inl err \<Rightarrow> crash ''invalid memory address or nil pointer dereference''
     | Inr resp \<Rightarrow> ret \<lparr>it_idx = 0, it_keys = [TrimPrefix (fst kv) etcdPrefix. kv \<leftarrow> resp_kvs resp]\<rparr>)"

definition etcd_Transfer :: "('s etcd_store, unit) io" where
  "etcd_Transfer = crash ''etcd store Transfer() function not implemented, should never be called''"

definition etcd_Delete :: "string \<Rightarrow> ('s etcd_store, unit) io" where
  "etcd_Delete key = call (\<lambda>c. cl_delete c (etcdPrefix @ key))"

definition etcd_Close :: "('s etcd_store, unit) io" where
  "etcd_Close = call cl_close"

definition EtcdIterator_GetNext :: "key_iter \<Rightarrow> (go_error + string) \<times> key_iter" where
  "EtcdIterator_GetNext i =
     (if it_idx i \<ge> length (it_keys i) then
        (Inl (ErrorString (''index out of range ['' @ Itoa (int (it_idx i)) @ ''] with length ''
                            @ Itoa (int (length (it_keys i))))), i)
      else (Inr (it_keys i ! it_idx i), i\<lparr>it_idx := Suc (it_idx i)\<rparr>))"

definition EtcdIterator_HasNext :: "key_iter \<Rightarrow> bool" where
  "EtcdIterator_HasNext i \<longleftrightarrow> it_idx i < length (it_keys i)"

definition etcd_iface :: "'s etcd_store store_iface" where
  "etcd_iface =
     \<lparr>SGet = etcd_Get, SPut = etcd_Put, SDelete = etcd_Delete, SIterator = etcd_Iterator,
      SHasNext = EtcdIterator_HasNext, SGetNext = EtcdIterator_GetNext\<rparr>"

section \<open>Transactions\<close>

record etcd_tx =
  et_insert :: "bytes gomap"
  et_delete :: "unit gomap"
  et_ongoing :: bool
  et_session :: nat

definition etcd_BeginTransaction :: "('s etcd_store, etcd_tx) io" where
  "etcd_BeginTransaction =
     bindE (call cl_new_session) (\<lambda>sess.
     bindE (call (\<lambda>c. cl_lock c sess etcdPrefix)) (\<lambda>_.
     ret \<lparr>et_insert = [], et_delete = [], et_ongoing = True, et_session = sess\<rparr>))"

definition etcd_tx_Get :: "etcd_tx \<Rightarrow> string \<Rightarrow> ('s etcd_store, bytes) io" where
  "etcd_tx_Get t request =
     (if \<not> et_ongoing t then throw (ErrorString ''EtcdTransaction Pointer is nil, but Get function is called'')
      else case map_of (et_insert t) request of
        Some value \<Rightarrow> ret value
      | None \<Rightarrow>
          (case map_of (et_delete t) request of
             Some _ \<Rightarrow> throw (ValueUnsetError request)
           | None \<Rightarrow> etcd_Get request))"

definition etcd_tx_Put :: "etcd_tx \<Rightarrow> string \<Rightarrow> bytes \<Rightarrow> go_error + etcd_tx" where
  "etcd_tx_Put t request requestData =
     (if \<not> et_ongoing t then Inl (ErrorString ''EtcdTransaction Pointer is nil, but Put function is called'')
      else Inr (t\<lparr>et_insert := AList.update request requestData (et_insert t)\<rparr>))"

definition etcd_tx_Delete :: "etcd_tx \<Rightarrow> string \<Rightarrow> go_error + etcd_tx" where
  "etcd_tx_Delete t key =
     (if \<not> et_ongoing t then Inl (ErrorString ''EtcdTransaction Pointer is nil, but Delete function is called'')
      else Inr (t\<lparr>et_insert := AList.delete key (et_insert t), et_delete := AList.update key () (et_delete t)\<rparr>))"

definition etcd_tx_Iterator :: "etcd_tx \<Rightarrow> string \<Rightarrow> ('s etcd_store, key_iter) io" where
  "etcd_tx_Iterator t pre =
     bindE (call (\<lambda>c. cl_get_prefix c (etcdPrefix @ pre))) (\<lambda>resp.
     bindE (gets es_range) (\<lambda>ro.
     let stored = [key \<leftarrow> [TrimPrefix (fst kv) etcdPrefix. kv \<leftarrow> resp_kvs resp]. map_of (et_delete t) key = None];
         inserted = [k \<leftarrow> range_keys ro (et_insert t). HasPrefix k pre]
     in ret \<lparr>it_idx = 0, it_keys = stored @ inserted\<rparr>))"

text \<open>The operations \<^verbatim>\<open>Commit\<close> sends, in the order in which it appends them.\<close>

definition commit_ops :: "range_order \<Rightarrow> etcd_tx \<Rightarrow> etcd_cmd list" where
  "commit_ops ro t =
     [OpPut (etcdPrefix @ k) (the (map_of (et_insert t) k)). k \<leftarrow> range_keys ro (et_insert t)] @
     [OpDelete (etcdPrefix @ k). k \<leftarrow> range_keys ro (et_delete t), map_of (et_insert t) k = None]"

definition etcd_tx_Commit :: "etcd_tx \<Rightarrow> ('s etcd_store, etcd_tx) io" where
  "etcd_tx_Commit t =
     (if \<not> et_ongoing t then throw (ErrorString ''no ongoing transaction'')
      else
        bindE (gets es_range) (\<lambda>ro.
        bindE (call (\<lambda>c. cl_txn c (commit_ops ro t))) (\<lambda>_.
        bindR (call (\<lambda>c. cl_close_session c (et_session t))) (\<lambda>_.
        bindE (call (\<lambda>c. cl_unlock c (et_session t) etcdPrefix)) (\<lambda>_.
        ret (t\<lparr>et_ongoing := False\<rparr>))))))"

definition etcd_tx_Rollback :: "etcd_tx \<Rightarrow> ('s etcd_store, etcd_tx) io" where
  "etcd_tx_Rollback t =
     (if et_ongoing t then
        bindR (call (\<lambda>c. cl_close_session c (et_session t))) (\<lambda>_.
        bindE (call (\<lambda>c. cl_unlock c (et_session t) etcdPrefix)) (\<lambda>_.
        ret (t\<lparr>et_ongoing := False\<rparr>)))
      else ret (t\<lparr>et_ongoing := False\<rparr>))"

section \<open>Documented behaviour of the client\<close>

fun apply_cmd :: "etcd_cmd \<Rightarrow> (string \<rightharpoonup> bytes) \<Rightarrow> (string \<rightharpoonup> bytes)" where
  "apply_cmd (OpPut k v) m = m(k \<mapsto> v)"
| "apply_cmd (OpDelete k) m = m(k := None)"

fun cmd_key :: "etcd_cmd \<Rightarrow> string" where
  "cmd_key (OpPut k v) = k"
| "cmd_key (OpDelete k) = k"

definition lookup_resp :: "(string \<rightharpoonup> bytes) \<Rightarrow> string \<Rightarrow> etcd_resp" where
  "lookup_resp m k =
     (case m k of None \<Rightarrow> \<lparr>resp_count = 0, resp_kvs = []\<rparr> | Some v \<Rightarrow> \<lparr>resp_count = 1, resp_kvs = [(k, v)]\<rparr>)"

text \<open>
  \<open>effect c m good\<close>: whatever \<open>m\<close> returns, an error is none of this repository's \<^verbatim>\<open>ValueUnsetError\<close>, and the
  pairs the server holds afterwards are related to those before as \<open>good\<close> says.
\<close>

definition effect ::
  "'s etcd_client \<Rightarrow> ('s, 'a) io \<Rightarrow> (go_error + 'a \<Rightarrow> (string \<rightharpoonup> bytes) \<Rightarrow> (string \<rightharpoonup> bytes) \<Rightarrow> bool) \<Rightarrow> bool" where
  "effect c m good \<longleftrightarrow> (\<forall>s. \<exists>r s'. m s = Ret (r, s') \<and> good r (cl_view c s) (cl_view c s')
     \<and> (\<forall>e. r = Inl e \<longrightarrow> \<not> as_value_unset e))"

text \<open>
  The calls return; a read changes nothing and reports what is stored; a write is applied, or failed and may
  or may not have been applied; a transaction is applied as a whole or not at all, and one in which a key
  occurs twice is refused; sessions and locks write only below the lock's own prefix and a slash.
\<close>

definition lock_area :: "(string \<rightharpoonup> bytes) \<Rightarrow> (string \<rightharpoonup> bytes) \<Rightarrow> bool" where
  "lock_area m m' \<longleftrightarrow> (\<forall>k. \<not> HasPrefix k (etcdPrefix @ ''/'') \<longrightarrow> m' k = m k)"

definition etcd_laws :: "'s etcd_client \<Rightarrow> bool" where
  "etcd_laws c \<longleftrightarrow>
     (\<forall>k. effect c (cl_get c k) (\<lambda>r m m'. m' = m \<and> (\<forall>x. r = Inr x \<longrightarrow> x = lookup_resp m k)))
   \<and> (\<forall>p. effect c (cl_get_prefix c p) (\<lambda>r m m'. m' = m \<and> (\<forall>x. r = Inr x \<longrightarrow>
        distinct (map fst (resp_kvs x)) \<and> set (map fst (resp_kvs x)) = {k \<in> dom m. HasPrefix k p})))
   \<and> (\<forall>k v. effect c (cl_put c k v) (\<lambda>r m m'. m' = m(k \<mapsto> v) \<or> (m' = m \<and> (\<exists>e. r = Inl e))))
   \<and> (\<forall>k. effect c (cl_delete c k) (\<lambda>r m m'. m' = m(k := None) \<or> (m' = m \<and> (\<exists>e. r = Inl e))))
   \<and> (\<forall>ops. effect c (cl_txn c ops) (\<lambda>r m m'. (m' = fold apply_cmd ops m \<and> distinct (map cmd_key ops))
        \<or> (m' = m \<and> (\<exists>e. r = Inl e))))
   \<and> effect c (cl_new_session c) (\<lambda>r m m'. m' = m)
   \<and> (\<forall>sid p. effect c (cl_lock c sid p) (\<lambda>r. lock_area))
   \<and> (\<forall>sid p. effect c (cl_unlock c sid p) (\<lambda>r m m'. lock_area m m' \<and> r = Inr ()))
   \<and> (\<forall>sid. effect c (cl_close_session c sid) (\<lambda>r. lock_area))"

definition etcd_wf :: "'s etcd_store \<Rightarrow> bool" where
  "etcd_wf w \<longleftrightarrow> etcd_laws (es_client w) \<and> is_range_order (es_range w)"

definition etcd_kv :: "'s etcd_store \<Rightarrow> (string \<rightharpoonup> bytes)" where
  "etcd_kv w k = cl_view (es_client w) (es_server w) (etcdPrefix @ k)"

section \<open>The backend meets its contract\<close>

lemma call_effect:
  assumes "effect (es_client w) (f (es_client w)) good"
  shows "\<exists>r s'. call f w = Ret (r, w\<lparr>es_server := s'\<rparr>)
    \<and> good r (cl_view (es_client w) (es_server w)) (cl_view (es_client w) s') \<and> (\<forall>e. r = Inl e \<longrightarrow> \<not> as_value_unset e)"
proof -
  from assms obtain r s' where "f (es_client w) (es_server w) = Ret (r, s')"
    "good r (cl_view (es_client w) (es_server w)) (cl_view (es_client w) s')" "\<forall>e. r = Inl e \<longrightarrow> \<not> as_value_unset e"
    unfolding effect_def by meson
  then show ?thesis by (intro exI [of _ r] exI [of _ s']) (simp add: call_def)
qed

lemma etcd_lawsD:
  assumes "etcd_wf w"
  shows "effect (es_client w) (cl_get (es_client w) k) (\<lambda>r m m'. m' = m \<and> (\<forall>x. r = Inr x \<longrightarrow> x = lookup_resp m k))"
    "effect (es_client w) (cl_get_prefix (es_client w) k) (\<lambda>r m m'. m' = m \<and> (\<forall>x. r = Inr x \<longrightarrow>
        distinct (map fst (resp_kvs x)) \<and> set (map fst (resp_kvs x)) = {k' \<in> dom m. HasPrefix k' k}))"
    "effect (es_client w) (cl_put (es_client w) k v) (\<lambda>r m m'. m' = m(k \<mapsto> v) \<or> (m' = m \<and> (\<exists>e. r = Inl e)))"
    "effect (es_client w) (cl_delete (es_client w) k) (\<lambda>r m m'. m' = m(k := None) \<or> (m' = m \<and> (\<exists>e. r = Inl e)))"
    "effect (es_client w) (cl_txn (es_client w) ops) (\<lambda>r m m'. (m' = fold apply_cmd ops m \<and> distinct (map cmd_key ops))
        \<or> (m' = m \<and> (\<exists>e. r = Inl e)))"
    "effect (es_client w) (cl_new_session (es_client w)) (\<lambda>r m m'. m' = m)"
    "effect (es_client w) (cl_lock (es_client w) sid k) (\<lambda>r. lock_area)"
    "effect (es_client w) (cl_unlock (es_client w) sid k) (\<lambda>r m m'. lock_area m m' \<and> r = Inr ())"
    "effect (es_client w) (cl_close_session (es_client w) sid) (\<lambda>r. lock_area)"
  using assms unfolding etcd_wf_def etcd_laws_def by blast+

lemma etcd_wf_server [simp]: "etcd_wf (w\<lparr>es_server := s\<rparr>) = etcd_wf w"
  by (simp add: etcd_wf_def)

text \<open>\<^verbatim>\<open>Get\<close> answers the stored value or that there is none, or passes on the client's error.\<close>

lemma etcd_Get_run:
  assumes "etcd_wf w"
  obtains (found) s' where "etcd_Get k w = Ret (case etcd_kv w k of Some v \<Rightarrow> Inr v | None \<Rightarrow> Inl (ValueUnsetError k), w\<lparr>es_server := s'\<rparr>)"
      "etcd_kv (w\<lparr>es_server := s'\<rparr>) = etcd_kv w"
    | (error) e s' where "etcd_Get k w = Ret (Inl e, w\<lparr>es_server := s'\<rparr>)" "\<not> as_value_unset e"
      "etcd_kv (w\<lparr>es_server := s'\<rparr>) = etcd_kv w"
proof -
  obtain r s' where r: "call (\<lambda>c. cl_get c (etcdPrefix @ k)) w = Ret (r, w\<lparr>es_server := s'\<rparr>)"
    "cl_view (es_client w) s' = cl_view (es_client w) (es_server w)"
    "\<forall>x. r = Inr x \<longrightarrow> x = lookup_resp (cl_view (es_client w) (es_server w)) (etcdPrefix @ k)"
    "\<forall>e. r = Inl e \<longrightarrow> \<not> as_value_unset e"
    using call_effect [of w "\<lambda>c. cl_get c (etcdPrefix @ k)", OF etcd_lawsD(1) [OF assms]] by (elim exE conjE)
  have same: "etcd_kv (w\<lparr>es_server := s'\<rparr>) = etcd_kv w" using r(2) by (simp add: etcd_kv_def fun_eq_iff)
  show ?thesis
  proof (cases r)
    case (Inl e)
    with r same show ?thesis by (intro error) (auto simp: etcd_Get_def io_simps)
  next
    case (Inr x)
    with r same show ?thesis
      by (intro found) (auto simp: etcd_Get_def io_simps io_defs lookup_resp_def etcd_kv_def split: option.split)
  qed
qed

lemma etcd_write_run:
  assumes "etcd_wf w" "effect (es_client w) (f (es_client w)) (\<lambda>r m m'. m' = m(etcdPrefix @ k := x) \<or> (m' = m \<and> (\<exists>e. r = Inl e)))"
  obtains r s' where "call f w = Ret (r, w\<lparr>es_server := s'\<rparr>)"
    "r = Inr () \<Longrightarrow> etcd_kv (w\<lparr>es_server := s'\<rparr>) = (etcd_kv w)(k := x)"
    "etcd_kv (w\<lparr>es_server := s'\<rparr>) = etcd_kv w \<or> etcd_kv (w\<lparr>es_server := s'\<rparr>) = (etcd_kv w)(k := x)"
proof -
  obtain r s' where r: "call f w = Ret (r, w\<lparr>es_server := s'\<rparr>)"
    "cl_view (es_client w) s' = (cl_view (es_client w) (es_server w))(etcdPrefix @ k := x)
     \<or> (cl_view (es_client w) s' = cl_view (es_client w) (es_server w) \<and> (\<exists>e. r = Inl e))"
    using call_effect [of w f, OF assms(2)] by (elim exE conjE)
  then show ?thesis by (intro that) (auto simp: etcd_kv_def fun_eq_iff)
qed

lemma etcd_Iterator_run:
  assumes "etcd_wf w"
  obtains (panic) p where "etcd_Iterator pre w = Panic p"
    | (keys) it s' where "etcd_Iterator pre w = Ret (Inr it, w\<lparr>es_server := s'\<rparr>)"
      "etcd_kv (w\<lparr>es_server := s'\<rparr>) = etcd_kv w" "it_idx it = 0" "distinct (it_keys it)"
      "set (it_keys it) = {k \<in> dom (etcd_kv w). HasPrefix k pre}"
proof -
  let ?m = "cl_view (es_client w) (es_server w)"
  obtain r s' where r: "call (\<lambda>c. cl_get_prefix c (etcdPrefix @ pre)) w = Ret (r, w\<lparr>es_server := s'\<rparr>)"
    "cl_view (es_client w) s' = ?m"
    "\<forall>x. r = Inr x \<longrightarrow> distinct (map fst (resp_kvs x)) \<and> set (map fst (resp_kvs x)) = {k \<in> dom ?m. HasPrefix k (etcdPrefix @ pre)}"
    using call_effect [of w "\<lambda>c. cl_get_prefix c (etcdPrefix @ pre)", OF etcd_lawsD(2) [OF assms]] by (elim exE conjE)
  have same: "etcd_kv (w\<lparr>es_server := s'\<rparr>) = etcd_kv w" using r(2) by (simp add: etcd_kv_def fun_eq_iff)
  show ?thesis
  proof (cases r)
    case (Inl e)
    with r show ?thesis by (intro panic) (auto simp: etcd_Iterator_def io_simps io_defs)
  next
    case (Inr x)
    let ?ks = "map fst (resp_kvs x)"
    have ks: "distinct ?ks" "set ?ks = {k \<in> dom ?m. HasPrefix k (etcdPrefix @ pre)}" using r(3) Inr by auto
    have "set (map (\<lambda>k. TrimPrefix k etcdPrefix) ?ks) = {k \<in> dom (etcd_kv w). HasPrefix k pre}"
      using trim_keys(2) [OF ks] by (simp add: etcd_kv_def dom_def)
    moreover have "distinct (map (\<lambda>k. TrimPrefix k etcdPrefix) ?ks)"
      using trim_keys(1) [OF ks] .
    moreover have "etcd_Iterator pre w =
        Ret (Inr \<lparr>it_idx = 0, it_keys = map (\<lambda>k. TrimPrefix k etcdPrefix) ?ks\<rparr>, w\<lparr>es_server := s'\<rparr>)"
      using r(1) Inr by (simp add: etcd_Iterator_def io_simps io_defs comp_def)
    ultimately show ?thesis using same by (intro keys) auto
  qed
qed

lemma etcd_iface_simps [simp]:
  "SGet etcd_iface = etcd_Get" "SPut etcd_iface = etcd_Put" "SDelete etcd_iface = etcd_Delete"
  "SIterator etcd_iface = etcd_Iterator" "SHasNext etcd_iface = EtcdIterator_HasNext"
  "SGetNext etcd_iface = EtcdIterator_GetNext"
  by (simp_all add: etcd_iface_def)

interpretation etcd_iter: key_iterator EtcdIterator_HasNext EtcdIterator_GetNext
proof unfold_locales
  fix it :: key_iter and k ks
  show "EtcdIterator_HasNext it = (left it \<noteq> [])"
    by (simp add: EtcdIterator_HasNext_def left_def not_le)
  show "\<exists>it'. EtcdIterator_GetNext it = (Inr k, it') \<and> left it' = ks" if "left it = k # ks"
    using left_Cons [OF that] by (auto simp: EtcdIterator_GetNext_def left_def)
  show "\<exists>e. EtcdIterator_GetNext it = (Inl e, it)" if "left it = []"
    using that by (simp add: EtcdIterator_GetNext_def left_def)
qed

lemma etcd_Put_run:
  assumes "etcd_wf w"
  obtains r s' where "etcd_Put k v w = Ret (r, w\<lparr>es_server := s'\<rparr>)"
    "r = Inr () \<Longrightarrow> etcd_kv (w\<lparr>es_server := s'\<rparr>) = (etcd_kv w)(k \<mapsto> v)"
    "etcd_kv (w\<lparr>es_server := s'\<rparr>) = etcd_kv w \<or> etcd_kv (w\<lparr>es_server := s'\<rparr>) = (etcd_kv w)(k \<mapsto> v)"
  by (rule etcd_write_run [of w "\<lambda>c. cl_put c (etcdPrefix @ k) v" k "Some v"])
    (use assms etcd_lawsD(3) [OF assms, of "etcdPrefix @ k" v] in \<open>auto simp: etcd_Put_def\<close>)

lemma etcd_Delete_run:
  assumes "etcd_wf w"
  obtains r s' where "etcd_Delete k w = Ret (r, w\<lparr>es_server := s'\<rparr>)"
    "r = Inr () \<Longrightarrow> etcd_kv (w\<lparr>es_server := s'\<rparr>) = (etcd_kv w)(k := None)"
    "etcd_kv (w\<lparr>es_server := s'\<rparr>) = etcd_kv w \<or> etcd_kv (w\<lparr>es_server := s'\<rparr>) = (etcd_kv w)(k := None)"
  by (rule etcd_write_run [of w "\<lambda>c. cl_delete c (etcdPrefix @ k)" k None])
    (use assms etcd_lawsD(4) [OF assms, of "etcdPrefix @ k"] in \<open>auto simp: etcd_Delete_def\<close>)

interpretation etcd: live_store etcd_iface etcd_kv etcd_wf "\<lambda>_. True"
proof unfold_locales
  fix w w' :: "'s etcd_store" and k p :: string and v e and r :: "go_error + bytes" and ri :: "go_error + key_iter" and it
  assume wf: "etcd_wf w"
  show "etcd_wf w' \<and> etcd_kv w' = etcd_kv w" if "SGet etcd_iface k w = Ret (r, w')"
    using that by (cases rule: etcd_Get_run [OF wf, of k]) (auto simp: wf)
  show "etcd_kv w k = Some v" if "SGet etcd_iface k w = Ret (Inr v, w')"
    using that by (cases rule: etcd_Get_run [OF wf, of k]) (auto split: option.splits)
  show "etcd_kv w k = None" if "SGet etcd_iface k w = Ret (Inl e, w')" "as_value_unset e"
    using that by (cases rule: etcd_Get_run [OF wf, of k]) (auto split: option.splits)
  show "etcd_wf w' \<and> etcd_kv w' = (etcd_kv w)(k \<mapsto> v)" if "SPut etcd_iface k v w = Ret (Inr (), w')"
    using that by (cases rule: etcd_Put_run [OF wf, of k v]) (auto simp: wf)
  show "etcd_wf w' \<and> (etcd_kv w' = etcd_kv w \<or> etcd_kv w' = (etcd_kv w)(k \<mapsto> v))"
    if "SPut etcd_iface k v w = Ret (Inl e, w')"
    using that by (cases rule: etcd_Put_run [OF wf, of k v]) (auto simp: wf)
  show "etcd_wf w' \<and> etcd_kv w' = (etcd_kv w)(k := None)" if "SDelete etcd_iface k w = Ret (Inr (), w')"
    using that by (cases rule: etcd_Delete_run [OF wf, of k]) (auto simp: wf)
  show "etcd_wf w' \<and> (etcd_kv w' = etcd_kv w \<or> etcd_kv w' = (etcd_kv w)(k := None))"
    if "SDelete etcd_iface k w = Ret (Inl e, w')"
    using that by (cases rule: etcd_Delete_run [OF wf, of k]) (auto simp: wf)
  show "etcd_wf w' \<and> etcd_kv w' = etcd_kv w" if "SIterator etcd_iface p w = Ret (ri, w')"
    using that by (cases rule: etcd_Iterator_run [OF wf, of p]) (auto simp: wf)
  show "it_idx it = 0 \<and> distinct (it_keys it) \<and> set (it_keys it) = {k \<in> dom (etcd_kv w). HasPrefix k p}"
    if "SIterator etcd_iface p w = Ret (Inr it, w')"
    using that by (cases rule: etcd_Iterator_run [OF wf, of p]) auto
  show "\<exists>r w'. SGet etcd_iface k w = Ret (r, w') \<and> True"
    by (cases rule: etcd_Get_run [OF wf, of k]) auto
  show "\<exists>r w'. SPut etcd_iface k v w = Ret (r, w') \<and> True"
    by (cases rule: etcd_Put_run [OF wf, of k v]) auto
  show "\<exists>r w'. SDelete etcd_iface k w = Ret (r, w') \<and> True"
    by (cases rule: etcd_Delete_run [OF wf, of k]) auto
qed (auto simp: etcd_iter.has_next_iff etcd_iter.get_next_Cons etcd_iter.get_next_Nil)

end
