(* ===== verification/Etcd_Correct.thy ===== *)
theory Etcd_Correct
  imports Etcd_Store
begin

text \<open>
  Transactions of the etcd backend: their buffered writes read back before the commit, the commit sends each
  key once and stores what the writes mean when they run in order, all or nothing; what a finished transaction
  answers; and an in-memory client (\<open>mem_client\<close>) that shows the documented behaviour can hold.
\<close>

section \<open>A client in memory\<close>

text \<open>The mutex of etcd's concurrency package keeps a key below its prefix while it is held.\<close>

definition lock_key :: "nat \<Rightarrow> string \<Rightarrow> string" where
  "lock_key sid p = p @ ''/'' @ nat_dec sid"

fun run_cmd :: "etcd_cmd \<Rightarrow> bytes gomap \<Rightarrow> bytes gomap" where
  "run_cmd (OpPut k v) s = AList.update k v s"
| "run_cmd (OpDelete k) s = AList.delete k s"

definition mem_client :: "bytes gomap etcd_client" where
  "mem_client = \<lparr>
     cl_get = (\<lambda>k s. Ret (Inr (lookup_resp (map_of s) k), s)),
     cl_get_prefix = (\<lambda>p s. let kvs = [kv \<leftarrow> AList.clearjunk s. HasPrefix (fst kv) p]
        in Ret (Inr \<lparr>resp_count = int (length kvs), resp_kvs = kvs\<rparr>, s)),
     cl_put = (\<lambda>k v s. Ret (Inr (), AList.update k v s)),
     cl_delete = (\<lambda>k s. Ret (Inr (), AList.delete k s)),
     cl_txn = (\<lambda>ops s. if distinct (map cmd_key ops) then Ret (Inr (), fold run_cmd ops s)
        else Ret (Inl (ExtError ''duplicate key given in txn request''), s)),
     cl_new_session = (\<lambda>s. Ret (Inr 1, s)),
     cl_lock = (\<lambda>sid p s. Ret (Inr (), AList.update (lock_key sid etcdPrefix) [] s)),
     cl_unlock = (\<lambda>sid p s. Ret (Inr (), AList.delete (lock_key sid etcdPrefix) s)),
     cl_close_session = (\<lambda>sid s. Ret (Inr (), AList.delete (lock_key sid etcdPrefix) s)),
     cl_close = (\<lambda>s. Ret (Inr (), s)),
     cl_view = map_of\<rparr>"

definition mem_store :: "bytes gomap \<Rightarrow> bytes gomap etcd_store" where
  "mem_store s = \<lparr>es_client = mem_client, es_server = s, es_range = id\<rparr>"

lemma map_of_run_cmds: "map_of (fold run_cmd ops s) = fold apply_cmd ops (map_of s)"
proof (induction ops arbitrary: s)
  case (Cons op ops)
  have "map_of (run_cmd op s) = apply_cmd op (map_of s)" by (cases op) simp_all
  with Cons show ?case by simp
qed simp

lemma clearjunk_prefix:
  "distinct (map fst [kv \<leftarrow> AList.clearjunk s. HasPrefix (fst kv) p])"
  "fst ` {kv \<in> set (AList.clearjunk s). HasPrefix (fst kv) p} = {k \<in> dom (map_of s). HasPrefix k p}"
proof -
  show "distinct (map fst [kv \<leftarrow> AList.clearjunk s. HasPrefix (fst kv) p])"
    using distinct_clearjunk [of s] by (simp add: distinct_map_filter)
  have "fst ` set (AList.clearjunk s) = dom (map_of s)"
    by (metis dom_clearjunk dom_map_of_conv_image_fst)
  then show "fst ` {kv \<in> set (AList.clearjunk s). HasPrefix (fst kv) p} = {k \<in> dom (map_of s). HasPrefix k p}"
    by (auto simp del: map_of_clearjunk)
qed

lemma lock_area_upd: "lock_area m (m(lock_key sid etcdPrefix := x))"
  by (auto simp: lock_area_def lock_key_def HasPrefix_iff)

lemma mem_client_laws: "etcd_laws mem_client"
  unfolding etcd_laws_def effect_def
  by (simp add: mem_client_def Let_def map_of_run_cmds clearjunk_prefix lock_area_upd)

lemma mem_store_wf [simp]: "etcd_wf (mem_store s)"
  by (simp add: etcd_wf_def mem_store_def mem_client_laws)

section \<open>Buffered writes\<close>

definition etcd_tx_wf :: "etcd_tx \<Rightarrow> bool" where
  "etcd_tx_wf t \<longleftrightarrow> gm_wf (et_insert t) \<and> gm_wf (et_delete t)"

text \<open>What a transaction shows of a store that holds \<open>m\<close>.\<close>

definition overlay :: "etcd_tx \<Rightarrow> (string \<rightharpoonup> bytes) \<Rightarrow> (string \<rightharpoonup> bytes)" where
  "overlay t m k =
     (case map_of (et_insert t) k of Some v \<Rightarrow> Some v | None \<Rightarrow> if map_of (et_delete t) k = None then m k else None)"

fun etcd_tx_write :: "tx_write \<Rightarrow> etcd_tx \<Rightarrow> go_error + etcd_tx" where
  "etcd_tx_write (WPut k v) t = etcd_tx_Put t k v"
| "etcd_tx_write (WDelete k) t = etcd_tx_Delete t k"

fun etcd_tx_run :: "tx_write list \<Rightarrow> etcd_tx \<Rightarrow> go_error + etcd_tx" where
  "etcd_tx_run [] t = Inr t"
| "etcd_tx_run (x # xs) t = (case etcd_tx_write x t of Inl e \<Rightarrow> Inl e | Inr t' \<Rightarrow> etcd_tx_run xs t')"

lemma etcd_tx_write_ongoing:
  assumes "et_ongoing t" "etcd_tx_wf t"
  shows "\<exists>t'. etcd_tx_write x t = Inr t' \<and> et_ongoing t' \<and> etcd_tx_wf t' \<and> et_session t' = et_session t
    \<and> (\<forall>m. overlay t' m = apply_write x (overlay t m))"
  using assms
  by (cases x) (auto simp: etcd_tx_Put_def etcd_tx_Delete_def etcd_tx_wf_def overlay_def fun_eq_iff split: option.splits)

lemma etcd_tx_run_ongoing:
  assumes "et_ongoing t" "etcd_tx_wf t"
  shows "\<exists>t'. etcd_tx_run ws t = Inr t' \<and> et_ongoing t' \<and> etcd_tx_wf t' \<and> et_session t' = et_session t
    \<and> (\<forall>m. overlay t' m = apply_writes ws (overlay t m))"
  using assms
proof (induction ws arbitrary: t)
  case (Cons x ws)
  obtain t1 where t1: "etcd_tx_write x t = Inr t1" "et_ongoing t1" "etcd_tx_wf t1" "et_session t1 = et_session t"
    "\<forall>m. overlay t1 m = apply_write x (overlay t m)"
    using etcd_tx_write_ongoing [OF Cons.prems] by blast
  with Cons.IH [OF t1(2,3)] show ?case by auto
qed simp

lemma etcd_tx_Get_run:
  assumes "etcd_wf w" "et_ongoing t"
  shows "\<exists>r s'. etcd_tx_Get t k w = Ret (r, w\<lparr>es_server := s'\<rparr>) \<and> etcd_kv (w\<lparr>es_server := s'\<rparr>) = etcd_kv w
    \<and> (r = (case overlay t (etcd_kv w) k of Some v \<Rightarrow> Inr v | None \<Rightarrow> Inl (ValueUnsetError k))
       \<or> (\<exists>e. r = Inl e \<and> \<not> as_value_unset e))"
proof (cases "map_of (et_insert t) k = None \<and> map_of (et_delete t) k = None")
  case True
  then have "etcd_tx_Get t k w = etcd_Get k w" "overlay t (etcd_kv w) k = etcd_kv w k"
    using assms(2) by (simp_all add: etcd_tx_Get_def overlay_def)
  then show ?thesis by (cases rule: etcd_Get_run [OF assms(1), of k]) auto
next
  case False
  then show ?thesis using assms(2)
    by (intro exI [of _ "case overlay t (etcd_kv w) k of Some v \<Rightarrow> Inr v | None \<Rightarrow> Inl (ValueUnsetError k)"]
        exI [of _ "es_server w"]) (auto simp: etcd_tx_Get_def overlay_def io_defs split: option.splits)
qed

section \<open>Commit\<close>

fun cmd_val :: "etcd_cmd \<Rightarrow> bytes option" where
  "cmd_val (OpPut k v) = Some v"
| "cmd_val (OpDelete k) = None"

lemma fold_apply_cmd:
  assumes "distinct (map cmd_key ops)"
  shows "op \<in> set ops \<Longrightarrow> fold apply_cmd ops m (cmd_key op) = cmd_val op"
    and "x \<notin> cmd_key ` set ops \<Longrightarrow> fold apply_cmd ops m x = m x"
proof -
  have upd: "apply_cmd c m x = (if x = cmd_key c then cmd_val c else m x)" for c m x by (cases c) auto
  show frame: "x \<notin> cmd_key ` set ops \<Longrightarrow> fold apply_cmd ops m x = m x" for x m ops
    by (induction ops arbitrary: m) (auto simp: upd)
  show "op \<in> set ops \<Longrightarrow> fold apply_cmd ops m (cmd_key op) = cmd_val op"
    using assms
  proof (induction ops arbitrary: m)
    case (Cons c ops)
    show ?case
    proof (cases "op \<in> set ops")
      case True
      with Cons show ?thesis by simp
    next
      case False
      with Cons.prems have "c = op" "cmd_key op \<notin> cmd_key ` set ops" by auto
      with frame [of "cmd_key op" ops "apply_cmd op m"] upd [of op m "cmd_key op"] show ?thesis by simp
    qed
  qed simp
qed

lemma commit_ops_keys: "map cmd_key (commit_ops ro t) =
    map ((@) etcdPrefix) (range_keys ro (et_insert t) @ [k \<leftarrow> range_keys ro (et_delete t). map_of (et_insert t) k = None])"
proof -
  have "map cmd_key [OpDelete (etcdPrefix @ k). k \<leftarrow> ks, P k] = map ((@) etcdPrefix) [k \<leftarrow> ks. P k]" for ks P
    by (induction ks) simp_all
  then show ?thesis by (simp add: commit_ops_def comp_def)
qed

lemma commit_ops_distinct:
  assumes "is_range_order ro" "etcd_tx_wf t"
  shows "distinct (map cmd_key (commit_ops ro t))"
  unfolding commit_ops_keys using assms
  by (auto simp: distinct_map inj_on_def etcd_tx_wf_def distinct_range_keys set_range_keys domIff)

lemma commit_ops_effect:
  assumes "is_range_order ro" "etcd_tx_wf t"
  shows "fold apply_cmd (commit_ops ro t) m (etcdPrefix @ k) = overlay t (\<lambda>k. m (etcdPrefix @ k)) k"
proof -
  note d = commit_ops_distinct [OF assms]
  have keys: "etcdPrefix @ k \<in> cmd_key ` set (commit_ops ro t) \<longleftrightarrow>
      map_of (et_insert t) k \<noteq> None \<or> map_of (et_delete t) k \<noteq> None"
    unfolding set_map [symmetric] commit_ops_keys using assms(1) by (auto simp: set_range_keys domIff)
  show ?thesis
  proof (cases "map_of (et_insert t) k")
    case (Some v)
    then have "OpPut (etcdPrefix @ k) v \<in> set (commit_ops ro t)"
      using assms(1) by (force simp: commit_ops_def set_range_keys image_iff)
    from fold_apply_cmd(1) [OF d this] Some show ?thesis by (simp add: overlay_def)
  next
    case None
    show ?thesis
    proof (cases "map_of (et_delete t) k")
      case None': None
      with None keys fold_apply_cmd(2) [OF d] show ?thesis by (simp add: overlay_def)
    next
      case (Some u)
      then have "OpDelete (etcdPrefix @ k) \<in> set (commit_ops ro t)"
        using assms(1) None by (force simp: commit_ops_def set_range_keys)
      from fold_apply_cmd(1) [OF d this] Some None show ?thesis by (simp add: overlay_def)
    qed
  qed
qed


text \<open>Sending the operations of a commit.\<close>

lemma commit_txn_run:
  assumes "etcd_wf w" "etcd_tx_wf t"
  obtains r s1 where "call (\<lambda>c. cl_txn c (commit_ops (es_range w) t)) w = Ret (r, w\<lparr>es_server := s1\<rparr>)"
    "(\<forall>k. etcd_kv (w\<lparr>es_server := s1\<rparr>) k = overlay t (etcd_kv w) k) \<or> (etcd_kv (w\<lparr>es_server := s1\<rparr>) = etcd_kv w \<and> (\<exists>e. r = Inl e))"
proof -
  let ?ops = "commit_ops (es_range w) t"
  let ?view = "cl_view (es_client w)"
  have ro: "is_range_order (es_range w)" using assms(1) by (simp add: etcd_wf_def)
  obtain r s1 where r: "call (\<lambda>c. cl_txn c ?ops) w = Ret (r, w\<lparr>es_server := s1\<rparr>)"
    "(?view s1 = fold apply_cmd ?ops (?view (es_server w)) \<and> distinct (map cmd_key ?ops))
     \<or> (?view s1 = ?view (es_server w) \<and> (\<exists>e. r = Inl e))"
    using call_effect [of w "\<lambda>c. cl_txn c ?ops", OF etcd_lawsD(5) [OF assms(1)]] by (elim exE conjE)
  have ek: "etcd_kv w = (\<lambda>k. ?view (es_server w) (etcdPrefix @ k))" by (simp add: etcd_kv_def fun_eq_iff)
  have ek1: "etcd_kv (w\<lparr>es_server := s1\<rparr>) = (\<lambda>k. ?view s1 (etcdPrefix @ k))" by (simp add: etcd_kv_def fun_eq_iff)
  have "(\<forall>k. etcd_kv (w\<lparr>es_server := s1\<rparr>) k = overlay t (etcd_kv w) k) \<or> (etcd_kv (w\<lparr>es_server := s1\<rparr>) = etcd_kv w \<and> (\<exists>e. r = Inl e))"
    using r(2) commit_ops_effect [OF ro assms(2), of "?view (es_server w)"] unfolding ek ek1 by auto
  with r(1) that show thesis by blast
qed

text \<open>The keys that are not below the slash of etcd's lock.\<close>

definition plain_key :: "string \<Rightarrow> bool" where
  "plain_key k \<longleftrightarrow> \<not> HasPrefix k ''/''"

lemma lock_area_kv:
  assumes "lock_area (cl_view (es_client w) (es_server w)) (cl_view (es_client w) s')" "plain_key k"
  shows "etcd_kv (w\<lparr>es_server := s'\<rparr>) k = etcd_kv w k"
  using assms by (auto simp: lock_area_def etcd_kv_def plain_key_def HasPrefix_iff)

text \<open>Giving the session and the lock back, as a commit and a rollback do.\<close>

lemma etcd_release_run:
  assumes "etcd_wf w"
  shows "\<exists>s'. bindR (call (\<lambda>c. cl_close_session c sess)) (\<lambda>_. bindE (call (\<lambda>c. cl_unlock c sess etcdPrefix)) (\<lambda>_. ret x)) w
      = Ret (Inr x, w\<lparr>es_server := s'\<rparr>)
    \<and> (\<forall>k. plain_key k \<longrightarrow> etcd_kv (w\<lparr>es_server := s'\<rparr>) k = etcd_kv w k)"
proof -
  obtain rc s2 where c: "call (\<lambda>c. cl_close_session c sess) w = Ret (rc, w\<lparr>es_server := s2\<rparr>)"
    "lock_area (cl_view (es_client w) (es_server w)) (cl_view (es_client w) s2)"
    using call_effect [of w "\<lambda>c. cl_close_session c sess", OF etcd_lawsD(9) [OF assms]] by (elim exE conjE)
  let ?w2 = "w\<lparr>es_server := s2\<rparr>"
  have wf2: "etcd_wf ?w2" using assms by simp
  obtain ru s3 where u: "call (\<lambda>c. cl_unlock c sess etcdPrefix) ?w2 = Ret (ru, ?w2\<lparr>es_server := s3\<rparr>)"
    "lock_area (cl_view (es_client ?w2) (es_server ?w2)) (cl_view (es_client ?w2) s3)" "ru = Inr ()"
    using call_effect [of ?w2 "\<lambda>c. cl_unlock c sess etcdPrefix", OF etcd_lawsD(8) [OF wf2]] by (elim exE conjE)
  have "etcd_kv (w\<lparr>es_server := s3\<rparr>) k = etcd_kv w k" if "plain_key k" for k
    using lock_area_kv [OF u(2) that] lock_area_kv [OF c(2) that] by simp
  with c(1) u(1,3) show ?thesis by (intro exI [of _ s3]) (simp add: bindE_def bindR_def ret_def)
qed

text \<open>A commit sends its operations, then gives the session and the lock back.\<close>

lemma etcd_tx_Commit_run:
  assumes "etcd_wf w" "et_ongoing t" "etcd_tx_wf t"
  shows "\<exists>r w'. etcd_tx_Commit t w = Ret (r, w') \<and> etcd_wf w'
    \<and> (r = Inr (t\<lparr>et_ongoing := False\<rparr>) \<or> (\<exists>e. r = Inl e))
    \<and> ((\<forall>k. plain_key k \<longrightarrow> etcd_kv w' k = overlay t (etcd_kv w) k)
       \<or> ((\<exists>e. r = Inl e) \<and> (\<forall>k. plain_key k \<longrightarrow> etcd_kv w' k = etcd_kv w k)))"
proof -
  obtain r s1 where r: "call (\<lambda>c. cl_txn c (commit_ops (es_range w) t)) w = Ret (r, w\<lparr>es_server := s1\<rparr>)"
    and kv1: "(\<forall>k. etcd_kv (w\<lparr>es_server := s1\<rparr>) k = overlay t (etcd_kv w) k) \<or> (etcd_kv (w\<lparr>es_server := s1\<rparr>) = etcd_kv w \<and> (\<exists>e. r = Inl e))"
    by (rule commit_txn_run [OF assms(1,3)])
  let ?w1 = "w\<lparr>es_server := s1\<rparr>"
  have wf1: "etcd_wf ?w1" using assms(1) by simp
  show ?thesis
  proof (cases r)
    case (Inl e)
    then have "etcd_tx_Commit t w = Ret (Inl e, ?w1)"
      using assms(2) r by (simp add: etcd_tx_Commit_def io_simps gets_def)
    then show ?thesis using kv1 wf1 Inl by (intro exI [of _ "Inl e"] exI [of _ ?w1]) auto
  next
    case (Inr x)
    obtain s3 where u: "bindR (call (\<lambda>c. cl_close_session c (et_session t))) (\<lambda>_. bindE (call (\<lambda>c. cl_unlock c (et_session t) etcdPrefix))
        (\<lambda>_. ret (t\<lparr>et_ongoing := False\<rparr>))) ?w1 = Ret (Inr (t\<lparr>et_ongoing := False\<rparr>), w\<lparr>es_server := s3\<rparr>)"
      "\<forall>k. plain_key k \<longrightarrow> etcd_kv (w\<lparr>es_server := s3\<rparr>) k = etcd_kv ?w1 k"
      using etcd_release_run [OF wf1, of "et_session t" "t\<lparr>et_ongoing := False\<rparr>"] by auto
    from Inr r u(1) have "etcd_tx_Commit t w = Ret (Inr (t\<lparr>et_ongoing := False\<rparr>), w\<lparr>es_server := s3\<rparr>)"
      using assms(2) by (simp add: etcd_tx_Commit_def io_simps gets_def)
    moreover have "etcd_kv ?w1 k = overlay t (etcd_kv w) k" for k using kv1 Inr by auto
    ultimately show ?thesis using u(2) assms(1) by auto
  qed
qed

text \<open>
  C5: An etcd transaction stores what its writes mean. After \<^verbatim>\<open>BeginTransaction\<close>, any sequence of \<^verbatim>\<open>Put\<close> and
  \<^verbatim>\<open>Delete\<close> calls is accepted; a \<^verbatim>\<open>Get\<close> of the transaction answers as if they had been applied in order (or
  passes on an error of the client); and \<^verbatim>\<open>Commit\<close> applies all of them in order, or reports an error and has
  applied all or none. Keys below the slash that etcd's own lock uses are left aside.
\<close>

theorem etcd_transaction_applies_writes:
  assumes "etcd_wf w" "etcd_BeginTransaction w = Ret (Inr t0, w0)"
  shows "\<exists>t r w'. etcd_tx_run ws t0 = Inr t \<and> etcd_tx_Commit t w0 = Ret (r, w')
    \<and> (\<forall>k. \<exists>rg wg. etcd_tx_Get t k w0 = Ret (rg, wg)
         \<and> (rg = (case apply_writes ws (etcd_kv w0) k of Some v \<Rightarrow> Inr v | None \<Rightarrow> Inl (ValueUnsetError k))
            \<or> (\<exists>e. rg = Inl e \<and> \<not> as_value_unset e)))
    \<and> ((\<forall>k. \<not> HasPrefix k ''/'' \<longrightarrow> etcd_kv w' k = apply_writes ws (etcd_kv w0) k)
       \<or> ((\<exists>e. r = Inl e) \<and> (\<forall>k. \<not> HasPrefix k ''/'' \<longrightarrow> etcd_kv w' k = etcd_kv w0 k)))"
proof -
  have t0: "et_ongoing t0" "etcd_tx_wf t0" "\<And>m. overlay t0 m = m"
    and wf: "etcd_wf w0"
    using assms unfolding etcd_BeginTransaction_def
    by (auto elim!: bindE_RetE simp: io_defs etcd_tx_wf_def overlay_def fun_eq_iff call_def split: outcome.splits)
  obtain t where t: "etcd_tx_run ws t0 = Inr t" "et_ongoing t" "etcd_tx_wf t"
    "\<forall>m. overlay t m = apply_writes ws (overlay t0 m)"
    using etcd_tx_run_ongoing [OF t0(1,2)] by blast
  have ov: "overlay t (etcd_kv w0) = apply_writes ws (etcd_kv w0)" using t(4) t0(3) by simp
  show ?thesis
    using t(1) etcd_tx_Commit_run [OF wf t(2,3), unfolded plain_key_def] etcd_tx_Get_run [OF wf t(2)] unfolding ov by blast
qed

theorem etcd_transaction_applies_writes_witness:
  "\<exists>t0 w0 t r w'. etcd_BeginTransaction (mem_store [(etcdPrefix @ ''a'', ''1'')]) = Ret (Inr t0, w0)
     \<and> etcd_tx_run [WPut ''b'' ''2'', WDelete ''a''] t0 = Inr t \<and> etcd_tx_Commit t w0 = Ret (r, w')"
proof -
  let ?w = "mem_store [(etcdPrefix @ ''a'', ''1'')]"
  have "etcd_BeginTransaction ?w =
      Ret (Inr \<lparr>et_insert = [], et_delete = [], et_ongoing = True, et_session = 1\<rparr>,
           mem_store [(etcdPrefix @ ''a'', ''1''), (lock_key 1 etcdPrefix, [])])"
    by (simp add: etcd_BeginTransaction_def call_def mem_store_def mem_client_def io_simps io_defs lock_key_def
        etcdPrefix_def)
  from etcd_transaction_applies_writes [OF mem_store_wf this, of "[WPut ''b'' ''2'', WDelete ''a'']"] this
  show ?thesis by blast
qed


definition open_tx :: etcd_tx where
  "open_tx = \<lparr>et_insert = [(''a'', ''2'')], et_delete = [], et_ongoing = True, et_session = 1\<rparr>"


section \<open>Iterators\<close>

text \<open>
  The iterator of an etcd transaction returns a key twice when the transaction overwrites a key that the
  server already holds (and has not deleted it before): once from the server and once from the buffered writes.
\<close>

theorem etcd_tx_Iterator_duplicates:
  assumes "etcd_wf w" "etcd_tx_Iterator t pre w = Ret (Inr it, w')" "etcd_tx_wf t"
    and "k \<in> dom (etcd_kv w)" "k \<in> dom (map_of (et_insert t))" "k \<notin> dom (map_of (et_delete t))" "HasPrefix k pre"
  shows "count_list (it_keys it) k = 2"
proof -
  let ?m = "cl_view (es_client w) (es_server w)"
  obtain r s' where r: "call (\<lambda>c. cl_get_prefix c (etcdPrefix @ pre)) w = Ret (r, w\<lparr>es_server := s'\<rparr>)"
    "cl_view (es_client w) s' = ?m"
    "\<forall>x. r = Inr x \<longrightarrow> distinct (map fst (resp_kvs x)) \<and> set (map fst (resp_kvs x)) = {k \<in> dom ?m. HasPrefix k (etcdPrefix @ pre)}"
    using call_effect [of w "\<lambda>c. cl_get_prefix c (etcdPrefix @ pre)", OF etcd_lawsD(2) [OF assms(1)]] by (elim exE conjE)
  obtain x where x: "r = Inr x"
    using assms(2) r(1) unfolding etcd_tx_Iterator_def by (cases r) (auto simp: io_simps)
  have ks: "distinct (map fst (resp_kvs x))" "set (map fst (resp_kvs x)) = {k \<in> dom ?m. HasPrefix k (etcdPrefix @ pre)}"
    using r(3) x by auto
  let ?trim = "map (\<lambda>k. TrimPrefix k etcdPrefix) (map fst (resp_kvs x))"
  let ?stored = "filter (\<lambda>k. map_of (et_delete t) k = None) ?trim"
  let ?ins = "filter (\<lambda>k. HasPrefix k pre) (range_keys (es_range w) (et_insert t))"
  have it: "it_keys it = ?stored @ ?ins"
    using assms(2) r(1) x unfolding etcd_tx_Iterator_def by (auto simp: io_simps io_defs Let_def comp_def)
  have "k \<in> set ?trim" using trim_keys(2) [OF ks] assms(4,7) by (simp add: etcd_kv_def dom_def)
  moreover have "map_of (et_delete t) k = None" using assms(6) by (simp only: domIff not_not)
  ultimately have a: "k \<in> set ?stored" "distinct ?stored"
    using trim_keys(1) [OF ks] by (simp_all only: set_filter mem_Collect_eq distinct_filter simp_thms)
  have ro: "is_range_order (es_range w)" using assms(1) by (simp add: etcd_wf_def)
  have b: "k \<in> set ?ins" "distinct ?ins"
    using assms(3,5,7) ro by (auto simp: set_range_keys etcd_tx_wf_def intro!: distinct_filter distinct_range_keys)
  have once: "k \<in> set xs \<Longrightarrow> distinct xs \<Longrightarrow> count_list xs k = 1" for xs :: "string list"
    by (induction xs) (auto simp: count_list_0_iff)
  show ?thesis using once [OF a] once [OF b] by (simp add: it)
qed

theorem etcd_tx_Iterator_duplicates_witness:
  "\<exists>it w'. etcd_tx_Iterator open_tx ''a'' (mem_store [(etcdPrefix @ ''a'', ''1'')]) = Ret (Inr it, w')
     \<and> count_list (it_keys it) ''a'' = 2"
proof -
  let ?w = "mem_store [(etcdPrefix @ ''a'', ''1'')]"
  have run: "etcd_tx_Iterator open_tx ''a'' ?w = Ret (Inr \<lparr>it_idx = 0, it_keys = [''a'', ''a'']\<rparr>, ?w)"
    by (simp add: etcd_tx_Iterator_def open_tx_def call_def mem_store_def mem_client_def io_simps io_defs
        range_keys_def HasPrefix_def TrimPrefix_def etcdPrefix_def Let_def bindE_def bindR_def)
  have "etcd_tx_wf open_tx" "''a'' \<in> dom (etcd_kv ?w)" "''a'' \<in> dom (map_of (et_insert open_tx))"
    "''a'' \<notin> dom (map_of (et_delete open_tx))" "HasPrefix ''a'' ''a''"
    by (simp_all add: etcd_tx_wf_def open_tx_def gm_wf_def etcd_kv_def mem_store_def mem_client_def HasPrefix_def domIff)
  from etcd_tx_Iterator_duplicates [OF mem_store_wf run this] run show ?thesis by blast
qed

text \<open>
  \<^verbatim>\<open>Iterator\<close> of the etcd store never returns the client's error: when the request fails, the call panics
  on the nil response.
\<close>

theorem etcd_Iterator_panics_on_error:
  assumes "cl_get_prefix (es_client w) (etcdPrefix @ pre) (es_server w) = Ret (Inl e, s')"
  shows "etcd_Iterator pre w = Panic ''invalid memory address or nil pointer dereference''"
  using assms by (simp add: etcd_Iterator_def call_def bindR_def crash_def)

definition down_client :: "unit etcd_client" where
  "down_client = \<lparr>
     cl_get = (\<lambda>k. throw (ExtError ''unavailable'')), cl_get_prefix = (\<lambda>p. throw (ExtError ''unavailable'')),
     cl_put = (\<lambda>k v. throw (ExtError ''unavailable'')), cl_delete = (\<lambda>k. throw (ExtError ''unavailable'')),
     cl_txn = (\<lambda>ops. throw (ExtError ''unavailable'')), cl_new_session = throw (ExtError ''unavailable''),
     cl_lock = (\<lambda>sid p. throw (ExtError ''unavailable'')), cl_unlock = (\<lambda>sid p. ret ()),
     cl_close_session = (\<lambda>sid. ret ()), cl_close = ret (), cl_view = (\<lambda>_. Map.empty)\<rparr>"

theorem etcd_Iterator_panics_on_error_witness:
  "etcd_Iterator ''uuid-'' \<lparr>es_client = down_client, es_server = (), es_range = id\<rparr> =
     Panic ''invalid memory address or nil pointer dereference''"
  by (rule etcd_Iterator_panics_on_error [of _ _ "ExtError ''unavailable''" "()"])
    (simp add: down_client_def throw_def)

section \<open>The contract of transactions\<close>

definition etcd_txi :: "('s etcd_store, etcd_tx) tx_iface" where
  "etcd_txi = \<lparr>TBegin = etcd_BeginTransaction, TGet = etcd_tx_Get, TPut = (\<lambda>t k v. lift_result (etcd_tx_Put t k v)),
     TDelete = (\<lambda>t k. lift_result (etcd_tx_Delete t k)), TIterator = etcd_tx_Iterator, TCommit = etcd_tx_Commit,
     TRollback = etcd_tx_Rollback\<rparr>"

definition etcd_opened :: "etcd_tx \<Rightarrow> 's etcd_store \<Rightarrow> bool" where
  "etcd_opened t w \<longleftrightarrow> et_ongoing t \<and> etcd_tx_wf t"

definition etcd_view :: "etcd_tx \<Rightarrow> 's etcd_store \<Rightarrow> (string \<rightharpoonup> bytes)" where
  "etcd_view t w = overlay t (etcd_kv w)"

lemma etcd_begin_run:
  assumes "etcd_wf w"
  shows "\<exists>r s'. etcd_BeginTransaction w = Ret (r, w\<lparr>es_server := s'\<rparr>) \<and> (\<forall>k. plain_key k \<longrightarrow> etcd_kv (w\<lparr>es_server := s'\<rparr>) k = etcd_kv w k)
    \<and> (\<forall>t. r = Inr t \<longrightarrow> et_ongoing t \<and> et_insert t = [] \<and> et_delete t = [])"
proof -
  obtain r s1 where n: "call cl_new_session w = Ret (r, w\<lparr>es_server := s1\<rparr>)"
    "cl_view (es_client w) s1 = cl_view (es_client w) (es_server w)"
    using call_effect [of w cl_new_session, OF etcd_lawsD(6) [OF assms]] by (elim exE conjE)
  have kv1: "etcd_kv (w\<lparr>es_server := s1\<rparr>) = etcd_kv w" by (simp add: etcd_kv_def n(2) fun_eq_iff)
  show ?thesis
  proof (cases r)
    case (Inl e)
    with n(1) kv1 show ?thesis by (intro exI [of _ "Inl e"] exI [of _ s1]) (simp add: etcd_BeginTransaction_def bindE_def bindR_def throw_def)
  next
    case (Inr sess)
    let ?w1 = "w\<lparr>es_server := s1\<rparr>"
    have wf1: "etcd_wf ?w1" using assms by simp
    obtain q s2 where l: "call (\<lambda>c. cl_lock c sess etcdPrefix) ?w1 = Ret (q, ?w1\<lparr>es_server := s2\<rparr>)"
      "lock_area (cl_view (es_client ?w1) (es_server ?w1)) (cl_view (es_client ?w1) s2)"
      using call_effect [of ?w1 "\<lambda>c. cl_lock c sess etcdPrefix", OF etcd_lawsD(7) [OF wf1]] by (elim exE conjE)
    have kv2: "etcd_kv (w\<lparr>es_server := s2\<rparr>) k = etcd_kv w k" if "plain_key k" for k
      using lock_area_kv [OF l(2) that] kv1 by simp
    from n(1) l(1) Inr kv2 show ?thesis
      by (intro exI [of _ "map_sum id (\<lambda>_. \<lparr>et_insert = [], et_delete = [], et_ongoing = True, et_session = sess\<rparr>) q"] exI [of _ s2])
        (cases q, simp_all add: etcd_BeginTransaction_def bindE_def bindR_def io_defs)
  qed
qed

lemma etcd_rollback_run:
  assumes "etcd_wf w"
  shows "\<exists>s'. etcd_tx_Rollback t w = Ret (Inr (t\<lparr>et_ongoing := False\<rparr>), w\<lparr>es_server := s'\<rparr>)
    \<and> (\<forall>k. plain_key k \<longrightarrow> etcd_kv (w\<lparr>es_server := s'\<rparr>) k = etcd_kv w k)"
proof (cases "et_ongoing t")
  case True
  then show ?thesis using etcd_release_run [OF assms] by (simp add: etcd_tx_Rollback_def)
next
  case False
  then show ?thesis by (intro exI [of _ "es_server w"]) (simp add: etcd_tx_Rollback_def ret_def)
qed

lemma etcd_tx_write_run:
  assumes "etcd_opened t w"
  shows "\<exists>t'. write_tx etcd_txi x t w = Ret (Inr t', w) \<and> etcd_opened t' w \<and> etcd_view t' w = apply_write x (etcd_view t w)"
proof -
  have "write_tx etcd_txi x t w = Ret (etcd_tx_write x t, w)" by (cases x) (simp_all add: etcd_txi_def lift_result_def)
  then show ?thesis using etcd_tx_write_ongoing [of t x] assms by (auto simp: etcd_opened_def etcd_view_def)
qed

interpretation etcd_txs: transactions etcd_txi etcd_kv etcd_wf etcd_opened etcd_view plain_key answers
proof
  have ops: "TBegin etcd_txi = etcd_BeginTransaction" "TGet etcd_txi = etcd_tx_Get" "TCommit etcd_txi = etcd_tx_Commit"
    "TRollback etcd_txi = etcd_tx_Rollback" by (simp_all add: etcd_txi_def)
  fix w :: "'s etcd_store" and t k x e w'
  assume wf: "etcd_wf w"
  show "etcd_wf w' \<and> etcd_opened t w' \<and> (\<forall>k. plain_key k \<longrightarrow> etcd_kv w' k = etcd_kv w k \<and> etcd_view t w' k = etcd_kv w k)"
    if "TBegin etcd_txi w = Ret (Inr t, w')"
    using etcd_begin_run [OF wf] that wf unfolding ops by (auto simp: etcd_opened_def etcd_view_def etcd_tx_wf_def overlay_def)
  show "\<forall>k. plain_key k \<longrightarrow> etcd_kv w' k = etcd_kv w k" if "TBegin etcd_txi w = Ret (Inl e, w')"
    using etcd_begin_run [OF wf] that unfolding ops by auto
  assume op: "etcd_opened t w"
  show "\<exists>r w'. TGet etcd_txi t k w = Ret (r, w') \<and> etcd_wf w' \<and> etcd_opened t w' \<and> etcd_view t w' = etcd_view t w
      \<and> etcd_kv w' = etcd_kv w \<and> answers r (found (etcd_view t w) k)"
  proof -
    obtain r s' where "etcd_tx_Get t k w = Ret (r, w\<lparr>es_server := s'\<rparr>)" "etcd_kv (w\<lparr>es_server := s'\<rparr>) = etcd_kv w"
      "r = found (etcd_view t w) k \<or> (\<exists>e. r = Inl e \<and> \<not> as_value_unset e)"
      using etcd_tx_Get_run [OF wf, of t k] op by (auto simp: etcd_opened_def etcd_view_def found_def)
    with wf op show ?thesis unfolding ops by (simp add: etcd_opened_def etcd_view_def answers_def)
  qed
  show "\<exists>t' w'. write_tx etcd_txi x t w = Ret (Inr t', w') \<and> etcd_wf w' \<and> etcd_opened t' w'
      \<and> etcd_view t' w' = apply_write x (etcd_view t w) \<and> etcd_kv w' = etcd_kv w" using etcd_tx_write_run [OF op] wf by blast
  show "\<exists>r w'. TCommit etcd_txi t w = Ret (r, w') \<and> etcd_wf w'
      \<and> ((\<forall>k. plain_key k \<longrightarrow> etcd_kv w' k = etcd_view t w k) \<or> (\<exists>e. r = Inl e) \<and> (\<forall>k. plain_key k \<longrightarrow> etcd_kv w' k = etcd_kv w k))"
    using etcd_tx_Commit_run [OF wf, of t] op unfolding ops etcd_opened_def etcd_view_def by blast
  show "\<exists>r w'. TRollback etcd_txi t w = Ret (r, w') \<and> etcd_wf w' \<and> (\<forall>k. plain_key k \<longrightarrow> etcd_kv w' k = etcd_kv w k)"
    using etcd_rollback_run [OF wf, of t] wf unfolding ops by auto
qed

end
