(* ===== verification/Transactions.thy ===== *)
theory Transactions
  imports Std_Correct Etcd_Correct
begin

text \<open>
  The two implementations of the interface \<^verbatim>\<open>Transaction\<close> against one reference: a whole transaction, from \<^verbatim>\<open>BeginTransaction\<close>
  over any reads and writes to \<^verbatim>\<open>Commit\<close> or \<^verbatim>\<open>Rollback\<close>, behaves as the same calls on a plain map.
\<close>

text \<open>
  C4: Both backends implement the reference transaction. In memory, while no lock is held, every transaction returns, answers its reads
  exactly as the reference, has stored what the reference stores if it was committed and nothing if it was rolled back, and
  holds no lock afterwards. Over etcd, whatever the client library reports, all writes have happened or none; a transaction
  that returns answered each read as the reference or with an error of the library, and a commit that returns without an error
  has stored what the reference stores.
\<close>

theorem transactions_refine_reference:
  shows "(std_wf s \<and> std_free s \<longrightarrow> (\<exists>s'. transact std_txi xs c s = Ret (Inr (fst (spec_tx xs (std_kv s))), s') \<and> std_free s'
        \<and> std_kv s' = (if c then snd (spec_tx xs (std_kv s)) else std_kv s)))
    \<and> (etcd_wf w \<and> (\<forall>x \<in> set xs. plain_key (tx_key x)) \<and> transact etcd_txi xs c w = Ret (r, w') \<longrightarrow>
        ((\<forall>k. plain_key k \<longrightarrow> etcd_kv w' k = etcd_kv w k) \<or> c \<and> (\<forall>k. plain_key k \<longrightarrow> etcd_kv w' k = snd (spec_tx xs (etcd_kv w)) k))
      \<and> (\<forall>as. r = Inr as \<longrightarrow> list_all2 answers as (fst (spec_tx xs (etcd_kv w)))
          \<and> (\<forall>k. plain_key k \<longrightarrow> etcd_kv w' k = (if c then snd (spec_tx xs (etcd_kv w)) k else etcd_kv w k))))"
proof (intro conjI impI)
  assume s: "std_wf s \<and> std_free s"
  then obtain as s' where run: "transact std_txi xs c s = Ret (Inr as, s')" "std_free s'" using std_txs.transact_succeeds by blast
  from std_txs.transact_atomic(2) [OF _ _ run(1), of as] s have "as = fst (spec_tx xs (std_kv s))"
    "std_kv s' = (if c then snd (spec_tx xs (std_kv s)) else std_kv s)" by (auto simp: list.rel_eq fun_eq_iff)
  with run show "\<exists>s'. transact std_txi xs c s = Ret (Inr (fst (spec_tx xs (std_kv s))), s') \<and> std_free s'
    \<and> std_kv s' = (if c then snd (spec_tx xs (std_kv s)) else std_kv s)" by blast
next
  assume w: "etcd_wf w \<and> (\<forall>x \<in> set xs. plain_key (tx_key x)) \<and> transact etcd_txi xs c w = Ret (r, w')"
  then show "(\<forall>k. plain_key k \<longrightarrow> etcd_kv w' k = etcd_kv w k) \<or> c \<and> (\<forall>k. plain_key k \<longrightarrow> etcd_kv w' k = snd (spec_tx xs (etcd_kv w)) k)"
    using etcd_txs.transact_atomic(1) by blast
  from w show "\<forall>as. r = Inr as \<longrightarrow> list_all2 answers as (fst (spec_tx xs (etcd_kv w)))
      \<and> (\<forall>k. plain_key k \<longrightarrow> etcd_kv w' k = (if c then snd (spec_tx xs (etcd_kv w)) k else etcd_kv w k))"
    using etcd_txs.transact_atomic(2) by blast
qed

theorem transactions_refine_reference_witness:
  "\<exists>s' w' as. transact std_txi [TxWrite (WPut ''a'' ''1''), TxGet ''a''] True (NewStdStore id) = Ret (Inr [Inr ''1''], s')
     \<and> transact etcd_txi [TxWrite (WPut ''a'' ''1''), TxGet ''a''] True (mem_store []) = Ret (Inr as, w') \<and> etcd_kv w' ''a'' = Some ''1''"
proof -
  let ?xs = "[TxWrite (WPut ''a'' ''1''), TxGet ''a'']"
  have ok: "std_wf (NewStdStore id) \<and> std_free (NewStdStore id)" by (simp add: NewStdStore_wf)
  have "returns_ok (transact etcd_txi ?xs True (mem_store []))" by code_simp
  then obtain as w' where e: "transact etcd_txi ?xs True (mem_store []) = Ret (Inr as, w')" by (auto simp: returns_ok_iff)
  have plain: "\<forall>x \<in> set ?xs. plain_key (tx_key x)" "plain_key ''a''" by (simp_all add: plain_key_def HasPrefix_def)
  note both = transactions_refine_reference [where xs = ?xs and c = True]
  obtain s' where "transact std_txi ?xs True (NewStdStore id) = Ret (Inr [Inr ''1''], s')"
    using conjunct1 [OF both [where s = "NewStdStore id"]] ok by (auto simp: found_def)
  moreover have "etcd_kv w' ''a'' = Some ''1''"
    using conjunct2 [OF both [where w = "mem_store []" and r = "Inr as" and w' = w']] e plain by simp
  ultimately show ?thesis using e by blast
qed

end
