(* ===== verification/Std_Concurrency.thy ===== *)
theory Std_Concurrency
  imports Std_Store
begin

text \<open>
  Any number of goroutines sharing one in-memory store. Each may hold a transaction; a step is one call of
  one goroutine, and a call that would block is no step of its goroutine. Two ghost fields record the
  history: the writes of every open transaction, and the writes that were committed, in commit order.
  The theorems say that the two mutexes make the transactions serialisable.
\<close>

section \<open>The system\<close>

record txsys =
  sys_store :: std_store
  sys_tx :: "nat \<Rightarrow> std_tx option"
  sys_pending :: "nat \<Rightarrow> tx_write list"
  sys_log :: "tx_write list list"

definition init_sys :: "range_order \<Rightarrow> txsys" where
  "init_sys ro = \<lparr>sys_store = NewStdStore ro, sys_tx = (\<lambda>_. None), sys_pending = (\<lambda>_. []), sys_log = []\<rparr>"

text \<open>What the committed transactions leave when they run one after the other on an empty map.\<close>

definition committed :: "txsys \<Rightarrow> (string \<rightharpoonup> bytes)" where
  "committed \<sigma> = apply_writes (concat (sys_log \<sigma>)) Map.empty"

inductive tx_step :: "txsys \<Rightarrow> txsys \<Rightarrow> bool" where
  tx_begin: "sys_tx \<sigma> c = None \<Longrightarrow> std_BeginTransaction (sys_store \<sigma>) = Ret (Inr t, s') \<Longrightarrow>
     tx_step \<sigma> (\<sigma>\<lparr>sys_store := s', sys_tx := (sys_tx \<sigma>)(c \<mapsto> t), sys_pending := (sys_pending \<sigma>)(c := [])\<rparr>)"
| tx_put: "sys_tx \<sigma> c = Some t \<Longrightarrow> std_tx_Put t k v (sys_store \<sigma>) = Ret (Inr (), s') \<Longrightarrow>
     tx_step \<sigma> (\<sigma>\<lparr>sys_store := s', sys_pending := (sys_pending \<sigma>)(c := sys_pending \<sigma> c @ [WPut k v])\<rparr>)"
| tx_delete: "sys_tx \<sigma> c = Some t \<Longrightarrow> std_tx_Delete t k (sys_store \<sigma>) = Ret (Inr (), s') \<Longrightarrow>
     tx_step \<sigma> (\<sigma>\<lparr>sys_store := s', sys_pending := (sys_pending \<sigma>)(c := sys_pending \<sigma> c @ [WDelete k])\<rparr>)"
| tx_commit: "sys_tx \<sigma> c = Some t \<Longrightarrow> std_tx_Commit t (sys_store \<sigma>) = Ret (Inr t', s') \<Longrightarrow>
     tx_step \<sigma> (\<sigma>\<lparr>sys_store := s', sys_tx := (sys_tx \<sigma>)(c := None), sys_log := sys_log \<sigma> @ [sys_pending \<sigma> c]\<rparr>)"
| tx_rollback: "sys_tx \<sigma> c = Some t \<Longrightarrow> std_tx_Rollback t (sys_store \<sigma>) = Ret (Inr (), s') \<Longrightarrow>
     tx_step \<sigma> (\<sigma>\<lparr>sys_store := s', sys_tx := (sys_tx \<sigma>)(c := None)\<rparr>)"
| store_put: "std_Put k v (sys_store \<sigma>) = Ret (Inr (), s') \<Longrightarrow>
     tx_step \<sigma> (\<sigma>\<lparr>sys_store := s', sys_log := sys_log \<sigma> @ [[WPut k v]]\<rparr>)"
| store_delete: "std_Delete k (sys_store \<sigma>) = Ret (Inr (), s') \<Longrightarrow>
     tx_step \<sigma> (\<sigma>\<lparr>sys_store := s', sys_log := sys_log \<sigma> @ [[WDelete k]]\<rparr>)"
| store_get: "std_Get k (sys_store \<sigma>) = Ret (r, s') \<Longrightarrow> tx_step \<sigma> (\<sigma>\<lparr>sys_store := s'\<rparr>)"
| store_iterator: "std_Iterator p (sys_store \<sigma>) = Ret (ri, s') \<Longrightarrow> tx_step \<sigma> (\<sigma>\<lparr>sys_store := s'\<rparr>)"

abbreviation reachable :: "range_order \<Rightarrow> txsys \<Rightarrow> bool" where
  "reachable ro \<equiv> reach tx_step (init_sys ro)"

section \<open>The invariant\<close>

text \<open>
  The transaction lock is held exactly while one goroutine has an open transaction; that transaction works
  on a map of its own, which holds the committed data with its own writes on top.
\<close>

definition tx_inv :: "txsys \<Rightarrow> bool" where
  "tx_inv \<sigma> \<longleftrightarrow>
     std_wf (sys_store \<sigma>) \<and> \<not> st_mut (sys_store \<sigma>) \<and> std_kv (sys_store \<sigma>) = committed \<sigma>
     \<and> (st_txmut (sys_store \<sigma>) \<longleftrightarrow> (\<exists>c. sys_tx \<sigma> c \<noteq> None))
     \<and> (\<forall>c d. sys_tx \<sigma> c \<noteq> None \<longrightarrow> sys_tx \<sigma> d \<noteq> None \<longrightarrow> c = d)
     \<and> (\<forall>c t. sys_tx \<sigma> c = Some t \<longrightarrow>
           tx_store t \<and> tx_data t \<noteq> st_data (sys_store \<sigma>) \<and> tx_data t < st_next (sys_store \<sigma>)
           \<and> map_of (st_heap (sys_store \<sigma>) (tx_data t)) = apply_writes (sys_pending \<sigma> c) (committed \<sigma>))"

lemma tx_invE:
  assumes "tx_inv \<sigma>"
  shows "std_wf (sys_store \<sigma>)" "\<not> st_mut (sys_store \<sigma>)" "std_kv (sys_store \<sigma>) = committed \<sigma>"
    "st_txmut (sys_store \<sigma>) \<longleftrightarrow> (\<exists>c. sys_tx \<sigma> c \<noteq> None)"
    "sys_tx \<sigma> c \<noteq> None \<Longrightarrow> sys_tx \<sigma> d \<noteq> None \<Longrightarrow> c = d"
    "sys_tx \<sigma> c = Some t \<Longrightarrow> tx_store t \<and> tx_data t \<noteq> st_data (sys_store \<sigma>) \<and> tx_data t < st_next (sys_store \<sigma>)
       \<and> map_of (st_heap (sys_store \<sigma>) (tx_data t)) = apply_writes (sys_pending \<sigma> c) (committed \<sigma>)"
  using assms unfolding tx_inv_def by blast+

lemma tx_inv_init: "is_range_order ro \<Longrightarrow> tx_inv (init_sys ro)"
  using NewStdStore_wf [of ro] NewStdStore_kv [of ro] NewStdStore_free [of ro]
  by (simp add: tx_inv_def init_sys_def committed_def std_free_def)

lemma tx_inv_begin:
  assumes inv: "tx_inv \<sigma>" and run: "std_BeginTransaction (sys_store \<sigma>) = Ret (Inr t, s')"
  shows "tx_inv (\<sigma>\<lparr>sys_store := s', sys_tx := (sys_tx \<sigma>)(c \<mapsto> t), sys_pending := (sys_pending \<sigma>)(c := [])\<rparr>)"
proof -
  note I = tx_invE [OF inv]
  have free: "std_free (sys_store \<sigma>)" using run by (rule std_BeginTransaction_RetD)
  have s': "s' = begun (sys_store \<sigma>)" "t = \<lparr>tx_store = True, tx_data = st_next (sys_store \<sigma>)\<rparr>"
    using run std_BeginTransaction_free [OF I(1) free] by auto
  have none: "sys_tx \<sigma> d = None" for d using I(4) free by (auto simp: std_free_def)
  show ?thesis
    using I none by (auto simp: tx_inv_def s' std_wf_def std_kv_def committed_def)
qed

text \<open>A write of an open transaction touches only that transaction's map.\<close>

lemma tx_inv_write:
  assumes inv: "tx_inv \<sigma>" and t: "sys_tx \<sigma> c = Some t"
    and f: "gm_wf (f (st_heap (sys_store \<sigma>) (tx_data t)))"
      "map_of (f (st_heap (sys_store \<sigma>) (tx_data t))) = apply_write w (map_of (st_heap (sys_store \<sigma>) (tx_data t)))"
  shows "tx_inv (\<sigma>\<lparr>sys_store := (sys_store \<sigma>)\<lparr>st_heap := (st_heap (sys_store \<sigma>))(tx_data t := f (st_heap (sys_store \<sigma>) (tx_data t)))\<rparr>,
                   sys_pending := (sys_pending \<sigma>)(c := sys_pending \<sigma> c @ [w])\<rparr>)"
proof -
  note I = tx_invE [OF inv]
  let ?s = "(sys_store \<sigma>)\<lparr>st_heap := (st_heap (sys_store \<sigma>))(tx_data t := f (st_heap (sys_store \<sigma>) (tx_data t)))\<rparr>"
  have only: "d = c \<and> t' = t" if "sys_tx \<sigma> d = Some t'" for d t' using I(5) [of d c] t that by simp
  have "std_wf ?s" using I(1) f(1) by (simp add: std_wf_def)
  moreover have "std_kv ?s = committed \<sigma>" using I(3) I(6) [OF t] by (simp add: std_kv_def)
  moreover have "map_of (st_heap ?s (tx_data t)) = apply_writes (sys_pending \<sigma> c @ [w]) (committed \<sigma>)"
    using f(2) I(6) [OF t] by simp
  ultimately show ?thesis
    using I(2,4,5) I(6) [OF t] only unfolding tx_inv_def by (simp add: committed_def) blast
qed

lemma tx_inv_commit:
  assumes inv: "tx_inv \<sigma>" and t: "sys_tx \<sigma> c = Some t"
    and run: "std_tx_Commit t (sys_store \<sigma>) = Ret (Inr t', s')"
  shows "tx_inv (\<sigma>\<lparr>sys_store := s', sys_tx := (sys_tx \<sigma>)(c := None), sys_log := sys_log \<sigma> @ [sys_pending \<sigma> c]\<rparr>)"
proof -
  note I = tx_invE [OF inv]
  have s': "s' = (sys_store \<sigma>)\<lparr>st_data := tx_data t, st_txmut := False\<rparr>"
    using run std_tx_Commit_run [of t "sys_store \<sigma>"] I(2,4) I(6) [OF t] t by auto
  have none: "d \<noteq> c \<Longrightarrow> sys_tx \<sigma> d = None" for d using I(5) [of d c] t by (cases "sys_tx \<sigma> d") auto
  show ?thesis
    using I(1,2) I(6) [OF t] none unfolding tx_inv_def
    by (auto simp: s' std_wf_def std_kv_def committed_def)
qed

lemma tx_inv_rollback:
  assumes inv: "tx_inv \<sigma>" and t: "sys_tx \<sigma> c = Some t"
    and run: "std_tx_Rollback t (sys_store \<sigma>) = Ret (Inr (), s')"
  shows "tx_inv (\<sigma>\<lparr>sys_store := s', sys_tx := (sys_tx \<sigma>)(c := None)\<rparr>)"
proof -
  note I = tx_invE [OF inv]
  have s': "s' = (sys_store \<sigma>)\<lparr>st_txmut := False\<rparr>"
    using run I(4) I(6) [OF t] t by (auto simp: std_tx_Rollback_def unlock_txmut_def split: if_splits)
  have none: "d \<noteq> c \<Longrightarrow> sys_tx \<sigma> d = None" for d using I(5) [of d c] t by (cases "sys_tx \<sigma> d") auto
  show ?thesis
    using I(1-3) none unfolding tx_inv_def by (auto simp: s' std_wf_def std_kv_def committed_def)
qed

text \<open>A direct \<^verbatim>\<open>Put\<close> or \<^verbatim>\<open>Delete\<close> returns only while no transaction is open, and is one of its own.\<close>

lemma tx_inv_direct:
  assumes inv: "tx_inv \<sigma>" and free: "std_free (sys_store \<sigma>)"
    and s': "std_wf s'" "std_free s'" "std_kv s' = apply_write w (std_kv (sys_store \<sigma>))"
  shows "tx_inv (\<sigma>\<lparr>sys_store := s', sys_log := sys_log \<sigma> @ [[w]]\<rparr>)"
proof -
  note I = tx_invE [OF inv]
  have none: "sys_tx \<sigma> d = None" for d using I(4) free by (auto simp: std_free_def)
  show ?thesis
    using s' I(3) none by (auto simp: tx_inv_def committed_def std_free_def)
qed

lemma tx_step_inv: "tx_step \<sigma> \<sigma>' \<Longrightarrow> tx_inv \<sigma> \<Longrightarrow> tx_inv \<sigma>'"
proof (induction rule: tx_step.induct)
  case (tx_begin \<sigma> c t s')
  then show ?case by (intro tx_inv_begin)
next
  case (tx_put \<sigma> c t k v s')
  then show ?case
    using tx_inv_write [of \<sigma> c t "AList.update k v" "WPut k v"] tx_invE(1) [of \<sigma>]
    by (auto simp: std_tx_Put_run std_wf_def)
next
  case (tx_delete \<sigma> c t k s')
  then show ?case
    using tx_inv_write [of \<sigma> c t "AList.delete k" "WDelete k"] tx_invE(1) [of \<sigma>]
    by (auto simp: std_tx_Delete_run std_wf_def)
next
  case (tx_commit \<sigma> c t t' s')
  then show ?case by (intro tx_inv_commit)
next
  case (tx_rollback \<sigma> c t s')
  then show ?case by (intro tx_inv_rollback)
next
  case (store_put k v \<sigma> s')
  have free: "std_free (sys_store \<sigma>)" using store_put.hyps by (rule std_Put_RetD)
  show ?case
    using std_Put_free [OF tx_invE(1) [OF store_put.prems] free, of k v] store_put.hyps
      tx_inv_direct [OF store_put.prems free, of s' "WPut k v"] by auto
next
  case (store_delete k \<sigma> s')
  have free: "std_free (sys_store \<sigma>)" using store_delete.hyps by (rule std_Delete_RetD)
  show ?case
    using std_Delete_free [OF tx_invE(1) [OF store_delete.prems] free, of k] store_delete.hyps
      tx_inv_direct [OF store_delete.prems free, of s' "WDelete k"] by auto
next
  case (store_get k \<sigma> r s')
  then have "s' = sys_store \<sigma>" using std_Get_free [OF tx_invE(2) [of \<sigma>], of k] by simp
  with store_get.prems show ?case by simp
next
  case (store_iterator p \<sigma> ri s')
  then have "s' = sys_store \<sigma>" using std_Iterator_free [OF tx_invE(2) [of \<sigma>], of p] by simp
  with store_iterator.prems show ?case by simp
qed

interpretation tx: machine tx_step "init_sys ro" "\<lambda>\<sigma>. is_range_order ro \<longrightarrow> tx_inv \<sigma>" for ro
  by unfold_locales (auto intro: tx_inv_init tx_step_inv)

lemmas reachable_inv = tx.invariant [rule_format]

section \<open>Serialisability, isolation, progress\<close>

text \<open>
  C2: With any number of goroutines and any interleaving of their calls, the in-memory store always holds
  exactly what the committed transactions write when they run one after the other in commit order; writes
  of open or rolled-back transactions are never visible in the store; at most one transaction is open; and
  an open transaction reads the committed data with its own writes on top.
\<close>

theorem std_transactions_serialisable:
  assumes "is_range_order ro" "reachable ro \<sigma>"
  shows "std_kv (sys_store \<sigma>) = committed \<sigma>
    \<and> (\<forall>c d. sys_tx \<sigma> c \<noteq> None \<and> sys_tx \<sigma> d \<noteq> None \<longrightarrow> c = d)
    \<and> (\<forall>c t k. sys_tx \<sigma> c = Some t \<longrightarrow>
         std_tx_Get t k (sys_store \<sigma>) =
           Ret (case apply_writes (sys_pending \<sigma> c) (committed \<sigma>) k of
                  Some v \<Rightarrow> Inr v | None \<Rightarrow> Inl (ValueUnsetError k), sys_store \<sigma>))"
proof -
  note I = tx_invE [OF reachable_inv [OF assms(2,1)]]
  show ?thesis
  proof (intro conjI allI impI)
    show "std_kv (sys_store \<sigma>) = committed \<sigma>" by (rule I(3))
  next
    fix c d
    assume "sys_tx \<sigma> c \<noteq> None \<and> sys_tx \<sigma> d \<noteq> None"
    then show "c = d" by (blast intro: I(5))
  next
    fix c t k
    assume "sys_tx \<sigma> c = Some t"
    from I(6) [OF this] show "std_tx_Get t k (sys_store \<sigma>) =
        Ret (case apply_writes (sys_pending \<sigma> c) (committed \<sigma>) k of
               Some v \<Rightarrow> Inr v | None \<Rightarrow> Inl (ValueUnsetError k), sys_store \<sigma>)"
      by (simp add: std_tx_Get_run)
  qed
qed

text \<open>A run for the witness: goroutine 7 begins and writes, goroutine 3 has to wait, 7 commits.\<close>

definition run1 :: txsys where
  "run1 = (init_sys id)\<lparr>sys_store := begun (NewStdStore id),
          sys_tx := (\<lambda>_. None)(7 \<mapsto> \<lparr>tx_store = True, tx_data = 1\<rparr>), sys_pending := (\<lambda>_. [])(7 := [])\<rparr>"

lemma reachable_run1: "reachable id run1"
proof -
  have "std_BeginTransaction (sys_store (init_sys id)) = Ret (Inr \<lparr>tx_store = True, tx_data = 1\<rparr>, begun (NewStdStore id))"
    using std_BeginTransaction_free [OF NewStdStore_wf [of id] NewStdStore_free]
    by (simp add: init_sys_def) (simp add: NewStdStore_def)
  then have "tx_step (init_sys id) run1"
    using tx_begin [of "init_sys id" 7] by (simp add: run1_def init_sys_def)
  then show ?thesis by (rule reach_one)
qed

theorem std_transactions_serialisable_witness:
  "std_kv (sys_store run1) = Map.empty \<and> sys_tx run1 7 \<noteq> None
     \<and> std_tx_Get \<lparr>tx_store = True, tx_data = 1\<rparr> ''k'' (sys_store run1) = Ret (Inl (ValueUnsetError ''k''), sys_store run1)"
proof -
  have "is_range_order id" by simp
  from std_transactions_serialisable [OF this reachable_run1]
  have "std_kv (sys_store run1) = committed run1"
    and get: "\<And>c t k. sys_tx run1 c = Some t \<Longrightarrow> std_tx_Get t k (sys_store run1) =
        Ret (case apply_writes (sys_pending run1 c) (committed run1) k of
               Some v \<Rightarrow> Inr v | None \<Rightarrow> Inl (ValueUnsetError k), sys_store run1)"
    by blast+
  moreover have "committed run1 = Map.empty" "sys_tx run1 7 = Some \<lparr>tx_store = True, tx_data = 1\<rparr>" "sys_pending run1 7 = []"
    by (simp_all add: run1_def committed_def init_sys_def)
  ultimately show ?thesis using get [of 7 _ "''k''"] by simp
qed

text \<open>
  C3: No interleaving wedges the store. In every reachable state an open transaction can commit and can
  roll back, and when none is open every goroutine's \<^verbatim>\<open>BeginTransaction\<close> returns; while one is open,
  \<^verbatim>\<open>BeginTransaction\<close>, \<^verbatim>\<open>Put\<close> and \<^verbatim>\<open>Delete\<close> of everybody else wait, but \<^verbatim>\<open>Get\<close> returns the committed value.
\<close>

theorem std_transactions_progress:
  assumes "is_range_order ro" "reachable ro \<sigma>"
  shows "(\<forall>c t. sys_tx \<sigma> c = Some t \<longrightarrow>
           (\<exists>t' s'. std_tx_Commit t (sys_store \<sigma>) = Ret (Inr t', s'))
           \<and> (\<exists>s'. std_tx_Rollback t (sys_store \<sigma>) = Ret (Inr (), s'))
           \<and> std_BeginTransaction (sys_store \<sigma>) = Block \<and> (\<forall>k v. std_Put k v (sys_store \<sigma>) = Block)
           \<and> (\<forall>k. std_Delete k (sys_store \<sigma>) = Block))
    \<and> ((\<forall>c. sys_tx \<sigma> c = None) \<longrightarrow> (\<exists>t s'. std_BeginTransaction (sys_store \<sigma>) = Ret (Inr t, s')))
    \<and> (\<forall>k. std_Get k (sys_store \<sigma>) =
           Ret (case committed \<sigma> k of Some v \<Rightarrow> Inr v | None \<Rightarrow> Inl (ValueUnsetError k), sys_store \<sigma>))"
proof -
  note I = tx_invE [OF reachable_inv [OF assms(2,1)]]
  have open_tx: "(\<exists>t' s'. std_tx_Commit t (sys_store \<sigma>) = Ret (Inr t', s'))
      \<and> (\<exists>s'. std_tx_Rollback t (sys_store \<sigma>) = Ret (Inr (), s'))
      \<and> std_BeginTransaction (sys_store \<sigma>) = Block \<and> (\<forall>k v. std_Put k v (sys_store \<sigma>) = Block)
      \<and> (\<forall>k. std_Delete k (sys_store \<sigma>) = Block)" if t: "sys_tx \<sigma> c = Some t" for c t
  proof -
    have "st_txmut (sys_store \<sigma>)" using I(4) t by auto
    then show ?thesis using I(2) I(6) [OF t]
      by (simp add: std_tx_Commit_run std_tx_Rollback_def unlock_txmut_def std_BeginTransaction_locked
          std_Put_def std_Delete_def with_tx_locked std_free_def)
  qed
  have none_open: "\<exists>t s'. std_BeginTransaction (sys_store \<sigma>) = Ret (Inr t, s')" if "\<forall>c. sys_tx \<sigma> c = None"
    using that I(2,4) std_BeginTransaction_free [OF I(1)] by (auto simp: std_free_def)
  show ?thesis using open_tx none_open std_Get_free [OF I(2)] I(3) by auto
qed

theorem std_transactions_progress_witness:
  "std_BeginTransaction (sys_store run1) = Block
     \<and> (\<exists>t' s'. std_tx_Commit \<lparr>tx_store = True, tx_data = 1\<rparr> (sys_store run1) = Ret (Inr t', s'))"
proof -
  have "is_range_order id" by simp
  moreover have "sys_tx run1 7 = Some \<lparr>tx_store = True, tx_data = 1\<rparr>" by (simp add: run1_def)
  ultimately show ?thesis using std_transactions_progress [OF _ reachable_run1] by blast
qed

end
