(* ===== verification/Config.thy ===== *)
theory Config
  imports Decimal
begin

text \<open>
  The shared types and constants of \<^verbatim>\<open>internal/config\<close>: the records that travel between the ssh server, the
  store, the kubernetes client and the agent. A \<^verbatim>\<open>[]byte\<close> that may be nil is an option. References to live
  objects (an ssh channel, a window-size queue) are numbers that name the object.
\<close>

section \<open>Types\<close>

record ClusterConfig =
  NumberOfWorkers :: int
  NumberOfMasters :: int

record UserInformation =
  Username :: string
  RealName :: string
  Email :: string
  LegiNumber :: string
  Uuid :: string
  Gender :: string
  PrivKey :: "bytes option"
  PubKey :: "bytes option"
  Points :: "int gomap option"

definition zero_user :: UserInformation where
  "zero_user = \<lparr>Username = [], RealName = [], Email = [], LegiNumber = [], Uuid = [], Gender = [],
     PrivKey = None, PubKey = None, Points = None\<rparr>"

text \<open>\<^verbatim>\<open>string(b)\<close> of a byte slice: nil is the empty string.\<close>

definition bytes_string :: "bytes option \<Rightarrow> string" where
  "bytes_string b = (case b of None \<Rightarrow> [] | Some s \<Rightarrow> s)"

record ContainerInformation =
  ContainerName :: string

record UserConfiguration =
  UUIDToUser :: "UserInformation gomap"
  PubKeyToUser :: "UserInformation gomap"
  Containers :: "ContainerInformation gomap"

record KubeExecConfig =
  kec_Namespace :: string
  kec_UserIdentifier :: string
  kec_Command :: string
  kec_Communication :: nat
  kec_WinQueue :: nat
  kec_Tty :: bool

record KubeFileWriteConfig =
  kfw_UserIdentifier :: string
  kfw_Namespace :: string
  kfw_FileName :: string
  kfw_FilePath :: string
  kfw_FileData :: bytes

record KubeForwardConfig =
  kfc_Namespace :: string
  kfc_PodName :: string
  kfc_Port :: string
  kfc_Communication :: nat

record KubeRessourceIdentifier =
  kri_UserIdentifier :: string
  kri_Namespace :: string
  kri_ContainerIdentifier :: string
  kri_NodeName :: string
  kri_StorageClass :: string

record EtcdCredentials =
  PeerCertData :: bytes
  KeyData :: bytes
  CaCertData :: bytes

record NodeInformation =
  Masters :: "string gomap"
  Workers :: "string gomap"

section \<open>Constants\<close>

definition ClusterConfiguration :: ClusterConfig where
  "ClusterConfiguration = \<lparr>NumberOfWorkers = 2, NumberOfMasters = 1\<rparr>"

definition Version :: string where "Version = ''0.0.1''"
definition DefaultIP :: string where "DefaultIP = ''0.0.0.0''"
definition PublicAPIport :: string where "PublicAPIport = ''9000''"
definition GradeAPIport :: int where "GradeAPIport = 9027"
definition AuthenticatedUserID :: string where "AuthenticatedUserID = ''authenticated-uuid''"
definition AuthenticationType :: string where "AuthenticationType = ''authType''"
definition AuthenticatedPrivKey :: string where "AuthenticatedPrivKey = ''privateKey''"
definition UserContainerImage :: string where
  "UserContainerImage = ''ghcr.io/benschlueter/delegatio/archimage:0.1''"
definition SSHContainerImage :: string where "SSHContainerImage = ''ghcr.io/benschlueter/delegatio/ssh:0.1''"
definition GradingContainerImage :: string where
  "GradingContainerImage = ''ghcr.io/benschlueter/delegatio/grader:0.1''"
definition UserNamespace :: string where "UserNamespace = ''users''"
definition NodeNameEnvVariable :: string where "NodeNameEnvVariable = ''NODE_NAME''"
definition AgentPort :: int where "AgentPort = 9000"
definition SSHServiceAccountName :: string where "SSHServiceAccountName = ''development-ssh''"
definition SSHPort :: int where "SSHPort = 2200"
definition SSHNamespaceName :: string where "SSHNamespaceName = ''ssh''"
definition GraderNamespaceName :: string where "GraderNamespaceName = ''grader''"
definition GraderServiceAccountName :: string where "GraderServiceAccountName = ''development-grader''"
definition NameSpaceFilePath :: string where
  "NameSpaceFilePath = ''/var/run/secrets/kubernetes.io/serviceaccount/namespace''"

text \<open>
  \<^verbatim>\<open>Commit\<close> reads the build information of the binary: the settings as a list of keys and values, or none.
\<close>

definition Commit :: "(string \<times> string) list option \<Rightarrow> string" where
  "Commit info = (case info of
      Some settings \<Rightarrow> (case map_of settings ''vcs.revision'' of Some v \<Rightarrow> v | None \<Rightarrow> [])
    | None \<Rightarrow> [])"

lemma auth_keys_distinct [simp]:
  "AuthenticatedUserID \<noteq> AuthenticationType" "AuthenticationType \<noteq> AuthenticatedUserID"
  "AuthenticatedUserID \<noteq> AuthenticatedPrivKey" "AuthenticatedPrivKey \<noteq> AuthenticatedUserID"
  "AuthenticationType \<noteq> AuthenticatedPrivKey" "AuthenticatedPrivKey \<noteq> AuthenticationType"
  by (simp_all add: AuthenticatedUserID_def AuthenticationType_def AuthenticatedPrivKey_def)

end
