(* ===== verification/Kube_Templates.thy ===== *)
theory Kube_Templates
  imports Config
begin

text \<open>
  The Kubernetes objects the program creates: \<^verbatim>\<open>internal/k8sapi/templates\<close> and the deployments that
  \<^verbatim>\<open>internal/k8sapi/deployment.go\<close> builds in place. Each API type is a record of the fields the program sets; a
  pointer field that may stay unset is an option, a map is an association list. The facts are the references
  between objects: a stateful set finds its pods by label, its service by name, its storage by claim and volume.
\<close>

section \<open>API types\<close>

record TypeMeta =
  Kind :: string
  APIVersion :: string

record ObjectMeta =
  om_Name :: string
  om_Namespace :: string
  om_Labels :: "string gomap"
  om_Annotations :: "string gomap"

definition named :: "string \<Rightarrow> string \<Rightarrow> ObjectMeta" where
  "named ns n = \<lparr>om_Name = n, om_Namespace = ns, om_Labels = [], om_Annotations = []\<rparr>"

definition labelled :: "string \<Rightarrow> string \<Rightarrow> string gomap \<Rightarrow> ObjectMeta" where
  "labelled ns n ls = \<lparr>om_Name = n, om_Namespace = ns, om_Labels = ls, om_Annotations = []\<rparr>"

text \<open>The version of the core, apps, networking and rbac API groups is \<^verbatim>\<open>v1\<close>.\<close>

definition type_meta :: "string \<Rightarrow> TypeMeta" where
  "type_meta k = \<lparr>Kind = k, APIVersion = ''v1''\<rparr>"

definition app_label :: "string \<Rightarrow> string gomap" where
  "app_label n = [(''app.kubernetes.io/name'', n)]"

record ContainerPort =
  cp_Name :: string
  cp_ContainerPort :: int
  cp_Protocol :: string

record VolumeMount =
  mnt_Name :: string
  mnt_MountPath :: string
  mnt_SubPath :: string

record EnvVar =
  ev_Name :: string
  ev_FieldPath :: string

record Container =
  ct_Name :: string
  ct_Image :: string
  ct_TTY :: bool
  ct_Env :: "EnvVar list"
  ct_LivenessCommand :: "string list"
  ct_VolumeMounts :: "VolumeMount list"
  ct_ImagePullPolicy :: string
  ct_Capabilities :: "string list"
  ct_Ports :: "ContainerPort list"

record Volume =
  vol_Name :: string
  vol_ClaimName :: string

record PodSpec =
  ps_NodeName :: string
  ps_ServiceAccountName :: string
  ps_AutomountServiceAccountToken :: "bool option"
  ps_HostNetwork :: bool
  ps_Containers :: "Container list"
  ps_Volumes :: "Volume list"

record PodTemplateSpec =
  pt_Meta :: ObjectMeta
  pt_Spec :: PodSpec

record StatefulSetObj =
  ss_Type :: TypeMeta
  ss_Meta :: ObjectMeta
  ss_Selector :: "string gomap"
  ss_ServiceName :: string
  ss_Template :: PodTemplateSpec

record DeploymentObj =
  dp_Type :: TypeMeta
  dp_Meta :: ObjectMeta
  dp_Selector :: "string gomap"
  dp_Replicas :: int
  dp_Template :: PodTemplateSpec

record ServicePort =
  sp_Name :: string
  sp_Protocol :: string
  sp_TargetPort :: int
  sp_Port :: int

record ServiceObj =
  sv_Type :: TypeMeta
  sv_Meta :: ObjectMeta
  sv_ServiceType :: string
  sv_Selector :: "string gomap"
  sv_ClusterIP :: string
  sv_Ports :: "ServicePort list"

record ConfigMapObj =
  cm_Type :: TypeMeta
  cm_Meta :: ObjectMeta
  cm_Data :: "string gomap"

record PlainObj =
  pl_Type :: TypeMeta
  pl_Meta :: ObjectMeta

record SecretObj =
  sec_Type :: TypeMeta
  sec_Meta :: ObjectMeta
  sec_SecretType :: string

record StorageClassObj =
  sc_Type :: TypeMeta
  sc_Meta :: ObjectMeta
  sc_Provisioner :: string
  sc_ReclaimPolicy :: string

record ObjectReference =
  ref_Type :: TypeMeta
  ref_Name :: string
  ref_Namespace :: string

record PersistentVolumeObj =
  pv_Type :: TypeMeta
  pv_Meta :: ObjectMeta
  pv_Storage :: string
  pv_StorageClassName :: string
  pv_AccessModes :: "string list"
  pv_ReclaimPolicy :: string
  pv_NFSServer :: string
  pv_NFSPath :: string
  pv_ReadOnly :: bool
  pv_MountOptions :: "string list"
  pv_ClaimRef :: ObjectReference

record PersistentVolumeClaimObj =
  pvc_Type :: TypeMeta
  pvc_Meta :: ObjectMeta
  pvc_AccessModes :: "string list"
  pvc_VolumeName :: string
  pvc_StorageClassName :: string
  pvc_Storage :: string

record IngressPath =
  ip_Path :: string
  ip_PathType :: string
  ip_Service :: string
  ip_Port :: int

record IngressObj =
  ing_Type :: TypeMeta
  ing_Meta :: ObjectMeta
  ing_Rules :: "IngressPath list list"
  ing_ClassName :: string

record IngressClassObj =
  ic_Type :: TypeMeta
  ic_Meta :: ObjectMeta
  ic_Controller :: string

record Subject =
  sub_Kind :: string
  sub_Name :: string
  sub_Namespace :: string

record ClusterRoleBindingObj =
  crb_Type :: TypeMeta
  crb_Meta :: ObjectMeta
  crb_ResourceVersion :: string
  crb_Subjects :: "Subject list"
  crb_RoleKind :: string
  crb_RoleName :: string

section \<open>Templates\<close>

definition ConfigMap :: "string \<Rightarrow> string \<Rightarrow> ConfigMapObj" where
  "ConfigMap namespace n = \<lparr>cm_Type = type_meta ''ConfigMap'', cm_Meta = named namespace n, cm_Data = []\<rparr>"

definition Namespace :: "string \<Rightarrow> PlainObj" where
  "Namespace namespace = \<lparr>pl_Type = type_meta ''Namespace'', pl_Meta = named [] namespace\<rparr>"

definition ServiceAccount :: "string \<Rightarrow> string \<Rightarrow> PlainObj" where
  "ServiceAccount namespace serviceAccountName =
     \<lparr>pl_Type = type_meta ''ServiceAccount'', pl_Meta = named namespace serviceAccountName\<rparr>"

definition Secret :: "string \<Rightarrow> SecretObj" where
  "Secret n = \<lparr>sec_Type = type_meta ''Secret'',
     sec_Meta = (named [] (n @ ''-secret''))\<lparr>om_Annotations := [(''kubernetes.io/service-account.name'', n)]\<rparr>,
     sec_SecretType = ''kubernetes.io/service-account-token''\<rparr>"

definition StorageClass :: "string \<Rightarrow> string \<Rightarrow> StorageClassObj" where
  "StorageClass n reclaimPolicy = \<lparr>sc_Type = type_meta ''StorageClass'',
     sc_Meta = (named [] n)\<lparr>om_Annotations := [(''storageclass.kubernetes.io/is-default-class'', ''true'')]\<rparr>,
     sc_Provisioner = ''kubernetes.io/nfs'', sc_ReclaimPolicy = reclaimPolicy\<rparr>"

definition PersistentVolume :: "KubeRessourceIdentifier \<Rightarrow> PersistentVolumeObj" where
  "PersistentVolume ident = \<lparr>
     pv_Type = type_meta ''PersistentVolume'', pv_Meta = named [] (kri_UserIdentifier ident),
     pv_Storage = ''10Gi'', pv_StorageClassName = ''nfs'', pv_AccessModes = [''ReadWriteMany''],
     pv_ReclaimPolicy = ''Retain'', pv_NFSServer = ''10.42.0.1'', pv_NFSPath = ''/'', pv_ReadOnly = False,
     pv_MountOptions = [''nfsvers=4.2''],
     pv_ClaimRef = \<lparr>ref_Type = type_meta ''PersistentVolumeClaim'', ref_Name = kri_UserIdentifier ident,
                    ref_Namespace = UserNamespace\<rparr>\<rparr>"

definition PersistentVolumeClaim :: "KubeRessourceIdentifier \<Rightarrow> PersistentVolumeClaimObj" where
  "PersistentVolumeClaim ident = \<lparr>
     pvc_Type = type_meta ''PersistentVolumeClaim'',
     pvc_Meta = named (kri_Namespace ident) (kri_UserIdentifier ident),
     pvc_AccessModes = [''ReadWriteMany''], pvc_VolumeName = kri_UserIdentifier ident,
     pvc_StorageClassName = kri_StorageClass ident, pvc_Storage = ''10Gi''\<rparr>"

definition Pod :: "KubeRessourceIdentifier \<Rightarrow> PodSpec" where
  "Pod ident = \<lparr>
     ps_NodeName = kri_NodeName ident, ps_ServiceAccountName = [], ps_AutomountServiceAccountToken = None,
     ps_HostNetwork = False,
     ps_Containers = [\<lparr>
       ct_Name = ''archlinux-container-ssh'', ct_Image = UserContainerImage, ct_TTY = True,
       ct_Env = [\<lparr>ev_Name = NodeNameEnvVariable, ev_FieldPath = ''spec.nodeName''\<rparr>],
       ct_LivenessCommand = [''whoami''],
       ct_VolumeMounts = [\<lparr>mnt_Name = ''home-storage'', mnt_MountPath = ''/root/'', mnt_SubPath = kri_UserIdentifier ident\<rparr>],
       ct_ImagePullPolicy = ''Always'', ct_Capabilities = [''CAP_SYS_ADMIN''],
       ct_Ports = [\<lparr>cp_Name = ''agent'', cp_ContainerPort = AgentPort, cp_Protocol = ''TCP''\<rparr>]\<rparr>],
     ps_Volumes = [\<lparr>vol_Name = ''home-storage'', vol_ClaimName = kri_UserIdentifier ident\<rparr>]\<rparr>"

definition StatefulSet :: "KubeRessourceIdentifier \<Rightarrow> StatefulSetObj" where
  "StatefulSet ident = \<lparr>
     ss_Type = type_meta ''StatefulSet'',
     ss_Meta = labelled (kri_Namespace ident) (kri_UserIdentifier ident @ ''-statefulset'') (app_label (kri_UserIdentifier ident)),
     ss_Selector = app_label (kri_UserIdentifier ident),
     ss_ServiceName = kri_UserIdentifier ident @ ''-service'',
     ss_Template = \<lparr>
       pt_Meta = labelled (kri_Namespace ident) (kri_UserIdentifier ident @ ''-pod'') (app_label (kri_UserIdentifier ident)),
       pt_Spec = Pod ident\<rparr>\<rparr>"

text \<open>The conversion of an \<^verbatim>\<open>int\<close> to \<^verbatim>\<open>int32\<close>.\<close>

definition int32 :: "int \<Rightarrow> int" where
  "int32 n = (n + 2 ^ 31) mod 2 ^ 32 - 2 ^ 31"

lemma int32_id: "- (2 ^ 31) \<le> n \<Longrightarrow> n < 2 ^ 31 \<Longrightarrow> int32 n = n"
  by (simp add: int32_def)

definition HeadlessService :: "KubeRessourceIdentifier \<Rightarrow> ServiceObj" where
  "HeadlessService ident = \<lparr>
     sv_Type = type_meta ''Service'',
     sv_Meta = labelled [] (kri_UserIdentifier ident @ ''-service'') (app_label (kri_UserIdentifier ident)),
     sv_ServiceType = ''ClusterIP'', sv_Selector = app_label (kri_UserIdentifier ident), sv_ClusterIP = ''None'',
     sv_Ports = [\<lparr>sp_Name = ''agent'', sp_Protocol = ''TCP'', sp_TargetPort = AgentPort, sp_Port = AgentPort\<rparr>]\<rparr>"

definition ServiceLoadBalancer :: "string \<Rightarrow> string \<Rightarrow> int \<Rightarrow> ServiceObj" where
  "ServiceLoadBalancer namespace serviceName portNum = \<lparr>
     sv_Type = type_meta ''Service'',
     sv_Meta = labelled namespace (serviceName @ ''-service'') (app_label serviceName),
     sv_ServiceType = ''LoadBalancer'', sv_Selector = app_label serviceName, sv_ClusterIP = [],
     sv_Ports = [\<lparr>sp_Name = serviceName @ ''-port'', sp_Protocol = ''TCP'', sp_TargetPort = int32 portNum,
                  sp_Port = int32 portNum\<rparr>]\<rparr>"

definition ServiceClusterIP :: "string \<Rightarrow> string \<Rightarrow> int \<Rightarrow> ServiceObj" where
  "ServiceClusterIP namespace serviceName portNum = \<lparr>
     sv_Type = type_meta ''Service'',
     sv_Meta = labelled namespace (serviceName @ ''-service'') (app_label serviceName),
     sv_ServiceType = ''ClusterIP'', sv_Selector = app_label serviceName, sv_ClusterIP = [],
     sv_Ports = [\<lparr>sp_Name = serviceName @ ''-port'', sp_Protocol = ''TCP'', sp_TargetPort = int32 portNum,
                  sp_Port = int32 portNum\<rparr>]\<rparr>"

definition className :: string where "className = ''haproxy''"

definition Ingress :: "string \<Rightarrow> IngressObj" where
  "Ingress namespace = \<lparr>
     ing_Type = type_meta ''Ingress'', ing_Meta = named namespace (''ingress'' @ ''ssh''),
     ing_Rules = [[\<lparr>ip_Path = ''/'', ip_PathType = ''Prefix'', ip_Service = ''ssh-relay-service'', ip_Port = 2200\<rparr>]],
     ing_ClassName = className\<rparr>"

definition IngressClass :: "string \<Rightarrow> IngressClassObj" where
  "IngressClass namespace = \<lparr>
     ic_Type = type_meta ''IngressClass'', ic_Meta = named namespace className,
     ic_Controller = ''haproxy.org/ingress-controller''\<rparr>"

definition ClusterRoleBinding :: "string \<Rightarrow> string \<Rightarrow> ClusterRoleBindingObj" where
  "ClusterRoleBinding namespace n = \<lparr>
     crb_Type = type_meta ''ClusterRoleBinding'', crb_Meta = named [] ''add-on-cluster-admin'', crb_ResourceVersion = [],
     crb_Subjects = [\<lparr>sub_Kind = ''ServiceAccount'', sub_Name = n, sub_Namespace = namespace\<rparr>],
     crb_RoleKind = ''ClusterRole'', crb_RoleName = ''cluster-admin''\<rparr>"

section \<open>Deployments\<close>

definition ssh_container :: "string \<Rightarrow> Container" where
  "ssh_container n = \<lparr>
     ct_Name = n, ct_Image = SSHContainerImage, ct_TTY = True, ct_Env = [], ct_LivenessCommand = [''whoami''],
     ct_VolumeMounts = [], ct_ImagePullPolicy = ''Always'', ct_Capabilities = [''CAP_SYS_ADMIN''],
     ct_Ports = [\<lparr>cp_Name = ''ssh'', cp_ContainerPort = 2200, cp_Protocol = ''TCP''\<rparr>]\<rparr>"

definition deployment_of :: "string \<Rightarrow> string \<Rightarrow> int \<Rightarrow> PodSpec \<Rightarrow> DeploymentObj" where
  "deployment_of namespace deploymentName replicas spec = \<lparr>
     dp_Type = type_meta ''Deployment'',
     dp_Meta = labelled namespace (deploymentName @ ''-deployment'') (app_label deploymentName),
     dp_Selector = app_label deploymentName, dp_Replicas = replicas,
     dp_Template = \<lparr>pt_Meta = labelled namespace (deploymentName @ ''-pod'') (app_label deploymentName), pt_Spec = spec\<rparr>\<rparr>"

definition Deployment :: "string \<Rightarrow> string \<Rightarrow> int \<Rightarrow> DeploymentObj" where
  "Deployment namespace deploymentName replicas = deployment_of namespace deploymentName replicas
     \<lparr>ps_NodeName = [], ps_ServiceAccountName = ''development'', ps_AutomountServiceAccountToken = Some True,
      ps_HostNetwork = True, ps_Containers = [ssh_container ''ssh-relay''], ps_Volumes = []\<rparr>"

definition SSHDeployment :: "string \<Rightarrow> string \<Rightarrow> int \<Rightarrow> DeploymentObj" where
  "SSHDeployment namespace deploymentName replicas = deployment_of namespace deploymentName replicas
     \<lparr>ps_NodeName = [], ps_ServiceAccountName = SSHServiceAccountName, ps_AutomountServiceAccountToken = Some True,
      ps_HostNetwork = True, ps_Containers = [ssh_container deploymentName], ps_Volumes = []\<rparr>"

definition GraderDeployment :: "string \<Rightarrow> string \<Rightarrow> int \<Rightarrow> DeploymentObj" where
  "GraderDeployment namespace deploymentName replicas = deployment_of namespace deploymentName replicas
     \<lparr>ps_NodeName = [], ps_ServiceAccountName = GraderServiceAccountName, ps_AutomountServiceAccountToken = Some True,
      ps_HostNetwork = False,
      ps_Containers = [\<lparr>
        ct_Name = deploymentName, ct_Image = GradingContainerImage, ct_TTY = True, ct_Env = [],
        ct_LivenessCommand = [''whoami''], ct_VolumeMounts = [], ct_ImagePullPolicy = ''Always'', ct_Capabilities = [],
        ct_Ports = [\<lparr>cp_Name = ''graderapi'', cp_ContainerPort = GradeAPIport, cp_Protocol = ''TCP''\<rparr>]\<rparr>],
      ps_Volumes = []\<rparr>"

section \<open>References between objects\<close>

text \<open>How Kubernetes matches labels: every entry of the selector is an entry of the labels.\<close>

definition selects :: "string gomap \<Rightarrow> string gomap \<Rightarrow> bool" where
  "selects sel labels \<longleftrightarrow> (\<forall>kv \<in> set sel. kv \<in> set labels)"

text \<open>The names the controller gives to the pods of a stateful set.\<close>

definition statefulset_pod :: "StatefulSetObj \<Rightarrow> nat \<Rightarrow> string" where
  "statefulset_pod ss i = om_Name (ss_Meta ss) @ ''-'' @ nat_dec i"

text \<open>A pod finds its storage: each mount names a volume, whose claim is bound to a volume of the same class.\<close>

definition storage_bound :: "PodSpec \<Rightarrow> PersistentVolumeClaimObj \<Rightarrow> PersistentVolumeObj \<Rightarrow> bool" where
  "storage_bound pod pvc pv \<longleftrightarrow>
     (\<forall>c \<in> set (ps_Containers pod). \<forall>m \<in> set (ct_VolumeMounts c). \<exists>v \<in> set (ps_Volumes pod).
        vol_Name v = mnt_Name m \<and> vol_ClaimName v = om_Name (pvc_Meta pvc))
     \<and> pvc_VolumeName pvc = om_Name (pv_Meta pv) \<and> pvc_StorageClassName pvc = pv_StorageClassName pv
     \<and> pvc_AccessModes pvc = pv_AccessModes pv \<and> pvc_Storage pvc = pv_Storage pv
     \<and> ref_Name (pv_ClaimRef pv) = om_Name (pvc_Meta pvc) \<and> ref_Namespace (pv_ClaimRef pv) = om_Namespace (pvc_Meta pvc)"

lemma nat_dec_0 [simp]: "nat_dec 0 = ''0''"
  by code_simp

text \<open>
  C29: The objects of one user fit together: the stateful set and the headless service select the pods of the
  template, the service has the name the stateful set asks for and forwards to the port the container opens,
  pod 0 has the name under which the ssh server looks it up, and the home directory is bound through claim and
  volume, once the storage class is \<^verbatim>\<open>nfs\<close> and the namespace is the one of the users. Two users have different
  pods, services, claims and volumes.
\<close>

theorem user_objects_fit:
  assumes "kri_StorageClass i = ''nfs''" "kri_Namespace i = UserNamespace"
  shows "selects (ss_Selector (StatefulSet i)) (om_Labels (pt_Meta (ss_Template (StatefulSet i))))
    \<and> selects (sv_Selector (HeadlessService i)) (om_Labels (pt_Meta (ss_Template (StatefulSet i))))
    \<and> ss_ServiceName (StatefulSet i) = om_Name (sv_Meta (HeadlessService i))
    \<and> map sp_TargetPort (sv_Ports (HeadlessService i)) = map cp_ContainerPort (concat (map ct_Ports (ps_Containers (Pod i))))
    \<and> statefulset_pod (StatefulSet i) 0 = kri_UserIdentifier i @ ''-statefulset-0''
    \<and> storage_bound (pt_Spec (ss_Template (StatefulSet i))) (PersistentVolumeClaim i) (PersistentVolume i)
    \<and> (kri_UserIdentifier j \<noteq> kri_UserIdentifier i \<longrightarrow>
         statefulset_pod (StatefulSet j) 0 \<noteq> statefulset_pod (StatefulSet i) 0
         \<and> om_Name (sv_Meta (HeadlessService j)) \<noteq> om_Name (sv_Meta (HeadlessService i))
         \<and> om_Name (pv_Meta (PersistentVolume j)) \<noteq> om_Name (pv_Meta (PersistentVolume i))
         \<and> \<not> selects (sv_Selector (HeadlessService j)) (om_Labels (pt_Meta (ss_Template (StatefulSet i)))))"
  using assms
  by (simp add: StatefulSet_def HeadlessService_def Pod_def PersistentVolumeClaim_def PersistentVolume_def named_def
      labelled_def app_label_def selects_def statefulset_pod_def storage_bound_def)

definition user_ident :: "string \<Rightarrow> KubeRessourceIdentifier" where
  "user_ident uid = \<lparr>kri_UserIdentifier = uid, kri_Namespace = UserNamespace, kri_ContainerIdentifier = [], kri_NodeName = [],
     kri_StorageClass = ''nfs''\<rparr>"

theorem user_objects_fit_witness:
  "storage_bound (pt_Spec (ss_Template (StatefulSet (user_ident ''alice-1'')))) (PersistentVolumeClaim (user_ident ''alice-1''))
      (PersistentVolume (user_ident ''alice-1''))
    \<and> statefulset_pod (StatefulSet (user_ident ''bob-2'')) 0 \<noteq> statefulset_pod (StatefulSet (user_ident ''alice-1'')) 0"
proof -
  have "kri_StorageClass (user_ident u) = ''nfs''" "kri_Namespace (user_ident u) = UserNamespace"
    "kri_UserIdentifier (user_ident u) = u" for u by (simp_all add: user_ident_def)
  with user_objects_fit [of "user_ident ''alice-1''" "user_ident ''bob-2''"] show ?thesis by auto
qed

text \<open>
  A deployment and the load balancer made for the same name belong together: the service selects the pods of the
  ssh deployment (and of the grader deployment), and a service made with the port of the container forwards to
  the port the container opens.
\<close>

theorem deployments_reachable:
  "selects (sv_Selector (ServiceLoadBalancer ns n p)) (om_Labels (pt_Meta (dp_Template (SSHDeployment ns n r))))
   \<and> selects (dp_Selector (SSHDeployment ns n r)) (om_Labels (pt_Meta (dp_Template (SSHDeployment ns n r))))
   \<and> selects (sv_Selector (ServiceClusterIP ns n p)) (om_Labels (pt_Meta (dp_Template (GraderDeployment ns n r))))
   \<and> map sp_TargetPort (sv_Ports (ServiceLoadBalancer ns n SSHPort)) =
       map cp_ContainerPort (concat (map ct_Ports (ps_Containers (pt_Spec (dp_Template (SSHDeployment ns n r))))))
   \<and> map sp_TargetPort (sv_Ports (ServiceClusterIP ns n GradeAPIport)) =
       map cp_ContainerPort (concat (map ct_Ports (ps_Containers (pt_Spec (dp_Template (GraderDeployment ns n r))))))"
  by (simp add: SSHDeployment_def GraderDeployment_def deployment_of_def ServiceLoadBalancer_def ServiceClusterIP_def
      ssh_container_def labelled_def app_label_def selects_def SSHPort_def GradeAPIport_def int32_def)

end
