(* ===== verification/Store_Wrapper.thy ===== *)
theory Store_Wrapper
  imports Config Std_Store Etcd_Correct
begin

text \<open>
  \<^verbatim>\<open>internal/storewrapper/storewrapper.go\<close>: typed access to a store. The wrapper owns four areas of the key
  space and stores JSON below them. Every operation takes the store's methods (\<open>store_iface\<close>) and the JSON
  codec of the type it stores; what \<^verbatim>\<open>encoding/json\<close> promises of a codec is \<open>json_ok\<close>. The facts about the
  wrapper are proved once inside \<open>kv_store\<close>, for every backend, and used through the two interpretations.
\<close>

section \<open>The wrapper\<close>

definition challengeLocationPrefix :: string where "challengeLocationPrefix = ''challenge-''"
definition publicKeyPrefix :: string where "publicKeyPrefix = ''publickey-''"
definition uuidKeyPrefix :: string where "uuidKeyPrefix = ''uuid-''"
definition privKeyLocation :: string where "privKeyLocation = ''privkey-ssh''"

text \<open>
  \<^verbatim>\<open>json.Marshal\<close> and \<^verbatim>\<open>json.Unmarshal\<close> at the type of the target. Every caller unmarshals into a fresh zero
  value, so decoding is a function of the data.
\<close>

record 'a codec =
  Marshal :: "'a \<Rightarrow> go_error + bytes"
  Unmarshal :: "bytes \<Rightarrow> go_error + 'a"

definition json_ok :: "'a codec \<Rightarrow> 'a \<Rightarrow> bool" where
  "json_ok c x \<longleftrightarrow> (\<exists>b. Marshal c x = Inr b \<and> Unmarshal c b = Inr x)"

definition put_json :: "'s store_iface \<Rightarrow> 'a codec \<Rightarrow> string \<Rightarrow> 'a \<Rightarrow> ('s, unit) io" where
  "put_json S c k x = bindE (lift_result (Marshal c x)) (\<lambda>d. SPut S k d)"

definition get_json :: "'s store_iface \<Rightarrow> 'a codec \<Rightarrow> string \<Rightarrow> ('s, 'a) io" where
  "get_json S c k = bindE (SGet S k) (\<lambda>d. lift_result (Unmarshal c d))"

definition PutChallengeData :: "'s store_iface \<Rightarrow> 'a codec \<Rightarrow> string \<Rightarrow> 'a \<Rightarrow> ('s, unit) io" where
  "PutChallengeData S c challengeName target = put_json S c (challengeLocationPrefix @ challengeName) target"

definition GetChallengeData :: "'s store_iface \<Rightarrow> 'a codec \<Rightarrow> string \<Rightarrow> ('s, 'a) io" where
  "GetChallengeData S c challengeName = get_json S c (challengeLocationPrefix @ challengeName)"

text \<open>\<^verbatim>\<open>ChallengeExists\<close> compares with \<^verbatim>\<open>errors.Is\<close> against a pointer it has just made.\<close>

definition ChallengeExists :: "'s store_iface \<Rightarrow> string \<Rightarrow> ('s, bool) io" where
  "ChallengeExists S challengeName =
     bindR (SGet S (challengeLocationPrefix @ challengeName)) (\<lambda>r. case r of
       Inl err \<Rightarrow> if errors_Is err FreshPointer then ret False else throw err
     | Inr _ \<Rightarrow> ret True)"

definition GetAllChallenges ::
  "'s store_iface \<Rightarrow> ContainerInformation codec \<Rightarrow> ('s, ContainerInformation gomap) io" where
  "GetAllChallenges S c =
     bindE (SIterator S challengeLocationPrefix) (\<lambda>it.
     drain S (drain_fuel it) (\<lambda>key challenges.
       let key = TrimPrefix key challengeLocationPrefix
       in bindE (GetChallengeData S c key) (\<lambda>challenge. ret (AList.update key challenge challenges))) it [])"

definition PutDataIdxByPubKey :: "'s store_iface \<Rightarrow> 'a codec \<Rightarrow> string \<Rightarrow> 'a \<Rightarrow> ('s, unit) io" where
  "PutDataIdxByPubKey S c pubkey target = put_json S c (publicKeyPrefix @ pubkey) target"

definition PutDataIdxByUuid :: "'s store_iface \<Rightarrow> 'a codec \<Rightarrow> string \<Rightarrow> 'a \<Rightarrow> ('s, unit) io" where
  "PutDataIdxByUuid S c uuid target = put_json S c (uuidKeyPrefix @ uuid) target"

definition GetPublicKeyData :: "'s store_iface \<Rightarrow> 'a codec \<Rightarrow> string \<Rightarrow> ('s, 'a) io" where
  "GetPublicKeyData S c publickey = get_json S c (publicKeyPrefix @ publickey)"

definition GetPublicKeyUuid :: "'s store_iface \<Rightarrow> 'a codec \<Rightarrow> string \<Rightarrow> ('s, 'a) io" where
  "GetPublicKeyUuid S c uuid = get_json S c (uuidKeyPrefix @ uuid)"

text \<open>\<^verbatim>\<open>errors.As\<close> finds a \<^verbatim>\<open>ValueUnsetError\<close> anywhere in the chain.\<close>

definition key_exists :: "'s store_iface \<Rightarrow> string \<Rightarrow> ('s, bool) io" where
  "key_exists S k = bindR (SGet S k) (\<lambda>r. case r of
       Inl err \<Rightarrow> if as_value_unset err then ret False else throw err
     | Inr _ \<Rightarrow> ret True)"

definition PublicKeyExists :: "'s store_iface \<Rightarrow> string \<Rightarrow> ('s, bool) io" where
  "PublicKeyExists S publicKey = key_exists S (publicKeyPrefix @ publicKey)"

definition UuidExists :: "'s store_iface \<Rightarrow> string \<Rightarrow> ('s, bool) io" where
  "UuidExists S uuid = key_exists S (uuidKeyPrefix @ uuid)"

definition GetAllPublicKeys ::
  "'s store_iface \<Rightarrow> UserInformation codec \<Rightarrow> ('s, UserInformation gomap) io" where
  "GetAllPublicKeys S c =
     bindE (SIterator S publicKeyPrefix) (\<lambda>it.
     drain S (drain_fuel it) (\<lambda>key userData.
       let key = TrimPrefix key publicKeyPrefix
       in bindE (GetPublicKeyData S c key) (\<lambda>user. ret (AList.update key user userData))) it [])"

definition GetAllKeys :: "'s store_iface \<Rightarrow> ('s, string list) io" where
  "GetAllKeys S = bindE (SIterator S []) (\<lambda>it. drain S (drain_fuel it) (\<lambda>key keys. ret (keys @ [key])) it [])"

definition PutPrivKey :: "'s store_iface \<Rightarrow> bytes \<Rightarrow> ('s, unit) io" where
  "PutPrivKey S privkey = SPut S privKeyLocation privkey"

definition GetPrivKey :: "'s store_iface \<Rightarrow> ('s, bytes) io" where
  "GetPrivKey S = SGet S privKeyLocation"

section \<open>Areas of the key space\<close>

lemmas area_defs = challengeLocationPrefix_def publicKeyPrefix_def uuidKeyPrefix_def privKeyLocation_def

lemma areas_disjoint [simp]:
  "challengeLocationPrefix @ a \<noteq> publicKeyPrefix @ b" "publicKeyPrefix @ b \<noteq> challengeLocationPrefix @ a"
  "challengeLocationPrefix @ a \<noteq> uuidKeyPrefix @ b" "uuidKeyPrefix @ b \<noteq> challengeLocationPrefix @ a"
  "publicKeyPrefix @ a \<noteq> uuidKeyPrefix @ b" "uuidKeyPrefix @ b \<noteq> publicKeyPrefix @ a"
  "publicKeyPrefix @ a \<noteq> privKeyLocation" "privKeyLocation \<noteq> publicKeyPrefix @ a"
  "uuidKeyPrefix @ a \<noteq> privKeyLocation" "privKeyLocation \<noteq> uuidKeyPrefix @ a"
  "challengeLocationPrefix @ a \<noteq> privKeyLocation" "privKeyLocation \<noteq> challengeLocationPrefix @ a"
  by (simp_all add: area_defs)

text \<open>The typed content of an area: what decoding finds under each name.\<close>

definition decode_map :: "'a codec \<Rightarrow> string \<Rightarrow> (string \<rightharpoonup> bytes) \<Rightarrow> string \<Rightarrow> 'a option" where
  "decode_map c p m k = (case m (p @ k) of
      Some b \<Rightarrow> (case Unmarshal c b of Inr x \<Rightarrow> Some x | Inl _ \<Rightarrow> None)
    | None \<Rightarrow> None)"

text \<open>The loop of \<^verbatim>\<open>GetAllPublicKeys\<close> and \<^verbatim>\<open>GetAllChallenges\<close>.\<close>

definition collect ::
  "'s store_iface \<Rightarrow> 'a codec \<Rightarrow> string \<Rightarrow> string \<Rightarrow> 'a gomap \<Rightarrow> ('s, 'a gomap) io" where
  "collect S c p key acc =
     bindE (get_json S c (p @ TrimPrefix key p)) (\<lambda>x. ret (AList.update (TrimPrefix key p) x acc))"

definition load_area :: "'s store_iface \<Rightarrow> 'a codec \<Rightarrow> string \<Rightarrow> ('s, 'a gomap) io" where
  "load_area S c p = bindE (SIterator S p) (\<lambda>it. drain S (drain_fuel it) (collect S c p) it [])"

lemma load_area_eqs:
  "GetAllPublicKeys S cu = load_area S cu publicKeyPrefix"
  "GetAllChallenges S cc = load_area S cc challengeLocationPrefix"
  by (simp_all add: GetAllPublicKeys_def GetAllChallenges_def load_area_def collect_def [abs_def] Let_def
      GetPublicKeyData_def GetChallengeData_def)

section \<open>What every backend gives the wrapper\<close>

context kv_store
begin

lemma get_json_frame:
  assumes "invar s" "get_json S c k s = Ret (r, s')"
  shows "invar s' \<and> kv s' = kv s"
  using assms(2) unfolding get_json_def
  by (rule bindE_RetE) (use assms(1) get_frame in \<open>auto simp: lift_result_def\<close>)

lemma get_json_value:
  assumes "invar s" "get_json S c k s = Ret (Inr x, s')"
  shows "\<exists>b. kv s k = Some b \<and> Unmarshal c b = Inr x"
  using assms get_value [OF assms(1)] by (auto simp: get_json_def bindE_Inr_iff lift_result_def)

lemma put_json_done:
  assumes "invar s" "put_json S c k x s = Ret (Inr (), s')"
  shows "\<exists>b. Marshal c x = Inr b \<and> invar s' \<and> kv s' = (kv s)(k \<mapsto> b)"
  using assms put_done [OF assms(1)] by (auto simp: put_json_def bindE_Inr_iff lift_result_def)

lemma put_get_json:
  assumes "invar s" "json_ok c x" "put_json S c k x s = Ret (Inr (), s')" "get_json S c k s' = Ret (Inr y, s'')"
  shows "y = x"
proof -
  obtain b where b: "Marshal c x = Inr b" "invar s'" "kv s' = (kv s)(k \<mapsto> b)"
    using put_json_done [OF assms(1,3)] by blast
  then show ?thesis using get_json_value [OF b(2) assms(4)] assms(2) by (auto simp: json_ok_def)
qed

lemma key_exists_true_iff:
  assumes "invar s" "key_exists S k s = Ret (Inr b, s')"
  shows "b \<longleftrightarrow> k \<in> dom (kv s)"
proof -
  obtain r where g: "SGet S k s = Ret (r, s')" and b: "(\<exists>e. r = Inl e \<and> as_value_unset e \<and> \<not> b) \<or> ((\<exists>v. r = Inr v) \<and> b)"
    using assms(2) by (auto simp: key_exists_def bindR_def io_defs split: outcome.splits sum.splits if_splits)
  show ?thesis using b get_value [OF assms(1)] get_unset [OF assms(1)] g by auto
qed

text \<open>The loading loop collects exactly the decoded entries of its keys.\<close>

lemma collect_fold:
  assumes "foldE (collect S c p) ks acc s = Ret (Inr m, s')" "invar s" "\<forall>k \<in> set ks. HasPrefix k p"
  shows "invar s' \<and> kv s' = kv s \<and>
    map_of m = (\<lambda>k. if p @ k \<in> set ks then decode_map c p (kv s) k else map_of acc k)"
  using assms
proof (induction ks arbitrary: acc s)
  case Nil
  then show ?case by (simp add: ret_def)
next
  case (Cons key ks)
  obtain k where k: "key = p @ k" "TrimPrefix key p = k" using Cons.prems(3) by (auto simp: HasPrefix_iff)
  obtain a s1 where a: "collect S c p key acc s = Ret (Inr a, s1)" "foldE (collect S c p) ks a s1 = Ret (Inr m, s')"
    using Cons.prems(1) by (auto simp: bindE_Inr_iff)
  then obtain x where x: "get_json S c (p @ k) s = Ret (Inr x, s1)"
    "foldE (collect S c p) ks (AList.update k x acc) s1 = Ret (Inr m, s')"
    unfolding collect_def [of S c p key] k(2) by (auto simp: bindE_Inr_iff ret_def)
  have s1: "invar s1" "kv s1 = kv s" using get_json_frame [OF Cons.prems(2) x(1)] by auto
  have d: "decode_map c p (kv s) k = Some x"
    using get_json_value [OF Cons.prems(2) x(1)] by (auto simp: decode_map_def)
  from Cons.IH [OF x(2) s1(1)] Cons.prems(3) k(1) d show ?case unfolding s1(2) by (auto simp: fun_eq_iff)
qed

lemma load_area_value:
  assumes "invar s" "load_area S c p s = Ret (Inr m, s')"
  shows "map_of m = decode_map c p (kv s) \<and> kv s' = kv s"
proof -
  obtain it s1 where it: "SIterator S p s = Ret (Inr it, s1)"
    "drain S (drain_fuel it) (collect S c p) it [] s1 = Ret (Inr m, s')"
    using assms(2) by (auto simp: load_area_def bindE_Inr_iff)
  have s1: "invar s1" "kv s1 = kv s" using iterator_frame [OF assms(1) it(1)] by auto
  have ks: "it_idx it = 0" "set (it_keys it) = {k \<in> dom (kv s). HasPrefix k p}"
    using iterator_keys [OF assms(1) it(1)] by auto
  have run: "foldE (collect S c p) (it_keys it) [] s1 = Ret (Inr m, s')"
    using it(2) drain_all [OF ks(1), of "collect S c p" "[]"] by metis
  have "decode_map c p (kv s) k = None" if "p @ k \<notin> dom (kv s)" for k
    using that by (auto simp: decode_map_def domIff)
  with collect_fold [OF run s1(1)] ks(2) show ?thesis unfolding s1(2) by (auto simp: fun_eq_iff)
qed

lemma load_area_frame:
  assumes "invar s" "load_area S c p s = Ret (Inr m, s')"
  shows "invar s'"
proof -
  obtain it s1 where it: "SIterator S p s = Ret (Inr it, s1)"
    "drain S (drain_fuel it) (collect S c p) it [] s1 = Ret (Inr m, s')"
    using assms(2) by (auto simp: load_area_def bindE_Inr_iff)
  have "it_idx it = 0" "\<forall>k \<in> set (it_keys it). HasPrefix k p" using iterator_keys [OF assms(1) it(1)] by auto
  with it(2) iterator_frame [OF assms(1) it(1)] collect_fold show ?thesis by (metis drain_all)
qed

lemma foldE_snoc: "foldE (\<lambda>key keys. ret (keys @ [key])) xs acc = ret (acc @ xs)"
  by (induction xs arbitrary: acc) simp_all

lemma GetAllKeys_value:
  assumes "invar s" "GetAllKeys S s = Ret (Inr ks, s')"
  shows "distinct ks \<and> set ks = dom (kv s)"
proof -
  obtain it s1 where it: "SIterator S [] s = Ret (Inr it, s1)"
    "drain S (drain_fuel it) (\<lambda>key keys. ret (keys @ [key])) it [] s1 = Ret (Inr ks, s')"
    using assms(2) by (auto simp: GetAllKeys_def bindE_Inr_iff)
  have "it_idx it = 0" "distinct (it_keys it)" "set (it_keys it) = dom (kv s)"
    using iterator_keys [OF assms(1) it(1)] by auto
  with it(2) show ?thesis by (simp add: drain_all foldE_snoc ret_def)
qed

lemma GetAllKeys_frame:
  assumes "invar s" "GetAllKeys S s = Ret (Inr ks, s')"
  shows "invar s' \<and> kv s' = kv s"
proof -
  obtain it s1 where it: "SIterator S [] s = Ret (Inr it, s1)"
    "drain S (drain_fuel it) (\<lambda>key keys. ret (keys @ [key])) it [] s1 = Ret (Inr ks, s')"
    using assms(2) by (auto simp: GetAllKeys_def bindE_Inr_iff)
  have "it_idx it = 0" using iterator_keys [OF assms(1) it(1)] by auto
  with it(2) have "s' = s1" by (simp add: drain_all foldE_snoc ret_def)
  with iterator_frame [OF assms(1) it(1)] show ?thesis by simp
qed

end

section \<open>What a backend that does not fail gives the wrapper\<close>

context reliable_store
begin

lemma put_json_run:
  assumes "invar s" "free s" "Marshal c x = Inr b"
  shows "\<exists>s'. put_json S c k x s = Ret (Inr (), s') \<and> invar s' \<and> free s' \<and> kv s' = (kv s)(k \<mapsto> b)"
proof -
  obtain s' where "SPut S k b s = Ret (Inr (), s')" "free s'" using put_succeeds [OF assms(1,2)] by blast
  with put_done [OF assms(1)] assms(3) show ?thesis by (auto simp: put_json_def io_simps lift_result_def)
qed

lemma get_json_run:
  assumes "invar s" "free s"
  shows "get_json S c k s =
    Ret (case kv s k of Some b \<Rightarrow> Unmarshal c b | None \<Rightarrow> Inl (ValueUnsetError k), s)"
  using get_answers [OF assms, of k] by (simp add: get_json_def bindE_def bindR_def io_defs split: option.split)

lemma key_exists_run:
  assumes "invar s" "free s"
  shows "key_exists S k s = Ret (Inr (k \<in> dom (kv s)), s)"
  using get_answers [OF assms, of k] by (auto simp: key_exists_def bindR_def io_defs split: option.split)

lemma ChallengeExists_run:
  assumes "invar s" "free s"
  shows "ChallengeExists S k s =
    Ret (if challengeLocationPrefix @ k \<in> dom (kv s) then Inr True
         else Inl (ValueUnsetError (challengeLocationPrefix @ k)), s)"
  using get_answers [OF assms, of "challengeLocationPrefix @ k"]
  by (auto simp: ChallengeExists_def bindR_def io_defs split: option.split)

lemma collect_fold_run:
  assumes "invar s" "free s" "\<forall>k \<in> set ks. HasPrefix k p \<and> (\<exists>b x. kv s k = Some b \<and> Unmarshal c b = Inr x)"
  shows "\<exists>m. foldE (collect S c p) ks acc s = Ret (Inr m, s)"
  using assms(3)
proof (induction ks arbitrary: acc)
  case (Cons k ks)
  obtain b x where b: "kv s k = Some b" "Unmarshal c b = Inr x" "p @ TrimPrefix k p = k"
    using Cons.prems by (auto simp: TrimPrefix_restore)
  then have "collect S c p k acc s = Ret (Inr (AList.update (TrimPrefix k p) x acc), s)"
    using get_json_run [OF assms(1,2), of c k] by (simp add: collect_def io_simps ret_def)
  with Cons show ?case by (simp add: io_simps)
qed (simp add: ret_def)

lemma load_area_run:
  assumes "invar s" "free s" "\<forall>k b. HasPrefix k p \<longrightarrow> kv s k = Some b \<longrightarrow> (\<exists>x. Unmarshal c b = Inr x)"
  shows "\<exists>m. load_area S c p s = Ret (Inr m, s) \<and> map_of m = decode_map c p (kv s)"
proof -
  obtain it where it: "SIterator S p s = Ret (Inr it, s)" using iterator_succeeds [OF assms(1,2)] by blast
  have ks: "it_idx it = 0" "set (it_keys it) = {k \<in> dom (kv s). HasPrefix k p}"
    using iterator_keys [OF assms(1) it] by auto
  obtain m where "foldE (collect S c p) (it_keys it) [] s = Ret (Inr m, s)"
    using collect_fold_run [OF assms(1,2), of "it_keys it" p c "[]"] ks(2) assms(3) by blast
  then have "load_area S c p s = Ret (Inr m, s)"
    using it drain_all [OF ks(1), of "collect S c p" "[]"] by (simp add: load_area_def io_simps)
  with load_area_value [OF assms(1)] show ?thesis by blast
qed

end

section \<open>Properties of the wrapper\<close>

lemma decode_map_put:
  assumes "Unmarshal c b = Inr x"
  shows "decode_map c p (m(p @ k \<mapsto> b)) = (decode_map c p m)(k \<mapsto> x)"
  using assms by (simp add: decode_map_def fun_eq_iff)

lemma decode_map_other: "(\<And>j. p @ j \<noteq> k) \<Longrightarrow> decode_map c p (m(k \<mapsto> b)) = decode_map c p m"
  by (simp add: decode_map_def fun_eq_iff)

text \<open>
  The two writes of a first login (\<^verbatim>\<open>PutDataIdxByUuid\<close>, then \<^verbatim>\<open>PutDataIdxByPubKey\<close>) on an in-memory store
  succeed; afterwards the record is found under the uuid and under the public key, both indices have grown by
  exactly this entry, and the challenges and the server's private key are untouched.
\<close>

theorem wrapper_store_user:
  assumes "std_wf s" "std_free s" "json_ok c u"
  shows "\<exists>s1 s2. PutDataIdxByUuid std_iface c uuid u s = Ret (Inr (), s1)
    \<and> PutDataIdxByPubKey std_iface c pk u s1 = Ret (Inr (), s2) \<and> std_wf s2 \<and> std_free s2
    \<and> GetPublicKeyUuid std_iface c uuid s2 = Ret (Inr u, s2) \<and> GetPublicKeyData std_iface c pk s2 = Ret (Inr u, s2)
    \<and> decode_map c uuidKeyPrefix (std_kv s2) = (decode_map c uuidKeyPrefix (std_kv s))(uuid \<mapsto> u)
    \<and> decode_map c publicKeyPrefix (std_kv s2) = (decode_map c publicKeyPrefix (std_kv s))(pk \<mapsto> u)
    \<and> decode_map cc challengeLocationPrefix (std_kv s2) = decode_map cc challengeLocationPrefix (std_kv s)
    \<and> std_kv s2 privKeyLocation = std_kv s privKeyLocation"
proof -
  obtain b where b: "Marshal c u = Inr b" "Unmarshal c b = Inr u" using assms(3) by (auto simp: json_ok_def)
  obtain s1 where s1: "put_json std_iface c (uuidKeyPrefix @ uuid) u s = Ret (Inr (), s1)" "std_wf s1" "std_free s1"
    "std_kv s1 = (std_kv s)(uuidKeyPrefix @ uuid \<mapsto> b)" using std.put_json_run [OF assms(1,2) b(1)] by blast
  obtain s2 where s2: "put_json std_iface c (publicKeyPrefix @ pk) u s1 = Ret (Inr (), s2)" "std_wf s2" "std_free s2"
    "std_kv s2 = (std_kv s1)(publicKeyPrefix @ pk \<mapsto> b)" using std.put_json_run [OF s1(2,3) b(1)] by blast
  have kv: "std_kv s2 = (std_kv s)(uuidKeyPrefix @ uuid \<mapsto> b, publicKeyPrefix @ pk \<mapsto> b)"
    using s1(4) s2(4) by simp
  have "decode_map c uuidKeyPrefix (std_kv s2) = (decode_map c uuidKeyPrefix (std_kv s))(uuid \<mapsto> u)"
    "decode_map c publicKeyPrefix (std_kv s2) = (decode_map c publicKeyPrefix (std_kv s))(pk \<mapsto> u)"
    "decode_map cc challengeLocationPrefix (std_kv s2) = decode_map cc challengeLocationPrefix (std_kv s)"
    "std_kv s2 privKeyLocation = std_kv s privKeyLocation"
    by (simp_all add: kv decode_map_put decode_map_other b(2))
  moreover have "get_json std_iface c (uuidKeyPrefix @ uuid) s2 = Ret (Inr u, s2)"
    "get_json std_iface c (publicKeyPrefix @ pk) s2 = Ret (Inr u, s2)"
    using b(2) by (simp_all add: std.get_json_run [OF s2(2,3)] kv)
  ultimately show ?thesis
    using s1(1) s2(1-3)
    unfolding PutDataIdxByUuid_def PutDataIdxByPubKey_def GetPublicKeyUuid_def GetPublicKeyData_def by blast
qed

text \<open>A small codec for the records that carry nothing but their uuid, for the concrete runs below.\<close>

definition uuid_codec :: "UserInformation codec" where
  "uuid_codec = \<lparr>Marshal = (\<lambda>u. Inr (''@'' @ Uuid u)),
     Unmarshal = (\<lambda>b. case b of [] \<Rightarrow> Inl (ErrorString ''unexpected end of JSON input'') | _ # d \<Rightarrow> Inr (zero_user\<lparr>Uuid := d\<rparr>))\<rparr>"

definition user7 :: UserInformation where
  "user7 = zero_user\<lparr>Uuid := ''u-7''\<rparr>"

lemma uuid_codec_user7: "json_ok uuid_codec user7"
  by (simp add: json_ok_def uuid_codec_def user7_def zero_user_def)

definition store7 :: std_store where
  "store7 = \<lparr>st_heap = (\<lambda>a. if a = 0 then [(''publickey-k'', ''@u-7''), (''uuid-u-7'', ''@u-7'')] else []), st_next = 1,
     st_data = 0, st_mut = False, st_txmut = False, st_range = id\<rparr>"

lemma store7_ok: "std_wf store7" "std_free store7"
  by (simp_all add: store7_def std_wf_def std_free_def gm_wf_def)

theorem wrapper_store_user_witness:
  "\<exists>s1 s2. PutDataIdxByUuid std_iface uuid_codec ''u-7'' user7 store7 = Ret (Inr (), s1)
    \<and> PutDataIdxByPubKey std_iface uuid_codec ''k2'' user7 s1 = Ret (Inr (), s2)
    \<and> GetPublicKeyData std_iface uuid_codec ''k2'' s2 = Ret (Inr user7, s2)"
  using wrapper_store_user [OF store7_ok uuid_codec_user7, of "''u-7''" "''k2''"] by blast

text \<open>
  On an in-memory store whose public-key entries all decode, \<^verbatim>\<open>GetAllPublicKeys\<close> succeeds and returns exactly
  the stored entries under their public keys, and leaves the store as it was.
\<close>

theorem wrapper_GetAllPublicKeys:
  assumes "std_wf s" "std_free s"
    and "\<forall>k b. HasPrefix k publicKeyPrefix \<longrightarrow> std_kv s k = Some b \<longrightarrow> (\<exists>x. Unmarshal c b = Inr x)"
  shows "\<exists>m. GetAllPublicKeys std_iface c s = Ret (Inr m, s) \<and> map_of m = decode_map c publicKeyPrefix (std_kv s)"
  unfolding load_area_eqs by (rule std.load_area_run [OF assms])

theorem wrapper_GetAllPublicKeys_witness:
  "\<exists>m. GetAllPublicKeys std_iface uuid_codec store7 = Ret (Inr m, store7) \<and> map_of m ''k'' = Some user7"
proof -
  have "\<forall>k b. HasPrefix k publicKeyPrefix \<longrightarrow> std_kv store7 k = Some b \<longrightarrow> (\<exists>x. Unmarshal uuid_codec b = Inr x)"
    by (auto simp: std_kv_def store7_def uuid_codec_def split: if_splits)
  moreover have "decode_map uuid_codec publicKeyPrefix (std_kv store7) ''k'' = Some user7"
    by (simp add: decode_map_def std_kv_def store7_def uuid_codec_def user7_def publicKeyPrefix_def)
  ultimately show ?thesis using wrapper_GetAllPublicKeys [OF store7_ok, of uuid_codec] by auto
qed

text \<open>
  C34: Over etcd the same functions are exact whenever they return without an error: \<^verbatim>\<open>GetAllPublicKeys\<close> and
  \<^verbatim>\<open>GetAllChallenges\<close> return the decoded content of their area, \<^verbatim>\<open>GetAllKeys\<close> every key once, and
  \<^verbatim>\<open>PublicKeyExists\<close> and \<^verbatim>\<open>UuidExists\<close> whether the key is bound.
\<close>

theorem wrapper_etcd_reads:
  assumes "etcd_wf w"
  shows "(\<forall>m w'. GetAllPublicKeys etcd_iface cu w = Ret (Inr m, w') \<longrightarrow> map_of m = decode_map cu publicKeyPrefix (etcd_kv w))
    \<and> (\<forall>m w'. GetAllChallenges etcd_iface cc w = Ret (Inr m, w') \<longrightarrow>
         map_of m = decode_map cc challengeLocationPrefix (etcd_kv w))
    \<and> (\<forall>ks w'. GetAllKeys etcd_iface w = Ret (Inr ks, w') \<longrightarrow> distinct ks \<and> set ks = dom (etcd_kv w))
    \<and> (\<forall>b w'. PublicKeyExists etcd_iface k w = Ret (Inr b, w') \<longrightarrow> b = (publicKeyPrefix @ k \<in> dom (etcd_kv w)))
    \<and> (\<forall>b w'. UuidExists etcd_iface k w = Ret (Inr b, w') \<longrightarrow> b = (uuidKeyPrefix @ k \<in> dom (etcd_kv w)))"
  unfolding load_area_eqs PublicKeyExists_def UuidExists_def
  using etcd.load_area_value [OF assms, of cu] etcd.load_area_value [OF assms, of cc]
    etcd.GetAllKeys_value [OF assms] etcd.key_exists_true_iff [OF assms]
  by blast

theorem wrapper_etcd_reads_witness:
  "\<exists>ks w'. GetAllKeys etcd_iface (mem_store [(etcdPrefix @ ''uuid-u-7'', ''@u-7'')]) = Ret (Inr ks, w')
     \<and> distinct ks \<and> set ks = {''uuid-u-7''}"
proof -
  let ?w = "mem_store [(etcdPrefix @ ''uuid-u-7'', ''@u-7'')]"
  have "SIterator etcd_iface [] ?w = Ret (Inr \<lparr>it_idx = 0, it_keys = [''uuid-u-7'']\<rparr>, ?w)"
    by (simp add: etcd_iface_def etcd_Iterator_def call_def mem_store_def mem_client_def io_defs bindR_def bindE_def Let_def)
  then have run: "\<exists>ks. GetAllKeys etcd_iface ?w = Ret (Inr ks, ?w)"
    by (simp add: GetAllKeys_def io_simps etcd.drain_all ret_def del: drain.simps)
  have "dom (etcd_kv ?w) = {''uuid-u-7''}"
    by (auto simp: etcd_kv_def mem_store_def mem_client_def split: if_splits)
  then show ?thesis using wrapper_etcd_reads [OF mem_store_wf] run by metis
qed

text \<open>
  \<^verbatim>\<open>ChallengeExists\<close> never answers "no": for a missing challenge it returns the store's error instead of
  \<^verbatim>\<open>false, nil\<close>, for every store.
\<close>

theorem ChallengeExists_never_false: "ChallengeExists S name s \<noteq> Ret (Inr False, s')"
  by (auto simp: ChallengeExists_def bindR_def io_defs split: outcome.splits sum.splits)

end
