(* ===== verification/Kube_Api.thy ===== *)
theory Kube_Api
  imports Kube_Templates Store_Wrapper
begin

text \<open>
  \<^verbatim>\<open>internal/k8sapi\<close>: the program's client of the Kubernetes API. The cluster is a parameter, a record of the calls
  the program makes; \<open>kube_laws\<close> states what those calls are documented to do to the objects the API server
  holds (\<open>kc_objects\<close>, a view the proofs use and no code reads). Pods are made by the cluster, not by the
  program, and are kept apart.
\<close>

section \<open>The API server\<close>

datatype k8s_object =
    KConfigMap ConfigMapObj | KNamespace PlainObj | KServiceAccount PlainObj | KSecret SecretObj
  | KStorageClass StorageClassObj | KPersistentVolume PersistentVolumeObj | KPersistentVolumeClaim PersistentVolumeClaimObj
  | KStatefulSet StatefulSetObj | KService ServiceObj | KDeployment DeploymentObj | KIngress IngressObj
  | KIngressClass IngressClassObj | KClusterRoleBinding ClusterRoleBindingObj

fun object_id :: "k8s_object \<Rightarrow> string \<times> string" where
  "object_id (KConfigMap x) = (''configmaps'', om_Name (cm_Meta x))"
| "object_id (KNamespace x) = (''namespaces'', om_Name (pl_Meta x))"
| "object_id (KServiceAccount x) = (''serviceaccounts'', om_Name (pl_Meta x))"
| "object_id (KSecret x) = (''secrets'', om_Name (sec_Meta x))"
| "object_id (KStorageClass x) = (''storageclasses'', om_Name (sc_Meta x))"
| "object_id (KPersistentVolume x) = (''persistentvolumes'', om_Name (pv_Meta x))"
| "object_id (KPersistentVolumeClaim x) = (''persistentvolumeclaims'', om_Name (pvc_Meta x))"
| "object_id (KStatefulSet x) = (''statefulsets'', om_Name (ss_Meta x))"
| "object_id (KService x) = (''services'', om_Name (sv_Meta x))"
| "object_id (KDeployment x) = (''deployments'', om_Name (dp_Meta x))"
| "object_id (KIngress x) = (''ingresses'', om_Name (ing_Meta x))"
| "object_id (KIngressClass x) = (''ingressclasses'', om_Name (ic_Meta x))"
| "object_id (KClusterRoleBinding x) = (''clusterrolebindings'', om_Name (crb_Meta x))"

text \<open>An object is addressed by its resource, its namespace (empty for cluster-wide resources) and its name.\<close>

type_synonym object_key = "string \<times> string \<times> string"

definition object_key :: "string \<Rightarrow> k8s_object \<Rightarrow> object_key" where
  "object_key ns x = (fst (object_id x), ns, snd (object_id x))"

record pod_info =
  pod_Phase :: string
  pod_PodIP :: string

record 'w kube_client =
  kc_create :: "string \<Rightarrow> k8s_object \<Rightarrow> ('w, unit) io"
  kc_get_configmap :: "string \<Rightarrow> string \<Rightarrow> ('w, ConfigMapObj) io"
  kc_update_configmap :: "string \<Rightarrow> ConfigMapObj \<Rightarrow> ('w, unit) io"
  kc_get_namespace :: "string \<Rightarrow> ('w, PlainObj) io"
  kc_get_statefulset :: "string \<Rightarrow> string \<Rightarrow> ('w, StatefulSetObj) io"
  kc_get_service :: "string \<Rightarrow> string \<Rightarrow> ('w, ServiceObj) io"
  kc_get_crb :: "string \<Rightarrow> ('w, ClusterRoleBindingObj) io"
  kc_update_crb :: "ClusterRoleBindingObj \<Rightarrow> ('w, unit) io"
  kc_get_pod :: "string \<Rightarrow> string \<Rightarrow> ('w, pod_info) io"
  kc_list_pods :: "string \<Rightarrow> ('w, string list) io"
  kc_poll :: "nat \<Rightarrow> nat \<Rightarrow> ('w, bool) io \<Rightarrow> ('w, unit) io"
  kc_poll_immediate :: "nat \<Rightarrow> nat \<Rightarrow> ('w, bool) io \<Rightarrow> ('w, unit) io"
  kc_objects :: "'w \<Rightarrow> (object_key \<rightharpoonup> k8s_object)"

text \<open>\<^verbatim>\<open>errors.IsNotFound\<close> of the apimachinery library looks through wrapped errors.\<close>

fun IsNotFound :: "go_error \<Rightarrow> bool" where
  "IsNotFound (NotFound _) = True"
| "IsNotFound (WrapError _ e) = IsNotFound e"
| "IsNotFound (JoinError es) = (\<exists>e \<in> set es. IsNotFound e)"
| "IsNotFound _ = False"

text \<open>A lookup that turns "not found" into \<^verbatim>\<open>false\<close>.\<close>

definition exists_by :: "('w, 'a) io \<Rightarrow> ('w, bool) io" where
  "exists_by get = bindR get (\<lambda>r. case r of
      Inl err \<Rightarrow> if IsNotFound err then ret False else throw err
    | Inr _ \<Rightarrow> ret True)"

section \<open>Single resources\<close>

definition CreateConfigMap :: "'w kube_client \<Rightarrow> string \<Rightarrow> string \<Rightarrow> ('w, unit) io" where
  "CreateConfigMap c namespace n = kc_create c namespace (KConfigMap (ConfigMap namespace n))"

definition AddDataToConfigMap :: "'w kube_client \<Rightarrow> string \<Rightarrow> string \<Rightarrow> string \<Rightarrow> string \<Rightarrow> ('w, unit) io" where
  "AddDataToConfigMap c namespace mapName key v =
     bindE (kc_get_configmap c namespace mapName) (\<lambda>cfgMap.
     let cfgMap' = (if length (cm_Data cfgMap) = 0 then cfgMap\<lparr>cm_Data := [(key, v)]\<rparr>
                    else cfgMap\<lparr>cm_Data := AList.update key v (cm_Data cfgMap)\<rparr>)
     in kc_update_configmap c namespace cfgMap')"

definition GetConfigMapData :: "'w kube_client \<Rightarrow> string \<Rightarrow> string \<Rightarrow> ('w, string gomap) io" where
  "GetConfigMapData c namespace mapName = bindE (kc_get_configmap c namespace mapName) (\<lambda>m. ret (cm_Data m))"

definition CreateNamespace :: "'w kube_client \<Rightarrow> string \<Rightarrow> ('w, unit) io" where
  "CreateNamespace c namespace = kc_create c [] (KNamespace (Namespace namespace))"

definition NamespaceExists :: "'w kube_client \<Rightarrow> string \<Rightarrow> ('w, bool) io" where
  "NamespaceExists c namespace = exists_by (kc_get_namespace c namespace)"

definition CreateServiceAccount :: "'w kube_client \<Rightarrow> string \<Rightarrow> string \<Rightarrow> ('w, unit) io" where
  "CreateServiceAccount c namespace n = kc_create c namespace (KServiceAccount (ServiceAccount namespace n))"

definition CreateSecret :: "'w kube_client \<Rightarrow> string \<Rightarrow> ('w, unit) io" where
  "CreateSecret c n = kc_create c ''kube-system'' (KSecret (Secret n))"

definition CreatePersistentVolume :: "'w kube_client \<Rightarrow> KubeRessourceIdentifier \<Rightarrow> ('w, unit) io" where
  "CreatePersistentVolume c ident = kc_create c [] (KPersistentVolume (PersistentVolume ident))"

definition CreatePersistentVolumeClaim :: "'w kube_client \<Rightarrow> KubeRessourceIdentifier \<Rightarrow> ('w, unit) io" where
  "CreatePersistentVolumeClaim c ident =
     kc_create c (kri_Namespace ident) (KPersistentVolumeClaim (PersistentVolumeClaim ident))"

definition CreateStorageClass :: "'w kube_client \<Rightarrow> string \<Rightarrow> string \<Rightarrow> ('w, unit) io" where
  "CreateStorageClass c n reclaimPolicy = kc_create c [] (KStorageClass (StorageClass n reclaimPolicy))"

definition CreateHeadlessService :: "'w kube_client \<Rightarrow> KubeRessourceIdentifier \<Rightarrow> ('w, unit) io" where
  "CreateHeadlessService c ident = kc_create c (kri_Namespace ident) (KService (HeadlessService ident))"

definition CreateServiceLoadBalancer :: "'w kube_client \<Rightarrow> string \<Rightarrow> string \<Rightarrow> int \<Rightarrow> ('w, unit) io" where
  "CreateServiceLoadBalancer c namespace serviceName portNum =
     kc_create c namespace (KService (ServiceLoadBalancer namespace serviceName portNum))"

definition CreateServiceClusterIP :: "'w kube_client \<Rightarrow> string \<Rightarrow> string \<Rightarrow> int \<Rightarrow> ('w, unit) io" where
  "CreateServiceClusterIP c namespace serviceName portNum =
     kc_create c namespace (KService (ServiceClusterIP namespace serviceName portNum))"

definition GetService :: "'w kube_client \<Rightarrow> string \<Rightarrow> string \<Rightarrow> ('w, ServiceObj) io" where
  "GetService c namespace serviceName = kc_get_service c namespace serviceName"

definition CreateSSHDeployment :: "'w kube_client \<Rightarrow> string \<Rightarrow> string \<Rightarrow> int \<Rightarrow> ('w, unit) io" where
  "CreateSSHDeployment c namespace deploymentName replicas =
     kc_create c namespace (KDeployment (SSHDeployment namespace deploymentName replicas))"

definition CreateGraderDeployment :: "'w kube_client \<Rightarrow> string \<Rightarrow> string \<Rightarrow> int \<Rightarrow> ('w, unit) io" where
  "CreateGraderDeployment c namespace deploymentName replicas =
     kc_create c namespace (KDeployment (GraderDeployment namespace deploymentName replicas))"

definition CreateIngress :: "'w kube_client \<Rightarrow> string \<Rightarrow> ('w, unit) io" where
  "CreateIngress c namespace =
     bindE (CreateConfigMap c ''default'' ''my-tcpservices-configmap'') (\<lambda>_.
     bindE (AddDataToConfigMap c ''default'' ''my-tcpservices-configmap'' ''22'' ''ssh/ssh-relay-service:2200'') (\<lambda>_.
     bindE (kc_create c [] (KIngressClass (IngressClass namespace))) (\<lambda>_.
     kc_create c namespace (KIngress (Ingress namespace)))))"

text \<open>Any error of the lookup counts as "there is no binding yet".\<close>

definition CreateClusterRoleBinding :: "'w kube_client \<Rightarrow> string \<Rightarrow> string \<Rightarrow> ('w, unit) io" where
  "CreateClusterRoleBinding c namespace n =
     bindR (kc_get_crb c ''add-on-cluster-admin'') (\<lambda>r. case r of
       Inl _ \<Rightarrow> kc_create c [] (KClusterRoleBinding (ClusterRoleBinding namespace n))
     | Inr binding \<Rightarrow> kc_update_crb c (binding\<lparr>crb_ResourceVersion := [],
         crb_Subjects := crb_Subjects binding @ [\<lparr>sub_Kind = ''ServiceAccount'', sub_Name = n, sub_Namespace = namespace\<rparr>]\<rparr>))"

section \<open>Pods and stateful sets\<close>

definition ListPods :: "'w kube_client \<Rightarrow> string \<Rightarrow> ('w, unit) io" where
  "ListPods c namespace = bindE (kc_list_pods c namespace) (\<lambda>_. ret ())"

definition GetPod :: "'w kube_client \<Rightarrow> string \<Rightarrow> string \<Rightarrow> ('w, pod_info) io" where
  "GetPod c namespace podName = kc_get_pod c namespace podName"

definition ErrPodCompleted :: go_error where
  "ErrPodCompleted = ExtError ''pod ran to completion''"

definition isPodRunning :: "'w kube_client \<Rightarrow> string \<Rightarrow> string \<Rightarrow> ('w, bool) io" where
  "isPodRunning c podName namespace =
     bindR (kc_get_pod c namespace (podName @ ''-statefulset-0'')) (\<lambda>r. case r of
       Inl err \<Rightarrow> if IsNotFound err then ret False else throw err
     | Inr pod \<Rightarrow>
         if pod_Phase pod = ''Running'' then ret True
         else if pod_Phase pod = ''Failed'' \<or> pod_Phase pod = ''Succeeded'' then throw ErrPodCompleted
         else ret False)"

text \<open>Times are in seconds.\<close>

definition WaitForPodRunning :: "'w kube_client \<Rightarrow> string \<Rightarrow> string \<Rightarrow> nat \<Rightarrow> ('w, unit) io" where
  "WaitForPodRunning c namespace podName timeout = kc_poll c 1 timeout (isPodRunning c podName namespace)"

definition isStatefulSetActive :: "'w kube_client \<Rightarrow> string \<Rightarrow> string \<Rightarrow> ('w, bool) io" where
  "isStatefulSetActive c statefulSetName namespace =
     exists_by (kc_get_statefulset c namespace (statefulSetName @ ''-statefulset''))"

definition WaitForStatefulSet :: "'w kube_client \<Rightarrow> string \<Rightarrow> string \<Rightarrow> nat \<Rightarrow> ('w, unit) io" where
  "WaitForStatefulSet c namespace statefulSetName timeout =
     kc_poll_immediate c 1 timeout (isStatefulSetActive c statefulSetName namespace)"

definition UserRessourcesExist :: "'w kube_client \<Rightarrow> string \<Rightarrow> string \<Rightarrow> ('w, bool) io" where
  "UserRessourcesExist c namespace statefulSetName = isStatefulSetActive c statefulSetName namespace"

definition CreateUserStatefulSet :: "'w kube_client \<Rightarrow> KubeRessourceIdentifier \<Rightarrow> ('w, unit) io" where
  "CreateUserStatefulSet c ident =
     bindE (CreateHeadlessService c ident) (\<lambda>_.
     kc_create c (kri_Namespace ident) (KStatefulSet (StatefulSet ident)))"

definition CreateUserRessources :: "'w kube_client \<Rightarrow> KubeRessourceIdentifier \<Rightarrow> ('w, unit) io" where
  "CreateUserRessources c ident0 =
     (let ident = ident0\<lparr>kri_StorageClass := ''nfs''\<rparr> in
     bindE (NamespaceExists c (kri_Namespace ident)) (\<lambda>exists.
     bindE (if \<not> exists then CreateNamespace c (kri_Namespace ident) else ret ()) (\<lambda>_.
     bindE (CreateUserStatefulSet c ident) (\<lambda>_.
     bindE (WaitForStatefulSet c (kri_Namespace ident) (kri_UserIdentifier ident) 20) (\<lambda>_.
     bindE (CreatePersistentVolumeClaim c ident) (\<lambda>_.
     bindE (CreatePersistentVolume c ident) (\<lambda>_.
     WaitForPodRunning c (kri_Namespace ident) (kri_UserIdentifier ident) 240)))))))"

section \<open>The client and the shared store\<close>

text \<open>
  \<^verbatim>\<open>k8sapi.Client\<close>: what \<^verbatim>\<open>NewClient\<close> sets up. The store is absent until \<^verbatim>\<open>ConnectToStore\<close>. Reading the kubeconfig and
  making the client set is library code, given as functions.
\<close>

record ('cfg, 's) Client =
  RestConfig :: 'cfg
  requestID :: int
  SharedStore :: "'s etcd_store option"

definition NewClient ::
  "string option \<Rightarrow> (go_error + 'cfg) \<Rightarrow> (string \<Rightarrow> go_error + 'cfg) \<Rightarrow> ('cfg \<Rightarrow> go_error + unit) \<Rightarrow> go_error + ('cfg, 's) Client" where
  "NewClient kubeconfig in_cluster from_flags new_for_config =
     (case (case kubeconfig of None \<Rightarrow> in_cluster | Some path \<Rightarrow> from_flags path) of
        Inl err \<Rightarrow> Inl err
      | Inr cfg \<Rightarrow> (case new_for_config cfg of
          Inl err \<Rightarrow> Inl err
        | Inr _ \<Rightarrow> Inr \<lparr>RestConfig = cfg, requestID = 1, SharedStore = None\<rparr>))"

definition ConnectToStore ::
  "(bytes \<Rightarrow> bytes \<Rightarrow> go_error + unit) \<Rightarrow> (string list \<Rightarrow> tls_config option \<Rightarrow> go_error + 's etcd_store)
   \<Rightarrow> ('cfg, 's) Client \<Rightarrow> EtcdCredentials \<Rightarrow> string list \<Rightarrow> (go_error + unit) \<times> ('cfg, 's) Client" where
  "ConnectToStore X509KeyPair New k creds endpoints =
     (case NewEtcdStore X509KeyPair New endpoints (Some (CaCertData creds)) (Some (PeerCertData creds)) (Some (KeyData creds)) of
        Inl err \<Rightarrow> (Inl err, k)
      | Inr sharedStore \<Rightarrow> (Inr (), k\<lparr>SharedStore := Some sharedStore\<rparr>))"

definition ErrNotConnected :: go_error where
  "ErrNotConnected = ErrorString ''client is not connected to etcd''"

definition GetStoreUserData ::
  "'s store_iface option \<Rightarrow> ContainerInformation codec \<Rightarrow> UserInformation codec \<Rightarrow> ('s, UserConfiguration) io" where
  "GetStoreUserData shared cc cu = (case shared of
      None \<Rightarrow> throw ErrNotConnected
    | Some S \<Rightarrow>
        bindE (GetAllChallenges S cc) (\<lambda>challenges.
        bindE (GetAllPublicKeys S cu) (\<lambda>userData.
        ret \<lparr>UUIDToUser = userData, PubKeyToUser = [], Containers = challenges\<rparr>)))"

definition UploadSSHServerPrivKey :: "'s store_iface option \<Rightarrow> bytes \<Rightarrow> ('s, unit) io" where
  "UploadSSHServerPrivKey shared privKey = (case shared of None \<Rightarrow> throw ErrNotConnected | Some S \<Rightarrow> PutPrivKey S privKey)"

definition DownloadSSHServerPrivKey :: "'s store_iface option \<Rightarrow> bytes \<Rightarrow> ('s, unit) io" where
  "DownloadSSHServerPrivKey shared privKey = (case shared of None \<Rightarrow> throw ErrNotConnected | Some S \<Rightarrow> PutPrivKey S privKey)"

definition GetKubeConfigPath :: "string option \<Rightarrow> (string \<Rightarrow> go_error option) \<Rightarrow> go_error + string" where
  "GetKubeConfigPath kubeconfig stat = (case kubeconfig of
      None \<Rightarrow> Inl (ErrorString ''KUBECONFIG not set'')
    | Some val \<Rightarrow> (case stat val of
        Some err \<Rightarrow> if errors_Is err (Sentinel ErrNotExist) then Inl (ErrorString ''KUBECONFIG file does not exist'') else Inl err
      | None \<Rightarrow> Inr val))"

end
