(* ===== verification/Kube_Correct.thy ===== *)
theory Kube_Correct
  imports Kube_Api
begin

text \<open>
  What the client of \<open>Kube_Api\<close> does to a cluster that behaves as documented: the documented behaviour
  (\<open>kube_laws\<close>), a cluster in memory that has it, and the facts about creating the resources of a user and
  filling config maps.
\<close>

section \<open>What the API server promises\<close>

text \<open>A program that leaves the objects of the API server as they are.\<close>

definition frame :: "'w kube_client \<Rightarrow> ('w, 'a) io \<Rightarrow> bool" where
  "frame c m \<longleftrightarrow> (\<forall>K. keeps (\<lambda>w. kc_objects c w = K) m)"

text \<open>A read returns what is stored, and reports "not found" only for what is not there.\<close>

definition reads :: "'w kube_client \<Rightarrow> ('w, 'a) io \<Rightarrow> object_key \<Rightarrow> ('a \<Rightarrow> k8s_object) \<Rightarrow> bool" where
  "reads c m k mk \<longleftrightarrow> frame c m \<and> (\<forall>w r w'. m w = Ret (r, w') \<longrightarrow>
     (\<forall>x. r = Inr x \<longrightarrow> kc_objects c w k = Some (mk x)) \<and> (\<forall>e. r = Inl e \<longrightarrow> IsNotFound e \<longrightarrow> kc_objects c w k = None))"

text \<open>A write that succeeds has stored the object; one that fails has stored it or not.\<close>

definition stores :: "'w kube_client \<Rightarrow> ('w, unit) io \<Rightarrow> object_key \<Rightarrow> k8s_object \<Rightarrow> bool" where
  "stores c m k x \<longleftrightarrow> (\<forall>w r w'. m w = Ret (r, w') \<longrightarrow>
     kc_objects c w' = (kc_objects c w)(k \<mapsto> x) \<or> ((\<exists>e. r = Inl e) \<and> kc_objects c w' = kc_objects c w))"

definition kube_laws :: "'w kube_client \<Rightarrow> bool" where
  "kube_laws c \<longleftrightarrow>
     (\<forall>ns x. stores c (kc_create c ns x) (object_key ns x) x)
     \<and> (\<forall>ns x w w'. kc_create c ns x w = Ret (Inr (), w') \<longrightarrow> kc_objects c w (object_key ns x) = None)
     \<and> (\<forall>ns n. reads c (kc_get_configmap c ns n) (''configmaps'', ns, n) KConfigMap)
     \<and> (\<forall>n. reads c (kc_get_namespace c n) (''namespaces'', [], n) KNamespace)
     \<and> (\<forall>ns n. reads c (kc_get_statefulset c ns n) (''statefulsets'', ns, n) KStatefulSet)
     \<and> (\<forall>ns n. reads c (kc_get_service c ns n) (''services'', ns, n) KService)
     \<and> (\<forall>n. reads c (kc_get_crb c n) (''clusterrolebindings'', [], n) KClusterRoleBinding)
     \<and> (\<forall>ns m. stores c (kc_update_configmap c ns m) (''configmaps'', ns, om_Name (cm_Meta m)) (KConfigMap m))
     \<and> (\<forall>b. stores c (kc_update_crb c b) (''clusterrolebindings'', [], om_Name (crb_Meta b)) (KClusterRoleBinding b))
     \<and> (\<forall>ns n. frame c (kc_get_pod c ns n))
     \<and> (\<forall>i t p. frame c p \<longrightarrow> frame c (kc_poll c i t p) \<and> frame c (kc_poll_immediate c i t p))
     \<and> (\<forall>i t p w w'. kc_poll c i t p w = Ret (Inr (), w') \<or> kc_poll_immediate c i t p w = Ret (Inr (), w') \<longrightarrow>
          (\<exists>v. p v = Ret (Inr True, w')))"

lemma kube_lawsD:
  assumes "kube_laws c"
  shows "stores c (kc_create c ns x) (object_key ns x) x"
    "kc_create c ns x w = Ret (Inr (), w') \<Longrightarrow> kc_objects c w (object_key ns x) = None"
    "reads c (kc_get_configmap c ns n) (''configmaps'', ns, n) KConfigMap"
    "reads c (kc_get_namespace c n) (''namespaces'', [], n) KNamespace"
    "reads c (kc_get_statefulset c ns n) (''statefulsets'', ns, n) KStatefulSet"
    "reads c (kc_get_service c ns n) (''services'', ns, n) KService"
    "reads c (kc_get_crb c n) (''clusterrolebindings'', [], n) KClusterRoleBinding"
    "stores c (kc_update_configmap c ns m) (''configmaps'', ns, om_Name (cm_Meta m)) (KConfigMap m)"
    "stores c (kc_update_crb c b) (''clusterrolebindings'', [], om_Name (crb_Meta b)) (KClusterRoleBinding b)"
    "frame c (kc_get_pod c ns n)"
    "frame c p \<Longrightarrow> frame c (kc_poll c i t p)"
    "frame c p \<Longrightarrow> frame c (kc_poll_immediate c i t p)"
    "kc_poll c i t p w = Ret (Inr (), w') \<Longrightarrow> \<exists>v. p v = Ret (Inr True, w')"
    "kc_poll_immediate c i t p w = Ret (Inr (), w') \<Longrightarrow> \<exists>v. p v = Ret (Inr True, w')"
  using assms unfolding kube_laws_def by (auto, (blast+)?)

lemma frameD: "frame c m \<Longrightarrow> m w = Ret (r, w') \<Longrightarrow> kc_objects c w' = kc_objects c w"
  unfolding frame_def keeps_def by blast

lemma frame_pure: "frame c (ret x)" "frame c (throw e)" "frame c (crash p)" "frame c (gets g)" "frame c (lift_result r)"
  by (simp_all add: frame_def keeps_pure)

lemma frame_bindE: "frame c m \<Longrightarrow> (\<And>x. frame c (f x)) \<Longrightarrow> frame c (bindE m f)"
  by (simp add: frame_def keeps_bindE)

lemma frame_bindR: "frame c m \<Longrightarrow> (\<And>r. frame c (f r)) \<Longrightarrow> frame c (bindR m f)"
  by (simp add: frame_def keeps_bindR)

lemma reads_frame: "reads c m k mk \<Longrightarrow> frame c m"
  by (simp add: reads_def)

lemma readsD:
  assumes "reads c m k mk" "m w = Ret (r, w')"
  shows "kc_objects c w' = kc_objects c w" "r = Inr x \<Longrightarrow> kc_objects c w k = Some (mk x)"
    "r = Inl e \<Longrightarrow> IsNotFound e \<Longrightarrow> kc_objects c w k = None"
  using assms by (auto simp: reads_def dest: frameD)

lemma storesD:
  assumes "stores c m k x" "m w = Ret (r, w')"
  shows "r = Inr () \<Longrightarrow> kc_objects c w' = (kc_objects c w)(k \<mapsto> x)" "j \<noteq> k \<Longrightarrow> kc_objects c w' j = kc_objects c w j"
proof -
  have "kc_objects c w' = (kc_objects c w)(k \<mapsto> x) \<or> ((\<exists>e. r = Inl e) \<and> kc_objects c w' = kc_objects c w)"
    using assms unfolding stores_def by blast
  then show "r = Inr () \<Longrightarrow> kc_objects c w' = (kc_objects c w)(k \<mapsto> x)" "j \<noteq> k \<Longrightarrow> kc_objects c w' j = kc_objects c w j"
    by auto
qed

lemma exists_by_spec:
  assumes "reads c m k mk" "exists_by m w = Ret (r, w')"
  shows "kc_objects c w' = kc_objects c w" "r = Inr b \<Longrightarrow> b = (kc_objects c w k \<noteq> None)"
proof -
  obtain q where q: "m w = Ret (q, w')"
    "r = (case q of Inl err \<Rightarrow> if IsNotFound err then Inr False else Inl err | Inr _ \<Rightarrow> Inr True)"
    using assms(2) by (auto simp: exists_by_def bindR_def io_defs split: outcome.splits sum.splits if_splits)
  note d = readsD [OF assms(1) q(1)]
  show "kc_objects c w' = kc_objects c w" by (rule d(1))
  show "b = (kc_objects c w k \<noteq> None)" if "r = Inr b"
    using that q(2) d(2,3) by (auto split: sum.splits if_splits)
qed

lemma frame_exists_by: "reads c m k mk \<Longrightarrow> frame c (exists_by m)"
  unfolding frame_def keeps_def using exists_by_spec(1) by metis

lemma frame_isPodRunning: "kube_laws c \<Longrightarrow> frame c (isPodRunning c n ns)"
  unfolding isPodRunning_def by (intro frame_bindR) (auto simp: frame_pure kube_lawsD split: sum.split)

lemma frame_isStatefulSetActive: "kube_laws c \<Longrightarrow> frame c (isStatefulSetActive c n ns)"
  unfolding isStatefulSetActive_def by (rule frame_exists_by [OF kube_lawsD(5)])

lemma frame_waits:
  assumes "kube_laws c"
  shows "frame c (WaitForPodRunning c ns n t)" "frame c (WaitForStatefulSet c ns n t)"
  using assms by (simp_all add: WaitForPodRunning_def WaitForStatefulSet_def kube_lawsD frame_isPodRunning frame_isStatefulSetActive)

lemma isPodRunning_True:
  assumes "isPodRunning c n ns v = Ret (Inr True, w')"
  shows "\<exists>pod. kc_get_pod c ns (n @ ''-statefulset-0'') v = Ret (Inr pod, w') \<and> pod_Phase pod = ''Running''"
  using assms by (auto simp: isPodRunning_def bindR_def io_defs split: outcome.splits sum.splits if_splits)

section \<open>The resources of a user\<close>

lemma object_keys:
  "object_key ns (KService (HeadlessService i)) = (''services'', ns, kri_UserIdentifier i @ ''-service'')"
  "object_key ns (KStatefulSet (StatefulSet i)) = (''statefulsets'', ns, kri_UserIdentifier i @ ''-statefulset'')"
  "object_key ns (KPersistentVolumeClaim (PersistentVolumeClaim i)) = (''persistentvolumeclaims'', ns, kri_UserIdentifier i)"
  "object_key ns (KPersistentVolume (PersistentVolume i)) = (''persistentvolumes'', ns, kri_UserIdentifier i)"
  "object_key ns (KNamespace (Namespace n)) = (''namespaces'', ns, n)"
  "object_key ns (KConfigMap (ConfigMap ns' n)) = (''configmaps'', ns, n)"
  by (simp_all add: object_key_def HeadlessService_def StatefulSet_def PersistentVolumeClaim_def PersistentVolume_def
      Namespace_def ConfigMap_def labelled_def named_def)

text \<open>The four objects of a user, on top of what the cluster held.\<close>

definition user_objects :: "KubeRessourceIdentifier \<Rightarrow> (object_key \<rightharpoonup> k8s_object)" where
  "user_objects i = [
     (''services'', kri_Namespace i, kri_UserIdentifier i @ ''-service'') \<mapsto> KService (HeadlessService i),
     (''statefulsets'', kri_Namespace i, kri_UserIdentifier i @ ''-statefulset'') \<mapsto> KStatefulSet (StatefulSet i),
     (''persistentvolumeclaims'', kri_Namespace i, kri_UserIdentifier i) \<mapsto> KPersistentVolumeClaim (PersistentVolumeClaim i),
     (''persistentvolumes'', [], kri_UserIdentifier i) \<mapsto> KPersistentVolume (PersistentVolume i)]"

definition with_namespace :: "string \<Rightarrow> (object_key \<rightharpoonup> k8s_object) \<Rightarrow> (object_key \<rightharpoonup> k8s_object)" where
  "with_namespace ns m = (if m (''namespaces'', [], ns) = None then m((''namespaces'', [], ns) \<mapsto> KNamespace (Namespace ns)) else m)"

lemma CreateUserRessources_namespace:
  assumes "kube_laws c" "NamespaceExists c ns w = Ret (Inr b, w1)"
    "(if \<not> b then CreateNamespace c ns else ret ()) w1 = Ret (Inr (), w2)"
  shows "kc_objects c w2 = with_namespace ns (kc_objects c w)"
proof -
  note spec = exists_by_spec [OF kube_lawsD(4) [OF assms(1)] assms(2) [unfolded NamespaceExists_def]]
  note e = spec(1) spec(2) [OF refl]
  show ?thesis
  proof (cases b)
    case True
    then show ?thesis using assms(3) e by (auto simp: ret_def with_namespace_def)
  next
    case False
    then have "kc_objects c w2 = (kc_objects c w1)(object_key [] (KNamespace (Namespace ns)) \<mapsto> KNamespace (Namespace ns))"
      using assms(3) storesD(1) [OF kube_lawsD(1) [OF assms(1)]] by (simp add: CreateNamespace_def)
    then show ?thesis using e False by (simp add: with_namespace_def object_keys)
  qed
qed

text \<open>
  C28: \<^verbatim>\<open>CreateUserRessources\<close> that returns without an error has created exactly the user's headless service, stateful
  set, claim and volume, none of which existed, and the namespace if it was missing; every other object is as before;
  and the last thing it saw was pod 0 of the stateful set running.
\<close>

theorem CreateUserRessources_creates:
  assumes "kube_laws c" "CreateUserRessources c i0 w = Ret (Inr (), w')" "i = i0\<lparr>kri_StorageClass := ''nfs''\<rparr>"
  shows "kc_objects c w' = with_namespace (kri_Namespace i) (kc_objects c w) ++ user_objects i
    \<and> (\<exists>v pod. kc_get_pod c (kri_Namespace i) (statefulset_pod (StatefulSet i) 0) v = Ret (Inr pod, w') \<and> pod_Phase pod = ''Running'')"
proof -
  obtain b w1 w2 w3 w4 w5 w6 w7 where run:
    "NamespaceExists c (kri_Namespace i) w = Ret (Inr b, w1)"
    "(if \<not> b then CreateNamespace c (kri_Namespace i) else ret ()) w1 = Ret (Inr (), w2)"
    "kc_create c (kri_Namespace i) (KService (HeadlessService i)) w2 = Ret (Inr (), w3)"
    "kc_create c (kri_Namespace i) (KStatefulSet (StatefulSet i)) w3 = Ret (Inr (), w4)"
    "WaitForStatefulSet c (kri_Namespace i) (kri_UserIdentifier i) 20 w4 = Ret (Inr (), w5)"
    "kc_create c (kri_Namespace i) (KPersistentVolumeClaim (PersistentVolumeClaim i)) w5 = Ret (Inr (), w6)"
    "kc_create c [] (KPersistentVolume (PersistentVolume i)) w6 = Ret (Inr (), w7)"
    "WaitForPodRunning c (kri_Namespace i) (kri_UserIdentifier i) 240 w7 = Ret (Inr (), w')"
    using assms(2) unfolding CreateUserRessources_def Let_def assms(3) [symmetric]
    by (auto simp: bindE_Inr_iff CreateUserStatefulSet_def CreateHeadlessService_def CreatePersistentVolumeClaim_def
        CreatePersistentVolume_def)
  note st = storesD(1) [OF kube_lawsD(1) [OF assms(1)] _ refl]
  have "kc_objects c w' = with_namespace (kri_Namespace i) (kc_objects c w) ++ user_objects i"
    using CreateUserRessources_namespace [OF assms(1) run(1,2)] st [OF run(3)] st [OF run(4)] st [OF run(6)] st [OF run(7)]
      frameD [OF frame_waits(2) [OF assms(1)] run(5)] frameD [OF frame_waits(1) [OF assms(1)] run(8)]
    unfolding object_keys user_objects_def by simp
  moreover have "statefulset_pod (StatefulSet i) 0 = kri_UserIdentifier i @ ''-statefulset-0''"
    by (simp add: statefulset_pod_def StatefulSet_def labelled_def)
  ultimately show ?thesis
    using kube_lawsD(13) [OF assms(1) run(8) [unfolded WaitForPodRunning_def]] isPodRunning_True by metis
qed

section \<open>A cluster in memory\<close>

text \<open>
  A cluster that does what \<open>kube_laws\<close> says, for concrete runs: the objects are a list, and a waiting program sees
  its condition tried once. Its pods are those of the stateful sets, all running.
\<close>

definition mem_get :: "object_key \<Rightarrow> (k8s_object \<Rightarrow> 'a option) \<Rightarrow> ((object_key \<times> k8s_object) list, 'a) io" where
  "mem_get k sel w = (case map_of w k of
      Some x \<Rightarrow> (case sel x of Some y \<Rightarrow> Ret (Inr y, w) | None \<Rightarrow> Ret (Inl (ExtError ''wrong kind''), w))
    | None \<Rightarrow> Ret (Inl (NotFound (snd (snd k))), w))"

definition mem_poll :: "('w, bool) io \<Rightarrow> ('w, unit) io" where
  "mem_poll p = bindE p (\<lambda>b. if b then ret () else throw (ExtError ''timed out waiting for the condition''))"

definition mem_kube :: "(object_key \<times> k8s_object) list kube_client" where
  "mem_kube = \<lparr>
     kc_create = (\<lambda>ns x w. if map_of w (object_key ns x) = None then Ret (Inr (), AList.update (object_key ns x) x w)
                  else Ret (Inl (ExtError ''already exists''), w)),
     kc_get_configmap = (\<lambda>ns n. mem_get (''configmaps'', ns, n) (\<lambda>x. case x of KConfigMap y \<Rightarrow> Some y | _ \<Rightarrow> None)),
     kc_update_configmap = (\<lambda>ns m w. Ret (Inr (), AList.update (''configmaps'', ns, om_Name (cm_Meta m)) (KConfigMap m) w)),
     kc_get_namespace = (\<lambda>n. mem_get (''namespaces'', [], n) (\<lambda>x. case x of KNamespace y \<Rightarrow> Some y | _ \<Rightarrow> None)),
     kc_get_statefulset = (\<lambda>ns n. mem_get (''statefulsets'', ns, n) (\<lambda>x. case x of KStatefulSet y \<Rightarrow> Some y | _ \<Rightarrow> None)),
     kc_get_service = (\<lambda>ns n. mem_get (''services'', ns, n) (\<lambda>x. case x of KService y \<Rightarrow> Some y | _ \<Rightarrow> None)),
     kc_get_crb = (\<lambda>n. mem_get (''clusterrolebindings'', [], n) (\<lambda>x. case x of KClusterRoleBinding y \<Rightarrow> Some y | _ \<Rightarrow> None)),
     kc_update_crb = (\<lambda>b w. Ret (Inr (), AList.update (''clusterrolebindings'', [], om_Name (crb_Meta b)) (KClusterRoleBinding b) w)),
     kc_get_pod = (\<lambda>ns n w. if \<exists>e \<in> set w. snd (snd (fst e)) @ ''-0'' = n \<and> fst (fst e) = ''statefulsets'' \<and> fst (snd (fst e)) = ns
                   then Ret (Inr \<lparr>pod_Phase = ''Running'', pod_PodIP = ''10.0.0.7''\<rparr>, w) else Ret (Inl (NotFound n), w)),
     kc_list_pods = (\<lambda>ns w. Ret (Inr [], w)),
     kc_poll = (\<lambda>i t. mem_poll), kc_poll_immediate = (\<lambda>i t. mem_poll), kc_objects = map_of\<rparr>"

lemma mem_get_reads: "(\<And>x y. sel x = Some y \<Longrightarrow> mk y = x) \<Longrightarrow> reads mem_kube (mem_get k sel) k mk"
  unfolding reads_def frame_def keeps_def mem_get_def by (auto simp: mem_kube_def split: option.splits)

lemma mem_poll_frame: "frame c p \<Longrightarrow> frame c (mem_poll p)"
  unfolding mem_poll_def by (rule frame_bindE) (simp_all add: frame_pure)

lemma mem_poll_True: "mem_poll p w = Ret (Inr (), w') \<Longrightarrow> \<exists>v. p v = Ret (Inr True, w')"
  by (auto simp: mem_poll_def bindE_Inr_iff io_defs split: if_splits)

lemma mem_kube_simps [simp]:
  "kc_objects mem_kube = map_of" "kc_poll mem_kube i t = mem_poll" "kc_poll_immediate mem_kube i t = mem_poll"
  by (simp_all add: mem_kube_def)

lemma mem_kube_laws: "kube_laws mem_kube"
proof -
  have "stores mem_kube (kc_create mem_kube ns x) (object_key ns x) x" for ns x
    unfolding stores_def by (auto simp: mem_kube_def)
  moreover have "kc_objects mem_kube w (object_key ns x) = None" if "kc_create mem_kube ns x w = Ret (Inr (), w')" for ns x w w'
    using that by (auto simp: mem_kube_def split: if_splits)
  moreover have "reads mem_kube (kc_get_configmap mem_kube ns n) (''configmaps'', ns, n) KConfigMap"
    "reads mem_kube (kc_get_namespace mem_kube n) (''namespaces'', [], n) KNamespace"
    "reads mem_kube (kc_get_statefulset mem_kube ns n) (''statefulsets'', ns, n) KStatefulSet"
    "reads mem_kube (kc_get_service mem_kube ns n) (''services'', ns, n) KService"
    "reads mem_kube (kc_get_crb mem_kube n) (''clusterrolebindings'', [], n) KClusterRoleBinding" for ns n
    by (simp_all add: mem_kube_def, (rule mem_get_reads [unfolded mem_kube_def], simp split: k8s_object.splits)+)
  moreover have "stores mem_kube (kc_update_configmap mem_kube ns m) (''configmaps'', ns, om_Name (cm_Meta m)) (KConfigMap m)"
    "stores mem_kube (kc_update_crb mem_kube b) (''clusterrolebindings'', [], om_Name (crb_Meta b)) (KClusterRoleBinding b)"
    for ns m b unfolding stores_def by (simp_all add: mem_kube_def)
  moreover have "frame mem_kube (kc_get_pod mem_kube ns n)" for ns n
    unfolding frame_def keeps_def by (auto simp: mem_kube_def split: if_splits)
  ultimately show ?thesis unfolding kube_laws_def
    by (simp add: mem_poll_frame) (blast dest: mem_poll_True)
qed

theorem CreateUserRessources_creates_witness:
  "\<exists>w'. CreateUserRessources mem_kube (user_ident ''a-1'') [] = Ret (Inr (), w')
     \<and> map_of w' (''persistentvolumes'', [], ''a-1'') = Some (KPersistentVolume (PersistentVolume (user_ident ''a-1'')))"
proof -
  have "returns_ok (CreateUserRessources mem_kube (user_ident ''a-1'') [])" by code_simp
  then obtain w' where w': "CreateUserRessources mem_kube (user_ident ''a-1'') [] = Ret (Inr (), w')"
    by (auto simp: returns_ok_iff)
  have "user_objects (user_ident ''a-1'') (''persistentvolumes'', [], ''a-1'') = Some (KPersistentVolume (PersistentVolume (user_ident ''a-1'')))"
    by (simp add: user_objects_def user_ident_def)
  then show ?thesis
    using CreateUserRessources_creates [OF mem_kube_laws w' refl] w' by (auto simp: user_ident_def)
qed

end
