(* ===== verification/Kube_User.thy ===== *)
theory Kube_User
  imports Kube_Correct
begin

text \<open>
  \<^verbatim>\<open>ssh/kubernetes\<close>: what the ssh server asks of the cluster for a logged-in user. The operations run on the client of
  \<open>Kube_Api\<close> and on the agent inside the user's pod, whose two calls are the record \<open>vm_client\<close> (implemented in
  \<^verbatim>\<open>agent/vmapi\<close>). The interfaces \<^verbatim>\<open>K8sAPI\<close> and \<^verbatim>\<open>K8sAPIUser\<close> are records of methods.
\<close>

section \<open>The wrapper\<close>

record 'w vm_client =
  CreateExecInPodgRPC :: "string \<Rightarrow> KubeExecConfig \<Rightarrow> ('w, unit) io"
  WriteFileInPodgRPC :: "string \<Rightarrow> KubeFileWriteConfig \<Rightarrow> ('w, unit) io"

record 'w K8sAPIWrapper =
  kw_Client :: "'w kube_client"
  kw_API :: "'w vm_client"

definition NewK8sAPIWrapper :: "go_error + 'w kube_client \<Rightarrow> 'w vm_client \<Rightarrow> go_error + 'w K8sAPIWrapper" where
  "NewK8sAPIWrapper newClient api = (case newClient of Inl err \<Rightarrow> Inl err | Inr client \<Rightarrow> Inr \<lparr>kw_Client = client, kw_API = api\<rparr>)"

definition wrapper_CreateAndWaitForRessources :: "'w K8sAPIWrapper \<Rightarrow> KubeRessourceIdentifier \<Rightarrow> ('w, unit) io" where
  "wrapper_CreateAndWaitForRessources k conf =
     bindE (UserRessourcesExist (kw_Client k) (kri_Namespace conf) (kri_UserIdentifier conf)) (\<lambda>exists.
     bindE (if \<not> exists then CreateUserRessources (kw_Client k) conf else ret ()) (\<lambda>_.
     WaitForPodRunning (kw_Client k) (kri_Namespace conf) (kri_UserIdentifier conf) 60))"

text \<open>Both calls into the pod look up the user's service and pod first, and dial the agent on the pod's address.\<close>

definition agent_endpoint :: "'w kube_client \<Rightarrow> string \<Rightarrow> string \<Rightarrow> ('w, string) io" where
  "agent_endpoint c namespace userIdentifier =
     bindE (GetService c namespace (userIdentifier @ ''-service'')) (\<lambda>service.
     bindE (GetPod c namespace (userIdentifier @ ''-statefulset-0'')) (\<lambda>pod.
     ret (JoinHostPort (pod_PodIP pod) (Itoa AgentPort))))"

definition wrapper_ExecuteCommandInPod :: "'w K8sAPIWrapper \<Rightarrow> KubeExecConfig \<Rightarrow> ('w, unit) io" where
  "wrapper_ExecuteCommandInPod k conf =
     bindE (agent_endpoint (kw_Client k) (kec_Namespace conf) (kec_UserIdentifier conf)) (\<lambda>endpoint.
     CreateExecInPodgRPC (kw_API k) endpoint conf)"

definition wrapper_WriteFileInPod :: "'w K8sAPIWrapper \<Rightarrow> KubeFileWriteConfig \<Rightarrow> ('w, unit) io" where
  "wrapper_WriteFileInPod k conf =
     bindE (agent_endpoint (kw_Client k) (kfw_Namespace conf) (kfw_UserIdentifier conf)) (\<lambda>endpoint.
     WriteFileInPodgRPC (kw_API k) endpoint conf)"

section \<open>Interfaces for the connection handlers\<close>

record 'w K8sAPI =
  CreateAndWaitForRessources :: "KubeRessourceIdentifier \<Rightarrow> ('w, unit) io"
  ExecuteCommandInPod :: "KubeExecConfig \<Rightarrow> ('w, unit) io"
  CreatePodPortForward :: "KubeForwardConfig \<Rightarrow> ('w, unit) io"
  WriteFileInPod :: "KubeFileWriteConfig \<Rightarrow> ('w, unit) io"

definition wrapper_api :: "(KubeForwardConfig \<Rightarrow> ('w, unit) io) \<Rightarrow> 'w K8sAPIWrapper \<Rightarrow> 'w K8sAPI" where
  "wrapper_api forward k = \<lparr>CreateAndWaitForRessources = wrapper_CreateAndWaitForRessources k,
     ExecuteCommandInPod = wrapper_ExecuteCommandInPod k, CreatePodPortForward = forward,
     WriteFileInPod = wrapper_WriteFileInPod k\<rparr>"

record 'w K8sAPIUser =
  UserInformation_of :: KubeRessourceIdentifier
  user_api :: "'w K8sAPI"

definition NewK8sAPIUserWrapper :: "'w K8sAPI \<Rightarrow> KubeRessourceIdentifier \<Rightarrow> 'w K8sAPIUser" where
  "NewK8sAPIUserWrapper api userInfo = \<lparr>UserInformation_of = userInfo, user_api = api\<rparr>"

definition GetUserInformation :: "'w K8sAPIUser \<Rightarrow> KubeRessourceIdentifier" where
  "GetUserInformation k = UserInformation_of k"

definition GetNamespace :: "'w K8sAPIUser \<Rightarrow> string" where
  "GetNamespace k = kri_Namespace (UserInformation_of k)"

definition GetAuthenticatedUserID :: "'w K8sAPIUser \<Rightarrow> string" where
  "GetAuthenticatedUserID k = kri_UserIdentifier (UserInformation_of k)"

text \<open>\<^verbatim>\<open>os.Getenv\<close> of an unset variable is empty.\<close>

definition GetNodeName :: "string gomap \<Rightarrow> string" where
  "GetNodeName env = (case map_of env NodeNameEnvVariable of Some v \<Rightarrow> v | None \<Rightarrow> [])"

section \<open>The store of the running server\<close>

definition is_space :: "char \<Rightarrow> bool" where
  "is_space ch \<longleftrightarrow> ch \<in> {CHR 0x09, CHR 0x0A, CHR 0x0B, CHR 0x0C, CHR 0x0D, CHR '' ''}"

definition TrimSpace :: "string \<Rightarrow> string" where
  "TrimSpace s = rev (dropWhile is_space (rev (dropWhile is_space s)))"

text \<open>
  The loop of \<^verbatim>\<open>waitForNamespaceMount\<close>: the list holds what reading the file gives at each tick until the context
  ends, which is the end of the list.
\<close>

fun waitForNamespaceMount :: "(go_error + bytes) list \<Rightarrow> go_error + string" where
  "waitForNamespaceMount [] = Inl DeadlineExceeded"
| "waitForNamespaceMount (r # rs) = (case r of
      Inl err \<Rightarrow> if \<not> errors_Is err (Sentinel ErrNotExist) then Inl err else waitForNamespaceMount rs
    | Inr content \<Rightarrow> (let ns = TrimSpace content in if length ns \<noteq> 0 then Inr ns else waitForNamespaceMount rs))"

definition lookup_str :: "string gomap \<Rightarrow> string \<Rightarrow> string" where
  "lookup_str m k = (case map_of m k of Some v \<Rightarrow> v | None \<Rightarrow> [])"

definition pod_namespace :: "go_error option \<Rightarrow> (go_error + bytes) \<Rightarrow> (go_error + bytes) list \<Rightarrow> go_error + string" where
  "pod_namespace stat content ticks = (case stat of
      Some err \<Rightarrow> if errors_Is err (Sentinel ErrNotExist) then waitForNamespaceMount ticks
                   else (case content of Inr d \<Rightarrow> Inr (TrimSpace d) | Inl e \<Rightarrow> Inl e)
    | None \<Rightarrow> (case content of Inr d \<Rightarrow> Inr (TrimSpace d) | Inl e \<Rightarrow> Inl e))"

definition GetStore ::
  "'w kube_client \<Rightarrow> (bytes \<Rightarrow> bytes \<Rightarrow> go_error + unit) \<Rightarrow> (string list \<Rightarrow> tls_config option \<Rightarrow> go_error + 's etcd_store)
   \<Rightarrow> go_error option \<Rightarrow> (go_error + bytes) \<Rightarrow> (go_error + bytes) list \<Rightarrow> ('w, 's etcd_store) io" where
  "GetStore c X509KeyPair New stat content ticks =
     bindE (lift_result (pod_namespace stat content ticks)) (\<lambda>ns.
     bindE (GetConfigMapData c ns ''etcd-credentials'') (\<lambda>configData.
     lift_result (NewEtcdStore X509KeyPair New [JoinHostPort (lookup_str configData ''advertiseAddr'') ''2379'']
       (Some (lookup_str configData ''caCert'')) (Some (lookup_str configData ''cert'')) (Some (lookup_str configData ''key'')))))"

section \<open>Properties\<close>

text \<open>
  A login of a user whose stateful set exists changes no object of the cluster. This makes logins of complete
  users idempotent; it also means that a user whose first login failed after the stateful set was made never gets
  the claim and the volume by logging in again.
\<close>

theorem existing_user_creates_nothing:
  assumes "kube_laws (kw_Client k)"
    and "kc_objects (kw_Client k) w (''statefulsets'', kri_Namespace conf, kri_UserIdentifier conf @ ''-statefulset'') \<noteq> None"
    and "wrapper_CreateAndWaitForRessources k conf w = Ret (r, w')"
  shows "kc_objects (kw_Client k) w' = kc_objects (kw_Client k) w"
  using assms(3) unfolding wrapper_CreateAndWaitForRessources_def
proof (cases rule: bindE_RetE)
  case (failed e)
  then show ?thesis
    using exists_by_spec(1) [OF kube_lawsD(5) [OF assms(1)]] by (simp add: UserRessourcesExist_def isStatefulSetActive_def)
next
  case (returned b w1)
  note e = exists_by_spec [OF kube_lawsD(5) [OF assms(1)] returned(1) [unfolded UserRessourcesExist_def isStatefulSetActive_def]]
  have "WaitForPodRunning (kw_Client k) (kri_Namespace conf) (kri_UserIdentifier conf) 60 w1 = Ret (r, w')"
    using returned(2) e(2) [OF refl] assms(2) by simp
  from frameD [OF frame_waits(1) [OF assms(1)] this] e(1) show ?thesis by simp
qed

definition down_vm :: "'w vm_client" where
  "down_vm = \<lparr>CreateExecInPodgRPC = (\<lambda>_ _. throw (ExtError ''unavailable'')), WriteFileInPodgRPC = (\<lambda>_ _. throw (ExtError ''unavailable''))\<rparr>"

definition half_user :: "(object_key \<times> k8s_object) list" where
  "half_user = [((''statefulsets'', UserNamespace, ''a-1-statefulset''), KStatefulSet (StatefulSet (user_ident ''a-1'')))]"

theorem existing_user_creates_nothing_witness:
  "\<exists>w'. wrapper_CreateAndWaitForRessources \<lparr>kw_Client = mem_kube, kw_API = down_vm\<rparr> (user_ident ''a-1'') half_user = Ret (Inr (), w')
     \<and> map_of w' = map_of half_user \<and> map_of w' (''persistentvolumes'', [], ''a-1'') = None"
proof -
  let ?k = "\<lparr>kw_Client = mem_kube, kw_API = down_vm\<rparr>"
  have "returns_ok (wrapper_CreateAndWaitForRessources ?k (user_ident ''a-1'') half_user)" by code_simp
  then obtain w' where w': "wrapper_CreateAndWaitForRessources ?k (user_ident ''a-1'') half_user = Ret (Inr (), w')"
    by (auto simp: returns_ok_iff)
  have "kc_objects (kw_Client ?k) half_user (''statefulsets'', kri_Namespace (user_ident ''a-1''), kri_UserIdentifier (user_ident ''a-1'') @ ''-statefulset'') \<noteq> None"
    by (simp add: half_user_def user_ident_def)
  from existing_user_creates_nothing [OF _ this w'] mem_kube_laws w' show ?thesis by (auto simp: half_user_def)
qed

lemma exec_in_pod_cases:
  assumes "kube_laws (kw_Client k)" "wrapper_ExecuteCommandInPod k conf w = Ret (r, w')"
  shows "(\<exists>e. r = Inl e \<and> kc_objects (kw_Client k) w' = kc_objects (kw_Client k) w)
    \<or> (\<exists>pod v w1. kc_get_pod (kw_Client k) (kec_Namespace conf) (kec_UserIdentifier conf @ ''-statefulset-0'') v = Ret (Inr pod, w1)
        \<and> CreateExecInPodgRPC (kw_API k) (JoinHostPort (pod_PodIP pod) (Itoa AgentPort)) conf w1 = Ret (r, w')
        \<and> (\<exists>s. kc_objects (kw_Client k) w (''services'', kec_Namespace conf, kec_UserIdentifier conf @ ''-service'') = Some (KService s)))"
  using assms(2) unfolding wrapper_ExecuteCommandInPod_def
proof (cases rule: bindE_RetE)
  case (failed e)
  have "frame (kw_Client k) (agent_endpoint (kw_Client k) (kec_Namespace conf) (kec_UserIdentifier conf))"
    unfolding agent_endpoint_def GetService_def GetPod_def
    by (intro frame_bindE frame_pure kube_lawsD(10) [OF assms(1)] reads_frame [OF kube_lawsD(6) [OF assms(1)]])
  from frameD [OF this failed(1)] failed(2) show ?thesis by blast
next
  case (returned endpoint w2)
  then obtain s v pod where p: "kc_get_service (kw_Client k) (kec_Namespace conf) (kec_UserIdentifier conf @ ''-service'') w = Ret (Inr s, v)"
    "kc_get_pod (kw_Client k) (kec_Namespace conf) (kec_UserIdentifier conf @ ''-statefulset-0'') v = Ret (Inr pod, w2)"
    "endpoint = JoinHostPort (pod_PodIP pod) (Itoa AgentPort)"
    by (auto simp: agent_endpoint_def bindE_Inr_iff GetService_def GetPod_def ret_def)
  with returned(2) readsD(2) [OF kube_lawsD(6) [OF assms(1)] p(1) refl] show ?thesis by blast
qed

text \<open>
  C10: A command for a user reaches the agent only through the user's own service and pod: whenever a call is made,
  the service \<^verbatim>\<open><uid>-service\<close> was found in the cluster and the endpoint is the address of \<^verbatim>\<open><uid>-statefulset-0\<close> with
  the agent's port. When there is no such service, nothing is called and an error is returned.
\<close>

theorem exec_goes_to_the_users_pod:
  assumes "kube_laws (kw_Client k)" "wrapper_ExecuteCommandInPod k conf w = Ret (r, w')"
  shows "(\<exists>e. r = Inl e \<and> kc_objects (kw_Client k) w' = kc_objects (kw_Client k) w)
    \<or> (\<exists>pod v w1. kc_get_pod (kw_Client k) (kec_Namespace conf) (kec_UserIdentifier conf @ ''-statefulset-0'') v = Ret (Inr pod, w1)
        \<and> CreateExecInPodgRPC (kw_API k) (JoinHostPort (pod_PodIP pod) (Itoa AgentPort)) conf w1 = Ret (r, w')
        \<and> (\<exists>s. kc_objects (kw_Client k) w (''services'', kec_Namespace conf, kec_UserIdentifier conf @ ''-service'') = Some (KService s)))"
  by (rule exec_in_pod_cases [OF assms])

definition busy_vm :: "'w vm_client" where
  "busy_vm = \<lparr>CreateExecInPodgRPC = (\<lambda>_ _. ret ()), WriteFileInPodgRPC = (\<lambda>_ _. ret ())\<rparr>"

definition shell_conf :: "string \<Rightarrow> KubeExecConfig" where
  "shell_conf uid = \<lparr>kec_Namespace = UserNamespace, kec_UserIdentifier = uid, kec_Command = ''bash'', kec_Communication = 0,
     kec_WinQueue = 0, kec_Tty = True\<rparr>"

theorem exec_goes_to_the_users_pod_witness:
  "\<exists>r w' e. wrapper_ExecuteCommandInPod \<lparr>kw_Client = mem_kube, kw_API = busy_vm\<rparr> (shell_conf ''a-1'') half_user = Ret (r, w')
     \<and> r = Inl e \<and> map_of w' = map_of half_user"
proof -
  let ?k = "\<lparr>kw_Client = mem_kube, kw_API = busy_vm\<rparr>"
  have none: "map_of half_user (''services'', UserNamespace, ''a-1-service'') = None" by (simp add: half_user_def)
  then have run: "wrapper_ExecuteCommandInPod ?k (shell_conf ''a-1'') half_user = Ret (Inl (NotFound ''a-1-service''), half_user)"
    by (simp add: wrapper_ExecuteCommandInPod_def agent_endpoint_def GetService_def mem_kube_def mem_get_def shell_conf_def io_simps)
  from exec_goes_to_the_users_pod [OF _ run] mem_kube_laws run none show ?thesis by (auto simp: shell_conf_def)
qed

end
