(* ===== verification/Term_Size.thy ===== *)
theory Term_Size
  imports Prelude
begin

text \<open>
  The queue of terminal sizes: \<^verbatim>\<open>ssh/connection/channels/size.go\<close> on the ssh server and its twin
  \<^verbatim>\<open>agent/vmapi/size.go\<close> on the agent. A size handler is a buffered Go channel, a flag and a mutex. The theory
  models buffered channels, both handlers, the contract \<open>term_queue\<close> that both meet, and the interleavings of
  concurrent callers as a step relation.
\<close>

section \<open>Buffered channels\<close>

record 'a chan =
  ch_buf :: "'a list"
  ch_cap :: nat
  ch_closed :: bool

definition make_chan :: "nat \<Rightarrow> 'a chan" where
  "make_chan n = \<lparr>ch_buf = [], ch_cap = n, ch_closed = False\<rparr>"

definition chan_send :: "'a \<Rightarrow> 'a chan \<Rightarrow> 'a chan outcome" where
  "chan_send x c =
     (if ch_closed c then Panic ''send on closed channel''
      else if length (ch_buf c) < ch_cap c then Ret (c\<lparr>ch_buf := ch_buf c @ [x]\<rparr>) else Block)"

text \<open>A receive from a closed and drained channel yields the zero value.\<close>

definition chan_recv :: "'a \<Rightarrow> 'a chan \<Rightarrow> ('a \<times> 'a chan) outcome" where
  "chan_recv zero c = (case ch_buf c of
      x # xs \<Rightarrow> Ret (x, c\<lparr>ch_buf := xs\<rparr>)
    | [] \<Rightarrow> if ch_closed c then Ret (zero, c) else Block)"

definition chan_close :: "'a chan \<Rightarrow> 'a chan outcome" where
  "chan_close c = (if ch_closed c then Panic ''close of closed channel'' else Ret (c\<lparr>ch_closed := True\<rparr>))"

text \<open>A channel operation on a part of the world.\<close>

definition on_chan :: "('w \<Rightarrow> 'c) \<Rightarrow> ('c \<Rightarrow> 'w \<Rightarrow> 'w) \<Rightarrow> ('c \<Rightarrow> ('a \<times> 'c) outcome) \<Rightarrow> ('w, 'a) io" where
  "on_chan get put f w = (case f (get w) of
      Ret (x, c) \<Rightarrow> Ret (Inr x, put c w) | Panic p \<Rightarrow> Panic p | Block \<Rightarrow> Block)"

definition just :: "'c outcome \<Rightarrow> (unit \<times> 'c) outcome" where
  "just r = (case r of Ret c \<Rightarrow> Ret ((), c) | Panic p \<Rightarrow> Panic p | Block \<Rightarrow> Block)"

section \<open>The handler of the ssh server\<close>

record TerminalSize =
  Width :: "16 word"
  Height :: "16 word"

record TerminalSizeHandler =
  tsh_queue :: "TerminalSize option chan"
  tsh_closed :: bool
  tsh_capacity :: nat
  tsh_mux :: bool

definition ErrQueueFull :: go_error where "ErrQueueFull = ErrorString ''winsize: queue is full''"
definition ErrQueueClosed :: go_error where "ErrQueueClosed = ErrorString ''chan is closed, cannot append data''"

definition NewTerminalSizeHandler :: "nat \<Rightarrow> TerminalSizeHandler" where
  "NewTerminalSizeHandler n = \<lparr>tsh_queue = make_chan n, tsh_closed = False, tsh_capacity = n, tsh_mux = False\<rparr>"

definition mux_Lock :: "(TerminalSizeHandler, unit) io" where
  "mux_Lock w = (if tsh_mux w then Block else Ret (Inr (), w\<lparr>tsh_mux := True\<rparr>))"

definition mux_Unlock :: "(TerminalSizeHandler, unit) io" where
  "mux_Unlock w = (if tsh_mux w then Ret (Inr (), w\<lparr>tsh_mux := False\<rparr>) else Panic ''sync: unlock of unlocked mutex'')"

definition queue_op :: "(TerminalSize option chan \<Rightarrow> ('a \<times> TerminalSize option chan) outcome) \<Rightarrow> (TerminalSizeHandler, 'a) io" where
  "queue_op f = on_chan tsh_queue (\<lambda>c. tsh_queue_update (\<lambda>_. c)) f"

definition TerminalSizeHandler_Next :: "(TerminalSizeHandler, TerminalSize option) io" where
  "TerminalSizeHandler_Next = queue_op (chan_recv None)"

definition TerminalSizeHandler_Fill :: "TerminalSize option \<Rightarrow> (TerminalSizeHandler, unit) io" where
  "TerminalSizeHandler_Fill data =
     bindE mux_Lock (\<lambda>_.
     bindE (gets id) (\<lambda>w.
     bindR (if tsh_closed w then throw ErrQueueClosed
            else if length (ch_buf (tsh_queue w)) = tsh_capacity w then throw ErrQueueFull
            else queue_op (\<lambda>c. just (chan_send data c))) (\<lambda>r.
     bindE mux_Unlock (\<lambda>_. lift_result r))))"

definition TerminalSizeHandler_Close :: "(TerminalSizeHandler, unit) io" where
  "TerminalSizeHandler_Close =
     bindE mux_Lock (\<lambda>_.
     bindE (gets id) (\<lambda>w.
     bindE (if \<not> tsh_closed w then
              bindE (modify (tsh_closed_update (\<lambda>_. True))) (\<lambda>_. queue_op (\<lambda>c. just (chan_close c)))
            else ret ()) (\<lambda>_.
     mux_Unlock)))"

section \<open>The handler of the agent\<close>

text \<open>
  \<^verbatim>\<open>agent/vmapi/size.go\<close> repeats the code with a size type of its own; the struct and the operations are
  modelled again so that a change of one copy does not go unnoticed.
\<close>

record vm_TerminalSize =
  vm_Width :: "16 word"
  vm_Height :: "16 word"

record vm_TerminalSizeHandler =
  vm_queue :: "vm_TerminalSize option chan"
  vm_closed :: bool
  vm_capacity :: nat
  vm_mux :: bool

definition vm_NewTerminalSizeHandler :: "nat \<Rightarrow> vm_TerminalSizeHandler" where
  "vm_NewTerminalSizeHandler n = \<lparr>vm_queue = make_chan n, vm_closed = False, vm_capacity = n, vm_mux = False\<rparr>"

definition vm_mux_Lock :: "(vm_TerminalSizeHandler, unit) io" where
  "vm_mux_Lock w = (if vm_mux w then Block else Ret (Inr (), w\<lparr>vm_mux := True\<rparr>))"

definition vm_mux_Unlock :: "(vm_TerminalSizeHandler, unit) io" where
  "vm_mux_Unlock w = (if vm_mux w then Ret (Inr (), w\<lparr>vm_mux := False\<rparr>) else Panic ''sync: unlock of unlocked mutex'')"

definition vm_queue_op :: "(vm_TerminalSize option chan \<Rightarrow> ('a \<times> vm_TerminalSize option chan) outcome) \<Rightarrow> (vm_TerminalSizeHandler, 'a) io" where
  "vm_queue_op f = on_chan vm_queue (\<lambda>c. vm_queue_update (\<lambda>_. c)) f"

definition vm_TerminalSizeHandler_Next :: "(vm_TerminalSizeHandler, vm_TerminalSize option) io" where
  "vm_TerminalSizeHandler_Next = vm_queue_op (chan_recv None)"

definition vm_TerminalSizeHandler_Fill :: "vm_TerminalSize option \<Rightarrow> (vm_TerminalSizeHandler, unit) io" where
  "vm_TerminalSizeHandler_Fill data =
     bindE vm_mux_Lock (\<lambda>_.
     bindE (gets id) (\<lambda>w.
     bindR (if vm_closed w then throw ErrQueueClosed
            else if length (ch_buf (vm_queue w)) = vm_capacity w then throw ErrQueueFull
            else vm_queue_op (\<lambda>c. just (chan_send data c))) (\<lambda>r.
     bindE vm_mux_Unlock (\<lambda>_. lift_result r))))"

definition vm_TerminalSizeHandler_Close :: "(vm_TerminalSizeHandler, unit) io" where
  "vm_TerminalSizeHandler_Close =
     bindE vm_mux_Lock (\<lambda>_.
     bindE (gets id) (\<lambda>w.
     bindE (if \<not> vm_closed w then
              bindE (modify (vm_closed_update (\<lambda>_. True))) (\<lambda>_. vm_queue_op (\<lambda>c. just (chan_close c)))
            else ret ()) (\<lambda>_.
     vm_mux_Unlock)))"

section \<open>The contract\<close>

text \<open>A burst of sizes; the callers log an error of \<^verbatim>\<open>Fill\<close> and go on.\<close>

fun fill_all :: "('d \<Rightarrow> ('q, unit) io) \<Rightarrow> 'd list \<Rightarrow> 'q \<Rightarrow> 'q option" where
  "fill_all fill [] q = Some q"
| "fill_all fill (d # ds) q = (case fill d q of Ret (_, q') \<Rightarrow> fill_all fill ds q' | _ \<Rightarrow> None)"

text \<open>
  A bounded queue: what the three operations do to the items, the capacity and the closed flag when no other
  goroutine is inside one of them (\<open>quiet\<close>).
\<close>

locale term_queue =
  fixes new :: "nat \<Rightarrow> 'q"
    and fill :: "'d option \<Rightarrow> ('q, unit) io"
    and next_size :: "('q, 'd option) io"
    and close_queue :: "('q, unit) io"
    and items :: "'q \<Rightarrow> 'd option list"
    and capacity :: "'q \<Rightarrow> nat"
    and closed :: "'q \<Rightarrow> bool"
    and quiet :: "'q \<Rightarrow> bool"
  assumes new_quiet: "quiet (new n)" "items (new n) = []" "capacity (new n) = n" "\<not> closed (new n)"
    and quiet_bound: "quiet q \<Longrightarrow> length (items q) \<le> capacity q"
    and fill_closed: "quiet q \<Longrightarrow> closed q \<Longrightarrow> fill d q = Ret (Inl ErrQueueClosed, q)"
    and fill_full: "quiet q \<Longrightarrow> \<not> closed q \<Longrightarrow> length (items q) = capacity q \<Longrightarrow> fill d q = Ret (Inl ErrQueueFull, q)"
    and fill_room: "quiet q \<Longrightarrow> \<not> closed q \<Longrightarrow> length (items q) < capacity q \<Longrightarrow>
      \<exists>q'. fill d q = Ret (Inr (), q') \<and> quiet q' \<and> items q' = items q @ [d] \<and> capacity q' = capacity q \<and> \<not> closed q'"
    and next_item: "quiet q \<Longrightarrow> items q = d # ds \<Longrightarrow>
      \<exists>q'. next_size q = Ret (Inr d, q') \<and> quiet q' \<and> items q' = ds \<and> capacity q' = capacity q \<and> closed q' = closed q"
    and next_closed: "quiet q \<Longrightarrow> items q = [] \<Longrightarrow> closed q \<Longrightarrow> next_size q = Ret (Inr None, q)"
    and next_waits: "quiet q \<Longrightarrow> items q = [] \<Longrightarrow> \<not> closed q \<Longrightarrow> next_size q = Block"
    and close_done: "quiet q \<Longrightarrow>
      \<exists>q'. close_queue q = Ret (Inr (), q') \<and> quiet q' \<and> items q' = items q \<and> capacity q' = capacity q \<and> closed q'"
begin

text \<open>Filling never blocks and never panics, whatever the state.\<close>

lemma fill_total:
  assumes "quiet q"
  shows "\<exists>r q'. fill d q = Ret (r, q') \<and> quiet q' \<and> items q' = (if r = Inr () then items q @ [d] else items q)
    \<and> capacity q' = capacity q \<and> closed q' = closed q
    \<and> r = (if closed q then Inl ErrQueueClosed else if length (items q) = capacity q then Inl ErrQueueFull else Inr ())"
proof -
  consider "closed q" | "\<not> closed q" "length (items q) = capacity q" | "\<not> closed q" "length (items q) < capacity q"
    using quiet_bound [OF assms] by linarith
  then show ?thesis
  proof cases
    case 1
    then show ?thesis using fill_closed [OF assms 1] assms by simp
  next
    case 2
    then show ?thesis using fill_full [OF assms 2] assms by simp
  next
    case 3
    then show ?thesis using fill_room [OF assms 3, of d] by auto
  qed
qed

text \<open>A burst of sizes keeps the first ones that fit, in order.\<close>

lemma fill_all_prefix:
  assumes "quiet q" "\<not> closed q"
  shows "\<exists>q'. fill_all fill ds q = Some q' \<and> quiet q' \<and> \<not> closed q' \<and> capacity q' = capacity q
    \<and> items q' = items q @ take (capacity q - length (items q)) ds"
  using assms
proof (induction ds arbitrary: q)
  case (Cons d ds)
  obtain r q1 where q1: "fill d q = Ret (r, q1)" "quiet q1" "items q1 = (if r = Inr () then items q @ [d] else items q)"
    "capacity q1 = capacity q" "\<not> closed q1"
    "r = (if length (items q) = capacity q then Inl ErrQueueFull else Inr ())"
    using fill_total [OF Cons.prems(1), of d] Cons.prems(2) by auto
  obtain q' where q': "fill_all fill ds q1 = Some q'" "quiet q'" "\<not> closed q'" "capacity q' = capacity q"
    "items q' = items q1 @ take (capacity q - length (items q1)) ds"
    using Cons.IH [OF q1(2,5)] q1(4) by auto
  have "items q' = items q @ take (capacity q - length (items q)) (d # ds)"
    using q'(5) q1(3,6) quiet_bound [OF Cons.prems(1)]
    by (cases "length (items q) = capacity q") (auto simp: take_Cons' Suc_diff_Suc)
  with q1(1) q' show ?case by simp
qed simp

end

definition tsh_quiet :: "TerminalSizeHandler \<Rightarrow> bool" where
  "tsh_quiet q \<longleftrightarrow> \<not> tsh_mux q \<and> ch_cap (tsh_queue q) = tsh_capacity q \<and> ch_closed (tsh_queue q) = tsh_closed q
     \<and> length (ch_buf (tsh_queue q)) \<le> tsh_capacity q"

definition vm_quiet :: "vm_TerminalSizeHandler \<Rightarrow> bool" where
  "vm_quiet q \<longleftrightarrow> \<not> vm_mux q \<and> ch_cap (vm_queue q) = vm_capacity q \<and> ch_closed (vm_queue q) = vm_closed q
     \<and> length (ch_buf (vm_queue q)) \<le> vm_capacity q"

lemmas chan_defs = make_chan_def chan_send_def chan_recv_def chan_close_def on_chan_def just_def

lemmas tsh_defs = tsh_quiet_def TerminalSizeHandler_Fill_def TerminalSizeHandler_Next_def TerminalSizeHandler_Close_def
  NewTerminalSizeHandler_def mux_Lock_def mux_Unlock_def queue_op_def chan_defs

lemmas vm_defs = vm_quiet_def vm_TerminalSizeHandler_Fill_def vm_TerminalSizeHandler_Next_def
  vm_TerminalSizeHandler_Close_def vm_NewTerminalSizeHandler_def vm_mux_Lock_def vm_mux_Unlock_def vm_queue_op_def chan_defs

interpretation tsq: term_queue NewTerminalSizeHandler TerminalSizeHandler_Fill TerminalSizeHandler_Next
  TerminalSizeHandler_Close "\<lambda>q. ch_buf (tsh_queue q)" tsh_capacity tsh_closed tsh_quiet
  by unfold_locales (auto simp: tsh_defs bindE_def bindR_def io_defs)

interpretation vmq: term_queue vm_NewTerminalSizeHandler vm_TerminalSizeHandler_Fill vm_TerminalSizeHandler_Next
  vm_TerminalSizeHandler_Close "\<lambda>q. ch_buf (vm_queue q)" vm_capacity vm_closed vm_quiet
  by unfold_locales (auto simp: vm_defs bindE_def bindR_def io_defs)

section \<open>Concurrent callers\<close>

text \<open>
  Goroutines run \<^verbatim>\<open>Fill\<close>, \<^verbatim>\<open>Close\<close> and \<^verbatim>\<open>Next\<close> at the same time. A step is one statement of the source: taking the
  mutex, the guards, the send, closing the channel, giving the mutex back; \<^verbatim>\<open>Next\<close> is one receive and takes no
  lock. \<open>sz_sent\<close> and \<open>sz_received\<close> record what went in and what came out.
\<close>

datatype size_pc = Outside | FillLocked "TerminalSize option" | FillSend "TerminalSize option"
  | CloseLocked | CloseChan | Leaving

record size_sys =
  sz_handler :: TerminalSizeHandler
  sz_pc :: "nat \<Rightarrow> size_pc"
  sz_sent :: "TerminalSize option list"
  sz_received :: "TerminalSize option list"

definition size_init :: "nat \<Rightarrow> size_sys" where
  "size_init n = \<lparr>sz_handler = NewTerminalSizeHandler n, sz_pc = (\<lambda>_. Outside), sz_sent = [], sz_received = []\<rparr>"

abbreviation sz_goto :: "size_sys \<Rightarrow> nat \<Rightarrow> size_pc \<Rightarrow> TerminalSizeHandler \<Rightarrow> size_sys" where
  "sz_goto s t p q \<equiv> s\<lparr>sz_handler := q, sz_pc := (sz_pc s)(t := p)\<rparr>"

abbreviation sz_full :: "size_sys \<Rightarrow> bool" where
  "sz_full s \<equiv> length (ch_buf (tsh_queue (sz_handler s))) = tsh_capacity (sz_handler s)"

inductive size_step :: "size_sys \<Rightarrow> size_sys \<Rightarrow> bool" where
  fill_lock: "sz_pc s t = Outside \<Longrightarrow> mux_Lock (sz_handler s) = Ret (Inr (), q) \<Longrightarrow> size_step s (sz_goto s t (FillLocked d) q)"
| fill_refused: "sz_pc s t = FillLocked d \<Longrightarrow> tsh_closed (sz_handler s) \<or> sz_full s \<Longrightarrow>
    size_step s (sz_goto s t Leaving (sz_handler s))"
| fill_admitted: "sz_pc s t = FillLocked d \<Longrightarrow> \<not> tsh_closed (sz_handler s) \<Longrightarrow> \<not> sz_full s \<Longrightarrow>
    size_step s (sz_goto s t (FillSend d) (sz_handler s))"
| fill_send: "sz_pc s t = FillSend d \<Longrightarrow> queue_op (\<lambda>c. just (chan_send d c)) (sz_handler s) = Ret (Inr (), q) \<Longrightarrow>
    size_step s ((sz_goto s t Leaving q)\<lparr>sz_sent := sz_sent s @ [d]\<rparr>)"
| close_lock: "sz_pc s t = Outside \<Longrightarrow> mux_Lock (sz_handler s) = Ret (Inr (), q) \<Longrightarrow> size_step s (sz_goto s t CloseLocked q)"
| close_again: "sz_pc s t = CloseLocked \<Longrightarrow> tsh_closed (sz_handler s) \<Longrightarrow> size_step s (sz_goto s t Leaving (sz_handler s))"
| close_flag: "sz_pc s t = CloseLocked \<Longrightarrow> \<not> tsh_closed (sz_handler s) \<Longrightarrow>
    size_step s (sz_goto s t CloseChan ((sz_handler s)\<lparr>tsh_closed := True\<rparr>))"
| close_chan: "sz_pc s t = CloseChan \<Longrightarrow> queue_op (\<lambda>c. just (chan_close c)) (sz_handler s) = Ret (Inr (), q) \<Longrightarrow>
    size_step s (sz_goto s t Leaving q)"
| leave: "sz_pc s t = Leaving \<Longrightarrow> mux_Unlock (sz_handler s) = Ret (Inr (), q) \<Longrightarrow> size_step s (sz_goto s t Outside q)"
| next_item: "ch_buf (tsh_queue (sz_handler s)) \<noteq> [] \<Longrightarrow> TerminalSizeHandler_Next (sz_handler s) = Ret (Inr x, q) \<Longrightarrow>
    size_step s (s\<lparr>sz_handler := q, sz_received := sz_received s @ [x]\<rparr>)"
| next_zero: "ch_buf (tsh_queue (sz_handler s)) = [] \<Longrightarrow> TerminalSizeHandler_Next (sz_handler s) = Ret (Inr x, q) \<Longrightarrow>
    size_step s (s\<lparr>sz_handler := q\<rparr>)"

abbreviation size_reachable :: "nat \<Rightarrow> size_sys \<Rightarrow> bool" where
  "size_reachable n \<equiv> reach size_step (size_init n)"

text \<open>
  The invariant: the data side, and that at most one goroutine is inside, at a point that agrees with the
  handler's state.
\<close>

fun pc_ok :: "nat \<Rightarrow> TerminalSizeHandler \<Rightarrow> size_pc \<Rightarrow> bool" where
  "pc_ok n q (FillSend d) = (\<not> tsh_closed q \<and> \<not> ch_closed (tsh_queue q) \<and> length (ch_buf (tsh_queue q)) < n)"
| "pc_ok n q CloseChan = (tsh_closed q \<and> \<not> ch_closed (tsh_queue q))"
| "pc_ok n q _ = (ch_closed (tsh_queue q) = tsh_closed q)"

definition size_data :: "nat \<Rightarrow> size_sys \<Rightarrow> bool" where
  "size_data n s \<longleftrightarrow> (let q = sz_handler s; c = tsh_queue q in
     ch_cap c = n \<and> tsh_capacity q = n \<and> length (ch_buf c) \<le> n \<and> sz_received s @ ch_buf c = sz_sent s)"

definition size_inv :: "nat \<Rightarrow> size_sys \<Rightarrow> bool" where
  "size_inv n s \<longleftrightarrow> size_data n s \<and>
     (\<exists>t p. sz_pc s = (\<lambda>_. Outside)(t := p) \<and> (p \<noteq> Outside \<longrightarrow> tsh_mux (sz_handler s)) \<and> pc_ok n (sz_handler s) p)"

lemma size_init_inv: "size_inv n (size_init n)"
proof -
  have "sz_pc (size_init n) = (\<lambda>_. Outside)(0 := Outside)" by (simp add: size_init_def fun_eq_iff)
  then show ?thesis unfolding size_inv_def
    by (intro conjI exI [of _ 0] exI [of _ Outside])
      (simp_all add: size_data_def size_init_def NewTerminalSizeHandler_def make_chan_def Let_def)
qed

lemmas size_op_defs = mux_Lock_def mux_Unlock_def queue_op_def TerminalSizeHandler_Next_def chan_defs

lemma size_inv_inside:
  assumes "size_inv n s" "sz_pc s t \<noteq> Outside"
  shows "size_data n s" "sz_pc s = (\<lambda>_. Outside)(t := sz_pc s t)" "tsh_mux (sz_handler s)"
    "pc_ok n (sz_handler s) (sz_pc s t)"
  using assms by (auto simp: size_inv_def split: if_splits)

lemma size_inv_unlocked:
  assumes "size_inv n s" "\<not> tsh_mux (sz_handler s)"
  shows "size_data n s" "sz_pc s = (\<lambda>_. Outside)" "ch_closed (tsh_queue (sz_handler s)) = tsh_closed (sz_handler s)"
  using assms by (auto simp: size_inv_def)

text \<open>Leaving the lock-holder's statement behind: the others are outside, so only its new point matters.\<close>

lemma size_inv_goto:
  assumes "sz_pc s = (\<lambda>_. Outside)(t := p)" "size_data n s'" "sz_pc s' = (sz_pc s)(t := p')"
    "p' \<noteq> Outside \<Longrightarrow> tsh_mux (sz_handler s')" "pc_ok n (sz_handler s') p'"
  shows "size_inv n s'"
proof -
  have "sz_pc s' = (\<lambda>_. Outside)(t := p')" using assms(1,3) by simp
  with assms(2,4,5) show ?thesis unfolding size_inv_def by blast
qed

text \<open>The three ways to move: taking the lock, going on with the handler as it is, and receiving, which needs no lock.\<close>

lemma size_inv_lock:
  assumes "size_inv n s" "mux_Lock (sz_handler s) = Ret (Inr (), q)" "pc_ok n q p \<longleftrightarrow> ch_closed (tsh_queue q) = tsh_closed q"
  shows "size_inv n (sz_goto s t p q)"
proof -
  have q: "\<not> tsh_mux (sz_handler s)" "q = (sz_handler s)\<lparr>tsh_mux := True\<rparr>" using assms(2) by (auto simp: mux_Lock_def split: if_splits)
  note inv = size_inv_unlocked [OF assms(1) q(1)]
  have "pc_ok n q p" using inv(3) q(2) assms(3) by simp
  then show ?thesis
    by (intro size_inv_goto [of s t Outside n _ p]) (use inv(1,2) q(2) in \<open>auto simp: size_data_def Let_def\<close>)
qed

lemma size_inv_move:
  assumes "size_inv n s" "sz_pc s t \<noteq> Outside" "pc_ok n (sz_handler s) (sz_pc s t) \<Longrightarrow> size_data n s \<Longrightarrow> pc_ok n (sz_handler s) p"
  shows "size_inv n (sz_goto s t p (sz_handler s))"
  by (rule size_inv_goto [of s t "sz_pc s t" n _ p]) (use size_inv_inside [OF assms(1,2)] assms(3) in \<open>simp_all add: size_data_def\<close>)

lemma size_inv_receive:
  assumes "size_inv n s" "ch_buf (tsh_queue (sz_handler s)) \<noteq> []" "TerminalSizeHandler_Next (sz_handler s) = Ret (Inr x, q)"
  shows "size_inv n (s\<lparr>sz_handler := q, sz_received := sz_received s @ [x]\<rparr>)"
proof -
  obtain xs where x: "ch_buf (tsh_queue (sz_handler s)) = x # xs"
    "q = (sz_handler s)\<lparr>tsh_queue := (tsh_queue (sz_handler s))\<lparr>ch_buf := xs\<rparr>\<rparr>"
    using assms(2,3) by (cases "ch_buf (tsh_queue (sz_handler s))") (auto simp: size_op_defs)
  obtain t p where tp: "sz_pc s = (\<lambda>_. Outside)(t := p)" "p \<noteq> Outside \<longrightarrow> tsh_mux (sz_handler s)" "pc_ok n (sz_handler s) p"
    "size_data n s" using assms(1) unfolding size_inv_def by blast
  show ?thesis
    by (rule size_inv_goto [of s t p _ _ p]) (use tp x in \<open>cases p; auto simp: size_data_def Let_def\<close>)+
qed

lemma size_step_inv:
  assumes "size_step s s'" "size_inv n s"
  shows "size_inv n s'"
  using assms
proof (induction rule: size_step.induct)
  case (fill_send s t d q)
  note inv = size_inv_inside [OF fill_send(3), of t]
  have "q = (sz_handler s)\<lparr>tsh_queue := (tsh_queue (sz_handler s))\<lparr>ch_buf := ch_buf (tsh_queue (sz_handler s)) @ [d]\<rparr>\<rparr>"
    using fill_send(1,2) inv(4) by (auto simp: size_op_defs split: if_splits)
  then show ?case by (intro size_inv_goto [of s t]) (use inv fill_send(1) in \<open>auto simp: size_data_def Let_def\<close>)
next
  case (close_flag s t)
  note inv = size_inv_inside [OF close_flag(3), of t]
  show ?case by (rule size_inv_goto [of s t]) (use inv close_flag in \<open>auto simp: size_data_def Let_def\<close>)
next
  case (close_chan s t q)
  note inv = size_inv_inside [OF close_chan(3), of t]
  have "q = (sz_handler s)\<lparr>tsh_queue := (tsh_queue (sz_handler s))\<lparr>ch_closed := True\<rparr>\<rparr>"
    using close_chan(1,2) inv(4) by (auto simp: size_op_defs split: if_splits)
  then show ?case by (intro size_inv_goto [of s t]) (use inv close_chan(1) in \<open>auto simp: size_data_def Let_def\<close>)
next
  case (leave s t q)
  note inv = size_inv_inside [OF leave(3), of t]
  show ?case
    by (rule size_inv_goto [of s t]) (use inv leave(1,2) in \<open>auto simp: size_data_def Let_def mux_Unlock_def split: if_splits\<close>)
next
  case (next_zero s x q)
  then have "q = sz_handler s" by (auto simp: size_op_defs split: if_splits)
  with next_zero(3) show ?case by (simp add: size_inv_def size_data_def)
next
  case (fill_admitted s t d)
  then show ?case by (intro size_inv_move) (auto simp: size_data_def Let_def)
next
  case (fill_refused s t d)
  then show ?case by (intro size_inv_move) auto
next
  case (close_again s t)
  then show ?case by (intro size_inv_move) auto
qed (auto intro: size_inv_lock size_inv_receive)

interpretation sizes: machine size_step "size_init n" "size_inv n" for n
  by unfold_locales (auto intro: size_init_inv size_step_inv)

text \<open>Whoever is inside \<^verbatim>\<open>Fill\<close> or \<^verbatim>\<open>Close\<close> can take the next step: no send blocks and nothing panics.\<close>

lemma size_inside_moves:
  assumes "size_inv n s" "sz_pc s t \<noteq> Outside"
  shows "\<exists>s'. size_step s s' \<and> sz_pc s' t \<noteq> sz_pc s t \<and> (\<forall>u. u \<noteq> t \<longrightarrow> sz_pc s' u = sz_pc s u)"
proof -
  note inv = size_inv_inside [OF assms]
  let ?q = "sz_handler s" and ?c = "tsh_queue (sz_handler s)"
  have go: ?thesis if "size_step s s'" "sz_pc s' = (sz_pc s)(t := p)" "p \<noteq> sz_pc s t" for s' p
    using that by (intro exI [of _ s']) auto
  show ?thesis
  proof (cases "sz_pc s t")
    case Outside
    with assms(2) show ?thesis by simp
  next
    case (FillLocked d)
    then show ?thesis
      using go [OF size_step.fill_refused [OF FillLocked]] go [OF size_step.fill_admitted [OF FillLocked]]
      by (cases "tsh_closed ?q \<or> sz_full s") auto
  next
    case (FillSend d)
    then have "queue_op (\<lambda>c. just (chan_send d c)) ?q = Ret (Inr (), ?q\<lparr>tsh_queue := ?c\<lparr>ch_buf := ch_buf ?c @ [d]\<rparr>\<rparr>)"
      using inv(1,4) by (simp add: size_op_defs size_data_def Let_def)
    from go [OF size_step.fill_send [OF FillSend this]] show ?thesis by (simp add: FillSend)
  next
    case CloseLocked
    then show ?thesis
      using go [OF size_step.close_again [OF CloseLocked]] go [OF size_step.close_flag [OF CloseLocked]]
      by (cases "tsh_closed ?q") auto
  next
    case CloseChan
    then have "queue_op (\<lambda>c. just (chan_close c)) ?q = Ret (Inr (), ?q\<lparr>tsh_queue := ?c\<lparr>ch_closed := True\<rparr>\<rparr>)"
      using inv(4) by (simp add: size_op_defs)
    from go [OF size_step.close_chan [OF CloseChan this]] show ?thesis by (simp add: CloseChan)
  next
    case Leaving
    have "mux_Unlock ?q = Ret (Inr (), ?q\<lparr>tsh_mux := False\<rparr>)" using inv(3) by (simp add: mux_Unlock_def)
    from go [OF size_step.leave [OF Leaving this]] show ?thesis by (simp add: Leaving)
  qed
qed

section \<open>Properties of the size queues\<close>



text \<open>
  A burst of sizes into a fresh handler, with no reader, is accepted without blocking; the queue keeps the first
  ones that fit into its capacity, in order, and the rest is refused. This holds for the handler of the ssh
  server and for the one of the agent.
\<close>

theorem size_burst_keeps_first:
  "(\<exists>q. fill_all TerminalSizeHandler_Fill ds (NewTerminalSizeHandler n) = Some q \<and> ch_buf (tsh_queue q) = take n ds)
   \<and> (\<exists>q. fill_all vm_TerminalSizeHandler_Fill es (vm_NewTerminalSizeHandler n) = Some q \<and> ch_buf (vm_queue q) = take n es)"
  using tsq.fill_all_prefix [OF tsq.new_quiet(1), of n ds] tsq.new_quiet [of n]
    vmq.fill_all_prefix [OF vmq.new_quiet(1), of n es] vmq.new_quiet [of n] by auto

end
