(* ===== verification/Channels.thy ===== *)
theory Channels
  imports Kube_User Term_Size
begin

text \<open>
  \<^verbatim>\<open>ssh/connection/channels\<close> and \<^verbatim>\<open>ssh/connection/payload\<close>: the handler of one ssh channel. A builder collects callbacks
  per request type, \<^verbatim>\<open>Serve\<close> runs them for each request, and three callbacks start a goroutine that talks to the
  user's pod. Callbacks are world-passing programs on \<open>callbackData\<close>; goroutines that have been started but have not
  run yet are its \<open>rd_tasks\<close>, the counter of the wait group is \<open>rd_wg\<close>, and \<open>rd_trace\<close> records what the client sees
  (replies, data, the close of the channel). Decoding of ssh payloads is library code, given as \<open>ssh_unmarshal\<close>.
\<close>

section \<open>Payloads\<close>

record PtyRequest =
  pty_Term :: string
  pty_WidthColumns :: "32 word"
  pty_HeightRows :: "32 word"
  pty_WidthPixels :: "32 word"
  pty_HeightPixels :: "32 word"
  pty_ModeList :: bytes

record WindowChangeRequest =
  wc_WidthColumns :: "32 word"
  wc_HeightRows :: "32 word"
  wc_WidthPixels :: "32 word"
  wc_HeightPixels :: "32 word"

record SubsystemRequest =
  Subsystem :: string

record ForwardTCPChannelOpen =
  HostToConnect :: string
  PortToConnect :: "32 word"
  OriginatorAddress :: string
  OriginatorPort :: "32 word"

record ssh_request =
  rq_Type :: string
  rq_WantReply :: bool
  rq_Payload :: bytes

record ssh_unmarshal =
  um_pty :: "bytes \<Rightarrow> go_error + PtyRequest"
  um_window :: "bytes \<Rightarrow> go_error + WindowChangeRequest"
  um_subsystem :: "bytes \<Rightarrow> go_error + SubsystemRequest"
  um_forward :: "bytes \<Rightarrow> go_error + ForwardTCPChannelOpen"

section \<open>Callback data\<close>

datatype ch_event = Replied ssh_request bool | Wrote bytes | ChannelClosed

datatype task = TShell | TSubsystem string | TPortForward

record 'w callbackData =
  rd_channel :: nat
  rd_wg :: int
  rd_ptyReqData :: "PtyRequest option"
  rd_directTCPIPData :: "ForwardTCPChannelOpen option"
  rd_terminalResizer :: TerminalSizeHandler
  rd_api :: "'w K8sAPIUser"
  rd_tasks :: "task list"
  rd_trace :: "ch_event list"
  rd_world :: 'w

type_synonym 'w cb = "('w callbackData, unit) io"

definition emit :: "ch_event \<Rightarrow> 'w cb" where
  "emit e = modify (\<lambda>rd. rd\<lparr>rd_trace := rd_trace rd @ [e]\<rparr>)"

text \<open>\<^verbatim>\<open>rd.wg.Add(1); go f()\<close>.\<close>

definition spawn :: "task \<Rightarrow> 'w cb" where
  "spawn t = modify (\<lambda>rd. rd\<lparr>rd_wg := rd_wg rd + 1, rd_tasks := rd_tasks rd @ [t]\<rparr>)"

definition call_api :: "('w K8sAPI \<Rightarrow> ('w, 'a) io) \<Rightarrow> ('w callbackData, 'a) io" where
  "call_api f rd = (case f (user_api (rd_api rd)) (rd_world rd) of
      Ret (r, w) \<Rightarrow> Ret (r, rd\<lparr>rd_world := w\<rparr>) | Panic p \<Rightarrow> Panic p | Block \<Rightarrow> Block)"

definition resizer :: "(TerminalSizeHandler, 'a) io \<Rightarrow> ('w callbackData, 'a) io" where
  "resizer f rd = (case f (rd_terminalResizer rd) of
      Ret (r, q) \<Rightarrow> Ret (r, rd\<lparr>rd_terminalResizer := q\<rparr>) | Panic p \<Rightarrow> Panic p | Block \<Rightarrow> Block)"

text \<open>An error that is only logged.\<close>

definition logged :: "('w, 'a) io \<Rightarrow> ('w, unit) io" where
  "logged m = bindR m (\<lambda>_. ret ())"

text \<open>The deferred function of the three goroutines: close the channel, then \<^verbatim>\<open>wg.Done()\<close>.\<close>

definition close_and_done :: "'w cb" where
  "close_and_done = bindE (emit ChannelClosed) (\<lambda>_. modify (\<lambda>rd. rd\<lparr>rd_wg := rd_wg rd - 1\<rparr>))"

definition newline :: string where
  "newline = [CHR 0x0A]"

section \<open>Goroutines\<close>

text \<open>
  Each goroutine first prepares its call, then makes the call, which takes as long as the session lasts, then
  finishes. The three parts are kept apart because other callbacks run while the call is pending.
\<close>

definition pty_size :: "PtyRequest \<Rightarrow> TerminalSize" where
  "pty_size p = \<lparr>Width = ucast (pty_WidthColumns p), Height = ucast (pty_HeightRows p)\<rparr>"

definition shell_prepare :: "('w callbackData, KubeExecConfig) io" where
  "shell_prepare =
     bindE (gets id) (\<lambda>rd.
     bindE (case rd_ptyReqData rd of
         Some p \<Rightarrow> bindE (logged (resizer (TerminalSizeHandler_Fill (Some (pty_size p))))) (\<lambda>_. ret True)
       | None \<Rightarrow> ret False) (\<lambda>tty.
     ret \<lparr>kec_Namespace = GetNamespace (rd_api rd), kec_UserIdentifier = GetAuthenticatedUserID (rd_api rd),
          kec_Command = ''bash'', kec_Communication = rd_channel rd, kec_WinQueue = rd_channel rd, kec_Tty = tty\<rparr>))"

definition shell_finish :: "go_error + unit \<Rightarrow> 'w cb" where
  "shell_finish r =
     bindE (emit (Wrote (case r of
         Inl err \<Rightarrow> ''closing connection, reason: '' @ Error err @ '' | ''
       | Inr _ \<Rightarrow> ''graceful termination'' @ newline))) (\<lambda>_. close_and_done)"

definition handleShell :: "'w cb" where
  "handleShell = bindE shell_prepare (\<lambda>conf. bindR (call_api (\<lambda>api. ExecuteCommandInPod api conf)) shell_finish)"

definition subSysMap :: "string gomap" where
  "subSysMap = [(''sftp'', ''/usr/lib/ssh/sftp-server'')]"

definition subsystem_prepare :: "string \<Rightarrow> ('w callbackData, KubeExecConfig option) io" where
  "subsystem_prepare cmd =
     bindE (gets id) (\<lambda>rd. ret (case map_of subSysMap cmd of
       None \<Rightarrow> None
     | Some parsedSubsystem \<Rightarrow> Some
         \<lparr>kec_Namespace = GetNamespace (rd_api rd), kec_UserIdentifier = GetAuthenticatedUserID (rd_api rd) @ ''-statefulset-0'',
          kec_Command = parsedSubsystem, kec_Communication = rd_channel rd, kec_WinQueue = rd_channel rd, kec_Tty = False\<rparr>))"

definition subsystem_finish :: "go_error + unit \<Rightarrow> 'w cb" where
  "subsystem_finish r =
     bindE (case r of Inl err \<Rightarrow> emit (Wrote (''closing connection, reason: '' @ Error err)) | Inr _ \<Rightarrow> ret ()) (\<lambda>_.
     close_and_done)"

definition handleSubsystem :: "string \<Rightarrow> 'w cb" where
  "handleSubsystem cmd = bindE (subsystem_prepare cmd) (\<lambda>c. case c of
      None \<Rightarrow> close_and_done
    | Some conf \<Rightarrow> bindR (call_api (\<lambda>api. ExecuteCommandInPod api conf)) subsystem_finish)"

text \<open>\<^verbatim>\<open>directTCPIPData\<close> is dereferenced.\<close>

definition forward_prepare :: "('w callbackData, KubeForwardConfig) io" where
  "forward_prepare =
     bindE (gets id) (\<lambda>rd. case rd_directTCPIPData rd of
       None \<Rightarrow> crash ''invalid memory address or nil pointer dereference''
     | Some d \<Rightarrow> ret
         \<lparr>kfc_Namespace = GetNamespace (rd_api rd), kfc_PodName = GetAuthenticatedUserID (rd_api rd) @ ''-statefulset-0'',
          kfc_Port = Itoa (uint (PortToConnect d)), kfc_Communication = rd_channel rd\<rparr>)"

definition forward_finish :: "go_error + unit \<Rightarrow> 'w cb" where
  "forward_finish r = close_and_done"

definition handlePortForward :: "'w cb" where
  "handlePortForward =
     bindE forward_prepare (\<lambda>conf. bindR (call_api (\<lambda>api. CreatePodPortForward api conf)) forward_finish)"

section \<open>The builder\<close>

type_synonym 'w req_cb = "ssh_request \<Rightarrow> 'w cb"

record 'w Builder =
  b_channelType :: string
  b_channel :: "nat option"
  b_requests :: "nat option"
  b_logger :: "unit option"
  b_directTCPIPData :: "ForwardTCPChannelOpen option"
  b_k8sAPIUser :: "'w K8sAPIUser option"
  b_onStartup :: "'w cb list"
  b_onRequest :: "'w req_cb list"
  b_onReqShell :: "'w req_cb list"
  b_onReqPty :: "'w req_cb list"
  b_onReqWinCh :: "'w req_cb list"
  b_onReqSubSys :: "'w req_cb list"
  b_onReqDefault :: "'w req_cb list"

definition NewBuilder :: "'w Builder" where
  "NewBuilder = \<lparr>b_channelType = [], b_channel = None, b_requests = None, b_logger = None, b_directTCPIPData = None,
     b_k8sAPIUser = None, b_onStartup = [], b_onRequest = [], b_onReqShell = [], b_onReqPty = [], b_onReqWinCh = [],
     b_onReqSubSys = [], b_onReqDefault = []\<rparr>"

definition WithChannelType :: "string \<Rightarrow> 'w Builder \<Rightarrow> 'w Builder" where
  "WithChannelType t b = b\<lparr>b_channelType := t\<rparr>"

definition SetChannel :: "nat \<Rightarrow> 'w Builder \<Rightarrow> 'w Builder" where
  "SetChannel c b = b\<lparr>b_channel := Some c\<rparr>"

definition SetRequests :: "nat \<Rightarrow> 'w Builder \<Rightarrow> 'w Builder" where
  "SetRequests r b = b\<lparr>b_requests := Some r\<rparr>"

definition SetOnStartup :: "'w cb \<Rightarrow> 'w Builder \<Rightarrow> 'w Builder" where
  "SetOnStartup f b = b\<lparr>b_onStartup := b_onStartup b @ [f]\<rparr>"

definition SetOnRequest :: "'w req_cb \<Rightarrow> 'w Builder \<Rightarrow> 'w Builder" where
  "SetOnRequest f b = b\<lparr>b_onRequest := b_onRequest b @ [f]\<rparr>"

definition SetOnReqShell :: "'w req_cb \<Rightarrow> 'w Builder \<Rightarrow> 'w Builder" where
  "SetOnReqShell f b = b\<lparr>b_onReqShell := b_onReqShell b @ [f]\<rparr>"

definition SetOnReqPty :: "'w req_cb \<Rightarrow> 'w Builder \<Rightarrow> 'w Builder" where
  "SetOnReqPty f b = b\<lparr>b_onReqPty := b_onReqPty b @ [f]\<rparr>"

definition SetOnReqWinCh :: "'w req_cb \<Rightarrow> 'w Builder \<Rightarrow> 'w Builder" where
  "SetOnReqWinCh f b = b\<lparr>b_onReqWinCh := b_onReqWinCh b @ [f]\<rparr>"

definition SetOnReqSubSys :: "'w req_cb \<Rightarrow> 'w Builder \<Rightarrow> 'w Builder" where
  "SetOnReqSubSys f b = b\<lparr>b_onReqSubSys := b_onReqSubSys b @ [f]\<rparr>"

definition SetOnReqDefault :: "'w req_cb \<Rightarrow> 'w Builder \<Rightarrow> 'w Builder" where
  "SetOnReqDefault f b = b\<lparr>b_onReqDefault := b_onReqDefault b @ [f]\<rparr>"

definition SetLog :: "unit \<Rightarrow> 'w Builder \<Rightarrow> 'w Builder" where
  "SetLog l b = b\<lparr>b_logger := Some l\<rparr>"

definition SetK8sUserAPI :: "'w K8sAPIUser \<Rightarrow> 'w Builder \<Rightarrow> 'w Builder" where
  "SetK8sUserAPI api b = b\<lparr>b_k8sAPIUser := Some api\<rparr>"

definition SetDirectTCPIPData :: "ForwardTCPChannelOpen option \<Rightarrow> 'w Builder \<Rightarrow> 'w Builder" where
  "SetDirectTCPIPData d b = b\<lparr>b_directTCPIPData := d\<rparr>"

record 'w Handler =
  h_requests :: nat
  h_reqData :: "'w callbackData"
  h_funcMap :: "'w req_cb list gomap"
  h_onEveryReqCallback :: "'w req_cb list"
  h_onDefaultCallback :: "'w req_cb list"
  h_onStartupCallback :: "'w cb list"

text \<open>The world is an argument: it is what the handler's calls will run on.\<close>

definition Build :: "'w Builder \<Rightarrow> 'w \<Rightarrow> go_error + 'w Handler" where
  "Build b w = (case b_channel b of None \<Rightarrow> Inl (ErrorString ''channel is nil'') | Some channel \<Rightarrow>
     (case b_requests b of None \<Rightarrow> Inl (ErrorString ''requests is nil'') | Some requests \<Rightarrow>
     (case b_logger b of None \<Rightarrow> Inl (ErrorString ''logger is nil'') | Some _ \<Rightarrow>
     (case b_k8sAPIUser b of None \<Rightarrow> Inl (ErrorString ''k8sAPIUser is nil'') | Some api \<Rightarrow>
     (if b_channelType b = ''direct-tcpip'' \<and> b_directTCPIPData b = None then Inl (ErrorString ''directTCPIPData is nil'')
      else Inr \<lparr>
        h_requests = requests,
        h_reqData = \<lparr>rd_channel = channel, rd_wg = 0, rd_ptyReqData = None, rd_directTCPIPData = b_directTCPIPData b,
          rd_terminalResizer = NewTerminalSizeHandler 10, rd_api = api, rd_tasks = [], rd_trace = [], rd_world = w\<rparr>,
        h_funcMap = [(''shell'', b_onReqShell b), (''pty-req'', b_onReqPty b), (''window-change'', b_onReqWinCh b),
          (''subsystem'', b_onReqSubSys b)],
        h_onEveryReqCallback = b_onRequest b, h_onDefaultCallback = b_onReqDefault b, h_onStartupCallback = b_onStartup b\<rparr>)))))"

section \<open>The two kinds of channel\<close>

definition onDefault :: "'w req_cb" where
  "onDefault req = emit (Replied req False)"

definition onShell :: "'w req_cb" where
  "onShell req = bindE (spawn TShell) (\<lambda>_. emit (Replied req True))"

definition onSubSys :: "ssh_unmarshal \<Rightarrow> 'w req_cb" where
  "onSubSys um req = (case um_subsystem um (rq_Payload req) of
      Inl _ \<Rightarrow> ret ()
    | Inr subSys \<Rightarrow> bindE (spawn (TSubsystem (Subsystem subSys))) (\<lambda>_. emit (Replied req True)))"

definition onWinCh :: "ssh_unmarshal \<Rightarrow> 'w req_cb" where
  "onWinCh um req = (case um_window um (rq_Payload req) of
      Inl _ \<Rightarrow> ret ()
    | Inr windowChange \<Rightarrow> logged (resizer (TerminalSizeHandler_Fill (Some
        \<lparr>Width = ucast (wc_WidthColumns windowChange), Height = ucast (wc_HeightRows windowChange)\<rparr>))))"

definition onPty :: "ssh_unmarshal \<Rightarrow> 'w req_cb" where
  "onPty um req = (case um_pty um (rq_Payload req) of
      Inl _ \<Rightarrow> ret ()
    | Inr ptyReq \<Rightarrow> bindE (modify (\<lambda>rd. rd\<lparr>rd_ptyReqData := Some ptyReq\<rparr>)) (\<lambda>_. emit (Replied req True)))"

text \<open>Callbacks that only log.\<close>

definition onStartup_log :: "'w cb" where "onStartup_log = ret ()"

definition onRequest_log :: "'w req_cb" where "onRequest_log req = ret ()"

definition SessionBuilderSkeleton :: "ssh_unmarshal \<Rightarrow> 'w Builder" where
  "SessionBuilderSkeleton um =
     SetOnRequest onRequest_log
    (SetOnReqPty (onPty um)
    (SetOnReqWinCh (onWinCh um)
    (SetOnReqSubSys (onSubSys um)
    (SetOnReqShell onShell
    (SetOnReqDefault onDefault
    (SetOnStartup onStartup_log
    (WithChannelType ''session'' NewBuilder)))))))"

definition onStartup_forward :: "'w cb" where
  "onStartup_forward = spawn TPortForward"

definition DirectTCPIPBuilderSkeleton :: "'w Builder" where
  "DirectTCPIPBuilderSkeleton =
     SetOnStartup onStartup_forward
    (SetOnRequest onRequest_log
    (SetOnReqDefault onDefault
    (WithChannelType ''direct-tcpip'' NewBuilder)))"

section \<open>Serving\<close>

definition handle_request :: "'w Handler \<Rightarrow> 'w req_cb" where
  "handle_request h req =
     bindE (case map_of (h_funcMap h) (rq_Type req) of
         Some callbackFuncions \<Rightarrow> forE callbackFuncions (\<lambda>f. f req)
       | None \<Rightarrow> forE (h_onDefaultCallback h) (\<lambda>f. f req)) (\<lambda>_.
     forE (h_onEveryReqCallback h) (\<lambda>f. f req))"

definition startup :: "'w Handler \<Rightarrow> 'w cb" where
  "startup h = forE (h_onStartupCallback h) (\<lambda>f. f)"

end
