(* ===== verification/Channel_Serve.thy ===== *)
theory Channel_Serve
  imports Channels
begin

text \<open>
  Serving a channel. \<^verbatim>\<open>newSession\<close> and \<^verbatim>\<open>newDirectTCPIP\<close> of \<^verbatim>\<open>ssh/connection/builder.go\<close> build the two handlers;
  \<^verbatim>\<open>Serve\<close> of \<^verbatim>\<open>channel.go\<close> is a step relation in which the loop and the goroutines it has started interleave.
  The theory shows how a session answers requests, what the goroutines ask of the cluster, and that \<^verbatim>\<open>Wait\<close> returns
  only after every goroutine has ended.
\<close>

section \<open>Handlers as the connection builds them\<close>

definition newSession :: "ssh_unmarshal \<Rightarrow> nat \<Rightarrow> nat \<Rightarrow> 'w K8sAPIUser \<Rightarrow> 'w \<Rightarrow> go_error + 'w Handler" where
  "newSession um channel requests api w =
     Build (SetK8sUserAPI api (SetLog () (SetChannel channel (SetRequests requests (SessionBuilderSkeleton um))))) w"

definition newDirectTCPIP :: "nat \<Rightarrow> nat \<Rightarrow> 'w K8sAPIUser \<Rightarrow> ForwardTCPChannelOpen \<Rightarrow> 'w \<Rightarrow> go_error + 'w Handler" where
  "newDirectTCPIP channel requests api d w =
     Build (SetDirectTCPIPData (Some d) (SetK8sUserAPI api (SetLog () (SetChannel channel (SetRequests requests
       DirectTCPIPBuilderSkeleton))))) w"

lemmas setter_defs = SetK8sUserAPI_def SetLog_def SetChannel_def SetRequests_def SetDirectTCPIPData_def SetOnRequest_def
  SetOnReqPty_def SetOnReqWinCh_def SetOnReqSubSys_def SetOnReqShell_def SetOnReqDefault_def SetOnStartup_def
  WithChannelType_def NewBuilder_def

definition new_reqData :: "nat \<Rightarrow> 'w K8sAPIUser \<Rightarrow> ForwardTCPChannelOpen option \<Rightarrow> 'w \<Rightarrow> 'w callbackData" where
  "new_reqData channel api d w = \<lparr>rd_channel = channel, rd_wg = 0, rd_ptyReqData = None, rd_directTCPIPData = d,
     rd_terminalResizer = NewTerminalSizeHandler 10, rd_api = api, rd_tasks = [], rd_trace = [], rd_world = w\<rparr>"

lemma newSession_eq:
  "newSession um channel requests api w = Inr \<lparr>h_requests = requests, h_reqData = new_reqData channel api None w,
     h_funcMap = [(''shell'', [onShell]), (''pty-req'', [onPty um]), (''window-change'', [onWinCh um]), (''subsystem'', [onSubSys um])],
     h_onEveryReqCallback = [onRequest_log], h_onDefaultCallback = [onDefault], h_onStartupCallback = [onStartup_log]\<rparr>"
  by (simp add: newSession_def Build_def SessionBuilderSkeleton_def setter_defs new_reqData_def)

lemma newDirectTCPIP_eq:
  "newDirectTCPIP channel requests api d w = Inr \<lparr>h_requests = requests, h_reqData = new_reqData channel api (Some d) w,
     h_funcMap = [(''shell'', []), (''pty-req'', []), (''window-change'', []), (''subsystem'', [])],
     h_onEveryReqCallback = [onRequest_log], h_onDefaultCallback = [onDefault], h_onStartupCallback = [onStartup_forward]\<rparr>"
  by (simp add: newDirectTCPIP_def Build_def DirectTCPIPBuilderSkeleton_def setter_defs new_reqData_def)

section \<open>Answers of a session\<close>

text \<open>What a session replies, and which goroutine it starts.\<close>

definition session_reply :: "ssh_unmarshal \<Rightarrow> ssh_request \<Rightarrow> bool option" where
  "session_reply um req =
     (if rq_Type req = ''shell'' then Some True
      else if rq_Type req = ''pty-req'' then (case um_pty um (rq_Payload req) of Inl _ \<Rightarrow> None | Inr _ \<Rightarrow> Some True)
      else if rq_Type req = ''subsystem'' then (case um_subsystem um (rq_Payload req) of Inl _ \<Rightarrow> None | Inr _ \<Rightarrow> Some True)
      else if rq_Type req = ''window-change'' then None else Some False)"

definition session_task :: "ssh_unmarshal \<Rightarrow> ssh_request \<Rightarrow> task list" where
  "session_task um req =
     (if rq_Type req = ''shell'' then [TShell]
      else if rq_Type req = ''subsystem'' then
        (case um_subsystem um (rq_Payload req) of Inl _ \<Rightarrow> [] | Inr s \<Rightarrow> [TSubsystem (Subsystem s)])
      else [])"

definition session_pty :: "ssh_unmarshal \<Rightarrow> ssh_request \<Rightarrow> PtyRequest option \<Rightarrow> PtyRequest option" where
  "session_pty um req old =
     (if rq_Type req = ''pty-req'' then (case um_pty um (rq_Payload req) of Inl _ \<Rightarrow> old | Inr p \<Rightarrow> Some p) else old)"

text \<open>The size a request adds to the queue, if there is room.\<close>

definition add_size :: "TerminalSize option list \<Rightarrow> nat \<Rightarrow> TerminalSize \<Rightarrow> TerminalSize option list" where
  "add_size q n x = (if length q = n then q else q @ [Some x])"

lemma resizer_fill:
  assumes "tsh_quiet (rd_terminalResizer rd)" "\<not> tsh_closed (rd_terminalResizer rd)"
  shows "\<exists>q. logged (resizer (TerminalSizeHandler_Fill (Some x))) rd = Ret (Inr (), rd\<lparr>rd_terminalResizer := q\<rparr>)
    \<and> tsh_quiet q \<and> \<not> tsh_closed q \<and> tsh_capacity q = tsh_capacity (rd_terminalResizer rd)
    \<and> ch_buf (tsh_queue q) = add_size (ch_buf (tsh_queue (rd_terminalResizer rd))) (tsh_capacity (rd_terminalResizer rd)) x"
proof -
  let ?t = "rd_terminalResizer rd"
  obtain r q where q: "TerminalSizeHandler_Fill (Some x) ?t = Ret (r, q)" "tsh_quiet q" "tsh_capacity q = tsh_capacity ?t"
    "\<not> tsh_closed q" "ch_buf (tsh_queue q) = (if r = Inr () then ch_buf (tsh_queue ?t) @ [Some x] else ch_buf (tsh_queue ?t))"
    "r = (if length (ch_buf (tsh_queue ?t)) = tsh_capacity ?t then Inl ErrQueueFull else Inr ())"
    using tsq.fill_total [OF assms(1), of "Some x"] assms(2) by auto
  then show ?thesis
    by (intro exI [of _ q]) (auto simp: logged_def resizer_def bindR_def ret_def add_size_def)
qed

lemmas callback_defs = onDefault_def onShell_def onSubSys_def onWinCh_def onPty_def onStartup_log_def onRequest_log_def
  onStartup_forward_def


text \<open>A small decoder and an idle cluster, for concrete runs.\<close>

definition plain_unmarshal :: ssh_unmarshal where
  "plain_unmarshal = \<lparr>um_pty = (\<lambda>b. Inr \<lparr>pty_Term = b, pty_WidthColumns = 80, pty_HeightRows = 24, pty_WidthPixels = 0,
       pty_HeightPixels = 0, pty_ModeList = []\<rparr>),
     um_window = (\<lambda>b. Inr \<lparr>wc_WidthColumns = 80, wc_HeightRows = 24, wc_WidthPixels = 0, wc_HeightPixels = 0\<rparr>),
     um_subsystem = (\<lambda>b. if b = [] then Inl (ExtError ''ssh: unmarshal error'') else Inr \<lparr>Subsystem = b\<rparr>),
     um_forward = (\<lambda>b. Inr \<lparr>HostToConnect = b, PortToConnect = 80, OriginatorAddress = [], OriginatorPort = 0\<rparr>)\<rparr>"

definition idle_user :: "unit K8sAPIUser" where
  "idle_user = \<lparr>UserInformation_of = user_ident ''a-1'',
     user_api = \<lparr>CreateAndWaitForRessources = (\<lambda>_. ret ()), ExecuteCommandInPod = (\<lambda>_. ret ()),
       CreatePodPortForward = (\<lambda>_. ret ()), WriteFileInPod = (\<lambda>_. ret ())\<rparr>\<rparr>"

definition sftp_request :: ssh_request where
  "sftp_request = \<lparr>rq_Type = ''subsystem'', rq_WantReply = True, rq_Payload = ''sftp''\<rparr>"

lemma new_reqData_quiet:
  "tsh_quiet (rd_terminalResizer (new_reqData ch api d w))" "\<not> tsh_closed (rd_terminalResizer (new_reqData ch api d w))"
  using tsq.new_quiet [of 10] by (simp_all add: new_reqData_def)


section \<open>Goroutines\<close>

text \<open>
  C26: The goroutine of a shell request asks for exactly one \<^verbatim>\<open>bash\<close> in the pod of the authenticated user, with a
  terminal iff a pty was requested, after queueing the requested size (truncated to 16 bits) if there is room; when the
  call returns it tells the client how the session ended, closes the channel and leaves the wait group, also when the
  call failed.
\<close>

theorem handleShell_run:
  assumes "tsh_quiet (rd_terminalResizer rd)" "\<not> tsh_closed (rd_terminalResizer rd)"
    and "conf = \<lparr>kec_Namespace = GetNamespace (rd_api rd), kec_UserIdentifier = GetAuthenticatedUserID (rd_api rd),
      kec_Command = ''bash'', kec_Communication = rd_channel rd, kec_WinQueue = rd_channel rd, kec_Tty = (rd_ptyReqData rd \<noteq> None)\<rparr>"
    and "ExecuteCommandInPod (user_api (rd_api rd)) conf (rd_world rd) = Ret (r, w')"
  shows "\<exists>q. handleShell rd = Ret (Inr (), rd\<lparr>rd_terminalResizer := q, rd_world := w', rd_wg := rd_wg rd - 1,
      rd_trace := rd_trace rd @ [Wrote (case r of Inl err \<Rightarrow> ''closing connection, reason: '' @ Error err @ '' | ''
        | Inr _ \<Rightarrow> ''graceful termination'' @ newline), ChannelClosed]\<rparr>)
    \<and> ch_buf (tsh_queue q) = (case rd_ptyReqData rd of None \<Rightarrow> ch_buf (tsh_queue (rd_terminalResizer rd))
        | Some p \<Rightarrow> add_size (ch_buf (tsh_queue (rd_terminalResizer rd))) (tsh_capacity (rd_terminalResizer rd)) (pty_size p))"
proof (cases "rd_ptyReqData rd")
  case None
  with assms(3,4) show ?thesis
    by (intro exI [of _ "rd_terminalResizer rd"])
      (auto simp: handleShell_def shell_prepare_def shell_finish_def close_and_done_def emit_def call_api_def bindE_def bindR_def io_defs split: sum.split)
next
  case (Some p)
  obtain q where "logged (resizer (TerminalSizeHandler_Fill (Some (pty_size p)))) rd = Ret (Inr (), rd\<lparr>rd_terminalResizer := q\<rparr>)"
    "ch_buf (tsh_queue q) = add_size (ch_buf (tsh_queue (rd_terminalResizer rd))) (tsh_capacity (rd_terminalResizer rd)) (pty_size p)"
    using resizer_fill [OF assms(1,2)] by blast
  with Some assms(3,4) show ?thesis
    by (intro exI [of _ q])
      (auto simp: handleShell_def shell_prepare_def shell_finish_def close_and_done_def emit_def call_api_def bindE_def bindR_def io_defs split: sum.split)
qed

theorem handleShell_run_witness:
  "\<exists>rd'. handleShell (new_reqData 5 idle_user None ()) = Ret (Inr (), rd')
     \<and> rd_trace rd' = [Wrote (''graceful termination'' @ newline), ChannelClosed] \<and> rd_wg rd' = - 1"
proof -
  have "ExecuteCommandInPod (user_api (rd_api (new_reqData 5 idle_user None ()))) c (rd_world (new_reqData 5 idle_user None ())) = Ret (Inr (), ())" for c
    by (simp add: new_reqData_def idle_user_def ret_def)
  from handleShell_run [OF new_reqData_quiet refl this] show ?thesis by (auto simp: new_reqData_def)
qed

text \<open>
  The sftp subsystem cannot work: its goroutine passes the name of the pod where the user identifier belongs, so
  the cluster is asked for the service \<^verbatim>\<open><uid>-statefulset-0-service\<close>. Unless another user carries that
  identifier, the call fails before the agent is reached, and the client is told so.
\<close>

theorem sftp_never_reaches_the_pod:
  assumes "kube_laws (kw_Client k)" "user_api (rd_api rd) = wrapper_api fwd k"
    and "kc_objects (kw_Client k) (rd_world rd)
      (''services'', GetNamespace (rd_api rd), GetAuthenticatedUserID (rd_api rd) @ ''-statefulset-0-service'') = None"
    and "handleSubsystem ''sftp'' rd = Ret (Inr (), rd')"
  shows "(\<exists>err. rd_trace rd' = rd_trace rd @ [Wrote (''closing connection, reason: '' @ Error err), ChannelClosed])
    \<and> kc_objects (kw_Client k) (rd_world rd') = kc_objects (kw_Client k) (rd_world rd)"
proof -
  let ?conf = "\<lparr>kec_Namespace = GetNamespace (rd_api rd), kec_UserIdentifier = GetAuthenticatedUserID (rd_api rd) @ ''-statefulset-0'',
          kec_Command = ''/usr/lib/ssh/sftp-server'', kec_Communication = rd_channel rd, kec_WinQueue = rd_channel rd, kec_Tty = False\<rparr>"
  obtain r w' where e: "wrapper_ExecuteCommandInPod k ?conf (rd_world rd) = Ret (r, w')"
    "subsystem_finish r (rd\<lparr>rd_world := w'\<rparr>) = Ret (Inr (), rd')"
    using assms(2,4)
    by (auto simp: handleSubsystem_def subsystem_prepare_def subSysMap_def call_api_def wrapper_api_def bindE_def bindR_def io_defs
        split: outcome.splits)
  from exec_in_pod_cases [OF assms(1) e(1)] assms(3)
  obtain err where err: "r = Inl err" "kc_objects (kw_Client k) w' = kc_objects (kw_Client k) (rd_world rd)" by auto
  with e(2) show ?thesis
    by (auto simp: subsystem_finish_def close_and_done_def emit_def bindE_def bindR_def io_defs)
qed

definition cluster_user :: "(object_key \<times> k8s_object) list K8sAPIUser" where
  "cluster_user = \<lparr>UserInformation_of = user_ident ''a-1'',
     user_api = wrapper_api (\<lambda>_. ret ()) \<lparr>kw_Client = mem_kube, kw_API = busy_vm\<rparr>\<rparr>"

definition full_user :: "(object_key \<times> k8s_object) list" where
  "full_user = ((''services'', UserNamespace, ''a-1-service''), KService (HeadlessService (user_ident ''a-1''))) # half_user"

theorem sftp_never_reaches_the_pod_witness:
  "\<exists>rd' err. handleSubsystem ''sftp'' (new_reqData 5 cluster_user None full_user) = Ret (Inr (), rd')
     \<and> rd_trace rd' = [Wrote (''closing connection, reason: '' @ Error err), ChannelClosed]"
proof -
  let ?rd = "new_reqData 5 cluster_user None full_user" and ?k = "\<lparr>kw_Client = mem_kube, kw_API = busy_vm\<rparr>"
  have api: "user_api (rd_api ?rd) = wrapper_api (\<lambda>_. ret ()) ?k" by (simp add: new_reqData_def cluster_user_def)
  have none: "kc_objects (kw_Client ?k) (rd_world ?rd)
      (''services'', GetNamespace (rd_api ?rd), GetAuthenticatedUserID (rd_api ?rd) @ ''-statefulset-0-service'') = None"
    by (simp add: new_reqData_def full_user_def half_user_def cluster_user_def user_ident_def GetNamespace_def GetAuthenticatedUserID_def)
  have "wrapper_ExecuteCommandInPod ?k c full_user = Ret (Inl (NotFound ''a-1-statefulset-0-service''), full_user)"
    if "kec_Namespace c = UserNamespace" "kec_UserIdentifier c = ''a-1-statefulset-0''" for c
    using that by (simp add: wrapper_ExecuteCommandInPod_def agent_endpoint_def GetService_def mem_kube_def mem_get_def
        full_user_def half_user_def io_simps)
  then obtain rd' where run: "handleSubsystem ''sftp'' ?rd = Ret (Inr (), rd')"
    by (simp add: handleSubsystem_def subsystem_prepare_def subSysMap_def call_api_def subsystem_finish_def close_and_done_def emit_def
        bindE_def bindR_def io_defs new_reqData_def cluster_user_def wrapper_api_def user_ident_def GetNamespace_def GetAuthenticatedUserID_def)
  from sftp_never_reaches_the_pod [OF _ api none run] mem_kube_laws run show ?thesis by (auto simp: new_reqData_def)
qed

section \<open>The loop and its goroutines\<close>

datatype running = RShell KubeExecConfig | RSubsystem KubeExecConfig | RForward KubeForwardConfig

definition begin_task :: "task \<Rightarrow> ('w callbackData, running option) io" where
  "begin_task t = (case t of
      TShell \<Rightarrow> bindE shell_prepare (\<lambda>c. ret (Some (RShell c)))
    | TSubsystem cmd \<Rightarrow> bindE (subsystem_prepare cmd) (\<lambda>c. case c of
        None \<Rightarrow> bindE close_and_done (\<lambda>_. ret None) | Some conf \<Rightarrow> ret (Some (RSubsystem conf)))
    | TPortForward \<Rightarrow> bindE forward_prepare (\<lambda>c. ret (Some (RForward c))))"

definition end_task :: "running \<Rightarrow> 'w cb" where
  "end_task r = (case r of
      RShell conf \<Rightarrow> bindR (call_api (\<lambda>api. ExecuteCommandInPod api conf)) shell_finish
    | RSubsystem conf \<Rightarrow> bindR (call_api (\<lambda>api. ExecuteCommandInPod api conf)) subsystem_finish
    | RForward conf \<Rightarrow> bindR (call_api (\<lambda>api. CreatePodPortForward api conf)) forward_finish)"

text \<open>The two halves make up the function that the \<^verbatim>\<open>go\<close> statement runs.\<close>

definition task_body :: "task \<Rightarrow> 'w cb" where
  "task_body t = (case t of TShell \<Rightarrow> handleShell | TSubsystem cmd \<Rightarrow> handleSubsystem cmd | TPortForward \<Rightarrow> handlePortForward)"

lemma task_body_halves: "task_body t = bindE (begin_task t) (\<lambda>r. case r of None \<Rightarrow> ret () | Some x \<Rightarrow> end_task x)"
proof (cases t)
  case (TSubsystem cmd)
  have "(case c of None \<Rightarrow> close_and_done | Some conf \<Rightarrow> bindR (call_api (\<lambda>api. ExecuteCommandInPod api conf)) subsystem_finish) =
      bindE (case c of None \<Rightarrow> bindE close_and_done (\<lambda>_. ret None) | Some conf \<Rightarrow> ret (Some (RSubsystem conf)))
        (\<lambda>r. case r of None \<Rightarrow> ret () | Some x \<Rightarrow> end_task x)" for c :: "KubeExecConfig option"
    by (cases c) (simp_all add: bindE_assoc end_task_def)
  from arg_cong [OF ext, OF this, where f = "bindE (subsystem_prepare cmd)"] show ?thesis
    by (simp add: TSubsystem task_body_def begin_task_def handleSubsystem_def bindE_assoc)
qed (simp_all add: task_body_def begin_task_def end_task_def handleShell_def handlePortForward_def bindE_assoc)

datatype serve_phase = Starting | Looping | Draining | Stopped

record 'w serve_state =
  sv_phase :: serve_phase
  sv_rd :: "'w callbackData"
  sv_running :: "running list"

definition serve_init :: "'w Handler \<Rightarrow> 'w serve_state" where
  "serve_init h = \<lparr>sv_phase = Starting, sv_rd = h_reqData h, sv_running = []\<rparr>"

text \<open>
  \<open>leave\<close> is the end of the loop (the context is done or the request channel is closed), \<open>stop\<close> the return of
  \<^verbatim>\<open>wg.Wait()\<close> and the send on \<^verbatim>\<open>serveCloseDone\<close> that lets \<^verbatim>\<open>Wait\<close> return.
\<close>

inductive serve_step :: "'w Handler \<Rightarrow> 'w serve_state \<Rightarrow> 'w serve_state \<Rightarrow> bool" for h where
  start: "sv_phase s = Starting \<Longrightarrow> startup h (sv_rd s) = Ret (Inr (), rd) \<Longrightarrow> serve_step h s (s\<lparr>sv_phase := Looping, sv_rd := rd\<rparr>)"
| request: "sv_phase s = Looping \<Longrightarrow> handle_request h req (sv_rd s) = Ret (Inr (), rd) \<Longrightarrow> serve_step h s (s\<lparr>sv_rd := rd\<rparr>)"
| leave: "sv_phase s = Looping \<Longrightarrow> serve_step h s (s\<lparr>sv_phase := Draining\<rparr>)"
| go: "rd_tasks (sv_rd s) = ts @ t # us \<Longrightarrow> begin_task t ((sv_rd s)\<lparr>rd_tasks := ts @ us\<rparr>) = Ret (Inr r, rd) \<Longrightarrow>
    serve_step h s (s\<lparr>sv_rd := rd, sv_running := sv_running s @ (case r of None \<Rightarrow> [] | Some x \<Rightarrow> [x])\<rparr>)"
| finish: "sv_running s = rs @ r # qs \<Longrightarrow> end_task r (sv_rd s) = Ret (Inr (), rd) \<Longrightarrow>
    serve_step h s (s\<lparr>sv_rd := rd, sv_running := rs @ qs\<rparr>)"
| stop: "sv_phase s = Draining \<Longrightarrow> rd_wg (sv_rd s) = 0 \<Longrightarrow> serve_step h s (s\<lparr>sv_phase := Stopped\<rparr>)"

abbreviation serve_reachable :: "'w Handler \<Rightarrow> 'w serve_state \<Rightarrow> bool" where
  "serve_reachable h \<equiv> reach (serve_step h) (serve_init h)"

text \<open>
  The balance of the wait group: a callback adds as many goroutines as it counts, and changes neither otherwise.
\<close>

definition surplus :: "'w callbackData \<Rightarrow> int" where
  "surplus rd = rd_wg rd - int (length (rd_tasks rd))"

definition balanced :: "'w cb \<Rightarrow> bool" where
  "balanced m \<longleftrightarrow> (\<forall>k. keeps (\<lambda>rd. surplus rd = k) m)"

definition balanced_handler :: "'w Handler \<Rightarrow> bool" where
  "balanced_handler h \<longleftrightarrow> rd_wg (h_reqData h) = 0 \<and> rd_tasks (h_reqData h) = []
     \<and> (\<forall>f \<in> set (h_onStartupCallback h). balanced f)
     \<and> (\<forall>f \<in> set (h_onEveryReqCallback h) \<union> set (h_onDefaultCallback h) \<union> \<Union>(set ` snd ` set (h_funcMap h)). \<forall>req. balanced (f req))"

lemma balanced_pure: "balanced (ret ())"
  by (simp add: balanced_def keeps_pure)

lemma balanced_bindE: "balanced m \<Longrightarrow> (\<And>x. balanced (f x)) \<Longrightarrow> balanced (bindE m f)"
  by (simp add: balanced_def keeps_bindE)

lemma balanced_forE: "(\<And>f. f \<in> set fs \<Longrightarrow> balanced (g f)) \<Longrightarrow> balanced (forE fs g)"
  by (simp add: balanced_def keeps_forE)

lemma balanced_ops: "balanced (emit e)" "balanced (spawn t)" "balanced (modify (\<lambda>rd. rd\<lparr>rd_ptyReqData := p\<rparr>))"
  "balanced (logged (resizer f))"
  by (auto simp: balanced_def keeps_def emit_def spawn_def modify_def logged_def resizer_def bindR_def ret_def surplus_def
      split: outcome.splits)

lemma balanced_callbacks:
  "balanced (onDefault req)" "balanced (onShell req)" "balanced (onSubSys um req)" "balanced (onWinCh um req)" "balanced (onPty um req)"
  "balanced onStartup_log" "balanced (onRequest_log req)" "balanced onStartup_forward"
  by (auto simp: callback_defs balanced_ops balanced_pure intro!: balanced_bindE split: sum.split)

lemma newSession_balanced: "newSession um ch rq api w = Inr h \<Longrightarrow> balanced_handler h"
  and newDirectTCPIP_balanced: "newDirectTCPIP ch rq api d w = Inr h \<Longrightarrow> balanced_handler h"
  by (auto simp: newSession_eq newDirectTCPIP_eq balanced_handler_def new_reqData_def balanced_callbacks)

lemma startup_balanced: "balanced_handler h \<Longrightarrow> balanced (startup h)"
  unfolding startup_def by (rule balanced_forE) (simp add: balanced_handler_def)

lemma handle_request_balanced:
  assumes "balanced_handler h"
  shows "balanced (handle_request h req)"
proof -
  have "balanced (forE fs (\<lambda>f. f req))" if "map_of (h_funcMap h) t = Some fs" for t fs
    using that assms map_of_SomeD [OF that] by (intro balanced_forE) (force simp: balanced_handler_def)
  with assms show ?thesis unfolding handle_request_def
    by (intro balanced_bindE balanced_forE) (auto split: option.split simp: balanced_handler_def intro!: balanced_forE)
qed

lemma close_and_done_surplus: "close_and_done rd = Ret (r, rd') \<Longrightarrow> surplus rd' = surplus rd - 1"
  by (auto simp: close_and_done_def emit_def surplus_def bindE_def bindR_def io_defs)

lemma prepare_surplus:
  "shell_prepare rd = Ret (r, rd') \<Longrightarrow> surplus rd' = surplus rd"
  "subsystem_prepare cmd rd = Ret (q, rd') \<Longrightarrow> surplus rd' = surplus rd"
  "forward_prepare rd = Ret (p, rd') \<Longrightarrow> surplus rd' = surplus rd"
  by (auto simp: shell_prepare_def subsystem_prepare_def forward_prepare_def surplus_def bindE_def bindR_def io_defs logged_def resizer_def
      split: option.splits outcome.splits)

lemma begin_task_surplus:
  assumes "begin_task t rd = Ret (Inr r, rd')"
  shows "surplus rd' = surplus rd - (case r of None \<Rightarrow> 1 | Some _ \<Rightarrow> 0)"
  using assms prepare_surplus close_and_done_surplus
  by (cases t) (fastforce simp: begin_task_def bindE_Inr_iff ret_def split: option.splits)+

lemma end_task_surplus:
  assumes "end_task r rd = Ret (Inr (), rd')"
  shows "surplus rd' = surplus rd - 1"
proof -
  have call: "surplus rd1 = surplus rd" if "call_api f rd = Ret (q, rd1)" for q rd1 and f :: "'a K8sAPI \<Rightarrow> ('a, unit) io"
    using that by (auto simp: call_api_def surplus_def split: outcome.splits)
  have fin: "surplus rd2 = surplus rd1 - 1"
    if "shell_finish q rd1 = Ret (Inr (), rd2) \<or> subsystem_finish q rd1 = Ret (Inr (), rd2) \<or> forward_finish q rd1 = Ret (Inr (), rd2)"
    for q and rd1 rd2 :: "'a callbackData"
    using that by (auto simp: shell_finish_def subsystem_finish_def forward_finish_def close_and_done_def emit_def surplus_def
        bindE_def bindR_def io_defs split: sum.splits)
  show ?thesis
    using assms call fin by (cases r) (fastforce simp: end_task_def bindR_def split: outcome.splits)+
qed

text \<open>The counter is the number of goroutines that are alive, and after the stop there are none.\<close>

definition serve_inv :: "'w serve_state \<Rightarrow> bool" where
  "serve_inv s \<longleftrightarrow> surplus (sv_rd s) = int (length (sv_running s))
     \<and> (sv_phase s = Stopped \<longrightarrow> rd_tasks (sv_rd s) = [] \<and> sv_running s = [])"

lemma serve_step_inv:
  assumes "serve_step h s s'" "balanced_handler h" "serve_inv s"
  shows "serve_inv s'"
  using assms
proof (induction rule: serve_step.induct)
  case (start s rd)
  have "surplus rd = surplus (sv_rd s)"
    using startup_balanced [OF start(3)] start(2) unfolding balanced_def keeps_def by blast
  with start show ?case by (simp add: serve_inv_def)
next
  case (request s req rd)
  have "surplus rd = surplus (sv_rd s)"
    using handle_request_balanced [OF request(3), of req] request(2) unfolding balanced_def keeps_def by blast
  with request show ?case by (simp add: serve_inv_def)
next
  case (go s ts t us r rd)
  have "surplus rd = surplus (sv_rd s) + 1 - (case r of None \<Rightarrow> 1 | Some _ \<Rightarrow> 0)"
    using begin_task_surplus [OF go(2)] go(1) by (simp add: surplus_def)
  with go show ?case by (auto simp: serve_inv_def split: option.splits)
next
  case (finish s rs r qs rd)
  with end_task_surplus [OF finish(2)] show ?case by (auto simp: serve_inv_def)
next
  case (stop s)
  then have "length (rd_tasks (sv_rd s)) = 0 \<and> length (sv_running s) = 0"
    unfolding serve_inv_def surplus_def by linarith
  with stop show ?case by (simp add: serve_inv_def)
qed (simp add: serve_inv_def)

interpretation serve: machine "serve_step h" "serve_init h" "\<lambda>s. balanced_handler h \<longrightarrow> serve_inv s" for h
proof
  show "balanced_handler h \<longrightarrow> serve_inv (serve_init h)" by (simp add: serve_inv_def serve_init_def surplus_def balanced_handler_def)
  show "balanced_handler h \<longrightarrow> serve_inv s'" if "serve_step h s s'" "balanced_handler h \<longrightarrow> serve_inv s" for s s'
    using that serve_step_inv by blast
qed

text \<open>
  C16: For the handlers of session and of direct-tcpip channels, under every interleaving of requests, goroutines and
  the end of the loop: the counter of the wait group is the number of goroutines that are still alive (so it never
  becomes negative, which would panic), and \<^verbatim>\<open>Serve\<close> signals \<^verbatim>\<open>Wait\<close> only when no goroutine is left.
\<close>

theorem serve_waits_for_goroutines:
  assumes "newSession um ch rq api w = Inr h \<or> newDirectTCPIP ch rq api d w = Inr h" "serve_reachable h s"
  shows "rd_wg (sv_rd s) = int (length (rd_tasks (sv_rd s)) + length (sv_running s))
    \<and> (sv_phase s = Stopped \<longrightarrow> rd_tasks (sv_rd s) = [] \<and> sv_running s = [])"
proof -
  have "balanced_handler h" using assms(1) by (auto dest: newSession_balanced newDirectTCPIP_balanced)
  from serve.invariant [OF assms(2)] this show ?thesis by (simp add: serve_inv_def surplus_def)
qed

theorem serve_waits_for_goroutines_witness:
  "\<exists>h s. newDirectTCPIP 5 6 idle_user \<lparr>HostToConnect = [], PortToConnect = 80, OriginatorAddress = [], OriginatorPort = 0\<rparr> () = Inr h
     \<and> serve_reachable h s \<and> rd_tasks (sv_rd s) = [TPortForward] \<and> rd_wg (sv_rd s) = 1"
proof -
  let ?d = "\<lparr>HostToConnect = [], PortToConnect = 80, OriginatorAddress = [], OriginatorPort = 0\<rparr>"
  obtain h where h: "newDirectTCPIP 5 6 idle_user ?d () = Inr h" by (simp add: newDirectTCPIP_eq)
  then have hh: "h_onStartupCallback h = [onStartup_forward]" "h_reqData h = new_reqData 5 idle_user (Some ?d) ()"
    by (auto simp: newDirectTCPIP_eq)
  let ?rd = "(h_reqData h)\<lparr>rd_wg := 1, rd_tasks := [TPortForward]\<rparr>"
  have "startup h (sv_rd (serve_init h)) = Ret (Inr (), ?rd)"
    by (simp add: startup_def hh serve_init_def callback_defs spawn_def io_defs new_reqData_def)
  from serve_step.start [OF _ this] have "serve_step h (serve_init h) ((serve_init h)\<lparr>sv_phase := Looping, sv_rd := ?rd\<rparr>)"
    by (simp add: serve_init_def)
  then have r: "serve_reachable h ((serve_init h)\<lparr>sv_phase := Looping, sv_rd := ?rd\<rparr>)"
    by (rule reach_one)
  from serve_waits_for_goroutines [OF disjI2 [OF h] r] h r show ?thesis
    by (intro exI [of _ h] exI [of _ "(serve_init h)\<lparr>sv_phase := Looping, sv_rd := ?rd\<rparr>"]) (simp add: serve_init_def)
qed

end
