(* ===== verification/Connection.thy ===== *)
theory Connection
  imports Channel_Serve
begin

text \<open>
  \<^verbatim>\<open>ssh/connection\<close>: the handler of one authenticated ssh connection. \<^verbatim>\<open>Build\<close> checks what the server hands over and binds
  the cluster API to the authenticated user; \<^verbatim>\<open>HandleGlobalConnection\<close> starts two helper goroutines (keep-alive and the
  discarding of global requests), prepares the user's pod, and serves channels until the connection ends. The
  goroutines and their \<^verbatim>\<open>done\<close> handshakes are the step relation \<open>conn_step\<close>.
\<close>

section \<open>The builder\<close>

record ServerConn =
  sc_User :: string
  sc_SessionID :: bytes
  sc_Permissions :: "string gomap option option"

record 'w ConnBuilder =
  cb_globalRequests :: "nat option"
  cb_channel :: "nat option"
  cb_connection :: "ServerConn option"
  cb_log :: "unit option"
  cb_k8sHelper :: "'w K8sAPI option"

definition conn_NewBuilder :: "'w ConnBuilder" where
  "conn_NewBuilder = \<lparr>cb_globalRequests = None, cb_channel = None, cb_connection = None, cb_log = None, cb_k8sHelper = None\<rparr>"

definition conn_SetK8sHelper :: "'w K8sAPI \<Rightarrow> 'w ConnBuilder \<Rightarrow> 'w ConnBuilder" where
  "conn_SetK8sHelper helper s = s\<lparr>cb_k8sHelper := Some helper\<rparr>"

definition conn_SetConnection :: "ServerConn \<Rightarrow> 'w ConnBuilder \<Rightarrow> 'w ConnBuilder" where
  "conn_SetConnection c s = s\<lparr>cb_connection := Some c\<rparr>"

definition conn_SetChannel :: "nat \<Rightarrow> 'w ConnBuilder \<Rightarrow> 'w ConnBuilder" where
  "conn_SetChannel c s = s\<lparr>cb_channel := Some c\<rparr>"

definition conn_SetGlobalRequests :: "nat \<Rightarrow> 'w ConnBuilder \<Rightarrow> 'w ConnBuilder" where
  "conn_SetGlobalRequests r s = s\<lparr>cb_globalRequests := Some r\<rparr>"

definition conn_SetLogger :: "unit \<Rightarrow> 'w ConnBuilder \<Rightarrow> 'w ConnBuilder" where
  "conn_SetLogger l s = s\<lparr>cb_log := Some l\<rparr>"

record 'w ConnHandler =
  hd_connection :: ServerConn
  hd_globalRequests :: nat
  hd_channel :: nat
  hd_maxKeepAliveRetries :: int
  hd_keepAliveInterval :: nat
  hd_api :: "'w K8sAPIUser"

definition conn_Build :: "'w ConnBuilder \<Rightarrow> go_error + 'w ConnHandler" where
  "conn_Build s = (case (cb_connection s, cb_channel s, cb_globalRequests s) of
      (Some connection, Some channel, Some globalRequests) \<Rightarrow>
        (case sc_Permissions connection of
           Some (Some extensions) \<Rightarrow>
             (case map_of extensions AuthenticatedUserID of
                None \<Rightarrow> Inl (ErrorString ''no authenticated user id found'')
              | Some userID \<Rightarrow>
                  (case cb_k8sHelper s of
                     None \<Rightarrow> Inl (ErrorString ''no k8s helper provided is nil'')
                   | Some helper \<Rightarrow>
                       (case cb_log s of
                          None \<Rightarrow> Inl (ErrorString ''no logger provided'')
                        | Some _ \<Rightarrow> Inr \<lparr>
                            hd_connection = connection, hd_globalRequests = globalRequests, hd_channel = channel,
                            hd_maxKeepAliveRetries = 3, hd_keepAliveInterval = 10,
                            hd_api = NewK8sAPIUserWrapper helper
                              \<lparr>kri_UserIdentifier = userID, kri_Namespace = UserNamespace,
                               kri_ContainerIdentifier = sc_User connection, kri_NodeName = [], kri_StorageClass = []\<rparr>\<rparr>)))
         | _ \<Rightarrow> Inl (ErrorString ''connection malformed, permissions or extensions is nil''))
    | _ \<Rightarrow> Inl (ErrorString ''connection, channel or globalRequests is nil''))"

text \<open>Looking up a missing extension gives the empty string.\<close>

definition extension :: "ServerConn \<Rightarrow> string \<Rightarrow> string" where
  "extension conn k = (case sc_Permissions conn of Some (Some ext) \<Rightarrow> lookup_str ext k | _ \<Rightarrow> [])"

definition writeFileToContainer :: "ServerConn \<Rightarrow> 'w K8sAPIUser \<Rightarrow> ('w, unit) io" where
  "writeFileToContainer conn api =
     (if extension conn AuthenticationType \<noteq> ''pw'' then ret ()
      else WriteFileInPod (user_api api)
        \<lparr>kfw_UserIdentifier = extension conn AuthenticatedUserID, kfw_Namespace = UserNamespace,
         kfw_FileName = ''delegatio_priv_key'', kfw_FilePath = ''/root/.ssh'', kfw_FileData = extension conn AuthenticatedPrivKey\<rparr>)"

section \<open>Keep-alive\<close>

text \<open>One tick of the keep-alive loop: \<open>None\<close> means that it gives the connection up.\<close>

definition keepAlive_tick :: "int \<Rightarrow> int \<Rightarrow> bool \<Rightarrow> int option" where
  "keepAlive_tick maxRetries retries answered =
     (let retries' = (if answered then 0 else retries + 1) in if retries' > maxRetries then None else Some retries')"

datatype ka_event = Tick bool | CtxDone

datatype ka_state = KaRunning int | KaGaveUp | KaCancelled

fun keepAlive_loop :: "int \<Rightarrow> int \<Rightarrow> ka_event list \<Rightarrow> ka_state" where
  "keepAlive_loop m retries [] = KaRunning retries"
| "keepAlive_loop m retries (CtxDone # es) = KaCancelled"
| "keepAlive_loop m retries (Tick b # es) =
     (case keepAlive_tick m retries b of None \<Rightarrow> KaGaveUp | Some retries' \<Rightarrow> keepAlive_loop m retries' es)"

section \<open>Global requests\<close>

datatype gr_event = GlobalRequest ssh_request | GlobalClosed | GlobalCtxDone

text \<open>The replies the loop sends; it ends when the channel is closed or the context is done.\<close>

fun handleGlobalRequests :: "gr_event list \<Rightarrow> (ssh_request \<times> bool) list" where
  "handleGlobalRequests [] = []"
| "handleGlobalRequests (GlobalRequest req # es) =
     (if rq_WantReply req then [(req, False)] else []) @ handleGlobalRequests es"
| "handleGlobalRequests (GlobalClosed # es) = []"
| "handleGlobalRequests (GlobalCtxDone # es) = []"

section \<open>Channels\<close>

record NewChannel =
  nc_ChannelType :: string
  nc_ExtraData :: bytes
  nc_Accept :: "go_error + nat \<times> nat"

datatype 'w chan_action =
    Reject string string
  | NotAccepted go_error
  | NotBuilt go_error
  | Serve "'w Handler"

definition UnknownChannelType :: string where "UnknownChannelType = ''UnknownChannelType''"
definition ConnectionFailed :: string where "ConnectionFailed = ''ConnectionFailed''"

definition handleChannelTypeSession :: "ssh_unmarshal \<Rightarrow> 'w K8sAPIUser \<Rightarrow> 'w \<Rightarrow> NewChannel \<Rightarrow> 'w chan_action" where
  "handleChannelTypeSession um api w nc = (case nc_Accept nc of
      Inl err \<Rightarrow> NotAccepted err
    | Inr (channel, requests) \<Rightarrow> (case newSession um channel requests api w of
        Inl err \<Rightarrow> NotBuilt err
      | Inr handler \<Rightarrow> Serve handler))"

definition handleChannelTypeDirectTCPIP :: "ssh_unmarshal \<Rightarrow> 'w K8sAPIUser \<Rightarrow> 'w \<Rightarrow> NewChannel \<Rightarrow> 'w chan_action" where
  "handleChannelTypeDirectTCPIP um api w nc = (case um_forward um (nc_ExtraData nc) of
      Inl _ \<Rightarrow> Reject ConnectionFailed (''could not unmarshel extradata in channel: '' @ nc_ChannelType nc)
    | Inr tcpipData \<Rightarrow> (case nc_Accept nc of
        Inl err \<Rightarrow> NotAccepted err
      | Inr (channel, requests) \<Rightarrow> (case newDirectTCPIP channel requests api tcpipData w of
          Inl err \<Rightarrow> NotBuilt err
        | Inr handler \<Rightarrow> Serve handler)))"

definition handleChannel :: "ssh_unmarshal \<Rightarrow> 'w K8sAPIUser \<Rightarrow> 'w \<Rightarrow> NewChannel \<Rightarrow> 'w chan_action" where
  "handleChannel um api w nc =
     (if nc_ChannelType nc = ''session'' then handleChannelTypeSession um api w nc
      else if nc_ChannelType nc = ''direct-tcpip'' then handleChannelTypeDirectTCPIP um api w nc
      else Reject UnknownChannelType (''unknown channel type: '' @ nc_ChannelType nc))"

section \<open>The connection as a whole\<close>

text \<open>
  The sequential part of \<^verbatim>\<open>HandleGlobalConnection\<close> before channels are served: the result says whether the
  channels are served. An error of writing the key file is dropped.
\<close>

definition prepare_connection :: "string gomap \<Rightarrow> 'w ConnHandler \<Rightarrow> ('w, bool) io" where
  "prepare_connection env c =
     bindR (CreateAndWaitForRessources (user_api (hd_api c))
        \<lparr>kri_UserIdentifier = GetAuthenticatedUserID (hd_api c), kri_Namespace = GetNamespace (hd_api c),
         kri_ContainerIdentifier = [], kri_NodeName = GetNodeName env, kri_StorageClass = []\<rparr>) (\<lambda>r. case r of
       Inl _ \<Rightarrow> ret False
     | Inr _ \<Rightarrow> bindR (writeFileToContainer (hd_connection c) (hd_api c)) (\<lambda>_. ret True))"

datatype main_phase = MPrepare | MChannels | MDrain | MCloseGlobal | MWaitGlobal | MCloseKeep | MWaitKeep | MCloseConn | MEnded

datatype ka_phase = KLoop int | KSendDone | KGone

datatype gr_phase = GLoop | GSendDone | GGone

record conn_sys =
  cs_main :: main_phase
  cs_keep :: ka_phase
  cs_global :: gr_phase
  cs_channels :: nat
  cs_ctx :: bool
  cs_gctx :: bool
  cs_closed :: bool

definition conn_init :: conn_sys where
  "conn_init = \<lparr>cs_main = MPrepare, cs_keep = KLoop 0, cs_global = GLoop, cs_channels = 0, cs_ctx = False, cs_gctx = False,
     cs_closed = False\<rparr>"

text \<open>
  \<open>cs_ctx\<close>: the context that keep-alive cancels, from which all others derive; \<open>cs_gctx\<close>: the context of the
  global-request loop; \<open>cs_channels\<close>: the channel handlers that run (the wait group). The deferred calls run in the
  order: end of the channel loop, global requests, keep-alive, close of the connection. A \<^verbatim>\<open>done\<close> channel has no
  buffer: the send and the receive are one step.
\<close>

inductive conn_step :: "int \<Rightarrow> conn_sys \<Rightarrow> conn_sys \<Rightarrow> bool" for m where
  server_stops: "conn_step m s (s\<lparr>cs_ctx := True\<rparr>)"
| ka_tick: "cs_keep s = KLoop r \<Longrightarrow> keepAlive_tick m r b = Some r' \<Longrightarrow> conn_step m s (s\<lparr>cs_keep := KLoop r'\<rparr>)"
| ka_gives_up: "cs_keep s = KLoop r \<Longrightarrow> keepAlive_tick m r b = None \<Longrightarrow> conn_step m s (s\<lparr>cs_keep := KSendDone, cs_ctx := True\<rparr>)"
| ka_ctx: "cs_keep s = KLoop r \<Longrightarrow> cs_ctx s \<Longrightarrow> conn_step m s (s\<lparr>cs_keep := KSendDone\<rparr>)"
| gr_closed: "cs_global s = GLoop \<Longrightarrow> conn_step m s (s\<lparr>cs_global := GSendDone\<rparr>)"
| gr_ctx: "cs_global s = GLoop \<Longrightarrow> cs_ctx s \<or> cs_gctx s \<Longrightarrow> conn_step m s (s\<lparr>cs_global := GSendDone\<rparr>)"
| prepared: "cs_main s = MPrepare \<Longrightarrow> conn_step m s (s\<lparr>cs_main := (if ok then MChannels else MCloseGlobal)\<rparr>)"
| new_channel: "cs_main s = MChannels \<Longrightarrow> conn_step m s (s\<lparr>cs_channels := cs_channels s + 1\<rparr>)"
| channel_ends: "cs_channels s > 0 \<Longrightarrow> conn_step m s (s\<lparr>cs_channels := cs_channels s - 1\<rparr>)"
| loop_ends: "cs_main s = MChannels \<Longrightarrow> conn_step m s (s\<lparr>cs_main := MDrain\<rparr>)"
| drained: "cs_main s = MDrain \<Longrightarrow> cs_channels s = 0 \<Longrightarrow> conn_step m s (s\<lparr>cs_main := MCloseGlobal\<rparr>)"
| close_global: "cs_main s = MCloseGlobal \<Longrightarrow> conn_step m s (s\<lparr>cs_main := MWaitGlobal, cs_gctx := True\<rparr>)"
| wait_global: "cs_main s = MWaitGlobal \<Longrightarrow> cs_global s = GSendDone \<Longrightarrow> conn_step m s (s\<lparr>cs_main := MCloseKeep, cs_global := GGone\<rparr>)"
| close_keep: "cs_main s = MCloseKeep \<Longrightarrow> conn_step m s (s\<lparr>cs_main := MWaitKeep, cs_ctx := True\<rparr>)"
| wait_keep: "cs_main s = MWaitKeep \<Longrightarrow> cs_keep s = KSendDone \<Longrightarrow> conn_step m s (s\<lparr>cs_main := MCloseConn, cs_keep := KGone\<rparr>)"
| close_conn: "cs_main s = MCloseConn \<Longrightarrow> conn_step m s (s\<lparr>cs_main := MEnded, cs_closed := True\<rparr>)"

abbreviation conn_reachable :: "int \<Rightarrow> conn_sys \<Rightarrow> bool" where
  "conn_reachable m \<equiv> reach (conn_step m) conn_init"

section \<open>Properties\<close>

text \<open>
  C9: A connection handler is built only from a complete connection with an authenticated user, and it is bound to that
  user: every later call for a pod goes to the users' namespace under the identifier that the authentication callback
  has put into the permissions.
\<close>

theorem conn_Build_authenticated:
  assumes "conn_Build b = Inr c"
  shows "\<exists>conn ext uid. cb_connection b = Some conn \<and> sc_Permissions conn = Some (Some ext)
    \<and> map_of ext AuthenticatedUserID = Some uid \<and> hd_connection c = conn
    \<and> GetAuthenticatedUserID (hd_api c) = uid \<and> GetNamespace (hd_api c) = UserNamespace
    \<and> cb_k8sHelper b = Some (user_api (hd_api c)) \<and> hd_maxKeepAliveRetries c = 3"
  using assms
  by (auto simp: conn_Build_def NewK8sAPIUserWrapper_def GetAuthenticatedUserID_def GetNamespace_def split: option.splits)

definition pw_conn :: ServerConn where
  "pw_conn = \<lparr>sc_User = ''alice'', sc_SessionID = ''s'', sc_Permissions = Some (Some [(AuthenticationType, ''pw''),
     (AuthenticatedPrivKey, ''KEY''), (AuthenticatedUserID, ''alice-1'')])\<rparr>"

definition full_builder :: "unit ConnBuilder" where
  "full_builder = conn_SetLogger () (conn_SetConnection pw_conn (conn_SetGlobalRequests 2 (conn_SetChannel 1
     (conn_SetK8sHelper (user_api idle_user) conn_NewBuilder))))"

theorem conn_Build_authenticated_witness:
  "\<exists>c. conn_Build full_builder = Inr c \<and> GetAuthenticatedUserID (hd_api c) = ''alice-1''"
proof -
  have "\<exists>c. conn_Build full_builder = Inr c"
    by (simp add: conn_Build_def full_builder_def pw_conn_def conn_SetLogger_def conn_SetConnection_def conn_SetGlobalRequests_def
        conn_SetChannel_def conn_SetK8sHelper_def conn_NewBuilder_def)
  then obtain c where c: "conn_Build full_builder = Inr c" by blast
  have "cb_connection full_builder = Some pw_conn" by (simp add: full_builder_def conn_SetLogger_def conn_SetConnection_def)
  with conn_Build_authenticated [OF c] c show ?thesis by (auto simp: pw_conn_def)
qed

lemma replicate_window:
  assumes eq: "replicate r a @ x # es = pre @ replicate (Suc n) a @ suf" and "x \<noteq> a" "r \<le> n"
  shows "\<exists>pre'. pre = replicate r a @ x # pre' \<and> es = pre' @ replicate (Suc n) a @ suf"
proof -
  have "r < length pre"
  proof (rule ccontr)
    assume "\<not> r < length pre"
    then have "(pre @ replicate (Suc n) a @ suf) ! r = a" using assms(3) by (auto simp: nth_append simp del: replicate_Suc)
    moreover have "(replicate r a @ x # es) ! r = x" by (simp add: nth_append)
    ultimately show False using eq assms(2) by simp
  qed
  then have "take (Suc r) (pre @ replicate (Suc n) a @ suf) = take (Suc r) pre" by simp
  then have t: "take (Suc r) pre = replicate r a @ [x]" unfolding eq [symmetric] by simp
  have "drop (Suc r) (pre @ replicate (Suc n) a @ suf) = drop (Suc r) pre @ replicate (Suc n) a @ suf"
    using \<open>r < length pre\<close> by simp
  then have d: "es = drop (Suc r) pre @ replicate (Suc n) a @ suf" unfolding eq [symmetric] by simp
  have "pre = replicate r a @ x # drop (Suc r) pre" using t append_take_drop_id [of "Suc r" pre] by simp
  with d show ?thesis by blast
qed

text \<open>A window of failures cannot reach back over an event that is not one.\<close>

lemma window_shift:
  assumes "e \<noteq> Tick False" "r \<le> n"
  shows "(\<exists>pre suf. CtxDone \<notin> set pre \<and> replicate r (Tick False) @ e # es = pre @ replicate (Suc n) (Tick False) @ suf)
    \<longleftrightarrow> e \<noteq> CtxDone \<and> (\<exists>pre suf. CtxDone \<notin> set pre \<and> es = pre @ replicate (Suc n) (Tick False) @ suf)" (is "?L = ?R")
proof
  assume ?L
  then obtain pre suf where *: "CtxDone \<notin> set pre" "replicate r (Tick False) @ e # es = pre @ replicate (Suc n) (Tick False) @ suf" by blast
  from replicate_window [OF *(2) assms] *(1) show ?R by auto
next
  assume ?R
  then obtain pre suf where *: "e \<noteq> CtxDone" "CtxDone \<notin> set pre" "es = pre @ replicate (Suc n) (Tick False) @ suf" by blast
  then have "CtxDone \<notin> set (replicate r (Tick False) @ e # pre)" by auto
  moreover have "replicate r (Tick False) @ e # es = (replicate r (Tick False) @ e # pre) @ replicate (Suc n) (Tick False) @ suf"
    using *(3) by simp
  ultimately show ?L by blast
qed

text \<open>The failures counted so far stand in front of the events to come.\<close>

lemma keepAlive_loop_gives_up:
  "r \<le> n \<Longrightarrow> keepAlive_loop (int n) (int r) es = KaGaveUp \<longleftrightarrow>
     (\<exists>pre suf. CtxDone \<notin> set pre \<and> replicate r (Tick False) @ es = pre @ replicate (Suc n) (Tick False) @ suf)"
proof (induction es arbitrary: r)
  case Nil
  have "length (replicate r (Tick False)) < length (pre @ replicate (Suc n) (Tick False) @ suf)" for pre suf
    using Nil by simp
  then show ?case by (metis append_Nil2 keepAlive_loop.simps(1) ka_state.distinct(1) less_irrefl)
next
  case (Cons e es)
  consider (full) "e = Tick False" "r = n" | (fail) "e = Tick False" "r < n" | (answer) "e = Tick True" | (over) "e = CtxDone"
    using Cons.prems by (metis (full_types) ka_event.exhaust le_neq_implies_less)
  then show ?case
  proof cases
    case full
    then have "replicate r (Tick False) @ e # es = [] @ replicate (Suc n) (Tick False) @ es" by (simp add: replicate_app_Cons_same)
    moreover have "keepAlive_loop (int n) (int r) (e # es) = KaGaveUp" using full by (simp add: keepAlive_tick_def)
    ultimately show ?thesis by (metis empty_iff empty_set)
  next
    case fail
    then have "keepAlive_loop (int n) (int r) (e # es) = keepAlive_loop (int n) (int (Suc r)) es"
      by (simp add: keepAlive_tick_def add.commute)
    with Cons.IH [of "Suc r"] fail show ?thesis by (simp add: replicate_app_Cons_same)
  next
    case answer
    then have "keepAlive_loop (int n) (int r) (e # es) = keepAlive_loop (int n) (int 0) es" by (simp add: keepAlive_tick_def)
    with Cons.IH [of 0] window_shift [of e r n es] answer Cons.prems show ?thesis by simp
  next
    case over
    with window_shift [of e r n es] Cons.prems show ?thesis by simp
  qed
qed

text \<open>
  C27: The keep-alive loop gives a connection up exactly when the client has left one more than the allowed number of
  requests in a row unanswered (four, with the limit of three that \<^verbatim>\<open>Build\<close> sets) before the context ends; answers
  in between start the count anew.
\<close>

theorem keepAlive_gives_up_iff:
  assumes "conn_Build b = Inr c"
  shows "keepAlive_loop (hd_maxKeepAliveRetries c) 0 es = KaGaveUp \<longleftrightarrow>
    (\<exists>pre suf. CtxDone \<notin> set pre \<and> es = pre @ replicate 4 (Tick False) @ suf)"
proof -
  have "hd_maxKeepAliveRetries c = int 3" using assms by (auto simp: conn_Build_def split: option.splits)
  then show ?thesis using keepAlive_loop_gives_up [of 0 3 es] by (simp add: numeral_eq_Suc)
qed

theorem keepAlive_gives_up_iff_witness:
  "\<exists>c. conn_Build full_builder = Inr c
     \<and> keepAlive_loop (hd_maxKeepAliveRetries c) 0 ([Tick False, Tick False, Tick True] @ replicate 4 (Tick False)) = KaGaveUp"
proof -
  obtain c where c: "conn_Build full_builder = Inr c"
    by (simp add: conn_Build_def full_builder_def pw_conn_def conn_SetLogger_def conn_SetConnection_def conn_SetGlobalRequests_def
        conn_SetChannel_def conn_SetK8sHelper_def conn_NewBuilder_def)
  have "CtxDone \<notin> set [Tick False, Tick False, Tick True]" by simp
  with keepAlive_gives_up_iff [OF c] c show ?thesis by (metis append_Nil2)
qed

text \<open>The helpers outlive neither the connection nor each other's handshake.\<close>

definition conn_inv :: "conn_sys \<Rightarrow> bool" where
  "conn_inv s \<longleftrightarrow>
     (cs_main s \<in> {MPrepare, MChannels, MDrain, MCloseGlobal, MWaitGlobal} \<longrightarrow> cs_global s \<noteq> GGone)
     \<and> (cs_main s \<in> {MCloseKeep, MWaitKeep, MCloseConn, MEnded} \<longrightarrow> cs_global s = GGone)
     \<and> (cs_main s \<in> {MCloseConn, MEnded} \<longleftrightarrow> cs_keep s = KGone)
     \<and> (cs_main s = MWaitGlobal \<longrightarrow> cs_gctx s) \<and> (cs_main s = MWaitKeep \<longrightarrow> cs_ctx s)
     \<and> (cs_main s \<notin> {MChannels, MDrain} \<longrightarrow> cs_channels s = 0)
     \<and> (cs_closed s \<longleftrightarrow> cs_main s = MEnded)"

interpretation conn: machine "conn_step m" conn_init conn_inv for m
proof
  show "conn_inv conn_init" by (simp add: conn_inv_def conn_init_def)
  show "conn_inv s'" if "conn_step m s s'" "conn_inv s" for s s'
    using that by (induction rule: conn_step.induct) (auto simp: conn_inv_def)
qed



text \<open>
  C24: The key file is written for password logins only, once, after the pod of the user is ready, to
  \<^verbatim>\<open>/root/.ssh/delegatio_priv_key\<close> of that user's pod, with the key that the login put into the permissions; and
  channels are served exactly when the pod became ready, whether or not writing the file worked.
\<close>

theorem prepare_connection_writes_key:
  assumes "conn_Build b = Inr c"
    and "CreateAndWaitForRessources (user_api (hd_api c)) \<lparr>kri_UserIdentifier = GetAuthenticatedUserID (hd_api c), kri_Namespace = UserNamespace,
         kri_ContainerIdentifier = [], kri_NodeName = GetNodeName env, kri_StorageClass = []\<rparr> w = Ret (r, w1)"
    and "\<And>conf. \<exists>q w2. WriteFileInPod (user_api (hd_api c)) conf w1 = Ret (q, w2)"
  shows "\<exists>w'. prepare_connection env c w = Ret (Inr (r = Inr ()), w')
    \<and> (if r = Inr () \<and> extension (hd_connection c) AuthenticationType = ''pw''
       then \<exists>q. WriteFileInPod (user_api (hd_api c)) \<lparr>kfw_UserIdentifier = GetAuthenticatedUserID (hd_api c), kfw_Namespace = UserNamespace,
         kfw_FileName = ''delegatio_priv_key'', kfw_FilePath = ''/root/.ssh'',
         kfw_FileData = extension (hd_connection c) AuthenticatedPrivKey\<rparr> w1 = Ret (q, w')
       else w' = w1)"
proof -
  have id: "GetNamespace (hd_api c) = UserNamespace" "GetAuthenticatedUserID (hd_api c) = extension (hd_connection c) AuthenticatedUserID"
    using assms(1)
    by (auto simp: conn_Build_def NewK8sAPIUserWrapper_def GetAuthenticatedUserID_def GetNamespace_def extension_def lookup_str_def
        split: option.splits)
  obtain q w2 where wr: "WriteFileInPod (user_api (hd_api c)) \<lparr>kfw_UserIdentifier = GetAuthenticatedUserID (hd_api c), kfw_Namespace = UserNamespace,
         kfw_FileName = ''delegatio_priv_key'', kfw_FilePath = ''/root/.ssh'',
         kfw_FileData = extension (hd_connection c) AuthenticatedPrivKey\<rparr> w1 = Ret (q, w2)" using assms(3) by blast
  show ?thesis
  proof (cases "r = Inr () \<and> extension (hd_connection c) AuthenticationType = ''pw''")
    case True
    then show ?thesis using assms(2) wr id
      by (intro exI [of _ w2]) (auto simp: prepare_connection_def writeFileToContainer_def bindR_def io_defs)
  next
    case False
    then show ?thesis using assms(2) id
      by (intro exI [of _ w1]) (cases r; auto simp: prepare_connection_def writeFileToContainer_def bindR_def io_defs)
  qed
qed

text \<open>An API that remembers the last file it was given.\<close>

definition noting_api :: "KubeFileWriteConfig option K8sAPI" where
  "noting_api = \<lparr>CreateAndWaitForRessources = (\<lambda>_. ret ()), ExecuteCommandInPod = (\<lambda>_. ret ()), CreatePodPortForward = (\<lambda>_. ret ()),
     WriteFileInPod = (\<lambda>f w. Ret (Inr (), Some f))\<rparr>"

theorem prepare_connection_writes_key_witness:
  "\<exists>c f. conn_Build \<lparr>cb_globalRequests = Some 1, cb_channel = Some 2, cb_connection = Some pw_conn, cb_log = Some (), cb_k8sHelper = Some noting_api\<rparr> = Inr c
     \<and> prepare_connection [] c None = Ret (Inr True, Some f) \<and> kfw_FileData f = ''KEY'' \<and> kfw_UserIdentifier f = ''alice-1''"
proof -
  let ?b = "\<lparr>cb_globalRequests = Some 1, cb_channel = Some 2, cb_connection = Some pw_conn, cb_log = Some (), cb_k8sHelper = Some noting_api\<rparr>"
  obtain c where c: "conn_Build ?b = Inr c" by (simp add: conn_Build_def pw_conn_def)
  have cc: "user_api (hd_api c) = noting_api" "hd_connection c = pw_conn" "GetAuthenticatedUserID (hd_api c) = ''alice-1''"
    using c by (auto simp: conn_Build_def pw_conn_def NewK8sAPIUserWrapper_def GetAuthenticatedUserID_def)
  have mk: "CreateAndWaitForRessources (user_api (hd_api c)) i None = Ret (Inr (), None)" for i
    by (simp add: cc noting_api_def ret_def)
  have wr: "\<exists>q w2. WriteFileInPod (user_api (hd_api c)) conf None = Ret (q, w2)" for conf by (simp add: cc noting_api_def)
  from prepare_connection_writes_key [OF c mk wr, of "[]"] c cc show ?thesis
    by (auto simp: noting_api_def pw_conn_def extension_def lookup_str_def)
qed

end
