(* ===== verification/Ssh_Server.thy ===== *)
theory Ssh_Server
  imports Connection
begin

text \<open>
  \<^verbatim>\<open>ssh/server.go\<close>, \<^verbatim>\<open>ssh/ldap/ldap.go\<close> and \<^verbatim>\<open>ssh/util/util.go\<close>: who may log in. The callbacks run on a pair of the
  store and the outside (the directory server and the source of random keys). The ldap library, key generation and
  the ssh handshake are parameters.
\<close>

section \<open>The directory\<close>

record ldap_entry =
  le_attributes :: "(string \<times> string list) list"

text \<open>The first value of an attribute, or the empty string.\<close>

definition GetAttributeValue :: "ldap_entry \<Rightarrow> string \<Rightarrow> string" where
  "GetAttributeValue e n = (case map_of (le_attributes e) n of Some (v # _) \<Rightarrow> v | _ \<Rightarrow> [])"

record search_request =
  sr_BaseDN :: string
  sr_Scope :: string
  sr_Filter :: string
  sr_Attributes :: "string list"

record 'w ldap_lib =
  DialURL :: "string \<Rightarrow> ('w, nat) io"
  LdapBind :: "nat \<Rightarrow> string \<Rightarrow> string \<Rightarrow> ('w, unit) io"
  LdapSearch :: "nat \<Rightarrow> search_request \<Rightarrow> ('w, ldap_entry list) io"
  LdapClose :: "nat \<Rightarrow> ('w, unit) io"

record Ldap =
  ld_address :: string
  ld_dn :: string
  ld_attributes :: "string list"

definition NewLdap :: Ldap where
  "NewLdap = \<lparr>ld_address = ''ldaps://ldaps-rz-1.ethz.ch'', ld_dn = ''cn=%s,ou=users,ou=nethz,ou=id,ou=auth,o=ethz,c=ch'',
     ld_attributes = [''swissEduPersonMatriculationNumber'', ''swissEduPersonOrganizationalMail'', ''swissEduPersonGender'',
       ''eduPersonAffiliation'', ''surname'', ''givenName'', ''mail'', ''uid'']\<rparr>"

text \<open>\<^verbatim>\<open>fmt.Sprintf\<close> with one \<^verbatim>\<open>%s\<close> and one argument.\<close>

fun Sprintf_s :: "string \<Rightarrow> string \<Rightarrow> string" where
  "Sprintf_s (c # d # fmt) arg = (if c = CHR ''%'' \<and> d = CHR ''s'' then arg @ fmt else c # Sprintf_s (d # fmt) arg)"
| "Sprintf_s fmt arg = fmt"

definition ldap_dial :: "'w ldap_lib \<Rightarrow> Ldap \<Rightarrow> string \<Rightarrow> string \<Rightarrow> ('w, nat) io" where
  "ldap_dial L l username password =
     (let patchedDn = Sprintf_s (ld_dn l) username in
     bindE (DialURL L (ld_address l)) (\<lambda>connection.
     bindE (LdapBind L connection patchedDn password) (\<lambda>_. ret connection)))"

text \<open>The check that the user is unique, and the record made of the entry.\<close>

definition user_of_entries :: "string \<Rightarrow> string \<Rightarrow> ldap_entry list \<Rightarrow> ('w, UserInformation) io" where
  "user_of_entries username patchedDn es = (case es of
      [e] \<Rightarrow> ret (zero_user\<lparr>Username := username,
        Uuid := username @ ''-'' @ GetAttributeValue e ''swissEduPersonMatriculationNumber'',
        LegiNumber := GetAttributeValue e ''swissEduPersonMatriculationNumber'',
        Email := GetAttributeValue e ''swissEduPersonOrganizationalMail'',
        RealName := GetAttributeValue e ''givenName'' @ '' '' @ GetAttributeValue e ''surname'',
        Gender := GetAttributeValue e ''swissEduPersonGender''\<rparr>)
    | _ \<Rightarrow> throw (ErrorString (''user not unique '' @ patchedDn)))"

text \<open>The connection that \<^verbatim>\<open>dial\<close> returns is closed on every path; one whose bind failed is not.\<close>

definition ldap_Search :: "'w ldap_lib \<Rightarrow> Ldap \<Rightarrow> string \<Rightarrow> string \<Rightarrow> ('w, UserInformation) io" where
  "ldap_Search L l username password =
     bindE (ldap_dial L l username password) (\<lambda>connection.
     let patchedDn = Sprintf_s (ld_dn l) username;
         searchRequest = \<lparr>sr_BaseDN = patchedDn, sr_Scope = ''base'', sr_Filter = ''(objectClass=*)'', sr_Attributes = ld_attributes l\<rparr>
     in bindR (bindE (LdapSearch L connection searchRequest) (user_of_entries username patchedDn)) (\<lambda>r.
        bindR (LdapClose L connection) (\<lambda>_. lift_result r)))"

section \<open>Key pairs\<close>

record ('w, 'k, 'p) key_lib =
  GenerateKey :: "('w, 'k) io"
  pem_private :: "'k \<Rightarrow> bytes"
  NewPublicKey :: "'k \<Rightarrow> go_error + 'p"
  MarshalAuthorizedKey :: "'p \<Rightarrow> bytes"

definition CreateSSHKeypair :: "('w, 'k, 'p) key_lib \<Rightarrow> ('w, bytes \<times> bytes) io" where
  "CreateSSHKeypair K =
     bindE (GenerateKey K) (\<lambda>privateKey.
     let privKeyMem = pem_private K privateKey
     in bindE (lift_result (NewPublicKey K privateKey)) (\<lambda>pub. ret (privKeyMem, MarshalAuthorizedKey K pub)))"

section \<open>The authentication callbacks\<close>

type_synonym permissions = "string gomap"

definition wrap :: "string \<Rightarrow> ('w, 'a) io \<Rightarrow> ('w, 'a) io" where
  "wrap msg m = bindR m (\<lambda>r. case r of Inl err \<Rightarrow> throw (WrapError msg err) | Inr x \<Rightarrow> ret x)"

definition PublicKeyCallback :: "'s store_iface \<Rightarrow> UserInformation codec \<Rightarrow> string \<Rightarrow> ('s, permissions) io" where
  "PublicKeyCallback S cu authorizedKey =
     bindE (wrap ''failed to obtain user data'' (GetPublicKeyData S cu authorizedKey)) (\<lambda>userData.
     ret [(AuthenticationType, ''pk''), (AuthenticatedUserID, Uuid userData)])"

text \<open>The branch for a user that is not in the store: a fresh key pair, then one entry per index.\<close>

definition register_user ::
  "'s store_iface \<Rightarrow> UserInformation codec \<Rightarrow> ('w, 'k, 'p) key_lib \<Rightarrow> UserInformation \<Rightarrow> ('s \<times> 'w, UserInformation) io" where
  "register_user S cu K userData0 =
     bindE (wrap ''failed to create ssh keypair'' (on_snd (CreateSSHKeypair K))) (\<lambda>(privKey, pubKey).
     let userData = userData0\<lparr>PrivKey := Some privKey, PubKey := Some pubKey\<rparr>
     in bindE (wrap ''failed to put data into store'' (on_fst (PutDataIdxByUuid S cu (Uuid userData) userData))) (\<lambda>_.
        bindE (wrap ''failed to put data into store'' (on_fst (PutDataIdxByPubKey S cu (bytes_string (PubKey userData)) userData))) (\<lambda>_.
        ret userData)))"

definition PasswordCallback ::
  "'s store_iface \<Rightarrow> UserInformation codec \<Rightarrow> 'w ldap_lib \<Rightarrow> Ldap \<Rightarrow> ('w, 'k, 'p) key_lib \<Rightarrow> string \<Rightarrow> string
   \<Rightarrow> ('s \<times> 'w, permissions) io" where
  "PasswordCallback S cu L l K user password =
     bindE (wrap (''ldap search for user '' @ user @ '' failed'') (on_snd (ldap_Search L l user password))) (\<lambda>userData0.
     bindE (wrap (''error checking if uuid '' @ Uuid userData0 @ '' exists'') (on_fst (UuidExists S (Uuid userData0)))) (\<lambda>exists.
     bindE (if \<not> exists then register_user S cu K userData0 else ret userData0) (\<lambda>userData.
     ret [(AuthenticationType, ''pw''), (AuthenticatedPrivKey, bytes_string (PrivKey userData)), (AuthenticatedUserID, Uuid userData)])))"

section \<open>Accepted connections\<close>

datatype 'w conn_action = HandshakeFailed go_error | NoPermissions | BuildFailed go_error | HandleConnection "'w ConnHandler"

text \<open>The handshake runs the callbacks; its result is the connection with the permissions they returned.\<close>

definition validateAndProcessConnection :: "'w K8sAPI \<Rightarrow> go_error + ServerConn \<times> nat \<times> nat \<Rightarrow> 'w conn_action" where
  "validateAndProcessConnection helper handshake = (case handshake of
      Inl err \<Rightarrow> HandshakeFailed err
    | Inr (sshConn, chans, reqs) \<Rightarrow>
        (case sc_Permissions sshConn of
           Some (Some _) \<Rightarrow>
             (case conn_Build (conn_SetLogger () (conn_SetConnection sshConn (conn_SetGlobalRequests reqs (conn_SetChannel chans
                 (conn_SetK8sHelper helper conn_NewBuilder))))) of
                Inl err \<Rightarrow> BuildFailed err
              | Inr handler \<Rightarrow> HandleConnection handler)
         | _ \<Rightarrow> NoPermissions))"

section \<open>Properties\<close>

lemma wrap_run [io_simps]: "m w = Ret (Inr x, w') \<Longrightarrow> wrap msg m w = Ret (Inr x, w')"
  by (simp add: wrap_def bindR_def ret_def)

lemma wrap_Inr_iff: "wrap msg m w = Ret (Inr x, w') \<longleftrightarrow> m w = Ret (Inr x, w')"
  by (auto simp: wrap_def bindR_def ret_def throw_def split: outcome.splits sum.splits)

lemma on_Inr_iff:
  "on_fst m (a, b) = Ret (r, (a', b')) \<longleftrightarrow> m a = Ret (r, a') \<and> b' = b"
  "on_snd n (a, b) = Ret (r, (a', b')) \<longleftrightarrow> n b = Ret (r, b') \<and> a' = a"
  by (auto simp: on_fst_def on_snd_def split: outcome.splits)

lemma on_fst_run: "m a = Ret (r, a') \<Longrightarrow> on_fst m (a, b) = Ret (r, (a', b))"
  and on_snd_run: "n b = Ret (r, b') \<Longrightarrow> on_snd n (a, b) = Ret (r, (a, b'))"
  by (simp_all add: on_fst_def on_snd_def)

lemma register_user_uuid: "register_user S cu K u w = Ret (Inr v, w') \<Longrightarrow> Uuid v = Uuid u"
  by (auto simp: register_user_def bindE_Inr_iff Let_def ret_def split: prod.splits)

lemma deferred_Inr:
  "bindR m (\<lambda>r. bindR d (\<lambda>_. lift_result r)) w = Ret (Inr x, w') \<Longrightarrow> \<exists>w1. m w = Ret (Inr x, w1)"
  by (auto simp: bindR_def lift_result_def split: outcome.splits)

lemma ldap_Search_user:
  assumes "ldap_Search L l user password e = Ret (Inr u, e')"
  shows "PrivKey u = None" "PubKey u = None" "Username u = user"
    "\<exists>c v v'. LdapBind L c (Sprintf_s (ld_dn l) user) password v = Ret (Inr (), v')"
proof -
  obtain c e1 e2 where c: "ldap_dial L l user password e = Ret (Inr c, e1)" and
    r: "bindE (LdapSearch L c \<lparr>sr_BaseDN = Sprintf_s (ld_dn l) user, sr_Scope = ''base'', sr_Filter = ''(objectClass=*)'',
        sr_Attributes = ld_attributes l\<rparr>) (user_of_entries user (Sprintf_s (ld_dn l) user)) e1 = Ret (Inr u, e2)"
    using assms unfolding ldap_Search_def Let_def by (auto simp: bindE_Inr_iff dest!: deferred_Inr)
  from r obtain es v where "user_of_entries user (Sprintf_s (ld_dn l) user) es v = Ret (Inr u, e2)" by (auto simp: bindE_Inr_iff)
  then have "PrivKey u = None \<and> PubKey u = None \<and> Username u = user"
    by (auto simp: user_of_entries_def io_defs zero_user_def split: list.split_asm)
  then show "PrivKey u = None" "PubKey u = None" "Username u = user" by simp_all
  show "\<exists>c v v'. LdapBind L c (Sprintf_s (ld_dn l) user) password v = Ret (Inr (), v')"
    using c by (auto simp: ldap_dial_def bindE_Inr_iff Let_def)
qed


text \<open>A directory with one account, a fixed key pair and a codec for one record, for concrete runs.\<close>

definition one_ldap :: "unit ldap_lib" where
  "one_ldap = \<lparr>DialURL = (\<lambda>_. ret 1),
     LdapBind = (\<lambda>c dn pw. if pw = ''secret'' then ret () else throw (ExtError ''Invalid Credentials'')),
     LdapSearch = (\<lambda>c r. ret [\<lparr>le_attributes = [(''swissEduPersonMatriculationNumber'', [''7''])]\<rparr>]), LdapClose = (\<lambda>_. ret ())\<rparr>"

definition fixed_keys :: "(unit, unit, unit) key_lib" where
  "fixed_keys = \<lparr>GenerateKey = ret (), pem_private = (\<lambda>_. ''PRIV''), NewPublicKey = (\<lambda>_. Inr ()), MarshalAuthorizedKey = (\<lambda>_. ''PUB'')\<rparr>"

definition one_codec :: "'a \<Rightarrow> 'a codec" where
  "one_codec x = \<lparr>Marshal = (\<lambda>_. Inr ''{}''), Unmarshal = (\<lambda>_. Inr x)\<rparr>"

definition alice :: UserInformation where
  "alice = zero_user\<lparr>Username := ''alice'', Uuid := ''alice-7'', LegiNumber := ''7'', RealName := '' ''\<rparr>"

lemma one_ldap_search: "ldap_Search one_ldap NewLdap ''alice'' ''secret'' () = Ret (Inr alice, ())"
  by (simp add: ldap_Search_def ldap_dial_def one_ldap_def user_of_entries_def GetAttributeValue_def alice_def Let_def
      bindE_def bindR_def io_defs zero_user_def)

lemma fixed_keys_run: "CreateSSHKeypair fixed_keys () = Ret (Inr (''PRIV'', ''PUB''), ())"
  by (simp add: CreateSSHKeypair_def fixed_keys_def bindE_def bindR_def io_defs Let_def)

lemma alice_unknown: "uuidKeyPrefix @ Uuid alice \<notin> dom (std_kv store7)"
  by (simp add: store7_def std_kv_def alice_def zero_user_def uuidKeyPrefix_def domIff)


text \<open>
  A later password login, of a user the store knows already, returns an empty private key and stores nothing: the
  record of the store is not read. Together with the file that is written for every password login, the user's key
  file is replaced by an empty one.
\<close>

theorem second_login_has_no_key:
  assumes "std_wf s" "std_free s" "ldap_Search L l user password e = Ret (Inr u, e1)" "uuidKeyPrefix @ Uuid u \<in> dom (std_kv s)"
  shows "PasswordCallback std_iface cu L l K user password (s, e) =
      Ret (Inr [(AuthenticationType, ''pw''), (AuthenticatedPrivKey, []), (AuthenticatedUserID, Uuid u)], (s, e1))"
proof -
  have ex: "UuidExists std_iface (Uuid u) s = Ret (Inr True, s)"
    using std.key_exists_run [OF assms(1,2)] assms(4) by (auto simp: UuidExists_def)
  note runs = on_snd_run [of "ldap_Search L l user password" e, OF assms(3), of s]
    on_fst_run [of "UuidExists std_iface (Uuid u)" s, OF ex, of e1]
  show ?thesis
    by (simp add: PasswordCallback_def bindE_def bindR_def wrap_def runs ret_def bytes_string_def ldap_Search_user(1) [OF assms(3)])
qed

definition store_alice :: std_store where
  "store_alice = store7\<lparr>st_heap := (\<lambda>a. [(''uuid-alice-7'', ''{}'')])\<rparr>"

theorem second_login_has_no_key_witness:
  "PasswordCallback std_iface uuid_codec one_ldap NewLdap fixed_keys ''alice'' ''secret'' (store_alice, ()) =
      Ret (Inr [(AuthenticationType, ''pw''), (AuthenticatedPrivKey, []), (AuthenticatedUserID, ''alice-7'')], (store_alice, ()))"
proof -
  have ok: "std_wf store_alice" "std_free store_alice"
    by (simp_all add: store_alice_def store7_def std_wf_def std_free_def gm_wf_def)
  have known: "uuidKeyPrefix @ Uuid alice \<in> dom (std_kv store_alice)"
    by (simp add: store_alice_def store7_def std_kv_def alice_def zero_user_def uuidKeyPrefix_def domIff)
  show ?thesis
    using second_login_has_no_key [OF ok one_ldap_search known, of uuid_codec fixed_keys] by (simp add: alice_def zero_user_def)
qed

text \<open>Whose permissions a callback returns.\<close>

lemma password_login_user:
  assumes "PasswordCallback S cu L l K user password (s, e) = Ret (Inr perms, st)"
  shows "\<exists>u e1. ldap_Search L l user password e = Ret (Inr u, e1) \<and> map_of perms AuthenticatedUserID = Some (Uuid u)"
proof -
  from assms obtain u w1 ex w2 v w3 where run:
    "wrap (''ldap search for user '' @ user @ '' failed'') (on_snd (ldap_Search L l user password)) (s, e) = Ret (Inr u, w1)"
    "(if \<not> ex then register_user S cu K u else ret u) w2 = Ret (Inr v, w3)"
    "ret [(AuthenticationType, ''pw''), (AuthenticatedPrivKey, bytes_string (PrivKey v)), (AuthenticatedUserID, Uuid v)] w3 = Ret (Inr perms, st)"
    unfolding PasswordCallback_def bindE_Inr_iff by (elim exE conjE)
  have "Uuid v = Uuid u" using run(2) by (auto simp: ret_def dest: register_user_uuid split: if_splits)
  then have "map_of perms AuthenticatedUserID = Some (Uuid u)" using run(3) by (auto simp: ret_def)
  moreover have "\<exists>e1. ldap_Search L l user password e = Ret (Inr u, e1)"
    using run(1) by (cases w1) (auto simp: wrap_Inr_iff on_Inr_iff)
  ultimately show ?thesis by blast
qed

lemma key_login_user:
  assumes "PublicKeyCallback T cu key w = Ret (Inr perms, w')"
  shows "\<exists>u. get_json T cu (publicKeyPrefix @ key) w = Ret (Inr u, w') \<and> map_of perms AuthenticatedUserID = Some (Uuid u)"
  using assms by (auto simp: PublicKeyCallback_def GetPublicKeyData_def bindE_Inr_iff wrap_Inr_iff ret_def)

lemma decode_mapI: "m (p @ key) = Some b \<Longrightarrow> Unmarshal c b = Inr u \<Longrightarrow> decode_map c p m key = Some u"
  by (simp add: decode_map_def)

text \<open>
  C6: Permissions are earned: a password login is granted only if the directory accepted a bind under the user's own
  name with this password, and then for the identifier the directory's entry gives; a key login is granted only for a
  key that the store holds (in memory or in etcd), and then for the identifier of its record.
\<close>

theorem permissions_are_earned:
  shows "(\<forall>perms st. PasswordCallback S cu L l K user password (s, e) = Ret (Inr perms, st) \<longrightarrow>
      (\<exists>u e1. ldap_Search L l user password e = Ret (Inr u, e1) \<and> map_of perms AuthenticatedUserID = Some (Uuid u)
        \<and> Username u = user \<and> (\<exists>c v v'. LdapBind L c (Sprintf_s (ld_dn l) user) password v = Ret (Inr (), v'))))
    \<and> (\<forall>(w :: 'd etcd_store) perms w'. etcd_wf w \<longrightarrow> PublicKeyCallback etcd_iface cu key w = Ret (Inr perms, w') \<longrightarrow>
      (\<exists>u. decode_map cu publicKeyPrefix (etcd_kv w) key = Some u \<and> map_of perms AuthenticatedUserID = Some (Uuid u)))
    \<and> (\<forall>t perms t'. std_wf t \<longrightarrow> PublicKeyCallback std_iface cu key t = Ret (Inr perms, t') \<longrightarrow>
      (\<exists>u. decode_map cu publicKeyPrefix (std_kv t) key = Some u \<and> map_of perms AuthenticatedUserID = Some (Uuid u)))"
proof (intro conjI allI impI)
  fix perms st
  assume "PasswordCallback S cu L l K user password (s, e) = Ret (Inr perms, st)"
  from password_login_user [OF this] ldap_Search_user(3,4) show "\<exists>u e1. ldap_Search L l user password e = Ret (Inr u, e1)
      \<and> map_of perms AuthenticatedUserID = Some (Uuid u) \<and> Username u = user
      \<and> (\<exists>c v v'. LdapBind L c (Sprintf_s (ld_dn l) user) password v = Ret (Inr (), v'))" by metis
next
  fix w :: "'d etcd_store" and perms w'
  assume "etcd_wf w" "PublicKeyCallback etcd_iface cu key w = Ret (Inr perms, w')"
  then show "\<exists>u. decode_map cu publicKeyPrefix (etcd_kv w) key = Some u \<and> map_of perms AuthenticatedUserID = Some (Uuid u)"
    using key_login_user [of etcd_iface cu key w perms w'] etcd.get_json_value decode_mapI by metis
next
  fix t perms t'
  assume "std_wf t" "PublicKeyCallback std_iface cu key t = Ret (Inr perms, t')"
  then show "\<exists>u. decode_map cu publicKeyPrefix (std_kv t) key = Some u \<and> map_of perms AuthenticatedUserID = Some (Uuid u)"
    using key_login_user [of std_iface cu key t perms t'] std.get_json_value decode_mapI by metis
qed

theorem permissions_are_earned_witness:
  "\<exists>perms st u e1. PasswordCallback std_iface uuid_codec one_ldap NewLdap fixed_keys ''alice'' ''secret'' (store_alice, ()) = Ret (Inr perms, st)
     \<and> ldap_Search one_ldap NewLdap ''alice'' ''secret'' () = Ret (Inr u, e1) \<and> map_of perms AuthenticatedUserID = Some (Uuid u)"
proof -
  have "returns_ok (PasswordCallback std_iface uuid_codec one_ldap NewLdap fixed_keys ''alice'' ''secret'' (store_alice, ()))" by code_simp
  then obtain perms st where
    "PasswordCallback std_iface uuid_codec one_ldap NewLdap fixed_keys ''alice'' ''secret'' (store_alice, ()) = Ret (Inr perms, st)"
    by (auto simp: returns_ok_iff)
  with permissions_are_earned show ?thesis by metis
qed

end
