(* ===== verification/Ssh_Loop.thy ===== *)
theory Ssh_Loop
  imports Ssh_Server
begin

text \<open>
  \<^verbatim>\<open>ssh/main.go\<close> and the accept loop of \<^verbatim>\<open>ssh/server.go\<close>: the start of the server process, and the goroutines of
  \<^verbatim>\<open>Start\<close> (the accept loop, the handlers it starts, the periodic log and the shutdown) as the step relation
  \<open>server_step\<close>. Panics of \<^verbatim>\<open>DPanic\<close> and the exit of \<^verbatim>\<open>log.Fatal\<close> end the process.
\<close>

section \<open>Start of the process\<close>

record ('h, 's) Server =
  srv_k8sHelper :: 'h
  srv_currentConnections :: "64 word"
  srv_backingStore :: 's
  srv_ldap :: Ldap
  srv_privateKey :: bytes

definition NewServer :: "'h \<Rightarrow> 's \<Rightarrow> bytes \<Rightarrow> Ldap \<Rightarrow> ('h, 's) Server" where
  "NewServer client storage privKey ldap = \<lparr>srv_k8sHelper = client, srv_currentConnections = 0, srv_backingStore = storage,
     srv_ldap = ldap, srv_privateKey = privKey\<rparr>"

definition BannerCallback :: "(string \<times> string) list option \<Rightarrow> string" where
  "BannerCallback info = ''delegatio ssh server version '' @ Version @ [CHR 0x0A] @ ''commit '' @ Commit info @ [CHR 0x0A]"

text \<open>The reads of \<^verbatim>\<open>main\<close> on the store it has opened, and the whole of \<^verbatim>\<open>main\<close> up to \<^verbatim>\<open>server.Start\<close>.\<close>

definition load_server :: "'h \<Rightarrow> 's store_iface \<Rightarrow> ('s, ('h, unit) Server) io" where
  "load_server client S =
     bindR (GetAllKeys S) (\<lambda>r. case r of
       Inl _ \<Rightarrow> crash ''getting all keys from etcd''
     | Inr keys \<Rightarrow> bindR (GetPrivKey S) (\<lambda>r. case r of
         Inl _ \<Rightarrow> crash ''gettign priv key for ssh server''
       | Inr privKey \<Rightarrow> ret (NewServer client () privKey NewLdap)))"

definition ssh_main :: "(go_error + 'h) \<Rightarrow> ('h \<Rightarrow> ('w, 's etcd_store) io) \<Rightarrow> ('w, ('h, 's etcd_store) Server) io" where
  "ssh_main newClient getStore = (case newClient of
      Inl _ \<Rightarrow> crash ''failed to create k8s client''
    | Inr client \<Rightarrow> bindR (getStore client) (\<lambda>r. case r of
        Inl _ \<Rightarrow> crash ''connecting to etcd''
      | Inr store \<Rightarrow> (case load_server client etcd_iface store of
          Ret (Inr server, store') \<Rightarrow> ret (NewServer client store' (srv_privateKey server) (srv_ldap server))
        | Ret (Inl e, _) \<Rightarrow> throw e
        | Panic p \<Rightarrow> crash p
        | Block \<Rightarrow> (\<lambda>_. Block))))"

text \<open>The part of \<^verbatim>\<open>Start\<close> before the goroutines run.\<close>

definition listen_address :: string where
  "listen_address = ''0.0.0.0:2200''"

definition Start_begin :: "(bytes \<Rightarrow> go_error + 'k) \<Rightarrow> (string \<Rightarrow> ('w, nat) io) \<Rightarrow> ('h, 's) Server \<Rightarrow> ('w, 'k \<times> nat) io" where
  "Start_begin ParsePrivateKey Listen s = (case ParsePrivateKey (srv_privateKey s) of
      Inl _ \<Rightarrow> crash ''Failed to parse private key''
    | Inr private \<Rightarrow> bindR (Listen listen_address) (\<lambda>r. case r of
        Inl _ \<Rightarrow> crash ''Failed to listen on 2200''
      | Inr listener \<Rightarrow> ret (private, listener)))"

section \<open>The running server\<close>

text \<open>
  The accept loop is waiting for a connection, or has one in hand before the wait group is incremented, before the
  counter is, or before the handler is started. \<^verbatim>\<open>Start\<close> waits for the context, closes the listener, waits for the wait
  group, returns. \<open>sv_running\<close> and \<open>sv_ending\<close> count the handlers that have not called \<^verbatim>\<open>Done\<close> and those between
  \<^verbatim>\<open>Done\<close> and the decrement of the counter; \<open>sv_logged\<close> is what the periodic log has reported. The goroutine of
  \<^verbatim>\<open>registerSignalHandler\<close> waits for a signal, cancels the context and then sends on a channel that nobody receives from.
\<close>

datatype accept_pc = AAccept | AGot | AAdded | ACounted | AGone
datatype signal_pc = GWait | GSend
datatype start_pc = SWaitCtx | SClose | SWaitWG | SReturned

record server_sys =
  sv_signal :: signal_pc
  sv_ctx :: bool
  sv_listening :: bool
  sv_accept :: accept_pc
  sv_start :: start_pc
  sv_wg :: int
  sv_count :: "64 word"
  sv_running :: nat
  sv_ending :: nat
  sv_logger :: bool
  sv_logged :: "64 word list"

definition server_init :: server_sys where
  "server_init = \<lparr>sv_signal = GWait, sv_ctx = False, sv_listening = True, sv_accept = AAccept, sv_start = SWaitCtx, sv_wg = 0, sv_count = 0,
     sv_running = 0, sv_ending = 0, sv_logger = True, sv_logged = []\<rparr>"

text \<open>One tick of \<^verbatim>\<open>periodicLogs\<close>.\<close>

definition periodicLogs_tick :: "server_sys \<Rightarrow> server_sys" where
  "periodicLogs_tick s = s\<lparr>sv_logged := sv_logged s @ [sv_count s]\<rparr>"

inductive server_step :: "server_sys \<Rightarrow> server_sys \<Rightarrow> bool" where
  signal: "sv_signal s = GWait \<Longrightarrow> server_step s (s\<lparr>sv_signal := GSend, sv_ctx := True\<rparr>)"
| accept: "sv_accept s = AAccept \<Longrightarrow> sv_listening s \<Longrightarrow> server_step s (s\<lparr>sv_accept := AGot\<rparr>)"
| accept_fails: "sv_accept s = AAccept \<Longrightarrow> sv_listening s \<Longrightarrow> server_step s s"
| accept_closed: "sv_accept s = AAccept \<Longrightarrow> \<not> sv_listening s \<Longrightarrow> server_step s (s\<lparr>sv_accept := AGone\<rparr>)"
| wg_add: "sv_accept s = AGot \<Longrightarrow> server_step s (s\<lparr>sv_accept := AAdded, sv_wg := sv_wg s + 1\<rparr>)"
| count_add: "sv_accept s = AAdded \<Longrightarrow> server_step s (s\<lparr>sv_accept := ACounted, sv_count := sv_count s + 1\<rparr>)"
| spawn: "sv_accept s = ACounted \<Longrightarrow> server_step s (s\<lparr>sv_accept := AAccept, sv_running := sv_running s + 1\<rparr>)"
| handler_done: "sv_running s > 0 \<Longrightarrow> server_step s (s\<lparr>sv_running := sv_running s - 1, sv_ending := sv_ending s + 1, sv_wg := sv_wg s - 1\<rparr>)"
| handler_end: "sv_ending s > 0 \<Longrightarrow> server_step s (s\<lparr>sv_ending := sv_ending s - 1, sv_count := sv_count s - 1\<rparr>)"
| ctx_done: "sv_start s = SWaitCtx \<Longrightarrow> sv_ctx s \<Longrightarrow> server_step s (s\<lparr>sv_start := SClose\<rparr>)"
| close: "sv_start s = SClose \<Longrightarrow> server_step s (s\<lparr>sv_start := SWaitWG, sv_listening := False\<rparr>)"
| wait: "sv_start s = SWaitWG \<Longrightarrow> sv_wg s = 0 \<Longrightarrow> server_step s (s\<lparr>sv_start := SReturned\<rparr>)"
| log_tick: "sv_logger s \<Longrightarrow> server_step s (periodicLogs_tick s)"
| log_stop: "sv_logger s \<Longrightarrow> sv_ctx s \<Longrightarrow> server_step s (s\<lparr>sv_logger := False\<rparr>)"

inductive_cases server_stepE: "server_step s s'"

abbreviation server_reach :: "server_sys \<Rightarrow> bool" where
  "server_reach \<equiv> reach server_step server_init"

lemmas server_run = reach_run [where step = server_step]

section \<open>Invariants\<close>

text \<open>The connection the accept loop has in hand, by what it has been counted in.\<close>

definition in_hand :: "accept_pc \<Rightarrow> nat" where
  "in_hand a = (if a \<in> {AGot, AAdded, ACounted} then 1 else 0)"

definition in_wg :: "accept_pc \<Rightarrow> nat" where
  "in_wg a = (if a \<in> {AAdded, ACounted} then 1 else 0)"

definition in_count :: "accept_pc \<Rightarrow> nat" where
  "in_count a = (if a = ACounted then 1 else 0)"

definition server_inv :: "server_sys \<Rightarrow> bool" where
  "server_inv s \<longleftrightarrow> sv_wg s = int (sv_running s + in_wg (sv_accept s))
     \<and> sv_count s = of_nat (sv_running s + sv_ending s + in_count (sv_accept s))
     \<and> (sv_listening s \<longleftrightarrow> sv_start s = SWaitCtx \<or> sv_start s = SClose)
     \<and> (sv_start s \<noteq> SWaitCtx \<longrightarrow> sv_ctx s) \<and> (sv_ctx s \<longleftrightarrow> sv_signal s = GSend)
     \<and> (sv_start s = SReturned \<longrightarrow> sv_running s + in_hand (sv_accept s) \<le> 1)"

lemmas server_inv_defs = periodicLogs_tick_def server_inv_def in_hand_def in_wg_def in_count_def

lemma server_inv_init: "server_inv server_init"
  by (simp add: server_inv_defs server_init_def)

lemma server_inv_step: "server_step s s' \<Longrightarrow> server_inv s \<Longrightarrow> server_inv s'"
  by (induction rule: server_step.induct) (auto simp: server_inv_defs)

interpretation server: machine server_step server_init server_inv
  by unfold_locales (fact server_inv_init server_inv_step)+

lemmas server_inv_reach = server.invariant

section \<open>Shutdown\<close>

text \<open>From any state, the accept loop can put down the connection it holds, and then the handlers can end.\<close>

definition can_settle :: "server_sys \<Rightarrow> bool" where
  "can_settle s \<longleftrightarrow> (\<exists>t. reach server_step s t \<and> in_hand (sv_accept t) = 0 \<and> sv_ctx t = sv_ctx s \<and> sv_start t = sv_start s)"

lemma can_settle_step:
  assumes "server_step s s'" "can_settle s'" "sv_ctx s' = sv_ctx s" "sv_start s' = sv_start s"
  shows "can_settle s"
proof -
  from assms(2) obtain t where "reach server_step s' t" "in_hand (sv_accept t) = 0" "sv_ctx t = sv_ctx s" "sv_start t = sv_start s"
    unfolding can_settle_def using assms(3,4) by auto
  moreover from this(1) have "reach server_step s t" by (rule reach_trans [OF _ reach_one [of server_step, OF assms(1)]])
  ultimately show ?thesis unfolding can_settle_def by blast
qed

lemma accept_settles: "can_settle s"
proof -
  have free: "can_settle s" if "in_hand (sv_accept s) = 0" for s
    unfolding can_settle_def using that by (intro exI [of _ s]) (simp add: reach.start)
  have counted: "can_settle s" if "sv_accept s = ACounted" for s
    by (rule can_settle_step [OF spawn [OF that] free]) (simp_all add: in_hand_def)
  have added: "can_settle s" if "sv_accept s = AAdded" for s
    by (rule can_settle_step [OF count_add [OF that] counted]) simp_all
  have got: "can_settle s" if "sv_accept s = AGot" for s
    by (rule can_settle_step [OF wg_add [OF that] added]) simp_all
  show ?thesis by (cases "sv_accept s") (auto intro: free counted added got simp: in_hand_def)
qed

lemma handlers_end:
  "in_hand (sv_accept s) = 0 \<Longrightarrow>
   \<exists>t. reach server_step s t \<and> sv_running t = 0 \<and> in_hand (sv_accept t) = 0 \<and> sv_ctx t = sv_ctx s \<and> sv_start t = sv_start s"
proof (induction "sv_running s" arbitrary: s)
  case 0
  then show ?case using reach.start by fastforce
next
  case (Suc n)
  let ?s = "s\<lparr>sv_running := sv_running s - 1, sv_ending := sv_ending s + 1, sv_wg := sv_wg s - 1\<rparr>"
  have st: "server_step s ?s" using Suc(2) by (intro handler_done) simp
  have "n = sv_running ?s" "in_hand (sv_accept ?s) = 0" using Suc(2,3) by simp_all
  from Suc(1) [OF this] obtain t where t: "reach server_step ?s t" "sv_running t = 0" "in_hand (sv_accept t) = 0"
    "sv_ctx t = sv_ctx s" "sv_start t = sv_start s" by auto
  from t(2-5) reach_trans [OF t(1) reach_one [of server_step, OF st]] show ?case by blast
qed

lemma Start_can_return:
  assumes "server_reach s" "sv_ctx s"
  shows "\<exists>t. reach server_step s t \<and> sv_start t = SReturned"
proof -
  obtain s1 where s1: "reach server_step s s1" "in_hand (sv_accept s1) = 0" "sv_ctx s1" "sv_start s1 = sv_start s"
    using accept_settles [of s] assms(2) by (auto simp: can_settle_def)
  obtain s2 where s2: "reach server_step s1 s2" "sv_running s2 = 0" "in_hand (sv_accept s2) = 0" "sv_ctx s2" "sv_start s2 = sv_start s"
    using handlers_end [OF s1(2)] s1 by auto
  have run: "reach server_step s s2" by (rule reach_trans [OF s2(1) s1(1)])
  have "server_inv s2" using server_inv_reach reach_trans [OF run assms(1)] by blast
  then have wg: "sv_wg s2 = 0" using s2 by (auto simp: server_inv_def in_hand_def in_wg_def split: if_splits)
  have wait': "\<exists>t. reach server_step s t \<and> sv_start t = SReturned" if "reach server_step s u" "sv_start u = SWaitWG" "sv_wg u = 0" for u
    using reach.next_step [OF that(1) wait [OF that(2,3)]] by (intro exI conjI) (assumption, simp)
  have close': "\<exists>t. reach server_step s t \<and> sv_start t = SReturned" if "reach server_step s u" "sv_start u = SClose" "sv_wg u = 0" for u
    using wait' [OF reach.next_step [OF that(1) close [OF that(2)]]] that(3) by simp
  show ?thesis
  proof (cases "sv_start s2")
    case SWaitCtx
    from close' [OF reach.next_step [OF run ctx_done [OF SWaitCtx s2(4)]]] wg show ?thesis by simp
  qed (use close' wait' run wg in auto)
qed

text \<open>
  C17: Under every interleaving of the accept loop, the handlers, the log and the shutdown: the wait group counts exactly the
  handlers that have not finished and the connection that is about to get one, and never becomes negative; the counter of
  connections is their number, whenever nothing is between two updates; the context is done exactly after a signal, and then \<^verbatim>\<open>Start\<close> can always
  still return; and once it has returned the listener is closed and at most one connection is still alive.
\<close>

theorem server_shutdown:
  assumes "server_reach s"
  shows "sv_wg s = int (sv_running s + in_wg (sv_accept s)) \<and> sv_wg s \<ge> 0
    \<and> (sv_ending s = 0 \<and> in_hand (sv_accept s) = 0 \<longrightarrow> sv_count s = of_nat (sv_running s))
    \<and> (sv_ctx s \<longleftrightarrow> sv_signal s = GSend) \<and> (sv_ctx s \<longrightarrow> (\<exists>t. reach server_step s t \<and> sv_start t = SReturned))
    \<and> (sv_start s = SReturned \<longrightarrow> \<not> sv_listening s \<and> sv_running s + in_hand (sv_accept s) \<le> 1)"
  using server_inv_reach [OF assms] Start_can_return [OF assms]
  by (auto simp: server_inv_defs split: if_splits)

text \<open>
  The one connection is real: a connection that was accepted before the listener is closed, but not yet added to the wait
  group, is not waited for, and its handler is running after \<^verbatim>\<open>Start\<close> has returned (and the process ends under it).
\<close>

definition stopped_server :: server_sys where
  "stopped_server = server_init\<lparr>sv_signal := GSend, sv_ctx := True, sv_listening := False, sv_start := SReturned, sv_wg := 1, sv_count := 1, sv_running := 1\<rparr>"

lemma stopped_server_reach: "server_reach stopped_server"
proof -
  let ?s1 = "server_init\<lparr>sv_accept := AGot\<rparr>"
  let ?s2 = "?s1\<lparr>sv_signal := GSend, sv_ctx := True\<rparr>"
  let ?s3 = "?s2\<lparr>sv_start := SClose\<rparr>"
  let ?s4 = "?s3\<lparr>sv_start := SWaitWG, sv_listening := False\<rparr>"
  let ?s5 = "?s4\<lparr>sv_start := SReturned\<rparr>"
  let ?s6 = "?s5\<lparr>sv_accept := AAdded, sv_wg := 1\<rparr>"
  let ?s7 = "?s6\<lparr>sv_accept := ACounted, sv_count := 1\<rparr>"
  have "server_reach ?s1" by (rule server_run [OF reach.start accept]) (simp_all add: server_init_def)
  then have "server_reach ?s2" by (rule server_run [OF _ signal]) (simp_all add: server_init_def)
  then have "server_reach ?s3" by (rule server_run [OF _ ctx_done]) (simp_all add: server_init_def)
  then have "server_reach ?s4" by (rule server_run [OF _ close]) simp_all
  then have "server_reach ?s5" by (rule server_run [OF _ wait]) (simp_all add: server_init_def)
  then have "server_reach ?s6" by (rule server_run [OF _ wg_add]) (simp_all add: server_init_def)
  then have "server_reach ?s7" by (rule server_run [OF _ count_add]) (simp_all add: server_init_def)
  then show ?thesis by (rule server_run [OF _ spawn]) (simp_all add: stopped_server_def server_init_def)
qed

theorem server_shutdown_witness:
  "server_reach stopped_server \<and> sv_start stopped_server = SReturned \<and> sv_running stopped_server = 1 \<and> \<not> sv_listening stopped_server"
  using server_shutdown [OF stopped_server_reach] stopped_server_reach by (simp add: stopped_server_def)

section \<open>The host key\<close>

text \<open>
  C32: The server starts with the private key that was stored last: after \<^verbatim>\<open>PutPrivKey\<close> (the installer's upload) a process
  that opens the store and gets as far as \<^verbatim>\<open>Start\<close> has exactly that key.
\<close>

theorem server_has_installed_key:
  assumes "etcd_wf st" "PutPrivKey etcd_iface key st = Ret (Inr (), st')"
    and "getStore client w = Ret (Inr st', w1)" "ssh_main (Inr client) getStore w = Ret (Inr server, w2)"
  shows "srv_privateKey server = key \<and> srv_ldap server = NewLdap \<and> srv_currentConnections server = 0"
proof -
  have p: "etcd_wf st'" "etcd_kv st' privKeyLocation = Some key"
    using etcd.put_done [OF assms(1), of privKeyLocation key st'] assms(2) by (simp_all add: PutPrivKey_def)
  from assms(3,4) obtain srv st2 where l: "load_server client etcd_iface st' = Ret (Inr srv, st2)"
    "server = NewServer client st2 (srv_privateKey srv) (srv_ldap srv)"
    by (auto simp: ssh_main_def bindR_def crash_def throw_def ret_def split: outcome.split_asm sum.split_asm)
  from l(1) obtain keys st1 k where g: "GetAllKeys etcd_iface st' = Ret (Inr keys, st1)" "SGet etcd_iface privKeyLocation st1 = Ret (Inr k, st2)"
    "srv = NewServer client () k NewLdap"
    by (auto simp: load_server_def GetPrivKey_def bindR_case_iff crash_def ret_def)
  have "etcd_wf st1 \<and> etcd_kv st1 = etcd_kv st'" by (rule etcd.GetAllKeys_frame [OF p(1) g(1)])
  with etcd.get_value [of st1 privKeyLocation k st2] g(2) p have "k = key" by simp
  with l(2) g(3) show ?thesis by (simp add: NewServer_def)
qed

theorem server_has_installed_key_witness:
  "\<exists>st' server. PutPrivKey etcd_iface ''K'' (mem_store []) = Ret (Inr (), st')
     \<and> ssh_main (Inr ()) (\<lambda>_. ret st') () = Ret (Inr server, ()) \<and> srv_privateKey server = ''K''"
proof -
  have "returns_ok (bindE (PutPrivKey etcd_iface ''K'') (\<lambda>_. load_server () etcd_iface) (mem_store []))" by code_simp
  then obtain st' srv st2 where run: "PutPrivKey etcd_iface ''K'' (mem_store []) = Ret (Inr (), st')"
    "load_server () etcd_iface st' = Ret (Inr srv, st2)" by (auto simp: returns_ok_iff bindE_Inr_iff)
  then have main: "ssh_main (Inr ()) (\<lambda>_. ret st') () = Ret (Inr (NewServer () st2 (srv_privateKey srv) (srv_ldap srv)), ())"
    by (simp add: ssh_main_def bindR_def ret_def)
  have "(\<lambda>_. ret st') () () = Ret (Inr st', ())" by (simp add: ret_def)
  from server_has_installed_key [OF mem_store_wf run(1) this main] run(1) main show ?thesis by blast
qed

end
