(* ===== verification/Port_Forward.thy ===== *)
theory Port_Forward
  imports Kube_User
begin

text \<open>
  \<^verbatim>\<open>internal/k8sapi/portForward.go\<close> and \<^verbatim>\<open>exec.go\<close>: streams into a pod through the API server. Opening the connection and
  its two streams is sequential; afterwards three goroutines run beside the select statement, which is the step relation
  \<open>fwd_step\<close>. The SPDY library is the record \<open>spdy_lib\<close>; connections and streams are numbers.
\<close>

section \<open>Opening the streams\<close>

record PodExecOptions =
  peo_Command :: "string list"
  peo_Stdin :: bool
  peo_Stdout :: bool
  peo_Stderr :: bool
  peo_TTY :: bool

record StreamOptions =
  so_Stdin :: nat
  so_Stdout :: nat
  so_Stderr :: nat
  so_Tty :: bool
  so_TerminalSizeQueue :: nat

record 'w spdy_lib =
  sp_RoundTripper :: "('w, unit) io"
  sp_Dial :: "string \<Rightarrow> string \<Rightarrow> string \<Rightarrow> ('w, nat) io"
  sp_CloseConn :: "nat \<Rightarrow> ('w, unit) io"
  sp_CreateStream :: "nat \<Rightarrow> string gomap \<Rightarrow> ('w, nat) io"
  sp_CloseStream :: "nat \<Rightarrow> ('w, unit) io"
  sp_RemoveStreams :: "nat \<Rightarrow> nat \<Rightarrow> ('w, unit) io"
  sp_NewExecutor :: "string \<Rightarrow> string \<Rightarrow> PodExecOptions \<Rightarrow> ('w, nat) io"
  sp_Stream :: "nat \<Rightarrow> StreamOptions \<Rightarrow> ('w, unit) io"

definition portForwardProtocolV1Name :: string where
  "portForwardProtocolV1Name = ''portforward.k8s.io''"

definition forward_headers :: "string \<Rightarrow> string \<Rightarrow> int \<Rightarrow> string gomap" where
  "forward_headers streamType podPort requestID' =
     [(''streamType'', streamType), (''port'', podPort), (''requestID'', Itoa requestID')]"

text \<open>
  The client's request counter is beside the world; the mutex makes reading and incrementing it one step. The select
  statement is \<open>relay\<close>, of the error stream and the data stream.
\<close>

record 'w fwd_world =
  fw_world :: 'w
  fw_requestID :: int

definition on_world :: "('w, 'a) io \<Rightarrow> ('w fwd_world, 'a) io" where
  "on_world m s = (case m (fw_world s) of
      Ret (r, w) \<Rightarrow> Ret (r, s\<lparr>fw_world := w\<rparr>) | Panic p \<Rightarrow> Panic p | Block \<Rightarrow> Block)"

definition next_request :: "('w fwd_world, int) io" where
  "next_request s = Ret (Inr (fw_requestID s), s\<lparr>fw_requestID := fw_requestID s + 1\<rparr>)"

definition client_CreatePodPortForward ::
  "'w spdy_lib \<Rightarrow> (nat \<Rightarrow> nat \<Rightarrow> ('w, unit) io) \<Rightarrow> string \<Rightarrow> string \<Rightarrow> string \<Rightarrow> ('w fwd_world, unit) io" where
  "client_CreatePodPortForward L relay namespace podName podPort =
     bindE (on_world (sp_RoundTripper L)) (\<lambda>_.
     bindE (on_world (sp_Dial L portForwardProtocolV1Name namespace podName)) (\<lambda>connection.
     deferred
       (bindE next_request (\<lambda>n.
        bindE (on_world (sp_CreateStream L connection (forward_headers ''error'' podPort n))) (\<lambda>errorStream.
        bindE (on_world (ignoring (sp_CloseStream L errorStream))) (\<lambda>_.
        deferred
          (bindE (on_world (sp_CreateStream L connection (forward_headers ''data'' podPort n))) (\<lambda>dataStream.
           deferred (on_world (relay errorStream dataStream)) (on_world (sp_RemoveStreams L connection dataStream))))
          (on_world (sp_RemoveStreams L connection errorStream))))))
       (on_world (sp_CloseConn L connection))))"

definition wrapper_CreatePodPortForward ::
  "'w spdy_lib \<Rightarrow> (nat \<Rightarrow> nat \<Rightarrow> ('w, unit) io) \<Rightarrow> KubeForwardConfig \<Rightarrow> ('w fwd_world, unit) io" where
  "wrapper_CreatePodPortForward L relay conf =
     client_CreatePodPortForward L relay (kfc_Namespace conf) (kfc_PodName conf) (kfc_Port conf)"

text \<open>The other stream: a command in a pod, run by the library. The reader, the writers and the queue are numbers.\<close>

definition CreateExecInPod :: "'w spdy_lib \<Rightarrow> string \<Rightarrow> string \<Rightarrow> string \<Rightarrow> nat \<Rightarrow> nat \<Rightarrow> nat \<Rightarrow> nat \<Rightarrow> bool \<Rightarrow> ('w, unit) io" where
  "CreateExecInPod L namespace podName command stdin stdout stderr resizeQueue tty =
     bindE (sp_NewExecutor L namespace podName
       \<lparr>peo_Command = [command], peo_Stdin = True, peo_Stdout = True, peo_Stderr = True, peo_TTY = tty\<rparr>) (\<lambda>exec.
     sp_Stream L exec \<lparr>so_Stdin = stdin, so_Stdout = stdout, so_Stderr = stderr, so_Tty = tty, so_TerminalSizeQueue = resizeQueue\<rparr>)"

section \<open>Waiting for the end\<close>

text \<open>
  The goroutine on the error stream reads to the end, reports what it read if anything, and closes its channel; the two copy
  goroutines report their end. All three channels have no buffer. \<open>fs_main\<close> is the select statement, with its result
  once it has been made.
\<close>

datatype err_pc = EReading | ESend go_error | EClose | EGone
datatype fcopy_pc = CRunning | CSend | CGone

record fwd_sys =
  fs_ctx :: "go_error option"
  fs_err :: err_pc
  fs_in :: fcopy_pc
  fs_out :: fcopy_pc
  fs_main :: "go_error option option"
  fs_dataOpen :: bool

definition fwd_init :: fwd_sys where
  "fwd_init = \<lparr>fs_ctx = None, fs_err = EReading, fs_in = CRunning, fs_out = CRunning, fs_main = None, fs_dataOpen = True\<rparr>"

definition stream_error :: "string \<Rightarrow> string \<Rightarrow> go_error + bytes \<Rightarrow> go_error option" where
  "stream_error podName podPort r = (case r of
      Inl err \<Rightarrow> Some (ErrorString (''error reading from error stream for '' @ podName @ '':'' @ podPort @ '' : '' @ Error err))
    | Inr message \<Rightarrow> if length message > 0
        then Some (ErrorString (''error during forward request to kubeapi '' @ podName @ '':'' @ podPort @ '' : '' @ message)) else None)"

inductive fwd_step :: "string \<Rightarrow> string \<Rightarrow> fwd_sys \<Rightarrow> fwd_sys \<Rightarrow> bool" for podName podPort where
  cancel: "fs_ctx s = None \<Longrightarrow> fwd_step podName podPort s (s\<lparr>fs_ctx := Some e\<rparr>)"
| read_all: "fs_err s = EReading \<Longrightarrow>
    fwd_step podName podPort s (s\<lparr>fs_err := (case stream_error podName podPort r of Some e \<Rightarrow> ESend e | None \<Rightarrow> EClose)\<rparr>)"
| close_errors: "fs_err s = EClose \<Longrightarrow> fwd_step podName podPort s (s\<lparr>fs_err := EGone\<rparr>)"
| in_ends: "fs_in s = CRunning \<Longrightarrow> fwd_step podName podPort s (s\<lparr>fs_in := CSend\<rparr>)"
| out_ends: "fs_out s = CRunning \<Longrightarrow> fwd_step podName podPort s (s\<lparr>fs_out := CSend\<rparr>)"
| select_ctx: "fs_main s = None \<Longrightarrow> fs_ctx s = Some e \<Longrightarrow> fwd_step podName podPort s (s\<lparr>fs_main := Some (Some e), fs_dataOpen := False\<rparr>)"
| select_error: "fs_main s = None \<Longrightarrow> fs_err s = ESend e \<Longrightarrow>
    fwd_step podName podPort s (s\<lparr>fs_main := Some (Some e), fs_err := EClose, fs_dataOpen := False\<rparr>)"
| select_closed: "fs_main s = None \<Longrightarrow> fs_err s = EGone \<Longrightarrow> fwd_step podName podPort s (s\<lparr>fs_main := Some None, fs_dataOpen := False\<rparr>)"
| select_in: "fs_main s = None \<Longrightarrow> fs_in s = CSend \<Longrightarrow> fwd_step podName podPort s (s\<lparr>fs_main := Some None, fs_in := CGone\<rparr>)"
| select_out: "fs_main s = None \<Longrightarrow> fs_out s = CSend \<Longrightarrow> fwd_step podName podPort s (s\<lparr>fs_main := Some None, fs_out := CGone\<rparr>)"

section \<open>Properties\<close>

lemma on_world_Ret: "on_world m s = Ret (r, s') \<longleftrightarrow> (\<exists>w. m (fw_world s) = Ret (r, w) \<and> s' = s\<lparr>fw_world := w\<rparr>)"
  by (auto simp: on_world_def split: outcome.splits)

text \<open>
  A forward that returns without an error has dialled the named pod, opened the error stream and the data stream of one
  request, in this order and for the named port, with a request number that no other forward of the client gets, and the
  select statement returned no error.
\<close>

theorem forward_opens_streams:
  assumes "wrapper_CreatePodPortForward L relay conf s = Ret (Inr (), s')"
  shows "fw_requestID s' = fw_requestID s + 1
    \<and> (\<exists>w0 conn w1 e w2 w3 d w4 w5. sp_Dial L portForwardProtocolV1Name (kfc_Namespace conf) (kfc_PodName conf) w0 = Ret (Inr conn, w1)
      \<and> sp_CreateStream L conn (forward_headers ''error'' (kfc_Port conf) (fw_requestID s)) w1 = Ret (Inr e, w2)
      \<and> sp_CreateStream L conn (forward_headers ''data'' (kfc_Port conf) (fw_requestID s)) w3 = Ret (Inr d, w4)
      \<and> relay e d w4 = Ret (Inr (), w5))"
proof -
  let ?h = "\<lambda>t. forward_headers t (kfc_Port conf) (fw_requestID s)"
  obtain w0 conn w1 e w2 w3 d w4 w6 where run: "sp_Dial L portForwardProtocolV1Name (kfc_Namespace conf) (kfc_PodName conf) w0 = Ret (Inr conn, w1)"
    "sp_CreateStream L conn (?h ''error'') w1 = Ret (Inr e, w2)"
    "sp_CreateStream L conn (?h ''data'') w3 = Ret (Inr d, w4)" "relay e d w4 = Ret (Inr (), w6)" "fw_requestID s' = fw_requestID s + 1"
    using assms
    by (auto simp: wrapper_CreatePodPortForward_def client_CreatePodPortForward_def bindE_Inr_iff deferred_Ret_iff on_world_Ret next_request_def)
  from run show ?thesis by blast
qed

definition open_spdy :: "unit spdy_lib" where
  "open_spdy = \<lparr>sp_RoundTripper = ret (), sp_Dial = (\<lambda>_ _ _. ret 1), sp_CloseConn = (\<lambda>_. ret ()), sp_CreateStream = (\<lambda>_ _. ret 2),
     sp_CloseStream = (\<lambda>_. ret ()), sp_RemoveStreams = (\<lambda>_ _. ret ()), sp_NewExecutor = (\<lambda>_ _ _. ret 3), sp_Stream = (\<lambda>_ _. ret ())\<rparr>"

theorem forward_opens_streams_witness:
  "\<exists>s'. wrapper_CreatePodPortForward open_spdy (\<lambda>_ _. ret ()) \<lparr>kfc_Namespace = ''users'', kfc_PodName = ''a-statefulset-0'', kfc_Port = ''80'', kfc_Communication = 0\<rparr>
      \<lparr>fw_world = (), fw_requestID = 1\<rparr> = Ret (Inr (), s') \<and> fw_requestID s' = 2"
proof -
  let ?conf = "\<lparr>kfc_Namespace = ''users'', kfc_PodName = ''a-statefulset-0'', kfc_Port = ''80'', kfc_Communication = 0\<rparr>"
  have "returns_ok (wrapper_CreatePodPortForward open_spdy (\<lambda>_ _. ret ()) ?conf \<lparr>fw_world = (), fw_requestID = 1\<rparr>)" by code_simp
  then obtain s' where "wrapper_CreatePodPortForward open_spdy (\<lambda>_ _. ret ()) ?conf \<lparr>fw_world = (), fw_requestID = 1\<rparr> = Ret (Inr (), s')"
    by (auto simp: returns_ok_iff)
  with forward_opens_streams [OF this] show ?thesis by auto
qed

text \<open>How the select statement can have ended; \<open>reported\<close> are the errors of the error stream.\<close>

definition reported :: "string \<Rightarrow> string \<Rightarrow> go_error \<Rightarrow> bool" where
  "reported podName podPort e \<longleftrightarrow> (\<exists>r. stream_error podName podPort r = Some e)"

definition fwd_inv :: "string \<Rightarrow> string \<Rightarrow> fwd_sys \<Rightarrow> bool" where
  "fwd_inv podName podPort s \<longleftrightarrow>
     (\<forall>e. fs_err s = ESend e \<longrightarrow> reported podName podPort e)
   \<and> (fs_main s = None \<longrightarrow> fs_in s \<noteq> CGone \<and> fs_out s \<noteq> CGone)
   \<and> (fs_in s \<noteq> CGone \<or> fs_out s \<noteq> CGone)
   \<and> (\<forall>e. fs_main s = Some (Some e) \<longrightarrow> fs_ctx s = Some e \<or> reported podName podPort e)
   \<and> (fs_main s = Some None \<longrightarrow> fs_err s = EGone \<or> fs_in s = CGone \<or> fs_out s = CGone)"

lemma fwd_inv_step: "fwd_step p q s s' \<Longrightarrow> fwd_inv p q s \<Longrightarrow> fwd_inv p q s'"
proof (induction rule: fwd_step.induct)
  case (read_all s r)
  have "reported p q e" if "stream_error p q r = Some e" for e using that by (auto simp: reported_def)
  with read_all show ?case by (auto simp: fwd_inv_def split: option.splits)
qed (auto simp: fwd_inv_def)

lemma fwd_inv_init: "fwd_inv p q fwd_init"
  by (simp add: fwd_inv_def fwd_init_def)

interpretation fwd: machine "fwd_step p q" fwd_init "fwd_inv p q" for p q
  by unfold_locales (fact fwd_inv_init fwd_inv_step)+

lemma select_ready:
  "fwd_step p q s t \<Longrightarrow> fs_main s = None \<Longrightarrow> fs_main t \<noteq> None \<Longrightarrow>
     fs_ctx s \<noteq> None \<or> (\<exists>e. fs_err s = ESend e) \<or> fs_err s = EGone \<or> fs_in s = CSend \<or> fs_out s = CSend"
  by (induction rule: fwd_step.induct) auto

lemma select_enabled:
  assumes "fs_main s = None"
  shows "(\<exists>t. fwd_step p q s t \<and> fs_main t \<noteq> None) \<longleftrightarrow>
    fs_ctx s \<noteq> None \<or> (\<exists>e. fs_err s = ESend e) \<or> fs_err s = EGone \<or> fs_in s = CSend \<or> fs_out s = CSend"
proof
  assume "fs_ctx s \<noteq> None \<or> (\<exists>e. fs_err s = ESend e) \<or> fs_err s = EGone \<or> fs_in s = CSend \<or> fs_out s = CSend"
  then consider e where "fs_ctx s = Some e" | e where "fs_err s = ESend e" | "fs_err s = EGone" | "fs_in s = CSend" | "fs_out s = CSend" by blast
  then show "\<exists>t. fwd_step p q s t \<and> fs_main t \<noteq> None"
  proof cases
    case 1
    show ?thesis by (rule exI, rule conjI, rule select_ctx [OF assms 1]) simp
  next
    case 2
    show ?thesis by (rule exI, rule conjI, rule select_error [OF assms 2]) simp
  next
    case 3
    show ?thesis by (rule exI, rule conjI, rule select_closed [OF assms 3]) simp
  next
    case 4
    show ?thesis by (rule exI, rule conjI, rule select_in [OF assms 4]) simp
  next
    case 5
    show ?thesis by (rule exI, rule conjI, rule select_out [OF assms 5]) simp
  qed
qed (use select_ready assms in blast)

lemma copy_stuck_step:
  "fwd_step p q s s' \<Longrightarrow> fs_main s \<noteq> None \<Longrightarrow> fs_main s' = fs_main s \<and> (fs_in s = CSend \<longrightarrow> fs_in s' = CSend) \<and> (fs_out s = CSend \<longrightarrow> fs_out s' = CSend)"
  by (induction rule: fwd_step.induct) auto

lemma copy_stuck:
  assumes "reach (fwd_step p q) s t" "fs_main s \<noteq> None"
  shows "fs_main t = fs_main s \<and> (fs_in s = CSend \<longrightarrow> fs_in t = CSend) \<and> (fs_out s = CSend \<longrightarrow> fs_out t = CSend)"
  using assms(1) by induction (use assms(2) copy_stuck_step [of p q] in fastforce)+

text \<open>
  C39: The end of a forward under every interleaving. The select statement can be made exactly when the context is done, the error
  stream has something to report or was closed, or one of the two copies has ended. Its error is the one of the context or what
  the API server reported on the error stream; there is none when one direction has ended or the error stream was closed
  empty. Nobody receives from the copy goroutines afterwards: one that then ends waits for ever, and at least one of the two
  never terminates, so that every forward leaks a goroutine.
\<close>

theorem forward_ends:
  assumes "reach (fwd_step p q) fwd_init s"
  shows "(fs_main s = None \<longrightarrow> (\<exists>t. fwd_step p q s t \<and> fs_main t \<noteq> None) =
       (fs_ctx s \<noteq> None \<or> (\<exists>e. fs_err s = ESend e) \<or> fs_err s = EGone \<or> fs_in s = CSend \<or> fs_out s = CSend))
    \<and> (\<forall>e. fs_main s = Some (Some e) \<longrightarrow> fs_ctx s = Some e \<or> reported p q e)
    \<and> (fs_main s = Some None \<longrightarrow> fs_err s = EGone \<or> fs_in s = CGone \<or> fs_out s = CGone)
    \<and> (fs_in s \<noteq> CGone \<or> fs_out s \<noteq> CGone)
    \<and> (\<forall>t. fs_main s \<noteq> None \<and> reach (fwd_step p q) s t \<longrightarrow> fs_main t = fs_main s
        \<and> (fs_in s = CSend \<longrightarrow> fs_in t = CSend) \<and> (fs_out s = CSend \<longrightarrow> fs_out t = CSend))"
  using fwd.invariant [OF assms, unfolded fwd_inv_def] copy_stuck [of p q s] select_enabled [of s p q]
  by blast

definition half_closed :: fwd_sys where
  "half_closed = fwd_init\<lparr>fs_out := CGone, fs_main := Some None\<rparr>"

theorem forward_ends_witness:
  "reach (fwd_step ''pod'' ''80'') fwd_init half_closed \<and> fs_in half_closed \<noteq> CGone"
proof -
  have "reach (fwd_step ''pod'' ''80'') fwd_init (fwd_init\<lparr>fs_out := CSend\<rparr>)"
    by (rule reach_run [where step = "fwd_step ''pod'' ''80''", OF reach.start out_ends]) (simp_all add: fwd_init_def)
  then have "reach (fwd_step ''pod'' ''80'') fwd_init half_closed"
    by (rule reach_run [where step = "fwd_step ''pod'' ''80''", OF _ select_out]) (simp_all add: fwd_init_def half_closed_def)
  with forward_ends [OF this] show ?thesis by (simp add: half_closed_def)
qed

end
