(* ===== verification/Agent_Files.thy ===== *)
theory Agent_Files
  imports Kube_User
begin

text \<open>
  \<^verbatim>\<open>agent/vmapi/file.go\<close>: the two file operations of the agent, and their client \<^verbatim>\<open>WriteFileInPodgRPC\<close> of
  \<^verbatim>\<open>agent/vmapi/vmapi.go\<close>. Paths are joined and cleaned as \<^verbatim>\<open>path/filepath\<close> does on Unix. The file system and the
  gRPC connection are parameters; what is used of them are the predicates \<open>fs_laws\<close> and \<open>delivers\<close>.
\<close>

section \<open>Paths\<close>

fun split_slash :: "string \<Rightarrow> string list" where
  "split_slash [] = [[]]"
| "split_slash (c # cs) = (if c = CHR ''/'' then [] # split_slash cs
     else case split_slash cs of [] \<Rightarrow> [[c]] | e # es \<Rightarrow> (c # e) # es)"

fun join_slash :: "string list \<Rightarrow> string" where
  "join_slash [] = []"
| "join_slash [e] = e"
| "join_slash (e # es) = e @ ''/'' @ join_slash es"

text \<open>One element of a path, on the stack of the elements kept so far.\<close>

definition clean_elem :: "bool \<Rightarrow> string \<Rightarrow> string list \<Rightarrow> string list" where
  "clean_elem rooted e st =
     (if e = [] \<or> e = ''.'' then st
      else if e = ''..'' then
        (case st of [] \<Rightarrow> if rooted then [] else [e] | x # xs \<Rightarrow> if x = ''..'' then e # st else xs)
      else e # st)"

definition Clean :: "string \<Rightarrow> string" where
  "Clean path =
     (if path = [] then ''.''
      else let rooted = hd path = CHR ''/'';
               es = rev (fold (clean_elem rooted) (split_slash path) [])
           in if rooted then CHR ''/'' # join_slash es else if es = [] then ''.'' else join_slash es)"

definition Join2 :: "string \<Rightarrow> string \<Rightarrow> string" where
  "Join2 a b = (if a \<noteq> [] then Clean (a @ ''/'' @ b) else if b \<noteq> [] then Clean b else [])"

section \<open>The file operations\<close>

record WriteFileRequest =
  wf_Filepath :: string
  wf_Filename :: string
  wf_Content :: bytes

record ReadFileRequest =
  rf_Filepath :: string
  rf_Filename :: string

text \<open>The file system; a file mode is its permission bits.\<close>

record 'w os_lib =
  os_Stat :: "string \<Rightarrow> ('w, unit) io"
  os_MkdirAll :: "string \<Rightarrow> nat \<Rightarrow> ('w, unit) io"
  os_WriteFile :: "string \<Rightarrow> bytes \<Rightarrow> nat \<Rightarrow> ('w, unit) io"
  os_ReadFile :: "string \<Rightarrow> ('w, bytes) io"

text \<open>\<^verbatim>\<open>os.ModeAppend\<close> has no permission bits.\<close>

definition ModeAppend_perm :: nat where
  "ModeAppend_perm = 0"

definition WriteFile :: "'w os_lib \<Rightarrow> WriteFileRequest \<Rightarrow> ('w, unit) io" where
  "WriteFile os req =
     bindR (os_Stat os (wf_Filepath req)) (\<lambda>r.
     bindR (if r = Inl ErrNotExist then os_MkdirAll os (wf_Filepath req) 448 else ret ()) (\<lambda>_.
     bindR (os_WriteFile os (Join2 (wf_Filepath req) (wf_Filename req)) (wf_Content req) ModeAppend_perm) (\<lambda>r. case r of
       Inl err \<Rightarrow> throw (StatusError Internal (''file write failed exited with error code: '' @ Error err))
     | Inr _ \<Rightarrow> ret ())))"

definition ReadFile :: "'w os_lib \<Rightarrow> ReadFileRequest \<Rightarrow> ('w, bytes) io" where
  "ReadFile os req =
     bindR (os_ReadFile os (Join2 (rf_Filepath req) (rf_Filename req))) (\<lambda>r. case r of
       Inl err \<Rightarrow> throw (StatusError Internal (''file read failed exited with error code: '' @ Error err))
     | Inr content \<Rightarrow> ret content)"

section \<open>The client\<close>

record ExecCommandRequest =
  ecr_Command :: string
  ecr_Args :: "string list"
  ecr_Tty :: bool

datatype stream_request = ReqCommand ExecCommandRequest | ReqStdin bytes | ReqTermsize "32 word" "32 word" | ReqNone

datatype stream_response = RespStdout bytes | RespStderr bytes | RespErr string | RespNone

datatype return_response = RetOutput bytes | RetLog string | RetNone

text \<open>The generated gRPC client with the functions that open and close its connection. Connections and streams are numbers.\<close>

record 'w agent_client =
  ac_Dial :: "string \<Rightarrow> ('w, nat) io"
  ac_Close :: "nat \<Rightarrow> ('w, unit) io"
  ac_WriteFile :: "nat \<Rightarrow> WriteFileRequest \<Rightarrow> ('w, unit) io"
  ac_ReadFile :: "nat \<Rightarrow> ReadFileRequest \<Rightarrow> ('w, bytes) io"
  ac_ExecCommand :: "nat \<Rightarrow> ExecCommandRequest \<Rightarrow> ('w, bytes) io"
  ac_ExecCommandStream :: "nat \<Rightarrow> ('w, nat) io"
  ac_Send :: "nat \<Rightarrow> stream_request \<Rightarrow> ('w, unit) io"
  ac_ExecCommandReturnStream :: "nat \<Rightarrow> ExecCommandRequest \<Rightarrow> ('w, nat) io"
  ac_Recv :: "nat \<Rightarrow> ('w, return_response) io"

text \<open>A connection that is closed by a deferred call.\<close>

definition with_conn :: "'w agent_client \<Rightarrow> string \<Rightarrow> (nat \<Rightarrow> ('w, 'a) io) \<Rightarrow> ('w, 'a) io" where
  "with_conn G endpoint f =
     bindE (ac_Dial G endpoint) (\<lambda>conn. deferred (f conn) (ac_Close G conn))"

definition api_WriteFileInPodgRPC :: "'w agent_client \<Rightarrow> string \<Rightarrow> KubeFileWriteConfig \<Rightarrow> ('w, unit) io" where
  "api_WriteFileInPodgRPC G endpoint conf =
     with_conn G endpoint (\<lambda>conn. ac_WriteFile G conn
       \<lparr>wf_Filepath = kfw_FilePath conf, wf_Filename = kfw_FileName conf, wf_Content = kfw_FileData conf\<rparr>)"

section \<open>Properties\<close>

text \<open>
  What is used of the file systems of the machines, named by their endpoints: reading gives what was written last;
  looking and making directories changes no file; a failed write changes at most the file it names.
\<close>

type_synonym 'w files = "'w \<Rightarrow> string \<Rightarrow> string \<rightharpoonup> bytes"

definition fs_laws :: "(string \<Rightarrow> 'w os_lib) \<Rightarrow> 'w files \<Rightarrow> bool" where
  "fs_laws OS fs \<longleftrightarrow> (\<forall>ep p w r w'.
      (os_Stat (OS ep) p w = Ret (r, w') \<longrightarrow> fs w' = fs w)
    \<and> (\<forall>m. os_MkdirAll (OS ep) p m w = Ret (r, w') \<longrightarrow> fs w' = fs w)
    \<and> (\<forall>q. os_ReadFile (OS ep) p w = Ret (q, w') \<longrightarrow> fs w' = fs w \<and> (\<forall>b. q = Inr b \<longrightarrow> fs w ep p = Some b))
    \<and> (\<forall>b m. os_WriteFile (OS ep) p b m w = Ret (r, w') \<longrightarrow>
         (r = Inr () \<longrightarrow> fs w' = (fs w)(ep := (fs w ep)(p \<mapsto> b)))
       \<and> (\<forall>x y. (x, y) \<noteq> (ep, p) \<longrightarrow> fs w' x y = fs w x y)))"

text \<open>What is used of gRPC: a call that returns without an error was handled once by the agent the connection was opened to.\<close>

definition delivers :: "'w agent_client \<Rightarrow> (string \<Rightarrow> 'w os_lib) \<Rightarrow> 'w files \<Rightarrow> ('w \<Rightarrow> nat \<Rightarrow> string option) \<Rightarrow> bool" where
  "delivers G OS fs peer \<longleftrightarrow> (\<forall>w w' c.
      (\<forall>ep q. ac_Dial G ep w = Ret (q, w') \<longrightarrow> fs w' = fs w \<and> (\<forall>c. q = Inr c \<longrightarrow> peer w' c = Some ep))
    \<and> (\<forall>r. ac_Close G c w = Ret (r, w') \<longrightarrow> fs w' = fs w)
    \<and> (\<forall>req. ac_WriteFile G c req w = Ret (Inr (), w') \<longrightarrow>
         (\<exists>ep. peer w c = Some ep \<and> WriteFile (OS ep) req w = Ret (Inr (), w')))
    \<and> (\<forall>req b. ac_ReadFile G c req w = Ret (Inr b, w') \<longrightarrow>
         (\<exists>ep. peer w c = Some ep \<and> ReadFile (OS ep) req w = Ret (Inr b, w'))))"

lemma WriteFile_writes:
  assumes "fs_laws OS fs" "WriteFile (OS ep) req w = Ret (Inr (), w')"
  shows "fs w' = (fs w)(ep := (fs w ep)(Join2 (wf_Filepath req) (wf_Filename req) \<mapsto> wf_Content req))"
proof -
  let ?p = "Join2 (wf_Filepath req) (wf_Filename req)"
  obtain r1 w1 where s1: "os_Stat (OS ep) (wf_Filepath req) w = Ret (r1, w1)"
    using assms(2) by (auto simp: WriteFile_def bindR_def split: outcome.splits)
  obtain r2 w2 where s2: "(if r1 = Inl ErrNotExist then os_MkdirAll (OS ep) (wf_Filepath req) 448 else ret ()) w1 = Ret (r2, w2)"
    using assms(2) s1 by (auto simp: WriteFile_def bindR_def split: outcome.splits)
  have s3: "os_WriteFile (OS ep) ?p (wf_Content req) ModeAppend_perm w2 = Ret (Inr (), w')"
    using assms(2) s1 s2 by (auto simp: WriteFile_def bindR_def ret_def throw_def split: outcome.splits sum.splits)
  have "fs w1 = fs w" using assms(1) s1 unfolding fs_laws_def by blast
  moreover have "fs w2 = fs w1"
    using assms(1) s2 unfolding fs_laws_def by (cases "r1 = Inl ErrNotExist") (simp_all add: ret_def, blast)
  moreover have "fs w' = (fs w2)(ep := (fs w2 ep)(?p \<mapsto> wf_Content req))" using assms(1) s3 unfolding fs_laws_def by blast
  ultimately show ?thesis by simp
qed

lemma ReadFile_reads:
  assumes "fs_laws OS fs" "ReadFile (OS ep) req w = Ret (Inr b, w')"
  shows "fs w ep (Join2 (rf_Filepath req) (rf_Filename req)) = Some b" "fs w' = fs w"
proof -
  have "os_ReadFile (OS ep) (Join2 (rf_Filepath req) (rf_Filename req)) w = Ret (Inr b, w')"
    using assms(2) by (auto simp: ReadFile_def bindR_def ret_def throw_def split: outcome.splits sum.splits)
  with assms(1) show "fs w ep (Join2 (rf_Filepath req) (rf_Filename req)) = Some b" "fs w' = fs w"
    unfolding fs_laws_def by blast+
qed

lemma with_conn_Inr:
  assumes "with_conn G ep f w = Ret (Inr x, w')"
  obtains c w1 w2 r where "ac_Dial G ep w = Ret (Inr c, w1)" "f c w1 = Ret (Inr x, w2)" "ac_Close G c w2 = Ret (r, w')"
  using assms by (auto simp: with_conn_def bindE_Inr_iff deferred_Ret_iff)

text \<open>The file system after a write through the agent.\<close>

lemma agent_writes:
  assumes "fs_laws OS fs" "delivers G OS fs peer" "api_WriteFileInPodgRPC G ep conf w = Ret (Inr (), w')"
  shows "fs w' = (fs w)(ep := (fs w ep)(Join2 (kfw_FilePath conf) (kfw_FileName conf) \<mapsto> kfw_FileData conf))
    \<and> (\<forall>b v. ReadFile (OS ep) \<lparr>rf_Filepath = kfw_FilePath conf, rf_Filename = kfw_FileName conf\<rparr> w' = Ret (Inr b, v) \<longrightarrow>
         b = kfw_FileData conf)"
proof -
  let ?req = "\<lparr>wf_Filepath = kfw_FilePath conf, wf_Filename = kfw_FileName conf, wf_Content = kfw_FileData conf\<rparr>"
  from assms(3) obtain c w1 w2 r where run: "ac_Dial G ep w = Ret (Inr c, w1)" "ac_WriteFile G c ?req w1 = Ret (Inr (), w2)"
    "ac_Close G c w2 = Ret (r, w')" unfolding api_WriteFileInPodgRPC_def by (rule with_conn_Inr)
  have d: "fs w1 = fs w" "peer w1 c = Some ep" using assms(2) run(1) unfolding delivers_def by blast+
  with assms(2) run(2) have "WriteFile (OS ep) ?req w1 = Ret (Inr (), w2)" unfolding delivers_def by fastforce
  from WriteFile_writes [OF assms(1) this] d(1)
  have "fs w2 = (fs w)(ep := (fs w ep)(Join2 (kfw_FilePath conf) (kfw_FileName conf) \<mapsto> kfw_FileData conf))" by simp
  moreover have "fs w' = fs w2" using assms(2) run(3) unfolding delivers_def by blast
  ultimately show ?thesis using ReadFile_reads(1) [OF assms(1)] by fastforce
qed

text \<open>
  A file that \<^verbatim>\<open>WriteFileInPodgRPC\<close> reports as written is on the machine of the endpoint, under the cleaned path of
  directory and name, with exactly the given content; no other file of any machine changes; and \<^verbatim>\<open>ReadFile\<close> of the
  same directory and name returns that content.
\<close>

theorem agent_file_roundtrip:
  assumes "fs_laws OS fs" "delivers G OS fs peer" "api_WriteFileInPodgRPC G ep conf w = Ret (Inr (), w')"
  shows "fs w' = (fs w)(ep := (fs w ep)(Join2 (kfw_FilePath conf) (kfw_FileName conf) \<mapsto> kfw_FileData conf))
    \<and> (\<forall>b v. ReadFile (OS ep) \<lparr>rf_Filepath = kfw_FilePath conf, rf_Filename = kfw_FileName conf\<rparr> w' = Ret (Inr b, v) \<longrightarrow>
         b = kfw_FileData conf)"
  by (rule agent_writes [OF assms])

text \<open>File systems in memory, with the handlers of the agent behind every connection.\<close>

type_synonym mem_net = "((string \<times> string) \<times> bytes) list \<times> string list"

definition mem_os :: "string \<Rightarrow> mem_net os_lib" where
  "mem_os ep = \<lparr>os_Stat = (\<lambda>p. throw ErrNotExist), os_MkdirAll = (\<lambda>p m. ret ()),
     os_WriteFile = (\<lambda>p b m. modify (\<lambda>(fs, eps). (AList.update (ep, p) b fs, eps))),
     os_ReadFile = (\<lambda>p. bindE (gets (\<lambda>(fs, eps). map_of fs (ep, p))) (\<lambda>x. case x of None \<Rightarrow> throw ErrNotExist | Some b \<Rightarrow> ret b))\<rparr>"

definition mem_peer :: "mem_net \<Rightarrow> nat \<Rightarrow> string option" where
  "mem_peer w c = (if c < length (snd w) then Some (snd w ! c) else None)"

definition at_peer :: "nat \<Rightarrow> (string \<Rightarrow> (mem_net, 'a) io) \<Rightarrow> (mem_net, 'a) io" where
  "at_peer c f = bindE (gets (\<lambda>w. mem_peer w c)) (\<lambda>x. case x of None \<Rightarrow> throw (ExtError ''closed'') | Some ep \<Rightarrow> f ep)"

definition mem_agent :: "mem_net agent_client" where
  "mem_agent = \<lparr>ac_Dial = (\<lambda>ep. bindE (gets (\<lambda>w. length (snd w))) (\<lambda>n. bindE (modify (\<lambda>(fs, eps). (fs, eps @ [ep]))) (\<lambda>_. ret n))),
     ac_Close = (\<lambda>c. ret ()), ac_WriteFile = (\<lambda>c req. at_peer c (\<lambda>ep. WriteFile (mem_os ep) req)),
     ac_ReadFile = (\<lambda>c req. at_peer c (\<lambda>ep. ReadFile (mem_os ep) req)), ac_ExecCommand = (\<lambda>c r. ret []), ac_ExecCommandStream = (\<lambda>c. ret 0),
     ac_Send = (\<lambda>s r. ret ()), ac_ExecCommandReturnStream = (\<lambda>c r. ret 0), ac_Recv = (\<lambda>s. throw EOF)\<rparr>"

definition mem_files :: "mem_net files" where
  "mem_files w ep p = map_of (fst w) (ep, p)"

lemma mem_fs_laws: "fs_laws mem_os mem_files"
  unfolding fs_laws_def
  by (auto simp: mem_os_def io_defs bindE_def bindR_def mem_files_def fun_eq_iff update_conv' split: option.splits prod.splits)

lemma mem_delivers: "delivers mem_agent mem_os mem_files mem_peer"
  unfolding delivers_def
  by (auto simp: mem_agent_def at_peer_def io_defs bindE_def bindR_def mem_files_def mem_peer_def fun_eq_iff nth_append
      split: option.splits prod.splits)

theorem agent_file_roundtrip_witness:
  "\<exists>w' v. api_WriteFileInPodgRPC mem_agent ''10.0.0.7:9000'' \<lparr>kfw_UserIdentifier = ''u'', kfw_Namespace = ''users'',
       kfw_FileName = ''delegatio_priv_key'', kfw_FilePath = ''/root/.ssh'', kfw_FileData = ''KEY''\<rparr> ([], []) = Ret (Inr (), w')
     \<and> mem_files w' ''10.0.0.7:9000'' ''/root/.ssh/delegatio_priv_key'' = Some ''KEY''
     \<and> ReadFile (mem_os ''10.0.0.7:9000'') \<lparr>rf_Filepath = ''/root/.ssh'', rf_Filename = ''delegatio_priv_key''\<rparr> w' = Ret (Inr ''KEY'', v)"
proof -
  let ?conf = "\<lparr>kfw_UserIdentifier = ''u'', kfw_Namespace = ''users'',
       kfw_FileName = ''delegatio_priv_key'', kfw_FilePath = ''/root/.ssh'', kfw_FileData = ''KEY''\<rparr>"
  have "returns_ok (api_WriteFileInPodgRPC mem_agent ''10.0.0.7:9000'' ?conf ([], []))" by code_simp
  then obtain w' where run: "api_WriteFileInPodgRPC mem_agent ''10.0.0.7:9000'' ?conf ([], []) = Ret (Inr (), w')"
    by (auto simp: returns_ok_iff)
  have path: "Join2 ''/root/.ssh'' ''delegatio_priv_key'' = ''/root/.ssh/delegatio_priv_key''" by code_simp
  from agent_file_roundtrip [OF mem_fs_laws mem_delivers run] path
  have f: "mem_files w' ''10.0.0.7:9000'' ''/root/.ssh/delegatio_priv_key'' = Some ''KEY''" by simp
  with path have "ReadFile (mem_os ''10.0.0.7:9000'') \<lparr>rf_Filepath = ''/root/.ssh'', rf_Filename = ''delegatio_priv_key''\<rparr> w' = Ret (Inr ''KEY'', w')"
    by (cases w') (simp add: ReadFile_def mem_os_def mem_files_def bindE_def bindR_def io_defs)
  with run f show ?thesis by blast
qed

end
