(* ===== verification/Agent_Exec.thy ===== *)
theory Agent_Exec
  imports Agent_Files Term_Size
begin

text \<open>
  \<^verbatim>\<open>agent/vmapi/exec.go\<close>: running commands for the clients of the agent. \<^verbatim>\<open>ExecCommand\<close> and
  \<^verbatim>\<open>ExecCommandReturnStream\<close> are world-passing programs. \<^verbatim>\<open>ExecCommandStream\<close> runs the command beside goroutines that
  move bytes: the one that receives client messages, the ones of \<^verbatim>\<open>os/exec\<close> (or of \<^verbatim>\<open>ttyCmd\<close>) that copy input and
  output, and the one that sets the terminal size. Its body after the start of the command is the step relation
  \<open>exec_step\<close>, in which every interleaving of these goroutines with the command and the client is a run.
\<close>

section \<open>Exit codes\<close>

text \<open>\<^verbatim>\<open>errors.As\<close> with a target of type \<^verbatim>\<open>**exec.ExitError\<close>.\<close>

fun as_exit_error :: "go_error \<Rightarrow> int option" where
  "as_exit_error (ExitError c _) = Some c"
| "as_exit_error (WrapError _ e) = as_exit_error e"
| "as_exit_error (JoinError es) = (case [c. e \<leftarrow> es, Some c \<leftarrow> [as_exit_error e]] of [] \<Rightarrow> None | c # _ \<Rightarrow> Some c)"
| "as_exit_error _ = None"

definition exit_code :: "go_error + unit \<Rightarrow> int" where
  "exit_code cmdErr = (case cmdErr of
      Inr _ \<Rightarrow> 0
    | Inl err \<Rightarrow> (case as_exit_error err of Some c \<Rightarrow> c | None \<Rightarrow> -1))"

section \<open>Stream writers\<close>

definition streamWriter_Write :: "(bytes \<Rightarrow> ('w, unit) io) \<Rightarrow> bytes \<Rightarrow> ('w, nat) io" where
  "streamWriter_Write forwardFunc p = bindE (forwardFunc p) (\<lambda>_. ret (length p))"

definition streamWriter_Close :: "('w, unit) io" where
  "streamWriter_Close = ret ()"

section \<open>Commands without input\<close>

text \<open>
  Running a command: its collected output with the error of \<^verbatim>\<open>Output\<close>; starting it; and what it writes until it
  ends, each chunk with a flag for the error stream, with the result of waiting for the process.
\<close>

record 'w exec_lib =
  ex_Output :: "ExecCommandRequest \<Rightarrow> ('w, bytes \<times> go_error option) io"
  ex_Start :: "ExecCommandRequest \<Rightarrow> ('w, unit) io"
  ex_Chunks :: "('w, (bool \<times> bytes) list \<times> go_error option) io"

definition exit_message :: "go_error \<Rightarrow> bytes \<Rightarrow> go_error" where
  "exit_message err output = StatusError Internal (''command exited with error code: '' @ Error err @ '' and output: '' @ output)"

definition ExecCommand :: "'w exec_lib \<Rightarrow> ExecCommandRequest \<Rightarrow> ('w, bytes) io" where
  "ExecCommand X req =
     bindE (ex_Output X req) (\<lambda>(output, err). case err of
       Some e \<Rightarrow> throw (exit_message e output)
     | None \<Rightarrow> ret output)"

text \<open>
  The copy goroutines of the two streams: \<^verbatim>\<open>io.MultiWriter\<close> sends a chunk to the client before it stores it; a
  stream whose send failed is not read any further.
\<close>

fun copy_chunks :: "(return_response \<Rightarrow> ('w, unit) io) \<Rightarrow> (bool \<times> bytes) list \<Rightarrow> bytes \<times> go_error option \<times> go_error option
    \<Rightarrow> ('w, bytes \<times> go_error option \<times> go_error option) io" where
  "copy_chunks send [] st = ret st"
| "copy_chunks send ((is_err, b) # cs) (buf, oerr, eerr) =
     (if (if is_err then eerr else oerr) \<noteq> None then copy_chunks send cs (buf, oerr, eerr)
      else bindR (streamWriter_Write (\<lambda>b. send (RetLog b)) b) (\<lambda>r. case r of
        Inl err \<Rightarrow> copy_chunks send cs (if is_err then (buf, oerr, Some err) else (buf, Some err, eerr))
      | Inr _ \<Rightarrow> copy_chunks send cs (if is_err then buf else buf @ b, oerr, eerr)))"

text \<open>\<^verbatim>\<open>Wait\<close>: the error of the process, or else one of the copy goroutines.\<close>

definition wait_error :: "go_error option \<Rightarrow> go_error option \<Rightarrow> go_error option \<Rightarrow> go_error option" where
  "wait_error proc oerr eerr = (case proc of Some e \<Rightarrow> Some e | None \<Rightarrow> (case oerr of Some e \<Rightarrow> Some e | None \<Rightarrow> eerr))"

definition ExecCommandReturnStream ::
  "'w exec_lib \<Rightarrow> (return_response \<Rightarrow> ('w, unit) io) \<Rightarrow> ExecCommandRequest \<Rightarrow> ('w, unit) io" where
  "ExecCommandReturnStream X send req =
     bindR (ex_Start X req) (\<lambda>r. case r of
       Inl err \<Rightarrow> throw (exit_message err [])
     | Inr _ \<Rightarrow>
         bindE (ex_Chunks X) (\<lambda>(chunks, proc).
         bindE (copy_chunks send chunks ([], None, None)) (\<lambda>(stdoutBuf, oerr, eerr).
         case wait_error proc oerr eerr of
           Some err \<Rightarrow> throw (exit_message err stdoutBuf)
         | None \<Rightarrow> send (RetOutput stdoutBuf))))"

section \<open>Interactive commands\<close>

text \<open>The first message has to name the command.\<close>

definition first_command :: "go_error + stream_request \<Rightarrow> go_error + ExecCommandRequest" where
  "first_command r = (case r of
      Inl _ \<Rightarrow> Inl (StatusError InvalidArgument ''error receiving input'')
    | Inr (ReqCommand c) \<Rightarrow> Inr c
    | Inr _ \<Rightarrow> Inl (StatusError InvalidArgument ''no command received''))"

text \<open>
  Starting it. With a terminal, \<^verbatim>\<open>ttyCmd\<close> returns the error of \<^verbatim>\<open>pty.Start\<close>, which is then reported to the client as
  exit code -1; without one, the handler fails.
\<close>

datatype exec_begin = BeginFailed go_error | BeginExit int | BeginRunning ExecCommandRequest

definition ExecCommandStream_begin :: "(ExecCommandRequest \<Rightarrow> go_error + unit) \<Rightarrow> go_error + stream_request \<Rightarrow> exec_begin" where
  "ExecCommandStream_begin start r = (case first_command r of
      Inl err \<Rightarrow> BeginFailed err
    | Inr command \<Rightarrow> (case start command of
        Inr _ \<Rightarrow> BeginRunning command
      | Inl err \<Rightarrow> if ecr_Tty command then BeginExit (exit_code (Inl err))
          else BeginFailed (StatusError Internal (''command exited with error code: '' @ Error err))))"

text \<open>
  The state of a running command: the goroutine that receives (waiting for a message, inside \<^verbatim>\<open>writer.Write\<close> with the
  bytes not yet taken, or gone), the error the pipe was closed with, the size queue and the size of the terminal, what
  the command has read, the goroutine that copies the input, the bytes each output stream holds for its copy goroutine
  and the error that ended that goroutine, the process, the handler, and four logs: what the client sent, what the
  command wrote to its two streams, what was sent to the client.
\<close>

datatype in_pc = InRecv | InWrite bytes | InGone

datatype copy_pc = CopyRunning | CopyEnded "go_error option"

record exec_sys =
  ax_tty :: bool
  ax_in :: in_pc
  ax_pipe :: "go_error option"
  ax_sizes :: vm_TerminalSizeHandler
  ax_winsize :: "(16 word \<times> 16 word) option"
  ax_stdin :: bytes
  ax_copy :: copy_pc
  ax_obuf :: bytes
  ax_ebuf :: bytes
  ax_oerr :: "go_error option"
  ax_eerr :: "go_error option"
  ax_proc :: "(go_error + unit) option"
  ax_result :: "(go_error + unit) option"
  ax_recvd :: "(go_error + stream_request) list"
  ax_owrote :: bytes
  ax_ewrote :: bytes
  ax_sent :: "stream_response list"

definition exec_init :: "bool \<Rightarrow> exec_sys" where
  "exec_init tty = \<lparr>ax_tty = tty, ax_in = InRecv, ax_pipe = None, ax_sizes = vm_NewTerminalSizeHandler 10, ax_winsize = None,
     ax_stdin = [], ax_copy = CopyRunning, ax_obuf = [], ax_ebuf = [], ax_oerr = None, ax_eerr = None, ax_proc = None,
     ax_result = None, ax_recvd = [], ax_owrote = [], ax_ewrote = [], ax_sent = []\<rparr>"

text \<open>\<^verbatim>\<open>setSize\<close> dereferences the size it gets from the queue.\<close>

definition setSize :: "vm_TerminalSize option \<Rightarrow> exec_sys \<Rightarrow> exec_sys outcome" where
  "setSize sz s = (case sz of
      None \<Rightarrow> Panic ''invalid memory address or nil pointer dereference''
    | Some z \<Rightarrow> Ret (s\<lparr>ax_winsize := Some (vm_Height z, vm_Width z)\<rparr>))"

definition after_write :: "bytes \<Rightarrow> in_pc" where
  "after_write b = (if b = [] then InRecv else InWrite b)"

text \<open>
  \<^verbatim>\<open>Wait\<close> returns when the process has ended and, without a terminal, all copy goroutines have: the one of the input
  too. Its result is the error of the process, or one of the errors of the goroutines.
\<close>

definition wait_returns :: "exec_sys \<Rightarrow> go_error + unit \<Rightarrow> bool" where
  "wait_returns s r \<longleftrightarrow> (if ax_tty s then ax_proc s = Some r
     else ax_copy s \<noteq> CopyRunning \<and> (ax_obuf s = [] \<or> ax_oerr s \<noteq> None) \<and> (ax_ebuf s = [] \<or> ax_eerr s \<noteq> None) \<and>
       (case ax_proc s of
          None \<Rightarrow> False
        | Some (Inl e) \<Rightarrow> r = Inl e
        | Some (Inr _) \<Rightarrow> (case r of
            Inr _ \<Rightarrow> ax_copy s = CopyEnded None \<and> ax_oerr s = None \<and> ax_eerr s = None
          | Inl e \<Rightarrow> ax_copy s = CopyEnded (Some e) \<or> ax_oerr s = Some e \<or> ax_eerr s = Some e)))"

inductive exec_step :: "exec_sys \<Rightarrow> exec_sys \<Rightarrow> bool" where
  recv_error: "ax_in s = InRecv \<Longrightarrow>
    exec_step s (s\<lparr>ax_in := InGone, ax_pipe := Some e, ax_recvd := ax_recvd s @ [Inl e]\<rparr>)"
| recv_stdin: "ax_in s = InRecv \<Longrightarrow>
    exec_step s (s\<lparr>ax_in := InWrite b, ax_recvd := ax_recvd s @ [Inr (ReqStdin b)]\<rparr>)"
| recv_size: "ax_in s = InRecv \<Longrightarrow>
    vm_TerminalSizeHandler_Fill (Some \<lparr>vm_Width = ucast w, vm_Height = ucast h\<rparr>) (ax_sizes s) = Ret (r, q) \<Longrightarrow>
    exec_step s (s\<lparr>ax_sizes := q, ax_recvd := ax_recvd s @ [Inr (ReqTermsize w h)]\<rparr>)"
| recv_other: "ax_in s = InRecv \<Longrightarrow> (\<forall>b. m \<noteq> ReqStdin b) \<Longrightarrow> (\<forall>w h. m \<noteq> ReqTermsize w h) \<Longrightarrow>
    exec_step s (s\<lparr>ax_recvd := ax_recvd s @ [Inr m]\<rparr>)"
| copy_in: "ax_copy s = CopyRunning \<Longrightarrow> ax_in s = InWrite b \<Longrightarrow> 0 < n \<Longrightarrow> ax_proc s = None \<Longrightarrow>
    exec_step s (s\<lparr>ax_in := after_write (drop n b), ax_stdin := ax_stdin s @ take n b\<rparr>)"
| copy_broken: "ax_copy s = CopyRunning \<Longrightarrow> ax_in s = InWrite b \<Longrightarrow> 0 < n \<Longrightarrow> ax_proc s \<noteq> None \<Longrightarrow>
    exec_step s (s\<lparr>ax_in := after_write (drop n b), ax_copy := CopyEnded None\<rparr>)"
| copy_end: "ax_copy s = CopyRunning \<Longrightarrow> ax_in s = InGone \<Longrightarrow> ax_pipe s = Some e \<Longrightarrow>
    exec_step s (s\<lparr>ax_copy := CopyEnded (if e = EOF then None else Some e)\<rparr>)"
| set_size: "ax_tty s \<Longrightarrow> vm_TerminalSizeHandler_Next (ax_sizes s) = Ret (Inr z, q) \<Longrightarrow>
    setSize z (s\<lparr>ax_sizes := q\<rparr>) = Ret s' \<Longrightarrow> exec_step s s'"
| proc_stdout: "ax_proc s = None \<Longrightarrow>
    exec_step s (s\<lparr>ax_obuf := ax_obuf s @ b, ax_owrote := ax_owrote s @ b\<rparr>)"
| proc_stderr: "ax_proc s = None \<Longrightarrow> \<not> ax_tty s \<Longrightarrow>
    exec_step s (s\<lparr>ax_ebuf := ax_ebuf s @ b, ax_ewrote := ax_ewrote s @ b\<rparr>)"
| proc_exit: "ax_proc s = None \<Longrightarrow> exec_step s (s\<lparr>ax_proc := Some r\<rparr>)"
| forward_stdout: "ax_result s = None \<Longrightarrow> ax_oerr s = None \<Longrightarrow> ax_obuf s = b @ bs \<Longrightarrow> b \<noteq> [] \<Longrightarrow>
    exec_step s (s\<lparr>ax_obuf := bs, ax_sent := ax_sent s @ [RespStdout b]\<rparr>)"
| forward_stderr: "ax_result s = None \<Longrightarrow> ax_eerr s = None \<Longrightarrow> ax_ebuf s = b @ bs \<Longrightarrow> b \<noteq> [] \<Longrightarrow>
    exec_step s (s\<lparr>ax_ebuf := bs, ax_sent := ax_sent s @ [RespStderr b]\<rparr>)"
| stdout_fails: "ax_result s = None \<Longrightarrow> ax_oerr s = None \<Longrightarrow> ax_obuf s \<noteq> [] \<Longrightarrow> exec_step s (s\<lparr>ax_oerr := Some e\<rparr>)"
| stderr_fails: "ax_result s = None \<Longrightarrow> ax_eerr s = None \<Longrightarrow> ax_ebuf s \<noteq> [] \<Longrightarrow> exec_step s (s\<lparr>ax_eerr := Some e\<rparr>)"
| finish: "ax_result s = None \<Longrightarrow> wait_returns s r \<Longrightarrow>
    exec_step s (s\<lparr>ax_result := Some r, ax_sent := ax_sent s @ [RespErr (Itoa (exit_code r))]\<rparr>)"
| finish_unsent: "ax_result s = None \<Longrightarrow> wait_returns s r \<Longrightarrow> exec_step s (s\<lparr>ax_result := Some r\<rparr>)"

section \<open>Properties\<close>

definition stdout_bytes :: "stream_response list \<Rightarrow> bytes" where
  "stdout_bytes ms = concat [b. RespStdout b \<leftarrow> ms]"

definition stderr_bytes :: "stream_response list \<Rightarrow> bytes" where
  "stderr_bytes ms = concat [b. RespStderr b \<leftarrow> ms]"

definition stdin_bytes :: "(go_error + stream_request) list \<Rightarrow> bytes" where
  "stdin_bytes ms = concat [b. Inr (ReqStdin b) \<leftarrow> ms]"

lemma stream_bytes_snoc [simp]:
  "stdout_bytes (ms @ [RespStdout b]) = stdout_bytes ms @ b" "stdout_bytes (ms @ [RespStderr b]) = stdout_bytes ms"
  "stdout_bytes (ms @ [RespErr c]) = stdout_bytes ms" "stderr_bytes (ms @ [RespStdout b]) = stderr_bytes ms"
  "stderr_bytes (ms @ [RespStderr b]) = stderr_bytes ms @ b" "stderr_bytes (ms @ [RespErr c]) = stderr_bytes ms"
  "stdout_bytes [] = []" "stderr_bytes [] = []"
  by (simp_all add: stdout_bytes_def stderr_bytes_def)

lemma stdin_bytes_snoc [simp]:
  "stdin_bytes (ms @ [Inr (ReqStdin b)]) = stdin_bytes ms @ b" "stdin_bytes (ms @ [Inl e]) = stdin_bytes ms"
  "stdin_bytes (ms @ [Inr (ReqTermsize w h)]) = stdin_bytes ms" "stdin_bytes [] = []"
  by (simp_all add: stdin_bytes_def)

lemma stdin_bytes_other [simp]: "(\<forall>b. m \<noteq> ReqStdin b) \<Longrightarrow> stdin_bytes (ms @ [Inr m]) = stdin_bytes ms"
  by (cases m) (simp_all add: stdin_bytes_def)

text \<open>Nothing of the output is lost or reordered on its way through a copy goroutine.\<close>

definition output_inv :: "exec_sys \<Rightarrow> bool" where
  "output_inv s \<longleftrightarrow> stdout_bytes (ax_sent s) @ ax_obuf s = ax_owrote s \<and> stderr_bytes (ax_sent s) @ ax_ebuf s = ax_ewrote s
     \<and> (ax_tty s \<longrightarrow> ax_ewrote s = [])
     \<and> (ax_result s = None \<longrightarrow> (\<forall>c. RespErr c \<notin> set (ax_sent s)))
     \<and> (\<forall>r. ax_result s = Some r \<longrightarrow> ax_proc s \<noteq> None \<and>
          (\<forall>c. RespErr c \<in> set (ax_sent s) \<longrightarrow> last (ax_sent s) = RespErr c \<and> c = Itoa (exit_code r)) \<and>
          (\<not> ax_tty s \<longrightarrow> ax_copy s \<noteq> CopyRunning \<and> (ax_oerr s = None \<longrightarrow> ax_obuf s = []) \<and> (ax_eerr s = None \<longrightarrow> ax_ebuf s = [])) \<and>
          (r = Inr () \<longrightarrow> ax_proc s = Some (Inr ())) \<and> (\<forall>e. ax_proc s = Some (Inl e) \<longrightarrow> r = Inl e))"

text \<open>The input: what the command has read, then what the receiving goroutine still holds, is what the client sent.\<close>

fun in_pending :: "in_pc \<Rightarrow> bytes" where
  "in_pending (InWrite b) = b"
| "in_pending _ = []"

definition input_inv :: "exec_sys \<Rightarrow> bool" where
  "input_inv s \<longleftrightarrow> prefix (ax_stdin s) (stdin_bytes (ax_recvd s))
     \<and> (ax_copy s = CopyRunning \<longrightarrow> ax_stdin s @ in_pending (ax_in s) = stdin_bytes (ax_recvd s))
     \<and> ((ax_in s = InGone) = (ax_pipe s \<noteq> None))
     \<and> (\<forall>e. ax_pipe s = Some e \<longrightarrow> last (ax_recvd s) = Inl e \<and> ax_recvd s \<noteq> [])
     \<and> (\<forall>b. ax_in s = InWrite b \<longrightarrow> (\<exists>c. Inr (ReqStdin c) \<in> set (ax_recvd s)))
     \<and> (ax_copy s \<noteq> CopyRunning \<longrightarrow> (\<exists>m \<in> set (ax_recvd s). (\<exists>e. m = Inl e) \<or> (\<exists>b. m = Inr (ReqStdin b))))"

definition sizes_inv :: "exec_sys \<Rightarrow> bool" where
  "sizes_inv s \<longleftrightarrow> vm_quiet (ax_sizes s) \<and> \<not> vm_closed (ax_sizes s) \<and> None \<notin> set (ch_buf (vm_queue (ax_sizes s)))"

abbreviation exec_reach :: "bool \<Rightarrow> exec_sys \<Rightarrow> bool" where
  "exec_reach tty \<equiv> reach exec_step (exec_init tty)"

lemma exec_step_tty: "exec_step s s' \<Longrightarrow> ax_tty s' = ax_tty s"
  by (induction rule: exec_step.induct) (auto simp: setSize_def split: option.splits)

lemma exec_reach_tty: "exec_reach tty s \<Longrightarrow> ax_tty s = tty"
  by (induction rule: reach.induct) (auto simp: exec_init_def dest: exec_step_tty)

lemma wait_returns_facts:
  assumes "wait_returns s r"
  shows "ax_proc s \<noteq> None" "\<not> ax_tty s \<Longrightarrow> ax_copy s \<noteq> CopyRunning"
    "\<not> ax_tty s \<Longrightarrow> ax_oerr s = None \<Longrightarrow> ax_obuf s = []" "\<not> ax_tty s \<Longrightarrow> ax_eerr s = None \<Longrightarrow> ax_ebuf s = []"
    "r = Inr () \<Longrightarrow> ax_proc s = Some (Inr ())" "ax_proc s = Some (Inl e) \<Longrightarrow> r = Inl e"
  using assms by (auto simp: wait_returns_def split: if_splits option.splits sum.splits)

lemma output_step: "exec_step s s' \<Longrightarrow> output_inv s \<Longrightarrow> output_inv s'"
proof (induction rule: exec_step.induct)
  case (finish s r)
  then show ?case using wait_returns_facts [OF finish(2)] by (auto simp: output_inv_def)
next
  case (finish_unsent s r)
  then show ?case using wait_returns_facts [OF finish_unsent(2)] by (auto simp: output_inv_def)
next
  case (set_size s z q s')
  then show ?case by (auto simp: output_inv_def setSize_def split: option.splits)
qed (auto simp: output_inv_def)

lemma output_init: "output_inv (exec_init tty)"
  by (simp add: output_inv_def exec_init_def vmq.new_quiet)

interpretation exec_output: machine exec_step "exec_init tty" output_inv for tty
  by unfold_locales (fact output_init output_step)+

lemmas output_reach = exec_output.invariant

lemma in_pending_after_write [simp]: "in_pending (after_write b) = b"
  by (simp add: after_write_def)

lemma after_write_not_gone [simp]: "after_write b \<noteq> InGone"
  by (simp add: after_write_def)

lemma input_step: "exec_step s s' \<Longrightarrow> input_inv s \<Longrightarrow> input_inv s'"
proof (induction rule: exec_step.induct)
  case (copy_in s b n)
  then show ?case
    by (auto simp: input_inv_def) (metis append_assoc append_take_drop_id prefixI)+
next
  case (copy_broken s b n)
  then show ?case by (auto simp: input_inv_def)
next
  case (copy_end s e)
  then show ?case by (auto simp: input_inv_def intro!: bexI [of _ "Inl e"]) (metis last_in_set)
next
  case (set_size s z q s')
  then show ?case by (auto simp: input_inv_def setSize_def split: option.splits)
qed (auto simp: input_inv_def)

lemma input_init: "input_inv (exec_init tty)"
  by (simp add: input_inv_def exec_init_def vmq.new_quiet)

interpretation exec_input: machine exec_step "exec_init tty" input_inv for tty
  by unfold_locales (fact input_init input_step)+

lemmas input_reach = exec_input.invariant

lemma sizes_fill:
  assumes "sizes_inv s" "vm_TerminalSizeHandler_Fill (Some z) (ax_sizes s) = Ret (r, q)"
  shows "sizes_inv (s\<lparr>ax_sizes := q, ax_recvd := l\<rparr>)"
  using vmq.fill_total [of "ax_sizes s" "Some z"] assms by (auto simp: sizes_inv_def split: if_splits)

lemma sizes_next:
  assumes "sizes_inv s" "vm_TerminalSizeHandler_Next (ax_sizes s) = Ret (r, q)"
  shows "\<exists>z. r = Inr (Some z)" "sizes_inv (s\<lparr>ax_sizes := q\<rparr>)"
proof -
  have "ch_buf (vm_queue (ax_sizes s)) \<noteq> []" using vmq.next_waits assms by (auto simp: sizes_inv_def)
  then obtain d ds where d: "ch_buf (vm_queue (ax_sizes s)) = d # ds" by (cases "ch_buf (vm_queue (ax_sizes s))") auto
  have "d \<noteq> None" using assms(1) d by (metis list.set_intros(1) sizes_inv_def)
  with d assms vmq.next_item [of "ax_sizes s" d ds] show "\<exists>z. r = Inr (Some z)" "sizes_inv (s\<lparr>ax_sizes := q\<rparr>)"
    by (auto simp: sizes_inv_def)
qed

lemma sizes_step: "exec_step s s' \<Longrightarrow> sizes_inv s \<Longrightarrow> sizes_inv s'"
proof (induction rule: exec_step.induct)
  case (recv_size s w h r q)
  then show ?case by (blast intro: sizes_fill)
next
  case (set_size s z q s')
  then show ?case using sizes_next(2) [OF set_size(4,2)] by (auto simp: setSize_def sizes_inv_def split: option.splits)
qed (auto simp: sizes_inv_def)

lemma sizes_init: "sizes_inv (exec_init tty)"
  by (simp add: sizes_inv_def exec_init_def vmq.new_quiet)

interpretation exec_sizes: machine exec_step "exec_init tty" sizes_inv for tty
  by unfold_locales (fact sizes_init sizes_step)+

lemmas sizes_reach = exec_sizes.invariant


lemmas exec_run = reach_run [where step = exec_step]

text \<open>A command that prints \<^verbatim>\<open>hi\<close> and succeeds, without a terminal; its client ends the input.\<close>

definition run_hi :: "exec_sys list" where
  "run_hi = (let s0 = exec_init False; s1 = s0\<lparr>ax_obuf := ''hi'', ax_owrote := ''hi''\<rparr>; s2 = s1\<lparr>ax_proc := Some (Inr ())\<rparr>;
     s3 = s2\<lparr>ax_obuf := [], ax_sent := [RespStdout ''hi'']\<rparr>; s4 = s3\<lparr>ax_in := InGone, ax_pipe := Some EOF, ax_recvd := [Inl EOF]\<rparr>;
     s5 = s4\<lparr>ax_copy := CopyEnded None\<rparr>;
     s6 = s5\<lparr>ax_result := Some (Inr ()), ax_sent := [RespStdout ''hi'', RespErr ''0'']\<rparr>
   in [s0, s1, s2, s3, s4, s5, s6])"

lemma run_hi_reach: "exec_reach False (last run_hi)"
proof -
  let ?s = "\<lambda>i. run_hi ! i"
  have d: "length run_hi = 7" "last run_hi = ?s 6" by (simp_all add: run_hi_def Let_def)
  note ev = run_hi_def Let_def exec_init_def
  have 0: "exec_reach False (?s 0)" by (simp add: ev reach.start [unfolded exec_init_def])
  have 1: "exec_reach False (?s 1)" by (rule exec_run [OF 0 exec_step.proc_stdout [of _ "''hi''"]]) (simp_all add: ev)
  have 2: "exec_reach False (?s 2)" by (rule exec_run [OF 1 exec_step.proc_exit [of _ "Inr ()"]]) (simp_all add: ev)
  have 3: "exec_reach False (?s 3)" by (rule exec_run [OF 2 exec_step.forward_stdout [of _ "''hi''" "[]"]]) (simp_all add: ev)
  have 4: "exec_reach False (?s 4)" by (rule exec_run [OF 3 exec_step.recv_error [of _ EOF]]) (simp_all add: ev)
  have 5: "exec_reach False (?s 5)" by (rule exec_run [OF 4 exec_step.copy_end [of _ EOF]]) (simp_all add: ev)
  have 6: "exec_reach False (?s 6)"
    by (rule exec_run [OF 5 exec_step.finish [of _ "Inr ()"]]) (simp_all add: ev wait_returns_def exit_code_def Itoa_def)
  with d show ?thesis by simp
qed


text \<open>
  The input arrives in order: what the command reads is at any time a prefix of what the client sent, and as long as
  the copy goroutine runs it lacks only the message being delivered. The size queue is never closed, so that the
  goroutine that sets the terminal size never gets a nil size, and receiving a size never blocks the receiving
  goroutine.
\<close>

theorem agent_input_in_order:
  assumes "exec_reach tty s"
  shows "prefix (ax_stdin s) (stdin_bytes (ax_recvd s))
    \<and> (ax_copy s = CopyRunning \<longrightarrow> ax_stdin s @ in_pending (ax_in s) = stdin_bytes (ax_recvd s))
    \<and> (\<forall>z q. vm_TerminalSizeHandler_Next (ax_sizes s) = Ret (Inr z, q) \<longrightarrow> (\<exists>s'. setSize z (s\<lparr>ax_sizes := q\<rparr>) = Ret s'))
    \<and> (\<exists>r q. vm_TerminalSizeHandler_Fill (Some z) (ax_sizes s) = Ret (r, q))"
proof -
  have inp: "prefix (ax_stdin s) (stdin_bytes (ax_recvd s))"
    "ax_copy s = CopyRunning \<longrightarrow> ax_stdin s @ in_pending (ax_in s) = stdin_bytes (ax_recvd s)"
    using input_reach [OF assms] by (simp_all add: input_inv_def)
  have siz: "sizes_inv s" by (rule sizes_reach [OF assms])
  have "\<exists>s'. setSize z (s\<lparr>ax_sizes := q\<rparr>) = Ret s'" if "vm_TerminalSizeHandler_Next (ax_sizes s) = Ret (Inr z, q)" for z q
    using sizes_next(1) [OF siz that] by (auto simp: setSize_def)
  moreover have "\<exists>r q. vm_TerminalSizeHandler_Fill (Some z) (ax_sizes s) = Ret (r, q)"
    using vmq.fill_total [of "ax_sizes s" "Some z"] siz by (auto simp: sizes_inv_def)
  ultimately show ?thesis using inp by blast
qed

theorem agent_input_in_order_witness:
  "\<exists>s. exec_reach True s \<and> ax_stdin s = ''l'' \<and> ax_in s = InWrite ''s'' \<and> stdin_bytes (ax_recvd s) = ''ls''"
proof -
  let ?s0 = "exec_init True"
  let ?s1 = "?s0\<lparr>ax_in := InWrite ''ls'', ax_recvd := [Inr (ReqStdin ''ls'')]\<rparr>"
  let ?s2 = "?s1\<lparr>ax_in := InWrite ''s'', ax_stdin := ''l''\<rparr>"
  have 1: "exec_reach True ?s1"
    by (rule exec_run [OF reach.start exec_step.recv_stdin [of _ "''ls''"]]) (simp_all add: exec_init_def)
  have 2: "exec_reach True ?s2"
    by (rule exec_run [OF 1 exec_step.copy_in [of _ "''ls''" 1]]) (simp_all add: exec_init_def after_write_def)
  from agent_input_in_order [OF 2] have "stdin_bytes (ax_recvd ?s2) = ''ls''" by (simp add: exec_init_def)
  with 2 show ?thesis by (intro exI [of _ ?s2]) simp
qed

text \<open>
  A command without a terminal does not end for the client when its process ends: \<^verbatim>\<open>Wait\<close> also waits for the
  goroutine that copies the input, so the handler returns only after the client has sent input or has ended its stream.
\<close>

theorem command_waits_for_input:
  assumes "exec_reach False s" "ax_result s \<noteq> None"
  shows "\<exists>m \<in> set (ax_recvd s). (\<exists>e. m = Inl e) \<or> (\<exists>b. m = Inr (ReqStdin b))"
  using output_reach [OF assms(1)] input_reach [OF assms(1)] exec_reach_tty [OF assms(1)] assms(2)
  by (auto simp: output_inv_def input_inv_def)

theorem command_waits_for_input_witness:
  "ax_result (last run_hi) = Some (Inr ()) \<and> (\<exists>m \<in> set (ax_recvd (last run_hi)). (\<exists>e. m = Inl e) \<or> (\<exists>b. m = Inr (ReqStdin b)))"
proof -
  have "ax_result (last run_hi) = Some (Inr ())" by (simp add: run_hi_def Let_def)
  with command_waits_for_input [OF run_hi_reach] show ?thesis by simp
qed

text \<open>
  With a terminal the end of the process does not wait for the output: a command that printed \<^verbatim>\<open>hi\<close> and succeeded can
  be reported as finished with none of its output sent.
\<close>

theorem tty_output_lost:
  "\<exists>s. exec_reach True s \<and> ax_result s = Some (Inr ()) \<and> ax_owrote s = ''hi'' \<and> ax_sent s = [RespErr ''0'']"
proof -
  let ?s0 = "exec_init True"
  let ?s1 = "?s0\<lparr>ax_obuf := ''hi'', ax_owrote := ''hi''\<rparr>" let ?s2 = "?s1\<lparr>ax_proc := Some (Inr ())\<rparr>"
  let ?s3 = "?s2\<lparr>ax_result := Some (Inr ()), ax_sent := [RespErr ''0'']\<rparr>"
  have 1: "exec_reach True ?s1"
    by (rule exec_run [OF reach.start exec_step.proc_stdout [of _ "''hi''"]]) (simp_all add: exec_init_def)
  have 2: "exec_reach True ?s2" by (rule exec_run [OF 1 exec_step.proc_exit [of _ "Inr ()"]]) (simp_all add: exec_init_def)
  have 3: "exec_reach True ?s3"
    by (rule exec_run [OF 2 exec_step.finish [of _ "Inr ()"]])
      (simp_all add: exec_init_def wait_returns_def exit_code_def Itoa_def)
  then show ?thesis by (intro exI [of _ ?s3]) (simp add: exec_init_def)
qed

end
