(* ===== verification/Agent_Client.thy ===== *)
theory Agent_Client
  imports Agent_Exec
begin

text \<open>
  \<^verbatim>\<open>agent/vmapi/vmapi.go\<close>: the ssh server's side of a command in a pod. After the connection is open and the command
  is sent, three goroutines of an error group run: \<^verbatim>\<open>receiver\<close> relays the output, \<^verbatim>\<open>sender\<close> the input (with a
  goroutine of its own that reads), \<^verbatim>\<open>termSizeHandler\<close> the window sizes (with a goroutine that waits for them). Their
  interleavings are the step relation \<open>sess_step\<close>.
\<close>

section \<open>Messages\<close>

text \<open>What \<^verbatim>\<open>receiver\<close> does with a message: the bytes it writes to the user, and the error it returns, if any.\<close>

fun recv_writes :: "stream_response \<Rightarrow> bytes" where
  "recv_writes (RespStdout b) = b"
| "recv_writes (RespStderr b) = b"
| "recv_writes _ = []"

definition recv_exit :: "stream_response \<Rightarrow> go_error option" where
  "recv_exit data = (case data of
      RespErr errNumString \<Rightarrow>
        if length errNumString > 0 then Some (case Atoi errNumString of
            Inr errNumInt \<Rightarrow> if errNumInt \<ge> 0 then Errno errNumInt
              else ErrorString (''internal error: invalid error number: '' @ errNumString)
          | Inl _ \<Rightarrow> ErrorString (''internal error: invalid error number: '' @ errNumString))
        else None
    | _ \<Rightarrow> None)"

definition size_request :: "TerminalSize \<Rightarrow> stream_request" where
  "size_request item = ReqTermsize (ucast (Width item)) (ucast (Height item))"

section \<open>The session\<close>

datatype recv_pc = RSelect | RRecv | RReturn go_error | RStopped
datatype reader_pc = RdRead | RdGone
datatype feeder_pc = FdNext | FdPush "TerminalSize option" | FdGone

text \<open>
  \<open>ss_done\<close> is the error of the context once it is done, \<open>ss_err\<close> the first error of the group, \<open>ss_errChan\<close> and
  \<open>ss_queue\<close> the two channels. The last six fields are logs: messages received, those of them that came after the
  context was done, bytes written to the user, chunks read from the user, sizes taken from the window queue, and
  messages sent to the agent.
\<close>

record sess =
  ss_done :: "go_error option"
  ss_err :: "go_error option"
  ss_recv :: recv_pc
  ss_sender :: bool
  ss_reader :: reader_pc
  ss_errChan :: "go_error chan"
  ss_term :: bool
  ss_feeder :: feeder_pc
  ss_queue :: "TerminalSize option chan"
  ss_resps :: "stream_response list"
  ss_late :: "stream_response list"
  ss_out :: bytes
  ss_read :: "bytes list"
  ss_sizes :: "TerminalSize option list"
  ss_sent :: "stream_request list"

definition sess_init :: sess where
  "sess_init = \<lparr>ss_done = None, ss_err = None, ss_recv = RSelect, ss_sender = True, ss_reader = RdRead,
     ss_errChan = make_chan 1, ss_term = True, ss_feeder = FdNext, ss_queue = make_chan 1, ss_resps = [], ss_late = [],
     ss_out = [], ss_read = [], ss_sizes = [], ss_sent = []\<rparr>"

text \<open>Cancelling the context; and the end of a goroutine of the group, where the first error cancels the context.\<close>

definition cancel_with :: "go_error \<Rightarrow> sess \<Rightarrow> sess" where
  "cancel_with e s = (if ss_done s = None then s\<lparr>ss_done := Some e\<rparr> else s)"

definition group_end :: "go_error option \<Rightarrow> sess \<Rightarrow> sess" where
  "group_end r s = (case r of
      None \<Rightarrow> s
    | Some e \<Rightarrow> if ss_err s = None then cancel_with Canceled (s\<lparr>ss_err := Some e\<rparr>) else s)"

definition received :: "stream_response \<Rightarrow> sess \<Rightarrow> sess" where
  "received m s = s\<lparr>ss_resps := ss_resps s @ [m], ss_late := (if ss_done s = None then ss_late s else ss_late s @ [m]),
     ss_out := ss_out s @ recv_writes m\<rparr>"

inductive sess_step :: "sess \<Rightarrow> sess \<Rightarrow> bool" where
  parent_done: "sess_step s (cancel_with e s)"
| recv_done: "ss_recv s = RSelect \<Longrightarrow> ss_done s = Some e \<Longrightarrow> sess_step s (group_end (Some e) (s\<lparr>ss_recv := RStopped\<rparr>))"
| recv_call: "ss_recv s = RSelect \<Longrightarrow> ss_done s = None \<Longrightarrow> sess_step s (s\<lparr>ss_recv := RRecv\<rparr>)"
| recv_eof: "ss_recv s = RRecv \<Longrightarrow> sess_step s (group_end None (s\<lparr>ss_recv := RStopped\<rparr>))"
| recv_error: "ss_recv s = RRecv \<Longrightarrow> e \<noteq> EOF \<Longrightarrow> sess_step s (group_end (Some e) (s\<lparr>ss_recv := RStopped\<rparr>))"
| recv_data: "ss_recv s = RRecv \<Longrightarrow> recv_exit m = None \<Longrightarrow> sess_step s (received m (s\<lparr>ss_recv := RSelect\<rparr>))"
| recv_code: "ss_recv s = RRecv \<Longrightarrow> recv_exit m = Some e \<Longrightarrow>
    sess_step s (cancel_with Canceled (received m (s\<lparr>ss_recv := RReturn e\<rparr>)))"
| recv_return: "ss_recv s = RReturn e \<Longrightarrow> sess_step s (group_end (Some e) (s\<lparr>ss_recv := RStopped\<rparr>))"
| read_chunk: "ss_reader s = RdRead \<Longrightarrow> length b \<le> 4096 \<Longrightarrow>
    sess_step s (s\<lparr>ss_read := ss_read s @ [b], ss_sent := ss_sent s @ [ReqStdin b]\<rparr>)"
| read_error: "ss_reader s = RdRead \<Longrightarrow> chan_send e (ss_errChan s) = Ret c \<Longrightarrow>
    sess_step s (s\<lparr>ss_reader := RdGone, ss_errChan := c\<rparr>)"
| send_error: "ss_reader s = RdRead \<Longrightarrow> length b \<le> 4096 \<Longrightarrow> chan_send e (ss_errChan s) = Ret c \<Longrightarrow>
    sess_step s (s\<lparr>ss_reader := RdGone, ss_errChan := c, ss_read := ss_read s @ [b]\<rparr>)"
| sender_done: "ss_sender s \<Longrightarrow> ss_done s = Some e \<Longrightarrow> sess_step s (group_end (Some e) (s\<lparr>ss_sender := False\<rparr>))"
| sender_error: "ss_sender s \<Longrightarrow> ch_buf (ss_errChan s) = e # es \<Longrightarrow>
    sess_step s (group_end (Some e) (s\<lparr>ss_sender := False, ss_errChan := (ss_errChan s)\<lparr>ch_buf := es, ch_closed := True\<rparr>\<rparr>))"
| feed_next: "ss_feeder s = FdNext \<Longrightarrow> sess_step s (s\<lparr>ss_feeder := FdPush d, ss_sizes := ss_sizes s @ [d]\<rparr>)"
| feed_push: "ss_feeder s = FdPush d \<Longrightarrow> chan_send d (ss_queue s) = Ret c \<Longrightarrow>
    sess_step s (s\<lparr>ss_feeder := (if d = None then FdGone else FdNext), ss_queue := (if d = None then c\<lparr>ch_closed := True\<rparr> else c)\<rparr>)"
| term_done: "ss_term s \<Longrightarrow> ss_done s = Some e \<Longrightarrow> sess_step s (group_end (Some e) (s\<lparr>ss_term := False\<rparr>))"
| term_closed: "ss_term s \<Longrightarrow> chan_recv None (ss_queue s) = Ret (None, c) \<Longrightarrow>
    sess_step s (group_end (Some (ErrorString ''window size queue closed'')) (s\<lparr>ss_term := False, ss_queue := c\<rparr>))"
| term_size: "ss_term s \<Longrightarrow> chan_recv None (ss_queue s) = Ret (Some z, c) \<Longrightarrow>
    sess_step s (group_end None (s\<lparr>ss_term := False, ss_queue := c, ss_sent := ss_sent s @ [size_request z]\<rparr>))"
| term_size_fails: "ss_term s \<Longrightarrow> chan_recv None (ss_queue s) = Ret (Some z, c) \<Longrightarrow>
    sess_step s (group_end (Some e) (s\<lparr>ss_term := False, ss_queue := c\<rparr>))"

text \<open>\<^verbatim>\<open>g.Wait\<close> returns the first error once the three goroutines have returned.\<close>

definition sess_over :: "sess \<Rightarrow> bool" where
  "sess_over s \<longleftrightarrow> ss_recv s = RStopped \<and> \<not> ss_sender s \<and> \<not> ss_term s"

text \<open>The whole call: \<open>session\<close> is the part that runs the goroutines.\<close>

definition api_CreateExecInPodgRPC :: "'w agent_client \<Rightarrow> (nat \<Rightarrow> ('w, unit) io) \<Rightarrow> string \<Rightarrow> KubeExecConfig \<Rightarrow> ('w, unit) io" where
  "api_CreateExecInPodgRPC G session endpoint conf =
     with_conn G endpoint (\<lambda>conn.
     bindE (ac_ExecCommandStream G conn) (\<lambda>resp.
     bindE (ac_Send G resp (ReqCommand \<lparr>ecr_Command = kec_Command conf, ecr_Args = [], ecr_Tty = kec_Tty conf\<rparr>)) (\<lambda>_.
     session resp)))"

section \<open>The agent's process\<close>

text \<open>
  \<^verbatim>\<open>agent/server\<close>: the handlers of \<^verbatim>\<open>vmapi.New\<close> behind a gRPC server (the fifth handler, \<^verbatim>\<open>ExecCommandStream\<close>, is the step
  relation \<open>exec_step\<close>). \<^verbatim>\<open>Fatal\<close> ends the process.
\<close>

record 'w agent_api =
  ap_WriteFile :: "WriteFileRequest \<Rightarrow> ('w, unit) io"
  ap_ReadFile :: "ReadFileRequest \<Rightarrow> ('w, bytes) io"
  ap_ExecCommand :: "ExecCommandRequest \<Rightarrow> ('w, bytes) io"
  ap_ExecCommandReturnStream :: "(return_response \<Rightarrow> ('w, unit) io) \<Rightarrow> ExecCommandRequest \<Rightarrow> ('w, unit) io"

definition vmapi_New :: "'w os_lib \<Rightarrow> 'w exec_lib \<Rightarrow> 'w agent_api" where
  "vmapi_New os ex = \<lparr>ap_WriteFile = WriteFile os, ap_ReadFile = ReadFile os, ap_ExecCommand = ExecCommand ex,
     ap_ExecCommandReturnStream = ExecCommandReturnStream ex\<rparr>"

definition agent_address :: string where
  "agent_address = JoinHostPort DefaultIP PublicAPIport"

definition agent_run :: "'w os_lib \<Rightarrow> 'w exec_lib \<Rightarrow> (string \<Rightarrow> ('w, nat) io) \<Rightarrow> ('w agent_api \<Rightarrow> nat \<Rightarrow> ('w, unit) io) \<Rightarrow> ('w, unit) io" where
  "agent_run os ex listen serve =
     bindR (listen agent_address) (\<lambda>r. case r of
       Inl _ \<Rightarrow> crash ''failed to create listener''
     | Inr lis \<Rightarrow> bindR (serve (vmapi_New os ex) lis) (\<lambda>r. case r of
         Inl _ \<Rightarrow> crash ''failed to serve gRPC''
       | Inr _ \<Rightarrow> ret ()))"

text \<open>The ssh server and the command line dial the port the agent listens on.\<close>

lemma agent_port: "Itoa AgentPort = PublicAPIport" "agent_address = JoinHostPort DefaultIP (Itoa AgentPort)"
  by code_simp+

section \<open>Invariants\<close>

definition relay_inv :: "sess \<Rightarrow> bool" where
  "relay_inv s \<longleftrightarrow> ss_out s = concat (map recv_writes (ss_resps s))
     \<and> prefix [b. ReqStdin b \<leftarrow> ss_sent s] (ss_read s) \<and> (ss_reader s = RdRead \<longrightarrow> [b. ReqStdin b \<leftarrow> ss_sent s] = ss_read s)"

text \<open>The two channels: no goroutine sends on a closed one or waits for room in the error channel.\<close>

definition chan_inv :: "sess \<Rightarrow> bool" where
  "chan_inv s \<longleftrightarrow> ch_cap (ss_errChan s) = 1 \<and> (ss_reader s = RdRead \<longrightarrow> ch_buf (ss_errChan s) = [] \<and> \<not> ch_closed (ss_errChan s))
     \<and> (ch_closed (ss_queue s) \<longleftrightarrow> ss_feeder s = FdGone)"

definition end_inv :: "sess \<Rightarrow> bool" where
  "end_inv s \<longleftrightarrow> (\<not> ss_sender s \<longrightarrow> ss_err s \<noteq> None) \<and> (ss_err s \<noteq> None \<longrightarrow> ss_done s \<noteq> None)"

definition late_inv :: "sess \<Rightarrow> bool" where
  "late_inv s \<longleftrightarrow> (ss_done s = None \<longrightarrow> ss_late s = []) \<and> length (ss_late s) \<le> (if ss_recv s = RRecv then 0 else 1)"

text \<open>The messages to the agent that are not input.\<close>

fun is_stdin :: "stream_request \<Rightarrow> bool" where
  "is_stdin (ReqStdin _) = True"
| "is_stdin _ = False"

definition control_requests :: "stream_request list \<Rightarrow> stream_request list" where
  "control_requests ms = filter (\<lambda>m. \<not> is_stdin m) ms"

lemma control_requests_snoc [simp]:
  "control_requests [] = []" "control_requests (ms @ [ReqStdin b]) = control_requests ms"
  "control_requests (ms @ [size_request z]) = control_requests ms @ [size_request z]"
  by (simp_all add: control_requests_def size_request_def)

text \<open>The first size the window queue gave is the only one that can be sent.\<close>

definition size_inv1 :: "sess \<Rightarrow> bool" where
  "size_inv1 s \<longleftrightarrow> (if ss_term s then control_requests (ss_sent s) = [] \<and>
        ss_sizes s = ch_buf (ss_queue s) @ (case ss_feeder s of FdPush d \<Rightarrow> [d] | _ \<Rightarrow> [])
      else control_requests (ss_sent s) = []
        \<or> (\<exists>z ds. ss_sizes s = Some z # ds \<and> control_requests (ss_sent s) = [size_request z]))"

lemmas sess_defs = group_end_def cancel_with_def received_def

lemma relay_step: "sess_step s s' \<Longrightarrow> relay_inv s \<Longrightarrow> relay_inv s'"
  by (induction rule: sess_step.induct)
    (auto simp: relay_inv_def sess_defs size_request_def prefix_def split: option.splits)

lemma chan_step: "sess_step s s' \<Longrightarrow> chan_inv s \<Longrightarrow> chan_inv s'"
  by (induction rule: sess_step.induct)
    (auto simp: chan_inv_def sess_defs chan_send_def chan_recv_def split: option.splits if_splits list.splits)

lemma end_step: "sess_step s s' \<Longrightarrow> end_inv s \<Longrightarrow> end_inv s'"
  by (induction rule: sess_step.induct) (auto simp: end_inv_def sess_defs split: option.splits)

lemma late_step: "sess_step s s' \<Longrightarrow> late_inv s \<Longrightarrow> late_inv s'"
  by (induction rule: sess_step.induct) (auto simp: late_inv_def sess_defs split: option.splits if_splits)

lemma size_step1: "sess_step s s' \<Longrightarrow> chan_inv s \<Longrightarrow> size_inv1 s \<Longrightarrow> size_inv1 s'"
proof (induction rule: sess_step.induct)
  case (feed_push s d c)
  then show ?case by (auto simp: size_inv1_def chan_send_def split: if_splits)
next
  case (feed_next s d)
  then show ?case by (auto simp: size_inv1_def split: if_splits)
next
  case (term_size s z c)
  then have "ss_sizes s = ch_buf (ss_queue s) @ (case ss_feeder s of FdPush d \<Rightarrow> [d] | _ \<Rightarrow> [])" by (simp add: size_inv1_def)
  moreover have "\<exists>ds. ch_buf (ss_queue s) = Some z # ds"
    using term_size(2) by (auto simp: chan_recv_def split: list.splits if_splits)
  ultimately show ?case using term_size by (auto simp: size_inv1_def group_end_def)
qed (auto simp: size_inv1_def sess_defs split: option.splits if_splits)

abbreviation sess_reach :: "sess \<Rightarrow> bool" where
  "sess_reach \<equiv> reach sess_step sess_init"

definition sess_inv :: "sess \<Rightarrow> bool" where
  "sess_inv s \<longleftrightarrow> relay_inv s \<and> chan_inv s \<and> end_inv s \<and> late_inv s \<and> size_inv1 s"

lemma sess_inv_init: "sess_inv sess_init"
  by (simp add: sess_inv_def relay_inv_def chan_inv_def end_inv_def late_inv_def size_inv1_def sess_init_def make_chan_def)

lemma sess_inv_step: "sess_step s s' \<Longrightarrow> sess_inv s \<Longrightarrow> sess_inv s'"
  by (simp add: sess_inv_def relay_step chan_step end_step late_step size_step1)

interpretation sess: machine sess_step sess_init sess_inv
  by unfold_locales (fact sess_inv_init sess_inv_step)+

lemmas sess_inv_reach = sess.invariant

lemmas sess_run = reach_run [where step = sess_step]

section \<open>Properties\<close>

text \<open>
  Under every interleaving the session relays in order: the user gets the concatenation of the output messages
  received so far, and the agent gets the chunks read from the user, each once (the last one read may be missing when
  sending it failed). The goroutine that reads never waits for room in the error channel, and neither helper
  goroutine sends on a closed channel.
\<close>

theorem session_relays_in_order:
  assumes "sess_reach s"
  shows "ss_out s = concat (map recv_writes (ss_resps s)) \<and> prefix [b. ReqStdin b \<leftarrow> ss_sent s] (ss_read s)
    \<and> (ss_reader s = RdRead \<longrightarrow> (\<exists>c. chan_send e (ss_errChan s) = Ret c))
    \<and> (ss_feeder s = FdPush d \<longrightarrow> chan_send d (ss_queue s) \<noteq> Panic p)"
  using sess_inv_reach [OF assms]
  by (auto simp: sess_inv_def relay_inv_def chan_inv_def chan_send_def)

text \<open>A run in which the agent sends some output and the user types a line.\<close>

theorem session_relays_in_order_witness:
  "\<exists>s. sess_reach s \<and> ss_resps s = [RespStdout ''$ ''] \<and> ss_out s = ''$ '' \<and> prefix [b. ReqStdin b \<leftarrow> ss_sent s] (ss_read s)
     \<and> ss_read s = [''ls'']"
proof -
  let ?s1 = "sess_init\<lparr>ss_recv := RRecv\<rparr>"
  let ?s2 = "?s1\<lparr>ss_recv := RSelect, ss_resps := [RespStdout ''$ ''], ss_out := ''$ ''\<rparr>"
  let ?s3 = "?s2\<lparr>ss_read := [''ls''], ss_sent := [ReqStdin ''ls'']\<rparr>"
  have 1: "sess_reach ?s1" by (rule sess_run [OF reach.start sess_step.recv_call]) (simp_all add: sess_init_def)
  have 2: "sess_reach ?s2"
    by (rule sess_run [OF 1 sess_step.recv_data [of _ "RespStdout ''$ ''"]]) (simp_all add: sess_init_def received_def recv_exit_def)
  have 3: "sess_reach ?s3" by (rule sess_run [OF 2 sess_step.read_chunk [of _ "''ls''"]]) (simp_all add: sess_init_def)
  from session_relays_in_order [OF 3] 3 show ?thesis by (intro exI [of _ ?s3]) (simp add: sess_init_def)
qed

text \<open>
  C37: Once the context is done (because the user's input ended, a goroutine failed or the connection was closed) at most
  one more message of the agent is relayed; and of all window sizes only the first is ever sent to the agent.
\<close>

theorem session_limits:
  assumes "sess_reach s"
  shows "length (ss_late s) \<le> 1 \<and> length (control_requests (ss_sent s)) \<le> 1
    \<and> (\<forall>w h. ReqTermsize w h \<in> set (ss_sent s) \<longrightarrow> (\<exists>z ds. ss_sizes s = Some z # ds \<and> ReqTermsize w h = size_request z))"
proof -
  have inv: "late_inv s" "size_inv1 s" using sess_inv_reach [OF assms] by (simp_all add: sess_inv_def)
  let ?L = "control_requests (ss_sent s)"
  have L: "?L = [] \<or> (\<exists>z ds. ss_sizes s = Some z # ds \<and> ?L = [size_request z])"
    using inv(2) unfolding size_inv1_def by (cases "ss_term s") simp_all
  have "\<exists>z ds. ss_sizes s = Some z # ds \<and> ReqTermsize w h = size_request z" if "ReqTermsize w h \<in> set (ss_sent s)" for w h
  proof -
    have "ReqTermsize w h \<in> set ?L" using that by (simp add: control_requests_def)
    with L show ?thesis by (elim disjE exE conjE) simp_all
  qed
  moreover have "length (ss_late s) \<le> 1" using inv(1) by (auto simp: late_inv_def split: if_splits)
  moreover have "length ?L \<le> 1" using L by (elim disjE exE conjE) simp_all
  ultimately show ?thesis by blast
qed

theorem session_limits_witness:
  "\<exists>s. sess_reach s \<and> ss_done s = Some Canceled \<and> ss_late s = [RespStdout ''x''] \<and> length (ss_late s) \<le> 1
     \<and> ss_err s = Some EOF"
proof -
  let ?s1 = "sess_init\<lparr>ss_recv := RRecv\<rparr>"
  let ?s2 = "?s1\<lparr>ss_reader := RdGone, ss_errChan := \<lparr>ch_buf = [EOF], ch_cap = 1, ch_closed = False\<rparr>\<rparr>"
  let ?s3 = "?s2\<lparr>ss_sender := False, ss_errChan := \<lparr>ch_buf = [], ch_cap = 1, ch_closed = True\<rparr>, ss_err := Some EOF, ss_done := Some Canceled\<rparr>"
  let ?s4 = "?s3\<lparr>ss_recv := RSelect, ss_resps := [RespStdout ''x''], ss_late := [RespStdout ''x''], ss_out := ''x''\<rparr>"
  have 1: "sess_reach ?s1" by (rule sess_run [OF reach.start sess_step.recv_call]) (simp_all add: sess_init_def)
  have 2: "sess_reach ?s2"
    by (rule sess_run [OF 1 sess_step.read_error [of _ EOF]]) (simp_all add: sess_init_def chan_send_def make_chan_def)
  have 3: "sess_reach ?s3"
    by (rule sess_run [OF 2 sess_step.sender_error [of _ EOF "[]"]]) (simp_all add: sess_init_def sess_defs)
  have 4: "sess_reach ?s4"
    by (rule sess_run [OF 3 sess_step.recv_data [of _ "RespStdout ''x''"]]) (simp_all add: sess_init_def received_def recv_exit_def)
  from session_limits [OF 4] 4 show ?thesis by (intro exI [of _ ?s4]) simp
qed

text \<open>
  \<^verbatim>\<open>CreateExecInPodgRPC\<close> never reports success for a command it has started: when all goroutines have returned, the
  group holds an error, also when the command succeeded.
\<close>

theorem session_never_succeeds:
  assumes "sess_reach s" "sess_over s"
  shows "\<exists>e. ss_err s = Some e"
  using sess_inv_reach [OF assms(1)] assms(2) by (auto simp: sess_inv_def end_inv_def sess_over_def)

text \<open>A command that ends with the given code: the receiver returns first, or the sender does.\<close>

definition code_received :: "string \<Rightarrow> go_error \<Rightarrow> sess" where
  "code_received c e = sess_init\<lparr>ss_recv := RReturn e, ss_resps := [RespErr c], ss_done := Some Canceled\<rparr>"

lemma code_received_reach:
  assumes "recv_exit (RespErr c) = Some e"
  shows "sess_reach (code_received c e)"
proof -
  have 1: "sess_reach (sess_init\<lparr>ss_recv := RRecv\<rparr>)"
    by (rule sess_run [OF reach.start sess_step.recv_call]) (simp_all add: sess_init_def)
  show ?thesis
    by (rule sess_run [OF 1 sess_step.recv_code [OF _ assms]]) (simp_all add: code_received_def sess_init_def sess_defs)
qed

definition code_over :: "string \<Rightarrow> go_error \<Rightarrow> sess" where
  "code_over c e = sess_init\<lparr>ss_recv := RStopped, ss_sender := False, ss_term := False, ss_resps := [RespErr c],
     ss_done := Some Canceled, ss_err := Some e\<rparr>"

lemma code_over_reach:
  assumes "recv_exit (RespErr c) = Some e"
  shows "sess_reach (code_over c e)" "sess_reach (code_over c Canceled)"
proof -
  let ?s0 = "code_received c e"
  let ?a1 = "?s0\<lparr>ss_recv := RStopped, ss_err := Some e\<rparr>" let ?a2 = "?a1\<lparr>ss_sender := False\<rparr>"
  let ?b1 = "?s0\<lparr>ss_sender := False, ss_err := Some Canceled\<rparr>" let ?b2 = "?b1\<lparr>ss_recv := RStopped\<rparr>"
  note d = code_received_def code_over_def sess_init_def sess_defs
  have a1: "sess_reach ?a1" by (rule sess_run [OF code_received_reach [OF assms] sess_step.recv_return [of _ e]]) (simp_all add: d)
  have a2: "sess_reach ?a2" by (rule sess_run [OF a1 sess_step.sender_done [of _ Canceled]]) (simp_all add: d)
  show "sess_reach (code_over c e)" by (rule sess_run [OF a2 sess_step.term_done [of _ Canceled]]) (simp_all add: d)
  have b1: "sess_reach ?b1"
    by (rule sess_run [OF code_received_reach [OF assms] sess_step.sender_done [of _ Canceled]]) (simp_all add: d)
  have b2: "sess_reach ?b2" by (rule sess_run [OF b1 sess_step.recv_return [of _ e]]) (simp_all add: d)
  show "sess_reach (code_over c Canceled)" by (rule sess_run [OF b2 sess_step.term_done [of _ Canceled]]) (simp_all add: d)
qed

lemma recv_exit_0: "recv_exit (RespErr ''0'') = Some (Errno 0)"
  by code_simp

theorem session_never_succeeds_witness:
  "sess_reach (code_over ''0'' (Errno 0)) \<and> sess_over (code_over ''0'' (Errno 0))
   \<and> (\<exists>e. ss_err (code_over ''0'' (Errno 0)) = Some e)"
proof -
  have "sess_over (code_over ''0'' (Errno 0))" by (simp add: code_over_def sess_over_def)
  with session_never_succeeds [OF code_over_reach(1) [OF recv_exit_0] this] code_over_reach(1) [OF recv_exit_0] show ?thesis by simp
qed

text \<open>
  C36: The exit code of a command survives the way from the agent to the ssh server's receiver: the message made of a code
  that is not negative gives that number back. But it races with the cancellation the receiver itself causes, so that
  the call can return \<^verbatim>\<open>context canceled\<close> instead.
\<close>

theorem exit_code_roundtrip_and_race:
  assumes "0 \<le> c" "c \<le> max_int"
  shows "recv_exit (RespErr (Itoa c)) = Some (Errno c)
    \<and> (\<exists>s. sess_reach s \<and> sess_over s \<and> ss_resps s = [RespErr (Itoa c)] \<and> ss_err s = Some (Errno c))
    \<and> (\<exists>s. sess_reach s \<and> sess_over s \<and> ss_resps s = [RespErr (Itoa c)] \<and> ss_err s = Some Canceled)"
proof -
  have "Atoi (Itoa c) = Inr c" using assms by (intro Atoi_Itoa) (simp_all add: min_int_def)
  moreover have "Itoa c \<noteq> []" by (simp add: Itoa_def)
  ultimately have e: "recv_exit (RespErr (Itoa c)) = Some (Errno c)" using assms(1) by (simp add: recv_exit_def)
  have "sess_over (code_over (Itoa c) x)" "ss_resps (code_over (Itoa c) x) = [RespErr (Itoa c)]" "ss_err (code_over (Itoa c) x) = Some x" for x
    by (simp_all add: code_over_def sess_over_def)
  with e code_over_reach [OF e] show ?thesis by blast
qed

theorem exit_code_roundtrip_and_race_witness:
  "recv_exit (RespErr (Itoa 3)) = Some (Errno 3)
   \<and> (\<exists>s. sess_reach s \<and> sess_over s \<and> ss_resps s = [RespErr (Itoa 3)] \<and> ss_err s = Some Canceled)"
  using exit_code_roundtrip_and_race [of 3] by (simp add: max_int_def)

end
