(* ===== verification/Shell.thy ===== *)
theory Shell
  imports Agent_Client
begin

text \<open>
  A shell from end to end: the goroutines of the ssh server's \<^verbatim>\<open>CreateExecInPodgRPC\<close> (\<open>sess_step\<close>) and those of the agent's
  \<^verbatim>\<open>ExecCommandStream\<close> (\<open>exec_step\<close>) run beside each other, connected by one gRPC stream.
\<close>

section \<open>The composed machine\<close>

text \<open>
  What is used of the stream: in each direction the messages received are the first ones of those sent, in order.
\<close>

definition linked :: "sess \<Rightarrow> exec_sys \<Rightarrow> bool" where
  "linked s a \<longleftrightarrow> prefix (ss_resps s) (ax_sent a) \<and> prefix [r. Inr r \<leftarrow> ax_recvd a] (ss_sent s)"

inductive shell_step :: "sess \<times> exec_sys \<Rightarrow> sess \<times> exec_sys \<Rightarrow> bool" where
  client: "sess_step s s' \<Longrightarrow> linked s' a \<Longrightarrow> shell_step (s, a) (s', a)"
| agent: "exec_step a a' \<Longrightarrow> linked s a' \<Longrightarrow> shell_step (s, a) (s, a')"

definition shell_parts :: "bool \<Rightarrow> sess \<times> exec_sys \<Rightarrow> bool" where
  "shell_parts tty p \<longleftrightarrow> sess_reach (fst p) \<and> exec_reach tty (snd p) \<and> linked (fst p) (snd p)"

lemma shell_parts_init: "shell_parts tty (sess_init, exec_init tty)"
  by (simp add: shell_parts_def linked_def reach.start sess_init_def exec_init_def)

lemma shell_parts_step: "shell_step p p' \<Longrightarrow> shell_parts tty p \<Longrightarrow> shell_parts tty p'"
  by (induction rule: shell_step.induct) (auto simp: shell_parts_def intro: reach.next_step)

interpretation shell: machine shell_step "(sess_init, exec_init tty)" "shell_parts tty" for tty
  by unfold_locales (fact shell_parts_init shell_parts_step)+

section \<open>Messages\<close>

lemma stream_bytes_append:
  "stdout_bytes (ms @ ns) = stdout_bytes ms @ stdout_bytes ns" "stderr_bytes (ms @ ns) = stderr_bytes ms @ stderr_bytes ns"
  by (simp_all add: stdout_bytes_def stderr_bytes_def)

lemma stream_bytes_prefix:
  assumes "prefix ms ns"
  shows "prefix (stdout_bytes ms) (stdout_bytes ns)" "prefix (stderr_bytes ms) (stderr_bytes ns)"
  using assms by (auto simp: prefix_def stream_bytes_append)

text \<open>Without error output the user sees the standard output.\<close>

lemma recv_writes_stdout: "stderr_bytes ms = [] \<Longrightarrow> concat (map recv_writes ms) = stdout_bytes ms"
proof (induction ms)
  case (Cons m ms)
  then show ?case by (cases m) (simp_all add: stdout_bytes_def stderr_bytes_def)
qed (simp add: stdout_bytes_def)

lemma stdin_bytes_requests: "stdin_bytes ms = concat [b. ReqStdin b \<leftarrow> [r. Inr r \<leftarrow> ms]]"
proof (induction ms)
  case (Cons m ms)
  then show ?case by (cases m; simp add: stdin_bytes_def; cases "projr m"; simp)
qed (simp add: stdin_bytes_def)

lemma prefix_inputs:
  assumes "prefix rs qs"
  shows "prefix (concat [b. ReqStdin b \<leftarrow> rs]) (concat [b. ReqStdin b \<leftarrow> qs])"
  using assms by (auto simp: prefix_def)

lemma prefix_concat: "prefix xs ys \<Longrightarrow> prefix (concat xs) (concat ys)"
  by (auto simp: prefix_def)

text \<open>The exit code is sent once, after everything else.\<close>

definition code_inv :: "exec_sys \<Rightarrow> bool" where
  "code_inv s \<longleftrightarrow> output_inv s \<and> (\<forall>c. RespErr c \<notin> set (butlast (ax_sent s)))"

lemma code_inv_init: "code_inv (exec_init tty)"
  using output_init by (simp add: code_inv_def exec_init_def)

lemma code_step:
  "exec_step s s' \<Longrightarrow> output_inv s \<Longrightarrow> \<forall>c. RespErr c \<notin> set (butlast (ax_sent s)) \<Longrightarrow> \<forall>c. RespErr c \<notin> set (butlast (ax_sent s'))"
proof (induction rule: exec_step.induct)
  case (set_size s z q s')
  then show ?case by (auto simp: setSize_def split: option.splits)
qed (auto simp: output_inv_def)

lemma code_inv_step: "exec_step s s' \<Longrightarrow> code_inv s \<Longrightarrow> code_inv s'"
  using output_step code_step unfolding code_inv_def by blast

interpretation exec_code: machine exec_step "exec_init tty" code_inv for tty
  by unfold_locales (fact code_inv_init code_inv_step)+

text \<open>So a client that has the code has every message.\<close>

lemma code_received_all:
  assumes "prefix ms (ax_sent a)" "RespErr c \<in> set ms" "code_inv a"
  shows "ms = ax_sent a"
proof (rule ccontr)
  assume "ms \<noteq> ax_sent a"
  with assms(1) obtain x xs where "ax_sent a = ms @ x # xs" by (auto simp: prefix_def neq_Nil_conv)
  then have "set ms \<subseteq> set (butlast (ax_sent a))" by (auto simp: butlast_append)
  with assms(2,3) show False by (auto simp: code_inv_def)
qed

section \<open>The shell\<close>


lemmas shell_run = reach.next_step [where step = shell_step]


end
