(* ===== verification/Qemu_Defs.thy ===== *)
theory Qemu_Defs
  imports Agent_Files
begin

text \<open>
  \<^verbatim>\<open>internal/config/definitions/qemu.go\<close>: the libvirt objects the cluster of virtual machines is made of. A record has
  one field per value the source sets; a chain of pointers to structs that are always set is flattened into the name
  of the field. The XML text that \<^verbatim>\<open>Marshal\<close> makes of an object stands for the object and is not modelled.
\<close>

definition LibvirtStoragePoolPath :: string where "LibvirtStoragePoolPath = ''/var/lib/libvirt/images/''"
definition BaseDiskName :: string where "BaseDiskName = ''delegatio''"
definition DomainPrefixMaster :: string where "DomainPrefixMaster = ''delegatio-master-''"
definition DomainPrefixWorker :: string where "DomainPrefixWorker = ''delegatio-worker-''"
definition BootDiskName :: string where "BootDiskName = ''delegatio-boot''"
definition DiskPoolName :: string where "DiskPoolName = ''delegatio-pool''"
definition NetworkName :: string where "NetworkName = ''delegatio-net''"

record network_ip =
  ni_Family :: string
  ni_Address :: string
  ni_Prefix :: int
  ni_DHCPRanges :: "(string \<times> string) list"

record network_xml =
  nx_Name :: string
  nx_ForwardMode :: string
  nx_NATPorts :: "(int \<times> int) list"
  nx_BridgeName :: string
  nx_BridgeSTP :: string
  nx_BridgeDelay :: string
  nx_DNSEnable :: string
  nx_IPs :: "network_ip list"

definition NetworkXMLConfig :: network_xml where
  "NetworkXMLConfig = \<lparr>nx_Name = NetworkName, nx_ForwardMode = ''nat'', nx_NATPorts = [(1024, 65535)], nx_BridgeName = ''virbr1'',
     nx_BridgeSTP = ''on'', nx_BridgeDelay = ''0'', nx_DNSEnable = ''yes'',
     nx_IPs = [\<lparr>ni_Family = ''ipv4'', ni_Address = ''10.42.0.1'', ni_Prefix = 16, ni_DHCPRanges = [(''10.42.0.2'', ''10.42.255.254'')]\<rparr>]\<rparr>"

record pool_xml =
  px_Name :: string
  px_Type :: string
  px_TargetPath :: string
  px_Owner :: string
  px_Group :: string
  px_Mode :: string

definition PoolXMLConfig :: pool_xml where
  "PoolXMLConfig = \<lparr>px_Name = DiskPoolName, px_Type = ''dir'', px_TargetPath = LibvirtStoragePoolPath, px_Owner = ''0'',
     px_Group = ''0'', px_Mode = ''0777''\<rparr>"

record volume_xml =
  vx_Name :: string
  vx_Type :: string
  vx_TargetPath :: string
  vx_TargetFormat :: string
  vx_BackingStore :: "(string \<times> string) option"
  vx_CapacityUnit :: string
  vx_CapacityValue :: int

definition VolumeBootXMLConfig :: volume_xml where
  "VolumeBootXMLConfig = \<lparr>vx_Name = BootDiskName, vx_Type = ''file'', vx_TargetPath = LibvirtStoragePoolPath @ BootDiskName,
     vx_TargetFormat = ''qcow2'', vx_BackingStore = Some (LibvirtStoragePoolPath @ BaseDiskName, ''qcow2''),
     vx_CapacityUnit = ''GiB'', vx_CapacityValue = 100\<rparr>"

definition VolumeBaseXMLConfig :: volume_xml where
  "VolumeBaseXMLConfig = \<lparr>vx_Name = BaseDiskName, vx_Type = ''file'', vx_TargetPath = LibvirtStoragePoolPath @ BaseDiskName,
     vx_TargetFormat = ''qcow2'', vx_BackingStore = None, vx_CapacityUnit = ''GiB'', vx_CapacityValue = 100\<rparr>"

record disk_xml =
  dk_Device :: string
  dk_DriverName :: string
  dk_DriverType :: string
  dk_TargetDev :: string
  dk_TargetBus :: string
  dk_SourceIndex :: int
  dk_SourcePool :: string
  dk_SourceVolume :: string

record interface_xml =
  if_Model :: string
  if_SourceNetwork :: string
  if_SourceBridge :: string
  if_Alias :: string

record serial_xml =
  se_SourcePty :: string
  se_TargetType :: string
  se_TargetPort :: int
  se_TargetModel :: "string option"
  se_TTY :: "string option"

record rng_xml =
  rn_Model :: string
  rn_Device :: string
  rn_Alias :: string

record domain_xml =
  dx_Name :: string
  dx_Type :: string
  dx_Memory :: "int \<times> string"
  dx_Partition :: string
  dx_VCPU :: "string \<times> int"
  dx_CPUMode :: string
  dx_Sockets :: int
  dx_Threads :: int
  dx_Cores :: int
  dx_Dies :: int
  dx_Features :: "string list"
  dx_SMM :: string
  dx_Firmware :: string
  dx_FirmwareFeatures :: "(string \<times> string) list"
  dx_OSType :: "string \<times> string \<times> string"
  dx_Kernel :: string
  dx_Initrd :: string
  dx_Cmdline :: string
  dx_Emulator :: string
  dx_Disks :: "disk_xml list"
  dx_Interfaces :: "interface_xml list"
  dx_Serials :: "serial_xml list"
  dx_Consoles :: "serial_xml list"
  dx_RNGs :: "rng_xml list"
  dx_OnPoweroff :: string
  dx_OnCrash :: string
  dx_OnReboot :: string

definition DomainXMLConfig :: domain_xml where
  "DomainXMLConfig = \<lparr>dx_Name = ''MUST-BE-FILLED-WITH-STH-VM'', dx_Type = ''kvm'', dx_Memory = (8, ''GiB''), dx_Partition = ''/machine'',
     dx_VCPU = (''static'', 16), dx_CPUMode = ''host-passthrough'', dx_Sockets = 1, dx_Threads = 1, dx_Cores = 16, dx_Dies = 1,
     dx_Features = [''ACPI'', ''PAE'', ''APIC'', ''KVM''], dx_SMM = ''on'', dx_Firmware = ''efi'',
     dx_FirmwareFeatures = [(''secure-boot'', ''no'')], dx_OSType = (''x86_64'', ''q35'', ''hvm''),
     dx_Kernel = ''/home/bschlueter/University/Github/delegatio/images/image.vmlinuz'',
     dx_Initrd = ''/home/bschlueter/University/Github/delegatio/images/image.initrd'',
     dx_Cmdline = ''console=ttyS0 root=/dev/vda2 rw'', dx_Emulator = ''/usr/bin/qemu-system-x86_64'',
     dx_Disks = [\<lparr>dk_Device = ''disk'', dk_DriverName = ''qemu'', dk_DriverType = ''qcow2'', dk_TargetDev = ''vda'',
       dk_TargetBus = ''virtio'', dk_SourceIndex = 1, dk_SourcePool = DiskPoolName, dk_SourceVolume = BootDiskName\<rparr>],
     dx_Interfaces = [\<lparr>if_Model = ''virtio'', if_SourceNetwork = NetworkName, if_SourceBridge = ''virbr1'', if_Alias = ''net0''\<rparr>],
     dx_Serials = [\<lparr>se_SourcePty = ''/dev/pts/4'', se_TargetType = ''isa-serial'', se_TargetPort = 0,
       se_TargetModel = Some ''isa-serial'', se_TTY = None\<rparr>],
     dx_Consoles = [\<lparr>se_SourcePty = ''/dev/pts/4'', se_TargetType = ''serial'', se_TargetPort = 0, se_TargetModel = None,
       se_TTY = Some ''/dev/pts/4''\<rparr>],
     dx_RNGs = [\<lparr>rn_Model = ''virtio'', rn_Device = ''/dev/urandom'', rn_Alias = ''rng0''\<rparr>],
     dx_OnPoweroff = ''destroy'', dx_OnCrash = ''destroy'', dx_OnReboot = ''restart''\<rparr>"

end
