(* ===== verification/Qemu.thy ===== *)
theory Qemu
  imports Qemu_Defs
begin

text \<open>
  \<^verbatim>\<open>cli/infrastructure\<close>: creating, awaiting and deleting the virtual machines. The libvirt library is the record
  \<open>libvirt_conn\<close> of the calls that the interfaces of \<^verbatim>\<open>qemu.go\<close> name; objects of the library are numbers. The state is
  the instance, the library's world, and the \<^verbatim>\<open>Target.Path\<close> of the global \<^verbatim>\<open>VolumeBootXMLConfig\<close>: a struct copy shares
  what its pointers point to, so every boot image writes the same path. Goroutines of an error group run one after the
  other in an order that is a parameter; the theory \<open>Qemu_Race\<close> has the interleavings of those that create the machines. Loops that
  poll take fuel, and a loop that has used it up has not returned yet (\<open>Block\<close>).
\<close>

section \<open>The library\<close>

datatype addr_type = IPv4 | IPv6

record dom_interface =
  di_Name :: string
  di_Addrs :: "(addr_type \<times> string) list"

record 'w libvirt_conn =
  lv_ListAllNetworks :: "('w, nat list) io"
  net_GetName :: "nat \<Rightarrow> ('w, string) io"
  net_Destroy :: "nat \<Rightarrow> ('w, unit) io"
  net_Free :: "nat \<Rightarrow> ('w, unit) io"
  lv_ListAllDomains :: "('w, nat list) io"
  dom_GetName :: "nat \<Rightarrow> ('w, string) io"
  dom_Destroy :: "nat \<Rightarrow> ('w, unit) io"
  dom_Free :: "nat \<Rightarrow> ('w, unit) io"
  dom_Addresses :: "nat \<Rightarrow> ('w, dom_interface list) io"
  lv_ListAllStoragePools :: "('w, nat list) io"
  pool_GetName :: "nat \<Rightarrow> ('w, string) io"
  pool_IsActive :: "nat \<Rightarrow> ('w, bool) io"
  pool_Destroy :: "nat \<Rightarrow> ('w, unit) io"
  pool_Delete :: "nat \<Rightarrow> ('w, unit) io"
  pool_Undefine :: "nat \<Rightarrow> ('w, unit) io"
  pool_Free :: "nat \<Rightarrow> ('w, unit) io"
  pool_Build :: "nat \<Rightarrow> ('w, unit) io"
  pool_Create :: "nat \<Rightarrow> ('w, unit) io"
  pool_ListVolumes :: "nat \<Rightarrow> ('w, nat list) io"
  pool_VolCreateXML :: "nat \<Rightarrow> volume_xml \<Rightarrow> ('w, nat) io"
  vol_Delete :: "nat \<Rightarrow> ('w, unit) io"
  vol_Free :: "nat \<Rightarrow> ('w, unit) io"
  vol_Upload :: "nat \<Rightarrow> nat \<Rightarrow> nat \<Rightarrow> nat \<Rightarrow> ('w, unit) io"
  lv_LookupDomainByName :: "string \<Rightarrow> ('w, nat) io"
  lv_LookupStoragePool :: "string \<Rightarrow> ('w, nat) io"
  lv_StoragePoolDefineXML :: "pool_xml \<Rightarrow> ('w, nat) io"
  lv_NetworkCreateXML :: "network_xml \<Rightarrow> ('w, nat) io"
  lv_DomainCreateXML :: "domain_xml \<Rightarrow> ('w, nat) io"
  lv_NewStream :: "('w, nat) io"
  str_Send :: "nat \<Rightarrow> bytes \<Rightarrow> ('w, nat) io"
  str_Abort :: "nat \<Rightarrow> ('w, unit) io"
  str_Finish :: "nat \<Rightarrow> ('w, unit) io"
  str_Free :: "nat \<Rightarrow> ('w, unit) io"
  lv_Close :: "('w, unit) io"
  xml_Marshal :: "string \<Rightarrow> go_error option"
  deepcopy_Anything :: "go_error option"

text \<open>
  \<^verbatim>\<open>wrapper.go\<close>: the wrapper hands every call to the library's object; the list functions copy the list they get, and
  those that make a pool or a volume wrap the object unless there is an error.
\<close>

definition copy_list :: "('w, nat list) io \<Rightarrow> ('w, nat list) io" where
  "copy_list m = bindE m (\<lambda>xs. ret (map (\<lambda>i. xs ! i) [0..<length xs]))"

definition wrap_object :: "('w, nat) io \<Rightarrow> ('w, nat) io" where
  "wrap_object m = bindE m ret"

definition connectionWrapper :: "'w libvirt_conn \<Rightarrow> 'w libvirt_conn" where
  "connectionWrapper c = c\<lparr>lv_ListAllNetworks := copy_list (lv_ListAllNetworks c),
     lv_ListAllStoragePools := copy_list (lv_ListAllStoragePools c), lv_ListAllDomains := copy_list (lv_ListAllDomains c),
     lv_LookupStoragePool := (\<lambda>path. wrap_object (lv_LookupStoragePool c path)),
     lv_StoragePoolDefineXML := (\<lambda>x. wrap_object (lv_StoragePoolDefineXML c x)),
     pool_VolCreateXML := (\<lambda>p x. wrap_object (pool_VolCreateXML c p x)),
     pool_ListVolumes := (\<lambda>p. copy_list (pool_ListVolumes c p))\<rparr>"

section \<open>The instance\<close>

record LibvirtInstance =
  li_Conn :: bool
  li_masterNodeNum :: int
  li_workerNodeNum :: int
  li_ImagePath :: string
  li_RegisteredNetworks :: "string list"
  li_RegisteredPools :: "string list"
  li_RegisteredDisks :: "string list"

record 'w qsys =
  q_world :: 'w
  q_inst :: LibvirtInstance
  q_bootPath :: string

definition NewQemu :: "string \<Rightarrow> LibvirtInstance" where
  "NewQemu imagePath = \<lparr>li_Conn = False, li_masterNodeNum = NumberOfMasters ClusterConfiguration,
     li_workerNodeNum = NumberOfWorkers ClusterConfiguration, li_ImagePath = imagePath, li_RegisteredNetworks = [],
     li_RegisteredPools = [], li_RegisteredDisks = []\<rparr>"

text \<open>A call through \<^verbatim>\<open>l.Conn\<close>, which is nil until the connection is made.\<close>

definition lv :: "('w, 'a) io \<Rightarrow> ('w qsys, 'a) io" where
  "lv m s = (if li_Conn (q_inst s) then (case m (q_world s) of
       Ret (r, w) \<Rightarrow> Ret (r, s\<lparr>q_world := w\<rparr>) | Panic p \<Rightarrow> Panic p | Block \<Rightarrow> Block)
     else Panic ''invalid memory address or nil pointer dereference'')"

definition on_instance :: "(LibvirtInstance \<Rightarrow> LibvirtInstance) \<Rightarrow> ('w qsys, unit) io" where
  "on_instance f = modify (\<lambda>s. s\<lparr>q_inst := f (q_inst s)\<rparr>)"

definition ConnectWithInfrastructureService :: "('w, unit) io \<Rightarrow> ('w qsys, unit) io" where
  "ConnectWithInfrastructureService NewConnect s = (case NewConnect (q_world s) of
      Ret (Inl e, w) \<Rightarrow> Ret (Inl e, s\<lparr>q_world := w\<rparr>)
    | Ret (Inr _, w) \<Rightarrow> Ret (Inr (), s\<lparr>q_world := w, q_inst := (q_inst s)\<lparr>li_Conn := True\<rparr>\<rparr>)
    | Panic p \<Rightarrow> Panic p | Block \<Rightarrow> Block)"

section \<open>Deleting\<close>

definition free_all :: "(nat \<Rightarrow> ('w, unit) io) \<Rightarrow> nat list \<Rightarrow> ('w, unit) io" where
  "free_all free xs = forE xs (\<lambda>x. ignoring (free x))"

definition deleteNetwork :: "'w libvirt_conn \<Rightarrow> ('w, unit) io" where
  "deleteNetwork c =
     bindE (lv_ListAllNetworks c) (\<lambda>nets.
     deferred (forE nets (\<lambda>net.
         bindE (net_GetName c net) (\<lambda>name.
         if name \<noteq> NetworkName then ret () else net_Destroy c net)))
       (free_all (net_Free c) nets))"

definition deleteDomains :: "'w libvirt_conn \<Rightarrow> ('w, unit) io" where
  "deleteDomains c =
     bindE (lv_ListAllDomains c) (\<lambda>doms.
     deferred (forE doms (\<lambda>dom.
         bindE (dom_GetName c dom) (\<lambda>name.
         if \<not> HasPrefix name DomainPrefixMaster \<and> \<not> HasPrefix name DomainPrefixWorker then ret () else dom_Destroy c dom)))
       (free_all (dom_Free c) doms))"

text \<open>The wrapped error's text has no colon in the source; the texts of wrapped errors are not compared anywhere.\<close>

definition deleteVolumesFromPool :: "'w libvirt_conn \<Rightarrow> nat \<Rightarrow> ('w, unit) io" where
  "deleteVolumesFromPool c pool =
     bindE (pool_ListVolumes c pool) (\<lambda>volumes.
     deferred (forE volumes (\<lambda>volume. bindR (vol_Delete c volume) (\<lambda>r. case r of
         Inl err \<Rightarrow> throw (WrapError ''volume delete'' err)
       | Inr _ \<Rightarrow> ret ())))
       (free_all (vol_Free c) volumes))"

definition deletePool :: "'w libvirt_conn \<Rightarrow> ('w, unit) io" where
  "deletePool c =
     bindE (lv_ListAllStoragePools c) (\<lambda>pools.
     deferred (forE pools (\<lambda>pool.
         bindE (pool_GetName c pool) (\<lambda>name.
         if name \<noteq> DiskPoolName then ret ()
         else bindE (pool_IsActive c pool) (\<lambda>active.
           bindE (if active then
               bindE (deleteVolumesFromPool c pool) (\<lambda>_.
               bindE (pool_Destroy c pool) (\<lambda>_.
               pool_Delete c pool))
             else ret ()) (\<lambda>_.
           pool_Undefine c pool)))))
       (free_all (pool_Free c) pools))"

definition error_of :: "go_error + 'a \<Rightarrow> go_error option" where
  "error_of r = (case r of Inl e \<Rightarrow> Some e | Inr _ \<Rightarrow> None)"

definition TerminateInfrastructure :: "'w libvirt_conn \<Rightarrow> ('w qsys, unit) io" where
  "TerminateInfrastructure c =
     bindR (lv (deleteNetwork c)) (\<lambda>r1.
     bindR (lv (deleteDomains c)) (\<lambda>r2.
     bindR (lv (deletePool c)) (\<lambda>r3.
     case errors_Join [error_of r1, error_of r2, error_of r3] of None \<Rightarrow> ret () | Some e \<Rightarrow> throw e)))"

definition TerminateConnection :: "'w libvirt_conn \<Rightarrow> ('w qsys, unit) io" where
  "TerminateConnection c = lv (lv_Close c)"

section \<open>Creating\<close>

text \<open>\<^verbatim>\<open>Marshal\<close> of the object with the given name; and an error whose text is kept in a new error.\<close>

definition marshal :: "'w libvirt_conn \<Rightarrow> string \<Rightarrow> ('v, unit) io" where
  "marshal c name = (case xml_Marshal c name of Some e \<Rightarrow> throw e | None \<Rightarrow> ret ())"

definition rephrase :: "string \<Rightarrow> ('w, 'a) io \<Rightarrow> ('w, 'a) io" where
  "rephrase msg m = bindR m (\<lambda>r. case r of Inl err \<Rightarrow> throw (ErrorString (msg @ Error err)) | Inr x \<Rightarrow> ret x)"

definition createStoragePool :: "'w libvirt_conn \<Rightarrow> ('w qsys, unit) io" where
  "createStoragePool c =
     bindE (marshal c (px_Name PoolXMLConfig)) (\<lambda>_.
     bindE (rephrase ''error defining libvirt storage pool: '' (lv (lv_StoragePoolDefineXML c PoolXMLConfig))) (\<lambda>poolObject.
     deferred
       (bindE (rephrase ''error building libvirt storage pool: '' (lv (pool_Build c poolObject))) (\<lambda>_.
        bindE (rephrase ''error creating libvirt storage pool: '' (lv (pool_Create c poolObject))) (\<lambda>_.
        on_instance (\<lambda>l. l\<lparr>li_RegisteredPools := li_RegisteredPools l @ [px_Name PoolXMLConfig]\<rparr>))))
       (lv (pool_Free c poolObject))))"

text \<open>
  The upload loop. The image is what is left to read of the file; a read fills the front of the buffer and leaves the
  rest as it was, and the whole buffer is sent, whatever the read returned. (The source's buffer is never empty; an empty one ends the
  loop here.)
\<close>

record 'w image_lib =
  im_ctx :: "'w \<Rightarrow> go_error option"
  im_Open :: "string \<Rightarrow> ('w, bytes) io"
  im_Stat :: "go_error option"
  im_Read :: "bytes \<Rightarrow> go_error option"
  im_Close :: "go_error option"
  im_BufferSize :: nat

function upload_loop ::
  "('w \<Rightarrow> go_error option) \<Rightarrow> (bytes \<Rightarrow> go_error option) \<Rightarrow> (bytes \<Rightarrow> ('w, nat) io) \<Rightarrow> ('w, unit) io \<Rightarrow> bytes \<Rightarrow> bytes \<Rightarrow> nat
   \<Rightarrow> ('w, nat) io" where
  "upload_loop ctx readErr send abort rest buffer transferredBytes =
     bindE (gets ctx) (\<lambda>d. case d of
       Some e \<Rightarrow> bindR abort (\<lambda>_. throw e)
     | None \<Rightarrow> (case readErr rest of
         Some e \<Rightarrow> throw e
       | None \<Rightarrow> if rest = [] \<or> buffer = [] then ret transferredBytes
           else let n = min (length buffer) (length rest); buffer' = take n rest @ drop n buffer
                in bindE (send buffer') (\<lambda>num. upload_loop ctx readErr send abort (drop n rest) buffer' (transferredBytes + num))))"
  by pat_completeness auto

termination
  by (relation "measure (\<lambda>(ctx, readErr, send, abort, rest, buffer, t). length rest)") (auto simp: min_def)

declare upload_loop.simps [simp del]

definition uploadBaseImage :: "'w libvirt_conn \<Rightarrow> 'w image_lib \<Rightarrow> string \<Rightarrow> nat \<Rightarrow> ('w, unit) io" where
  "uploadBaseImage c im imagePath baseVolume =
     bindE (lv_NewStream c) (\<lambda>stream.
     deferred
       (bindE (rephrase (''error while opening '' @ imagePath @ '': '') (im_Open im imagePath)) (\<lambda>content.
        bindR (case im_Stat im of
            Some e \<Rightarrow> throw e
          | None \<Rightarrow>
              bindE (vol_Upload c baseVolume stream 0 (length content * 2)) (\<lambda>_.
              bindE (upload_loop (im_ctx im) (im_Read im) (str_Send c stream) (str_Abort c stream) content
                  (replicate (im_BufferSize im) (CHR 0x00)) 0) (\<lambda>transferredBytes.
              bindE (str_Finish c stream) (\<lambda>_.
              if transferredBytes < length content
              then throw (ErrorString (''only send '' @ nat_dec transferredBytes @ '' out of '' @ nat_dec (length content) @ '' bytes''))
              else ret ())))) (\<lambda>r.
        case errors_Join [error_of r, im_Close im] of Some e \<Rightarrow> throw e | None \<Rightarrow> ret ())))
       (str_Free c stream))"

definition createBaseImage :: "'w libvirt_conn \<Rightarrow> 'w image_lib \<Rightarrow> ('w qsys, unit) io" where
  "createBaseImage c im =
     bindE (marshal c (vx_Name VolumeBaseXMLConfig)) (\<lambda>_.
     bindE (lv (lv_LookupStoragePool c LibvirtStoragePoolPath)) (\<lambda>storagePool.
     bindE (rephrase ''error creating libvirt storage volume 'base': '' (lv (pool_VolCreateXML c storagePool VolumeBaseXMLConfig)))
       (\<lambda>volumeBaseObject.
     deferred
       (bindE (on_instance (\<lambda>l. l\<lparr>li_RegisteredDisks := li_RegisteredDisks l @ [vx_Name VolumeBaseXMLConfig]\<rparr>)) (\<lambda>_.
        bindE (gets (\<lambda>s. li_ImagePath (q_inst s))) (\<lambda>imagePath.
        lv (uploadBaseImage c im imagePath volumeBaseObject))))
       (lv (vol_Free c volumeBaseObject)))))"

text \<open>
  \<^verbatim>\<open>createBootImage\<close> first writes the shared path, then reads the whole configuration when it is marshalled.
\<close>

definition set_boot_path :: "string \<Rightarrow> ('w qsys, unit) io" where
  "set_boot_path id' = modify (\<lambda>s. s\<lparr>q_bootPath := Join2 LibvirtStoragePoolPath id'\<rparr>)"

definition boot_xml :: "string \<Rightarrow> 'w qsys \<Rightarrow> volume_xml" where
  "boot_xml id' s = VolumeBootXMLConfig\<lparr>vx_Name := id', vx_TargetPath := q_bootPath s\<rparr>"

definition createBootImage :: "'w libvirt_conn \<Rightarrow> string \<Rightarrow> ('w qsys, unit) io" where
  "createBootImage c id' =
     bindE (set_boot_path id') (\<lambda>_.
     bindE (gets (boot_xml id')) (\<lambda>volumeBootXML.
     bindE (marshal c id') (\<lambda>_.
     bindE (lv (lv_LookupStoragePool c LibvirtStoragePoolPath)) (\<lambda>storagePool.
     deferred
       (bindE (rephrase ''error creating libvirt storage volume 'boot': '' (lv (pool_VolCreateXML c storagePool volumeBootXML)))
         (\<lambda>bootVol.
        deferred (on_instance (\<lambda>l. l\<lparr>li_RegisteredDisks := li_RegisteredDisks l @ [vx_Name volumeBootXML]\<rparr>)) (lv (vol_Free c bootVol))))
       (lv (pool_Free c storagePool))))))"

definition createNetwork :: "'w libvirt_conn \<Rightarrow> ('w qsys, unit) io" where
  "createNetwork c =
     bindE (marshal c (nx_Name NetworkXMLConfig)) (\<lambda>_.
     bindE (lv (lv_NetworkCreateXML c NetworkXMLConfig)) (\<lambda>network.
     deferred (ret ()) (lv (net_Free c network))))"

text \<open>The domain of an instance: a deep copy with its name and the volume of its first disk set.\<close>

definition instance_domain :: "string \<Rightarrow> domain_xml" where
  "instance_domain id' = DomainXMLConfig\<lparr>dx_Name := id',
     dx_Disks := (case dx_Disks DomainXMLConfig of [] \<Rightarrow> [] | d # ds \<Rightarrow> d\<lparr>dk_SourceVolume := id'\<rparr> # ds)\<rparr>"

definition createDomain :: "'w libvirt_conn \<Rightarrow> string \<Rightarrow> ('w qsys, unit) io" where
  "createDomain c id' =
     bindE (case deepcopy_Anything c of Some e \<Rightarrow> throw e | None \<Rightarrow> ret (instance_domain id')) (\<lambda>domainCpy.
     bindE (marshal c id') (\<lambda>_.
     bindE (rephrase ''error creating libvirt domain: '' (lv (lv_DomainCreateXML c domainCpy))) (\<lambda>domain.
     deferred (ret ()) (lv (dom_Free c domain)))))"

definition node_name :: "bool \<Rightarrow> string \<Rightarrow> string" where
  "node_name controlPlane number = (if controlPlane then DomainPrefixMaster else DomainPrefixWorker) @ number"

definition createInstance :: "'w libvirt_conn \<Rightarrow> string \<Rightarrow> bool \<Rightarrow> ('w qsys, unit) io" where
  "createInstance c number controlPlane =
     bindE (createBootImage c (node_name controlPlane number)) (\<lambda>_. createDomain c (node_name controlPlane number))"

section \<open>Waiting\<close>

text \<open>The last IPv4 address of an interface other than the loopback.\<close>

definition find_ip :: "dom_interface list \<Rightarrow> string" where
  "find_ip iface = fold (\<lambda>netInterface ip. if di_Name netInterface = ''lo'' then ip
     else fold (\<lambda>(t, a) ip. if t = IPv4 then a else ip) (di_Addrs netInterface) ip) iface []"

text \<open>What the waiting code is given beside libvirt: the context and the agents of the machines.\<close>

record 'w wait_lib =
  wl_ctx :: "'w \<Rightarrow> go_error option"
  wl_agent :: "'w agent_client"

fun poll_network :: "'w libvirt_conn \<Rightarrow> 'w wait_lib \<Rightarrow> nat \<Rightarrow> nat \<Rightarrow> ('w, string) io" where
  "poll_network c wl 0 domain = (\<lambda>w. Block)"
| "poll_network c wl (Suc n) domain =
     bindE (gets (wl_ctx wl)) (\<lambda>d. case d of
       Some e \<Rightarrow> throw e
     | None \<Rightarrow> bindE (dom_Addresses c domain) (\<lambda>iface.
         if length (find_ip iface) > 0 then ret (find_ip iface) else poll_network c wl n domain))"

definition blockUntilNetworkIsReady :: "'w libvirt_conn \<Rightarrow> 'w wait_lib \<Rightarrow> nat \<Rightarrow> string \<Rightarrow> ('w, string) io" where
  "blockUntilNetworkIsReady c wl fuel id' =
     bindE (lv_LookupDomainByName c id') (\<lambda>domain. deferred (poll_network c wl fuel domain) (dom_Free c domain))"

fun poll_agent :: "'w wait_lib \<Rightarrow> nat \<Rightarrow> nat \<Rightarrow> string \<Rightarrow> ('w, unit) io" where
  "poll_agent wl 0 conn id' = (\<lambda>w. Block)"
| "poll_agent wl (Suc n) conn id' =
     bindE (gets (wl_ctx wl)) (\<lambda>d. case d of
       Some e \<Rightarrow> throw e
     | None \<Rightarrow> bindR (ac_ExecCommand (wl_agent wl) conn \<lparr>ecr_Command = ''hostnamectl'', ecr_Args = [''set-hostname'', id'], ecr_Tty = False\<rparr>)
         (\<lambda>r. case r of Inr _ \<Rightarrow> ret () | Inl _ \<Rightarrow> poll_agent wl n conn id'))"

definition blockUntilDelegatioAgentIsReady :: "'w libvirt_conn \<Rightarrow> 'w wait_lib \<Rightarrow> nat \<Rightarrow> string \<Rightarrow> ('w, unit) io" where
  "blockUntilDelegatioAgentIsReady c wl fuel id' =
     bindE (lv_LookupDomainByName c id') (\<lambda>domain.
     deferred
       (bindE (dom_Addresses c domain) (\<lambda>iface.
        if length (find_ip iface) = 0 then throw (ErrorString (''could not get ip addr of VM '' @ DomainPrefixMaster @ ''0''))
        else with_conn (wl_agent wl) (JoinHostPort (find_ip iface) PublicAPIport) (\<lambda>conn. poll_agent wl fuel conn id')))
       (dom_Free c domain))"

definition blockUntilInstanceReady :: "'w libvirt_conn \<Rightarrow> 'w wait_lib \<Rightarrow> nat \<Rightarrow> string \<Rightarrow> bool \<Rightarrow> ('w, unit) io" where
  "blockUntilInstanceReady c wl fuel number controlPlane =
     bindE (blockUntilNetworkIsReady c wl fuel (node_name controlPlane number)) (\<lambda>_.
     blockUntilDelegatioAgentIsReady c wl fuel (node_name controlPlane number))"

definition getControlPlaneIP :: "'w libvirt_conn \<Rightarrow> ('w, string) io" where
  "getControlPlaneIP c =
     bindE (lv_LookupDomainByName c (DomainPrefixMaster @ ''0'')) (\<lambda>domain.
     deferred
       (bindE (dom_Addresses c domain) (\<lambda>iface.
        if length (find_ip iface) = 0 then throw (ErrorString ''could not find ip addr of domain'') else ret (find_ip iface)))
       (dom_Free c domain))"

definition getWorkerInstanceIPs :: "'w libvirt_conn \<Rightarrow> 'w wait_lib \<Rightarrow> nat \<Rightarrow> int \<Rightarrow> ('w, string gomap) io" where
  "getWorkerInstanceIPs c wl fuel workerNodeNum =
     foldE (\<lambda>i nameToIP.
       let node = DomainPrefixWorker @ Itoa (int i)
       in bindE (blockUntilNetworkIsReady c wl fuel node) (\<lambda>ip. ret (AList.update node ip nameToIP))) [0..<nat workerNodeNum] []"

definition getNodeInformation :: "'w libvirt_conn \<Rightarrow> 'w wait_lib \<Rightarrow> nat \<Rightarrow> int \<Rightarrow> ('w, NodeInformation) io" where
  "getNodeInformation c wl fuel workerNodeNum =
     bindE (getControlPlaneIP c) (\<lambda>controlPlaneIP.
     bindE (getWorkerInstanceIPs c wl fuel workerNodeNum) (\<lambda>workerInstance.
     ret \<lparr>Masters = [(''delegatio-0'', controlPlaneIP)], Workers = workerInstance\<rparr>))"

section \<open>The whole infrastructure\<close>

text \<open>The goroutines of a group, in the order in which the loops start them; \<open>sched\<close> is the order in which they run.\<close>

definition instance_ids :: "LibvirtInstance \<Rightarrow> (string \<times> bool) list" where
  "instance_ids l = [(Itoa (int i), False). i \<leftarrow> [0..<nat (li_workerNodeNum l)]] @ [(Itoa (int i), True). i \<leftarrow> [0..<nat (li_masterNodeNum l)]]"

type_synonym schedule = "(string \<times> bool) list \<Rightarrow> (string \<times> bool) list"

definition waitUntilAllNodesAreReady :: "'w libvirt_conn \<Rightarrow> 'w wait_lib \<Rightarrow> nat \<Rightarrow> schedule \<Rightarrow> ('w qsys, NodeInformation) io" where
  "waitUntilAllNodesAreReady c wl fuel sched =
     bindE (gets q_inst) (\<lambda>l.
     bindE (groupE None [lv (blockUntilInstanceReady c wl fuel number m). (number, m) \<leftarrow> sched (instance_ids l)]) (\<lambda>_.
     lv (getNodeInformation c wl fuel (li_workerNodeNum l))))"

definition InitializeInfrastructure ::
  "'w libvirt_conn \<Rightarrow> 'w image_lib \<Rightarrow> 'w wait_lib \<Rightarrow> nat \<Rightarrow> schedule \<Rightarrow> ('w qsys, NodeInformation) io" where
  "InitializeInfrastructure c im wl fuel sched =
     bindE (TerminateInfrastructure c) (\<lambda>_.
     bindE (createStoragePool c) (\<lambda>_.
     bindE (createBaseImage c im) (\<lambda>_.
     bindE (createNetwork c) (\<lambda>_.
     bindE (gets q_inst) (\<lambda>l.
     bindE (groupE None [createInstance c number m. (number, m) \<leftarrow> sched (instance_ids l)]) (\<lambda>_.
     waitUntilAllNodesAreReady c wl fuel sched))))))"

end
