(* ===== verification/Qemu_Correct.thy ===== *)
theory Qemu_Correct
  imports Qemu
begin

text \<open>
  Properties of the virtual machine infrastructure: deleting removes exactly the program's own objects; the uploaded
  image; the nodes that are handed to the bootstrapper; how the objects fit together.
\<close>

section \<open>Deleting\<close>

text \<open>The objects libvirt lists: active networks, active domains and directory pools, with their names.\<close>

datatype lv_kind = LvNet | LvDom | LvPool

type_synonym 'w lv_view = "'w \<Rightarrow> lv_kind \<Rightarrow> nat \<rightharpoonup> string"

definition view_same :: "'w lv_view \<Rightarrow> ('w, 'a) io \<Rightarrow> bool" where
  "view_same view m \<longleftrightarrow> (\<forall>w r w'. m w = Ret (r, w') \<longrightarrow> view w' = view w)"

definition lists :: "'w lv_view \<Rightarrow> lv_kind \<Rightarrow> ('w, nat list) io \<Rightarrow> bool" where
  "lists view k m \<longleftrightarrow> view_same view m \<and> (\<forall>w hs w'. m w = Ret (Inr hs, w') \<longrightarrow> set hs = dom (view w k))"

definition names :: "'w lv_view \<Rightarrow> lv_kind \<Rightarrow> (nat \<Rightarrow> ('w, string) io) \<Rightarrow> bool" where
  "names view k f \<longleftrightarrow> (\<forall>h. view_same view (f h) \<and> (\<forall>w n w'. f h w = Ret (Inr n, w') \<longrightarrow> view w k h = Some n))"

definition removes :: "'w lv_view \<Rightarrow> lv_kind \<Rightarrow> (nat \<Rightarrow> ('w, unit) io) \<Rightarrow> bool" where
  "removes view k f \<longleftrightarrow> (\<forall>h w r w'. f h w = Ret (r, w') \<longrightarrow>
     view w' = (if r = Inr () then (view w)(k := (view w k)(h := None)) else view w))"

definition lv_laws :: "'w libvirt_conn \<Rightarrow> 'w lv_view \<Rightarrow> bool" where
  "lv_laws c view \<longleftrightarrow>
     lists view LvNet (lv_ListAllNetworks c) \<and> names view LvNet (net_GetName c) \<and> removes view LvNet (net_Destroy c)
   \<and> lists view LvDom (lv_ListAllDomains c) \<and> names view LvDom (dom_GetName c) \<and> removes view LvDom (dom_Destroy c)
   \<and> lists view LvPool (lv_ListAllStoragePools c) \<and> names view LvPool (pool_GetName c) \<and> removes view LvPool (pool_Undefine c)
   \<and> (\<forall>h. view_same view (net_Free c h) \<and> view_same view (dom_Free c h) \<and> view_same view (pool_Free c h)
        \<and> view_same view (vol_Free c h) \<and> view_same view (vol_Delete c h) \<and> view_same view (pool_ListVolumes c h)
        \<and> view_same view (pool_IsActive c h) \<and> view_same view (pool_Destroy c h) \<and> view_same view (pool_Delete c h))"

lemma view_same_keeps: "view_same view m \<longleftrightarrow> (\<forall>v. keeps (\<lambda>w. view w = v) m)"
  by (auto simp: view_same_def keeps_def)

lemma view_same_rules [io_keeps]:
  "view_same view (ret x)" "view_same view (throw e)"
  "view_same view m \<Longrightarrow> (\<And>x. view_same view (f x)) \<Longrightarrow> view_same view (bindE m f)"
  "view_same view m \<Longrightarrow> (\<And>r. view_same view (g r)) \<Longrightarrow> view_same view (bindR m g)"
  "view_same view m \<Longrightarrow> view_same view d \<Longrightarrow> view_same view (deferred m d)"
  "(\<And>x. view_same view (h x)) \<Longrightarrow> view_same view (forE xs h)"
  "view_same view m \<Longrightarrow> view_same view (ignoring m)"
  by (auto simp: view_same_keeps intro: io_keeps)

text \<open>A loop that destroys the objects whose name is the program's own, and the result of one round and of all.\<close>

definition sweep_one :: "(nat \<Rightarrow> ('w, string) io) \<Rightarrow> (string \<Rightarrow> bool) \<Rightarrow> (nat \<Rightarrow> ('w, unit) io) \<Rightarrow> nat \<Rightarrow> ('w, unit) io" where
  "sweep_one getName own destroy h = bindE (getName h) (\<lambda>n. if \<not> own n then ret () else destroy h)"

definition thinned :: "lv_kind \<Rightarrow> (string \<Rightarrow> bool) \<Rightarrow> (lv_kind \<Rightarrow> nat \<rightharpoonup> string) \<Rightarrow> (lv_kind \<Rightarrow> nat \<rightharpoonup> string) \<Rightarrow> bool" where
  "thinned k own v v' \<longleftrightarrow> (\<forall>k' h. v' k' h = v k' h \<or> v' k' h = None \<and> k' = k \<and> (\<exists>n. v k h = Some n \<and> own n))"

lemma thinned_trans: "thinned k own v v1 \<Longrightarrow> thinned k own v1 v2 \<Longrightarrow> thinned k own v v2"
  unfolding thinned_def by (metis option.distinct(1))

lemma thinned_some: "thinned k own v v' \<Longrightarrow> v' k' h = Some n \<Longrightarrow> v k' h = Some n"
  unfolding thinned_def by (metis option.distinct(1))

lemma sweep_one_run:
  assumes "names view k getName" "removes view k destroy" "sweep_one getName own destroy h w = Ret (r, w')"
  shows "thinned k own (view w) (view w') \<and> (r = Inr () \<longrightarrow> (\<forall>n. view w' k h = Some n \<longrightarrow> \<not> own n))"
  using assms(3) unfolding sweep_one_def
proof (rule bindE_RetE)
  fix e
  assume "getName h w = Ret (Inl e, w')" "r = Inl e"
  with assms(1) show ?thesis unfolding names_def view_same_def thinned_def by fastforce
next
  fix n v
  assume a: "getName h w = Ret (Inr n, v)" "(if \<not> own n then ret () else destroy h) v = Ret (r, w')"
  with assms(1) have v: "view v = view w" "view w k h = Some n" unfolding names_def view_same_def by blast+
  show ?thesis
  proof (cases "own n")
    case True
    with a(2) assms(2) have "view w' = (if r = Inr () then (view v)(k := (view v k)(h := None)) else view v)"
      unfolding removes_def by simp
    with v True show ?thesis by (auto simp: thinned_def)
  qed (use a(2) v in \<open>simp add: ret_def thinned_def\<close>)
qed

lemma sweep:
  assumes "names view k getName" "removes view k destroy" "forE hs (sweep_one getName own destroy) w = Ret (r, w')"
  shows "thinned k own (view w) (view w') \<and> (r = Inr () \<longrightarrow> (\<forall>h \<in> set hs. \<forall>n. view w' k h = Some n \<longrightarrow> \<not> own n))"
  using assms(3)
proof (induction hs arbitrary: w)
  case (Cons h hs)
  from Cons.prems have "bindE (sweep_one getName own destroy h) (\<lambda>_. forE hs (sweep_one getName own destroy)) w = Ret (r, w')" by simp
  then show ?case
  proof (rule bindE_RetE)
    fix e
    assume "sweep_one getName own destroy h w = Ret (Inl e, w')" "r = Inl e"
    with sweep_one_run [OF assms(1,2) this(1)] show ?thesis by auto
  next
    fix x v
    assume "sweep_one getName own destroy h w = Ret (Inr x, v)" "forE hs (sweep_one getName own destroy) v = Ret (r, w')"
    with sweep_one_run [OF assms(1,2) this(1)] Cons.IH [OF this(2)] show ?thesis by (auto dest: thinned_some intro: thinned_trans)
  qed
qed (simp add: ret_def thinned_def)

text \<open>The objects that belong to the program.\<close>

fun own_object :: "lv_kind \<Rightarrow> string \<Rightarrow> bool" where
  "own_object LvNet n = (n = NetworkName)"
| "own_object LvDom n = (HasPrefix n DomainPrefixMaster \<or> HasPrefix n DomainPrefixWorker)"
| "own_object LvPool n = (n = DiskPoolName)"

text \<open>A deletion: only own objects of one kind disappear, and all of them unless there is an error.\<close>

definition swept :: "lv_kind \<Rightarrow> (lv_kind \<Rightarrow> nat \<rightharpoonup> string) \<Rightarrow> go_error + unit \<Rightarrow> (lv_kind \<Rightarrow> nat \<rightharpoonup> string) \<Rightarrow> bool" where
  "swept k v r v' \<longleftrightarrow> (\<forall>k' h. v' k' h = v k' h \<or> v' k' h = None \<and> k' = k \<and> (\<exists>n. v k h = Some n \<and> own_object k n))
     \<and> (r = Inr () \<longrightarrow> (\<forall>h n. v' k h = Some n \<longrightarrow> \<not> own_object k n))"

lemma swept_some: "swept k v r v' \<Longrightarrow> v' k' h = Some n \<Longrightarrow> v k' h = Some n"
  unfolding swept_def by (metis option.distinct(1))

lemma swept_gone: "swept k v (Inr ()) v' \<Longrightarrow> v' k h = Some n \<Longrightarrow> \<not> own_object k n"
  unfolding swept_def by blast

lemma swept_cases: "swept k v r v' \<Longrightarrow> v' k' h = v k' h \<or> v' k' h = None \<and> (\<exists>n. v k' h = Some n \<and> own_object k' n)"
  unfolding swept_def by blast

lemma delete_swept:
  assumes "lists view k list" "names view k getName" "removes view k destroy" "\<And>hs. view_same view (free hs)"
    and "bindE list (\<lambda>hs. deferred (forE hs (\<lambda>h. bindE (getName h) (\<lambda>n. if \<not> own_object k n then ret () else destroy h))) (free hs)) w
      = Ret (r, w')"
  shows "swept k (view w) r (view w')"
  using assms(5)
proof (rule bindE_RetE)
  fix e
  assume "list w = Ret (Inl e, w')" "r = Inl e"
  with assms(1) have "view w' = view w" "r \<noteq> Inr ()" unfolding lists_def view_same_def by auto
  then show ?thesis by (simp add: swept_def)
next
  fix hs v
  let ?loop = "forE hs (\<lambda>h. bindE (getName h) (\<lambda>n. if \<not> own_object k n then ret () else destroy h))"
  assume l: "list w = Ret (Inr hs, v)" and "deferred ?loop (free hs) v = Ret (r, w')"
  then obtain u q where u: "?loop v = Ret (r, u)" "free hs u = Ret (q, w')" by (auto simp: deferred_Ret_iff)
  have v: "view v = view w" "set hs = dom (view w k)" using assms(1) l unfolding lists_def view_same_def by blast+
  have w': "view w' = view u" using assms(4) u(2) unfolding view_same_def by blast
  note S = sweep [where own = "own_object k", OF assms(2,3), unfolded sweep_one_def thinned_def, OF u(1)]
  have "\<not> own_object k n" if "r = Inr ()" "view u k h = Some n" for h n
  proof -
    have "h \<in> set hs" using conjunct1 [OF S] that(2) v by (metis domI option.distinct(1))
    with conjunct2 [OF S] that show ?thesis by blast
  qed
  with conjunct1 [OF S] v(1) w' show ?thesis unfolding swept_def by metis
qed

lemma free_all_same: "(\<And>h. view_same view (f h)) \<Longrightarrow> view_same view (free_all f hs)"
  by (simp add: free_all_def view_same_rules)

lemma deleteNetwork_swept: "lv_laws c view \<Longrightarrow> deleteNetwork c w = Ret (r, w') \<Longrightarrow> swept LvNet (view w) r (view w')"
  unfolding deleteNetwork_def
  by (rule delete_swept [where k = LvNet and list = "lv_ListAllNetworks c" and getName = "net_GetName c"])
    (auto simp: lv_laws_def intro: free_all_same)

lemma deleteDomains_swept: "lv_laws c view \<Longrightarrow> deleteDomains c w = Ret (r, w') \<Longrightarrow> swept LvDom (view w) r (view w')"
  unfolding deleteDomains_def
  by (rule delete_swept [where k = LvDom and list = "lv_ListAllDomains c" and getName = "dom_GetName c"])
    (auto simp: lv_laws_def intro: free_all_same)

definition remove_pool :: "'w libvirt_conn \<Rightarrow> nat \<Rightarrow> ('w, unit) io" where
  "remove_pool c pool = bindE (pool_IsActive c pool) (\<lambda>active.
     bindE (if active then bindE (deleteVolumesFromPool c pool) (\<lambda>_. bindE (pool_Destroy c pool) (\<lambda>_. pool_Delete c pool)) else ret ())
       (\<lambda>_. pool_Undefine c pool))"

lemma removes_after:
  assumes "\<And>h. view_same view (m h)" "removes view k f"
  shows "removes view k (\<lambda>h. bindE (m h) (\<lambda>_. f h))"
  unfolding removes_def
proof (intro allI impI)
  fix h w r w'
  assume "bindE (m h) (\<lambda>_. f h) w = Ret (r, w')"
  then show "view w' = (if r = Inr () then (view w)(k := (view w k)(h := None)) else view w)"
  proof (rule bindE_RetE)
    fix e
    assume "m h w = Ret (Inl e, w')" "r = Inl e"
    with assms(1) [of h] show ?thesis unfolding view_same_def by simp
  next
    fix x v
    assume "m h w = Ret (Inr x, v)" "f h v = Ret (r, w')"
    with assms(1) [of h] assms(2) show ?thesis unfolding view_same_def removes_def by metis
  qed
qed

lemma remove_pool_removes:
  assumes "lv_laws c view"
  shows "removes view LvPool (remove_pool c)"
proof -
  have same: "view_same view (pool_IsActive c h)" "view_same view (pool_Destroy c h)" "view_same view (pool_Delete c h)"
    "view_same view (vol_Free c h)" "view_same view (vol_Delete c h)" "view_same view (pool_ListVolumes c h)" for h
    using assms by (simp_all add: lv_laws_def)
  have vols: "view_same view (deleteVolumesFromPool c h)" for h
    unfolding deleteVolumesFromPool_def
    by (intro view_same_rules same free_all_same) (auto intro: view_same_rules split: sum.split)
  have eq: "remove_pool c = (\<lambda>h. bindE (bindE (pool_IsActive c h) (\<lambda>active. if active
      then bindE (deleteVolumesFromPool c h) (\<lambda>_. bindE (pool_Destroy c h) (\<lambda>_. pool_Delete c h)) else ret ())) (\<lambda>_. pool_Undefine c h))"
    by (rule ext) (simp add: remove_pool_def bindE_assoc)
  have "view_same view (bindE (pool_IsActive c h) (\<lambda>active. if active
      then bindE (deleteVolumesFromPool c h) (\<lambda>_. bindE (pool_Destroy c h) (\<lambda>_. pool_Delete c h)) else ret ()))" for h
    by (rule view_same_rules(3) [OF same(1)]) (auto intro: view_same_rules vols same)
  moreover have "removes view LvPool (pool_Undefine c)" using assms by (simp add: lv_laws_def)
  ultimately show ?thesis unfolding eq by (rule removes_after)
qed

lemma deletePool_swept: "lv_laws c view \<Longrightarrow> deletePool c w = Ret (r, w') \<Longrightarrow> swept LvPool (view w) r (view w')"
  unfolding deletePool_def remove_pool_def [symmetric]
  by (rule delete_swept [where k = LvPool and list = "lv_ListAllStoragePools c" and getName = "pool_GetName c"])
    (auto simp: lv_laws_def remove_pool_removes intro: free_all_same)

lemma lv_Ret:
  "lv m s = Ret (r, s') \<Longrightarrow> \<exists>w. m (q_world s) = Ret (r, w) \<and> s' = s\<lparr>q_world := w\<rparr>"
  by (auto simp: lv_def split: if_splits outcome.splits)

text \<open>The three sweeps together.\<close>

lemma terminate_sweeps:
  assumes "lv_laws c view" "TerminateInfrastructure c s = Ret (r, s')"
  shows "(\<forall>k h. view (q_world s') k h = view (q_world s) k h
        \<or> view (q_world s') k h = None \<and> (\<exists>n. view (q_world s) k h = Some n \<and> own_object k n))
    \<and> (r = Inr () \<longrightarrow> (\<forall>k h n. view (q_world s') k h = Some n \<longrightarrow> \<not> own_object k n))"
proof -
  from assms(2) obtain r1 s1 r2 s2 r3 where run: "lv (deleteNetwork c) s = Ret (r1, s1)" "lv (deleteDomains c) s1 = Ret (r2, s2)"
    "lv (deletePool c) s2 = Ret (r3, s')"
    "r = (case errors_Join [error_of r1, error_of r2, error_of r3] of None \<Rightarrow> Inr () | Some e \<Rightarrow> Inl e)"
    by (auto simp: TerminateInfrastructure_def bindR_Ret_iff ret_def throw_def split: option.split_asm)
  have S1: "swept LvNet (view (q_world s)) r1 (view (q_world s1))" using lv_Ret [OF run(1)] deleteNetwork_swept [OF assms(1)] by auto
  have S2: "swept LvDom (view (q_world s1)) r2 (view (q_world s2))" using lv_Ret [OF run(2)] deleteDomains_swept [OF assms(1)] by auto
  have S3: "swept LvPool (view (q_world s2)) r3 (view (q_world s'))" using lv_Ret [OF run(3)] deletePool_swept [OF assms(1)] by auto
  have only: "view (q_world s') k h = view (q_world s) k h
      \<or> view (q_world s') k h = None \<and> (\<exists>n. view (q_world s) k h = Some n \<and> own_object k n)" for k h
    using swept_cases [OF S1, of k h] swept_cases [OF S2, of k h] swept_cases [OF S3, of k h] by (elim disjE conjE exE) (metis option.distinct(1))+
  have gone: "\<not> own_object k n" if "r = Inr ()" "view (q_world s') k h = Some n" for k h n
  proof -
    from that(1) run(4) have "r1 = Inr ()" "r2 = Inr ()" "r3 = Inr ()"
      using errors_Join_None [of "[error_of r1, error_of r2, error_of r3]"]
      by (auto simp: error_of_def split: option.split_asm sum.split_asm)
    with S1 S2 S3 that(2) swept_some [OF S2] swept_some [OF S3] show ?thesis by (cases k) (blast dest: swept_gone)+
  qed
  from only gone show ?thesis by blast
qed


text \<open>A host in memory.\<close>

type_synonym mem_host = "((lv_kind \<times> nat) \<times> string) list"

definition host_list :: "lv_kind \<Rightarrow> (mem_host, nat list) io" where
  "host_list k = gets (\<lambda>w. map (snd \<circ> fst) (filter (\<lambda>x. fst (fst x) = k) w))"

definition host_name :: "lv_kind \<Rightarrow> nat \<Rightarrow> (mem_host, string) io" where
  "host_name k h = bindE (gets (\<lambda>w. map_of w (k, h))) (\<lambda>x. case x of None \<Rightarrow> throw (ExtError ''gone'') | Some n \<Rightarrow> ret n)"

definition host_remove :: "lv_kind \<Rightarrow> nat \<Rightarrow> (mem_host, unit) io" where
  "host_remove k h = modify (AList.delete (k, h))"

definition mem_libvirt :: "mem_host libvirt_conn" where
  "mem_libvirt = \<lparr>lv_ListAllNetworks = host_list LvNet, net_GetName = host_name LvNet, net_Destroy = host_remove LvNet, net_Free = (\<lambda>_. ret ()),
     lv_ListAllDomains = host_list LvDom, dom_GetName = host_name LvDom, dom_Destroy = host_remove LvDom, dom_Free = (\<lambda>_. ret ()),
     dom_Addresses = (\<lambda>_. ret [\<lparr>di_Name = ''net0'', di_Addrs = [(IPv4, ''10.42.0.2'')]\<rparr>]),
     lv_ListAllStoragePools = host_list LvPool, pool_GetName = host_name LvPool, pool_IsActive = (\<lambda>_. ret True), pool_Destroy = (\<lambda>_. ret ()),
     pool_Delete = (\<lambda>_. ret ()), pool_Undefine = host_remove LvPool, pool_Free = (\<lambda>_. ret ()), pool_Build = (\<lambda>_. ret ()),
     pool_Create = (\<lambda>_. ret ()), pool_ListVolumes = (\<lambda>_. ret []), pool_VolCreateXML = (\<lambda>_ _. ret 0), vol_Delete = (\<lambda>_. ret ()),
     vol_Free = (\<lambda>_. ret ()), vol_Upload = (\<lambda>_ _ _ _. ret ()), lv_LookupDomainByName = (\<lambda>_. ret 0), lv_LookupStoragePool = (\<lambda>_. ret 0),
     lv_StoragePoolDefineXML = (\<lambda>x. bindE (modify (AList.update (LvPool, 1) (px_Name x))) (\<lambda>_. ret 1)),
     lv_NetworkCreateXML = (\<lambda>x. bindE (modify (AList.update (LvNet, 1) (nx_Name x))) (\<lambda>_. ret 1)),
     lv_DomainCreateXML = (\<lambda>x. bindE (gets length) (\<lambda>n. bindE (modify (AList.update (LvDom, n) (dx_Name x))) (\<lambda>_. ret n))),
     lv_NewStream = ret 0, str_Send = (\<lambda>_ b. ret (length b)), str_Abort = (\<lambda>_. ret ()), str_Finish = (\<lambda>_. ret ()), str_Free = (\<lambda>_. ret ()),
     lv_Close = ret (), xml_Marshal = (\<lambda>_. None), deepcopy_Anything = None\<rparr>"

definition host_view :: "mem_host lv_view" where
  "host_view w k h = map_of w (k, h)"

lemma mem_libvirt_ops:
  "lists host_view k (host_list k)" "names host_view k (host_name k)" "removes host_view k (host_remove k)"
  unfolding lists_def names_def removes_def view_same_def
  by (auto simp: host_list_def host_name_def host_remove_def host_view_def io_defs bindE_def bindR_def dom_def fun_eq_iff
      image_def map_of_eq_None_iff split: option.splits dest: map_of_SomeD)
    (metis fst_conv map_of_eq_None_iff not_None_eq prod.collapse snd_conv weak_map_of_SomeI)+

lemma mem_libvirt_laws: "lv_laws mem_libvirt host_view"
  by (simp add: lv_laws_def mem_libvirt_def mem_libvirt_ops view_same_rules)

definition connected_host :: "mem_host \<Rightarrow> mem_host qsys" where
  "connected_host w = \<lparr>q_world = w, q_inst = (NewQemu ''image'')\<lparr>li_Conn := True\<rparr>, q_bootPath = []\<rparr>"


section \<open>The base image\<close>

text \<open>A stream that takes everything it is sent.\<close>

definition take_all :: "bytes \<Rightarrow> (bytes, nat) io" where
  "take_all b = bindE (modify (\<lambda>w. w @ b)) (\<lambda>_. ret (length b))"

text \<open>What arrives: the image, then what an older read left in the buffer behind the last piece.\<close>

lemma upload_step:
  assumes "img \<noteq> []" "buf \<noteq> []" "n = min (length buf) (length img)"
  shows "upload_loop (\<lambda>_. None) (\<lambda>_. None) take_all abort img buf t w =
    upload_loop (\<lambda>_. None) (\<lambda>_. None) take_all abort (drop n img) (take n img @ drop n buf)
      (t + length buf) (w @ take n img @ drop n buf)"
proof -
  have "length (take n img @ drop n buf) = length buf" using assms(3) by simp
  then show ?thesis
    by (subst upload_loop.simps) (simp add: assms Let_def take_all_def bindE_def bindR_def io_defs)
qed

lemma upload_end: "upload_loop (\<lambda>_. None) (\<lambda>_. None) take_all abort [] buf t w = Ret (Inr t, w)"
  by (subst upload_loop.simps) (simp add: bindE_def bindR_def io_defs)



section \<open>The nodes\<close>

lemma poll_network_ip: "yields (\<lambda>ip. ip \<noteq> []) (poll_network c wl n d)"
proof (induction n)
  case (Suc n)
  then show ?case by (auto intro!: yields_bindE simp: yields_pure split: option.split)
qed (simp add: yields_def)

lemma network_ready_ip: "yields (\<lambda>ip. ip \<noteq> []) (blockUntilNetworkIsReady c wl n node)"
  unfolding blockUntilNetworkIsReady_def
  by (intro yields_bindE yields_deferred poll_network_ip)

definition add_worker :: "'w libvirt_conn \<Rightarrow> 'w wait_lib \<Rightarrow> nat \<Rightarrow> nat \<Rightarrow> string gomap \<Rightarrow> ('w, string gomap) io" where
  "add_worker c wl fuel i m = (let node = DomainPrefixWorker @ Itoa (int i)
     in bindE (blockUntilNetworkIsReady c wl fuel node) (\<lambda>ip. ret (AList.update node ip m)))"

lemma worker_ips:
  assumes "foldE (add_worker c wl fuel) is m w = Ret (Inr m', w')"
  shows "dom (map_of m') = dom (map_of m) \<union> (\<lambda>i. DomainPrefixWorker @ Itoa (int i)) ` set is
    \<and> ((\<forall>ip \<in> ran (map_of m). ip \<noteq> []) \<longrightarrow> (\<forall>ip \<in> ran (map_of m'). ip \<noteq> []))"
  using assms
proof (induction "is" arbitrary: m w)
  case (Cons i "is")
  let ?node = "DomainPrefixWorker @ Itoa (int i)"
  from Cons.prems obtain m1 w1 where m1: "add_worker c wl fuel i m w = Ret (Inr m1, w1)"
    and rest: "foldE (add_worker c wl fuel) is m1 w1 = Ret (Inr m', w')" by (auto simp: bindE_Inr_iff)
  from m1 obtain ip where ip: "blockUntilNetworkIsReady c wl fuel ?node w = Ret (Inr ip, w1)" "m1 = AList.update ?node ip m"
    by (auto simp: add_worker_def Let_def bindE_Inr_iff ret_def)
  have "ip \<noteq> []" using yieldsD [OF network_ready_ip ip(1)] .
  moreover have "ran (map_of m1) \<subseteq> insert ip (ran (map_of m))" by (auto simp: ip(2) ran_def split: if_splits)
  moreover have "dom (map_of m1) = insert ?node (dom (map_of m))" by (simp add: ip(2))
  ultimately show ?case using Cons.IH [OF rest] by (auto simp del: append_assoc)
qed (simp add: ret_def)

lemma getNodeInformation_nodes:
  assumes "getNodeInformation c wl fuel n w = Ret (Inr ni, w')"
  shows "(\<exists>ip. ip \<noteq> [] \<and> Masters ni = [(''delegatio-0'', ip)])"
    "dom (map_of (Workers ni)) = {DomainPrefixWorker @ Itoa i |i. 0 \<le> i \<and> i < n}" "\<forall>ip \<in> ran (map_of (Workers ni)). ip \<noteq> []"
proof -
  from assms obtain ip w1 ws where run: "getControlPlaneIP c w = Ret (Inr ip, w1)"
    "getWorkerInstanceIPs c wl fuel n w1 = Ret (Inr ws, w')" "ni = \<lparr>Masters = [(''delegatio-0'', ip)], Workers = ws\<rparr>"
    by (auto simp: getNodeInformation_def bindE_Inr_iff ret_def)
  have "yields (\<lambda>ip. ip \<noteq> []) (getControlPlaneIP c)"
    unfolding getControlPlaneIP_def by (intro yields_bindE yields_deferred) (simp add: yields_pure)
  from yieldsD [OF this run(1)] run(3) show "\<exists>ip. ip \<noteq> [] \<and> Masters ni = [(''delegatio-0'', ip)]" by simp
  have "foldE (add_worker c wl fuel) [0..<nat n] [] w1 = Ret (Inr ws, w')"
    using run(2) by (simp add: getWorkerInstanceIPs_def add_worker_def [abs_def])
  note W = worker_ips [OF this]
  have "(\<lambda>i. DomainPrefixWorker @ Itoa (int i)) ` set [0..<nat n] = {DomainPrefixWorker @ Itoa i |i. 0 \<le> i \<and> i < n}"
  proof (intro equalityI subsetI)
    fix x
    assume "x \<in> {DomainPrefixWorker @ Itoa i |i. 0 \<le> i \<and> i < n}"
    then obtain i where "x = DomainPrefixWorker @ Itoa i" "0 \<le> i" "i < n" by blast
    then show "x \<in> (\<lambda>i. DomainPrefixWorker @ Itoa (int i)) ` set [0..<nat n]" by (intro image_eqI [of _ _ "nat i"]) auto
  next
    fix x
    assume "x \<in> (\<lambda>i. DomainPrefixWorker @ Itoa (int i)) ` set [0..<nat n]"
    then obtain i where i: "x = DomainPrefixWorker @ Itoa (int i)" "i < nat n" by auto
    then have "x = DomainPrefixWorker @ Itoa (int i) \<and> 0 \<le> int i \<and> int i < n" by auto
    then show "x \<in> {DomainPrefixWorker @ Itoa i |i. 0 \<le> i \<and> i < n}" by blast
  qed
  with W run(3) show "dom (map_of (Workers ni)) = {DomainPrefixWorker @ Itoa i |i. 0 \<le> i \<and> i < n}" by simp
  from W run(3) show "\<forall>ip \<in> ran (map_of (Workers ni)). ip \<noteq> []" by simp
qed

text \<open>The numbers of the instance never change.\<close>

definition counts :: "'w qsys \<Rightarrow> int \<times> int" where
  "counts s = (li_workerNodeNum (q_inst s), li_masterNodeNum (q_inst s))"

lemma counts_keeps [io_keeps]:
  "keeps (\<lambda>s. counts s = n) (lv m)"
  "keeps (\<lambda>s. counts s = n) (on_instance (\<lambda>l. l\<lparr>li_RegisteredPools := f l\<rparr>))"
  "keeps (\<lambda>s. counts s = n) (on_instance (\<lambda>l. l\<lparr>li_RegisteredDisks := f l\<rparr>))"
  "keeps (\<lambda>s. counts s = n) (set_boot_path i)"
  by (auto simp: keeps_def lv_def on_instance_def modify_def counts_def set_boot_path_def split: if_splits outcome.splits)

lemma keeps_rephrase [io_keeps]: "keeps I m \<Longrightarrow> keeps I (rephrase msg m)"
  unfolding rephrase_def by (intro keeps_bindR) (auto simp: keeps_pure split: sum.split)

lemma keeps_marshal [io_keeps]: "keeps I (marshal c n)"
  by (auto simp: marshal_def keeps_pure split: option.split)

lemma keeps_groupE [io_keeps]: "(\<And>m. m \<in> set ms \<Longrightarrow> keeps I m) \<Longrightarrow> keeps I (groupE f ms)"
  by (induction ms arbitrary: f) (auto simp: keeps_pure keeps_bindR split: option.split)

lemma create_keeps_counts:
  "keeps (\<lambda>s. counts s = n) (TerminateInfrastructure c)" "keeps (\<lambda>s. counts s = n) (createStoragePool c)"
  "keeps (\<lambda>s. counts s = n) (createBaseImage c im)" "keeps (\<lambda>s. counts s = n) (createNetwork c)"
  "keeps (\<lambda>s. counts s = n) (createInstance c number m)"
  unfolding TerminateInfrastructure_def createStoragePool_def createBaseImage_def createNetwork_def createInstance_def
    createBootImage_def createDomain_def
  by (intro io_keeps; simp add: keeps_pure split: option.split)+

text \<open>What a successful initialization has done and returned.\<close>

lemma initialized_nodes:
  assumes "InitializeInfrastructure c im wl fuel sched s = Ret (Inr ni, s')" "\<forall>ids. set (sched ids) = set ids"
  shows "(\<exists>ip. ip \<noteq> [] \<and> Masters ni = [(''delegatio-0'', ip)])
    \<and> dom (map_of (Workers ni)) = {node_name False (Itoa i) |i. 0 \<le> i \<and> i < li_workerNodeNum (q_inst s)}
    \<and> (\<forall>ip \<in> ran (map_of (Workers ni)). ip \<noteq> [])
    \<and> (\<forall>(number, m) \<in> set (instance_ids (q_inst s)). \<exists>w1 w2. blockUntilInstanceReady c wl fuel number m w1 = Ret (Inr (), w2))"
proof -
  let ?l = "q_inst s"
  from assms(1) obtain s1 s2 s3 s4 s5 where run: "TerminateInfrastructure c s = Ret (Inr (), s1)" "createStoragePool c s1 = Ret (Inr (), s2)"
    "createBaseImage c im s2 = Ret (Inr (), s3)" "createNetwork c s3 = Ret (Inr (), s4)"
    "groupE None [createInstance c number m. (number, m) \<leftarrow> sched (instance_ids (q_inst s4))] s4 = Ret (Inr (), s5)"
    "waitUntilAllNodesAreReady c wl fuel sched s5 = Ret (Inr ni, s')"
    by (auto simp: InitializeInfrastructure_def bindE_Inr_iff gets_def)
  have "keeps (\<lambda>s. counts s = n) (groupE None [createInstance c number m. (number, m) \<leftarrow> sched (instance_ids (q_inst s4))])" for n
    by (rule keeps_groupE) (auto intro: create_keeps_counts)
  note kept = keepsD [OF create_keeps_counts(1) _ run(1)] keepsD [OF create_keeps_counts(2) _ run(2)]
    keepsD [OF create_keeps_counts(3) _ run(3)] keepsD [OF create_keeps_counts(4) _ run(4)] keepsD [OF this _ run(5)]
  have counts: "counts s5 = counts s" using kept by metis
  then have ids: "instance_ids (q_inst s5) = instance_ids ?l" "li_workerNodeNum (q_inst s5) = li_workerNodeNum ?l"
    by (simp_all add: counts_def instance_ids_def)
  from run(6) obtain s6 w' where rdy: "groupE None [lv (blockUntilInstanceReady c wl fuel number m). (number, m) \<leftarrow> sched (instance_ids ?l)] s5 = Ret (Inr (), s6)"
    and nodes: "lv (getNodeInformation c wl fuel (li_workerNodeNum ?l)) s6 = Ret (Inr ni, s')"
    by (auto simp: waitUntilAllNodesAreReady_def bindE_Inr_iff gets_def ids)
  have "\<exists>w1 w2. blockUntilInstanceReady c wl fuel number m w1 = Ret (Inr (), w2)" if "(number, m) \<in> set (instance_ids ?l)" for number m
  proof -
    have "lv (blockUntilInstanceReady c wl fuel number m) \<in> set [lv (blockUntilInstanceReady c wl fuel number m). (number, m) \<leftarrow> sched (instance_ids ?l)]"
      using that assms(2) by force
    from groupE_Inr [OF rdy this] show ?thesis using lv_Ret by blast
  qed
  moreover obtain u where "getNodeInformation c wl fuel (li_workerNodeNum ?l) (q_world s6) = Ret (Inr ni, u)" using lv_Ret [OF nodes] by blast
  note getNodeInformation_nodes [OF this]
  ultimately show ?thesis by (auto simp: node_name_def)
qed

text \<open>
  C21: Whatever the order in which its goroutines run, an initialization that returns without an error has seen every machine
  ready, with an address and an agent that executed a command, and returns the address of the control plane
  and exactly one non-empty address for each worker, under the name of its domain.
\<close>

theorem infrastructure_nodes_ready:
  assumes "InitializeInfrastructure c im wl fuel sched s = Ret (Inr ni, s')" "\<forall>ids. set (sched ids) = set ids"
  shows "(\<exists>ip. ip \<noteq> [] \<and> Masters ni = [(''delegatio-0'', ip)])
    \<and> dom (map_of (Workers ni)) = {node_name False (Itoa i) |i. 0 \<le> i \<and> i < li_workerNodeNum (q_inst s)}
    \<and> (\<forall>ip \<in> ran (map_of (Workers ni)). ip \<noteq> [])
    \<and> (\<forall>(number, m) \<in> set (instance_ids (q_inst s)). \<exists>w1 w2. blockUntilInstanceReady c wl fuel number m w1 = Ret (Inr (), w2))"
  by (rule initialized_nodes [OF assms])

definition ready_machines :: "mem_host wait_lib" where
  "ready_machines = \<lparr>wl_ctx = (\<lambda>_. None), wl_agent = \<lparr>ac_Dial = (\<lambda>_. ret 0), ac_Close = (\<lambda>_. ret ()), ac_WriteFile = (\<lambda>_ _. ret ()),
     ac_ReadFile = (\<lambda>_ _. ret []), ac_ExecCommand = (\<lambda>_ _. ret []), ac_ExecCommandStream = (\<lambda>_. ret 0), ac_Send = (\<lambda>_ _. ret ()),
     ac_ExecCommandReturnStream = (\<lambda>_ _. ret 0), ac_Recv = (\<lambda>_. ret RetNone)\<rparr>\<rparr>"

definition small_image :: "mem_host image_lib" where
  "small_image = \<lparr>im_ctx = (\<lambda>_. None), im_Open = (\<lambda>_. ret ''img''), im_Stat = None, im_Read = (\<lambda>_. None), im_Close = None, im_BufferSize = 2\<rparr>"

theorem infrastructure_nodes_ready_witness:
  "\<exists>ni s'. InitializeInfrastructure mem_libvirt small_image ready_machines 1 rev (connected_host []) = Ret (Inr ni, s')
     \<and> dom (map_of (Workers ni)) = {node_name False (Itoa i) |i. 0 \<le> i \<and> i < 2}"
proof -
  have "returns_ok (InitializeInfrastructure mem_libvirt small_image ready_machines 1 rev (connected_host []))"
    by code_simp
  then obtain ni s' where run: "InitializeInfrastructure mem_libvirt small_image ready_machines 1 rev (connected_host []) = Ret (Inr ni, s')"
    by (auto simp: returns_ok_iff)
  have n: "li_workerNodeNum (q_inst (connected_host [])) = 2" by (simp add: connected_host_def NewQemu_def ClusterConfiguration_def)
  from infrastructure_nodes_ready [OF run] n run show ?thesis by auto
qed

section \<open>How the objects fit together\<close>

lemma node_name_inject: "node_name m a = node_name m' b \<longleftrightarrow> m = m' \<and> a = b"
  by (auto simp: node_name_def DomainPrefixMaster_def DomainPrefixWorker_def)

text \<open>
  C30: The objects of one machine fit together: its domain boots from the volume of the same name in the program's pool, that
  volume is a copy on write of the base image, and its interface is in the program's network, on that network's bridge.
  Machines have different names, different from the base image, and each of them is recognized by the deletion.
\<close>

theorem machine_objects_fit:
  "map (\<lambda>d. (dk_SourcePool d, dk_SourceVolume d)) (dx_Disks (instance_domain (node_name m n))) = [(px_Name PoolXMLConfig, vx_Name (boot_xml (node_name m n) s))]
   \<and> vx_BackingStore (boot_xml (node_name m n) s) = Some (vx_TargetPath VolumeBaseXMLConfig, vx_TargetFormat VolumeBaseXMLConfig)
   \<and> map dk_DriverType (dx_Disks (instance_domain (node_name m n))) = [vx_TargetFormat (boot_xml (node_name m n) s)]
   \<and> map (\<lambda>i. (if_SourceNetwork i, if_SourceBridge i)) (dx_Interfaces (instance_domain (node_name m n))) = [(nx_Name NetworkXMLConfig, nx_BridgeName NetworkXMLConfig)]
   \<and> vx_TargetPath VolumeBaseXMLConfig = px_TargetPath PoolXMLConfig @ vx_Name VolumeBaseXMLConfig
   \<and> (dx_Name (instance_domain (node_name m n)) = dx_Name (instance_domain (node_name m' n')) \<longleftrightarrow> m = m' \<and> n = n')
   \<and> vx_Name (boot_xml (node_name m n) s) \<noteq> vx_Name VolumeBaseXMLConfig
   \<and> own_object LvDom (dx_Name (instance_domain (node_name m n))) \<and> own_object LvNet (nx_Name NetworkXMLConfig)
   \<and> own_object LvPool (px_Name PoolXMLConfig)"
proof -
  have "own_object LvDom (node_name m n)" by (simp add: node_name_def HasPrefix_append)
  moreover have "node_name m n \<noteq> BaseDiskName"
    by (simp add: node_name_def DomainPrefixMaster_def DomainPrefixWorker_def BaseDiskName_def)
  ultimately show ?thesis
    by (simp add: instance_domain_def DomainXMLConfig_def boot_xml_def VolumeBootXMLConfig_def VolumeBaseXMLConfig_def
        PoolXMLConfig_def NetworkXMLConfig_def node_name_inject)
qed

text \<open>The wrapper around libvirt changes nothing.\<close>

lemma copy_list_id: "copy_list m = m"
  by (simp add: copy_list_def map_nth)

theorem connectionWrapper_transparent: "connectionWrapper c = c"
  by (simp add: connectionWrapper_def copy_list_id wrap_object_def)

end
