(* ===== verification/Qemu_Race.thy ===== *)
theory Qemu_Race
  imports Qemu_Correct
begin

text \<open>
  The goroutines that \<^verbatim>\<open>createInstances\<close> starts, one per machine, under every interleaving of their accesses to what they share: the
  path in the target of the boot volume's configuration, the list \<^verbatim>\<open>RegisteredDisks\<close> (an \<^verbatim>\<open>append\<close> reads the list and then writes it) and libvirt.
  \<open>boot_next\<close> is the next step of one goroutine. A goroutine that runs alone computes \<open>createInstance\<close>.
\<close>

section \<open>The goroutines\<close>

text \<open>
  The program counter of a goroutine in \<^verbatim>\<open>createInstance\<close>, with its local variables; \<open>ra_made\<close> are the volumes libvirt has made, in
  the order of their requests.
\<close>

datatype boot_pc = BootStart | PathSet | Marshalled volume_xml | PoolFound volume_xml nat | VolumeMade volume_xml nat nat
  | DisksRead volume_xml nat nat "string list" | FreeVolume nat nat | FreePool nat "go_error + unit" | BootMade | MachineEnded "go_error + unit"

record 'w race =
  ra_sys :: "'w qsys"
  ra_pc :: "string \<Rightarrow> boot_pc"
  ra_made :: "volume_xml list"

definition race_init :: "'w qsys \<Rightarrow> 'w race" where
  "race_init q = \<lparr>ra_sys = q, ra_pc = (\<lambda>_. BootStart), ra_made = []\<rparr>"

text \<open>A step of the goroutine of \<open>id'\<close> that makes one call; a call that panics or never returns is no step.\<close>

definition act ::
  "'w race \<Rightarrow> string \<Rightarrow> ('w qsys, 'a) io \<Rightarrow> (go_error + 'a \<Rightarrow> volume_xml list) \<Rightarrow> (go_error + 'a \<Rightarrow> boot_pc) \<Rightarrow> 'w race option" where
  "act s id' m made pc = (case m (ra_sys s) of
      Ret (r, q) \<Rightarrow> Some \<lparr>ra_sys = q, ra_pc = (ra_pc s)(id' := pc r), ra_made = ra_made s @ made r\<rparr>
    | Panic _ \<Rightarrow> None | Block \<Rightarrow> None)"

definition go_on :: "('a \<Rightarrow> boot_pc) \<Rightarrow> go_error + 'a \<Rightarrow> boot_pc" where
  "go_on f r = (case r of Inl e \<Rightarrow> MachineEnded (Inl e) | Inr x \<Rightarrow> f x)"

definition boot_next :: "'w libvirt_conn \<Rightarrow> string \<Rightarrow> 'w race \<Rightarrow> 'w race option" where
  "boot_next c id' s = (case ra_pc s id' of
      BootStart \<Rightarrow> act s id' (set_boot_path id') (\<lambda>_. []) (\<lambda>_. PathSet)
    | PathSet \<Rightarrow> act s id' (marshal c id') (\<lambda>_. []) (go_on (\<lambda>_. Marshalled (boot_xml id' (ra_sys s))))
    | Marshalled x \<Rightarrow> act s id' (lv (lv_LookupStoragePool c LibvirtStoragePoolPath)) (\<lambda>_. []) (go_on (PoolFound x))
    | PoolFound x pool \<Rightarrow>
        act s id' (rephrase ''error creating libvirt storage volume 'boot': '' (lv (pool_VolCreateXML c pool x)))
          (\<lambda>r. case r of Inl _ \<Rightarrow> [] | Inr _ \<Rightarrow> [x]) (\<lambda>r. case r of Inl e \<Rightarrow> FreePool pool (Inl e) | Inr vol \<Rightarrow> VolumeMade x pool vol)
    | VolumeMade x pool vol \<Rightarrow> act s id' (gets (\<lambda>q. li_RegisteredDisks (q_inst q))) (\<lambda>_. []) (go_on (DisksRead x pool vol))
    | DisksRead x pool vol disks \<Rightarrow>
        act s id' (on_instance (\<lambda>l. l\<lparr>li_RegisteredDisks := disks @ [vx_Name x]\<rparr>)) (\<lambda>_. []) (\<lambda>_. FreeVolume pool vol)
    | FreeVolume pool vol \<Rightarrow> act s id' (lv (vol_Free c vol)) (\<lambda>_. []) (\<lambda>_. FreePool pool (Inr ()))
    | FreePool pool r \<Rightarrow> act s id' (lv (pool_Free c pool)) (\<lambda>_. []) (\<lambda>_. go_on (\<lambda>_. BootMade) r)
    | BootMade \<Rightarrow> act s id' (createDomain c id') (\<lambda>_. []) MachineEnded
    | MachineEnded r \<Rightarrow> None)"

inductive boot_step :: "'w libvirt_conn \<Rightarrow> string set \<Rightarrow> 'w race \<Rightarrow> 'w race \<Rightarrow> bool" for c ids where
  boot_step: "id' \<in> ids \<Longrightarrow> boot_next c id' s = Some s' \<Longrightarrow> boot_step c ids s s'"

text \<open>A run in the order of a given schedule.\<close>

fun run_boot :: "'w libvirt_conn \<Rightarrow> string list \<Rightarrow> 'w race \<Rightarrow> 'w race option" where
  "run_boot c [] s = Some s"
| "run_boot c (id' # sched) s = (case boot_next c id' s of Some s' \<Rightarrow> run_boot c sched s' | None \<Rightarrow> None)"

lemma run_boot_reach: "run_boot c sched s = Some s' \<Longrightarrow> set sched \<subseteq> ids \<Longrightarrow> reach (boot_step c ids) s s'"
proof (induction sched arbitrary: s)
  case Nil
  then show ?case by (simp add: reach.start)
next
  case (Cons id' sched)
  then obtain t where t: "boot_next c id' s = Some t" "run_boot c sched t = Some s'" by (auto split: option.splits)
  with Cons have "reach (boot_step c ids) t s'" "boot_step c ids s t" by (auto intro: boot_step.intros)
  then show ?case using reach_trans reach_one by metis
qed

section \<open>One goroutine alone\<close>

lemma act_Ret: "m (ra_sys s) = Ret (r, q) \<Longrightarrow>
    act s id' m made pc = Some \<lparr>ra_sys = q, ra_pc = (ra_pc s)(id' := pc r), ra_made = ra_made s @ made r\<rparr>"
  by (simp add: act_def)

lemma act_Some: "act s id' m made pc = Some s' \<longleftrightarrow>
    (\<exists>e q. m (ra_sys s) = Ret (Inl e, q) \<and> s' = \<lparr>ra_sys = q, ra_pc = (ra_pc s)(id' := pc (Inl e)), ra_made = ra_made s @ made (Inl e)\<rparr>)
    \<or> (\<exists>x q. m (ra_sys s) = Ret (Inr x, q) \<and> s' = \<lparr>ra_sys = q, ra_pc = (ra_pc s)(id' := pc (Inr x)), ra_made = ra_made s @ made (Inr x)\<rparr>)"
  by (auto simp: act_def split: outcome.splits) (metis sumE)+

lemma go_on_simps [simp]: "go_on f (Inl e) = MachineEnded (Inl e)" "go_on f (Inr x) = f x"
  by (simp_all add: go_on_def)

text \<open>What is left to do of \<open>createInstance\<close> at each program counter.\<close>

definition register_disk :: "(LibvirtInstance \<Rightarrow> string list) \<Rightarrow> volume_xml \<Rightarrow> ('w qsys, unit) io" where
  "register_disk disks x = on_instance (\<lambda>l. l\<lparr>li_RegisteredDisks := disks l @ [vx_Name x]\<rparr>)"

definition boot_volume :: "'w libvirt_conn \<Rightarrow> volume_xml \<Rightarrow> nat \<Rightarrow> ('w qsys, unit) io" where
  "boot_volume c x pool =
     deferred (bindE (rephrase ''error creating libvirt storage volume 'boot': '' (lv (pool_VolCreateXML c pool x)))
       (\<lambda>vol. deferred (register_disk li_RegisteredDisks x) (lv (vol_Free c vol)))) (lv (pool_Free c pool))"

fun boot_rest :: "'w libvirt_conn \<Rightarrow> string \<Rightarrow> boot_pc \<Rightarrow> ('w qsys, unit) io" where
  "boot_rest c id' BootStart = createBootImage c id'"
| "boot_rest c id' PathSet = bindE (gets (boot_xml id')) (\<lambda>x. bindE (marshal c id') (\<lambda>_.
     bindE (lv (lv_LookupStoragePool c LibvirtStoragePoolPath)) (boot_volume c x)))"
| "boot_rest c id' (Marshalled x) = bindE (lv (lv_LookupStoragePool c LibvirtStoragePoolPath)) (boot_volume c x)"
| "boot_rest c id' (PoolFound x pool) = boot_volume c x pool"
| "boot_rest c id' (VolumeMade x pool vol) = deferred (deferred (register_disk li_RegisteredDisks x) (lv (vol_Free c vol))) (lv (pool_Free c pool))"
| "boot_rest c id' (DisksRead x pool vol disks) = deferred (deferred (register_disk (\<lambda>_. disks) x) (lv (vol_Free c vol))) (lv (pool_Free c pool))"
| "boot_rest c id' (FreeVolume pool vol) = deferred (deferred (ret ()) (lv (vol_Free c vol))) (lv (pool_Free c pool))"
| "boot_rest c id' (FreePool pool r) = deferred (lift_result r) (lv (pool_Free c pool))"
| "boot_rest c id' BootMade = ret ()"
| "boot_rest c id' (MachineEnded r) = lift_result r"

fun machine_rest :: "'w libvirt_conn \<Rightarrow> string \<Rightarrow> boot_pc \<Rightarrow> ('w qsys, unit) io" where
  "machine_rest c id' (MachineEnded r) = lift_result r"
| "machine_rest c id' pc = bindE (boot_rest c id' pc) (\<lambda>_. createDomain c id')"

fun steps_left :: "boot_pc \<Rightarrow> nat" where
  "steps_left BootStart = 9" | "steps_left PathSet = 8" | "steps_left (Marshalled _) = 7" | "steps_left (PoolFound _ _) = 6"
| "steps_left (VolumeMade _ _ _) = 5" | "steps_left (DisksRead _ _ _ _) = 4" | "steps_left (FreeVolume _ _) = 3"
| "steps_left (FreePool _ _) = 2" | "steps_left BootMade = 1" | "steps_left (MachineEnded _) = 0"

lemma boot_next_act:
  assumes "boot_next c id' s = Some t"
  shows "steps_left (ra_pc t id') < steps_left (ra_pc s id')" "i \<noteq> id' \<Longrightarrow> ra_pc t i = ra_pc s i"
proof -
  show "steps_left (ra_pc t id') < steps_left (ra_pc s id')"
    using assms by (cases "ra_pc s id'") (auto simp: boot_next_def act_Some go_on_def split: sum.split)
  show "i \<noteq> id' \<Longrightarrow> ra_pc t i = ra_pc s i"
    using assms by (cases "ra_pc s id'") (auto simp: boot_next_def act_Some)
qed

lemma bindE_same: "m q = m' q' \<Longrightarrow> bindE m f q = bindE m' f q'"
  by (simp add: bindE_def bindR_def)

lemma deferred_apply: "b q = Ret (r, q') \<Longrightarrow> deferred b d q = bindR d (\<lambda>_. lift_result r) q'"
  by (simp add: deferred_def bindR_apply)

lemma deferred_same: "b q = b' q' \<Longrightarrow> deferred b d q = deferred b' d q'"
  by (simp add: deferred_def bindR_def)

lemma deferred_result: "deferred (lift_result r) d q = bindR d (\<lambda>_. lift_result r) q" "deferred (ret x) d q = bindR d (\<lambda>_. ret x) q"
  by (simp_all add: deferred_def bindR_def lift_result_def ret_def split: outcome.split)

lemma createBootImage_begin: "createBootImage c id' = bindE (set_boot_path id') (\<lambda>_. boot_rest c id' PathSet)"
  by (simp add: createBootImage_def boot_volume_def [abs_def] register_disk_def)

lemma boot_next_boot_rest:
  assumes "boot_next c id' s = Some t" "ra_pc s id' \<noteq> BootMade"
  shows "boot_rest c id' (ra_pc s id') (ra_sys s) = boot_rest c id' (ra_pc t id') (ra_sys t)"
proof (cases "ra_pc s id'")
  case BootStart
  with assms show ?thesis
    by (auto simp: boot_next_def act_Some createBootImage_begin set_boot_path_def modify_def bindE_apply)
next
  case PathSet
  with assms show ?thesis
    by (auto simp: boot_next_def act_Some bindE_apply gets_def lift_result_def boot_xml_def marshal_def throw_def ret_def split: option.splits)
next
  case (Marshalled x)
  with assms show ?thesis by (auto simp: boot_next_def act_Some bindE_apply lift_result_def)
next
  case (PoolFound x pool)
  with assms show ?thesis
    by (auto simp: boot_next_def act_Some boot_volume_def bindE_apply deferred_apply deferred_result intro!: deferred_same)
next
  case (VolumeMade x pool vol)
  with assms show ?thesis
    by (auto simp: boot_next_def act_Some gets_def register_disk_def on_instance_def modify_def intro!: deferred_same)
next
  case (DisksRead x pool vol disks)
  with assms show ?thesis
    by (auto simp: boot_next_def act_Some register_disk_def on_instance_def modify_def ret_def intro!: deferred_same)
next
  case (FreeVolume pool vol)
  with assms show ?thesis
    by (auto simp: boot_next_def act_Some deferred_result deferred_apply bindR_apply ret_def lift_result_def)
next
  case (FreePool pool r)
  with assms show ?thesis
    by (auto simp: boot_next_def act_Some go_on_def deferred_result bindR_apply ret_def lift_result_def split: sum.splits)
qed (use assms in \<open>simp_all add: boot_next_def\<close>)

lemma boot_next_fails: "boot_next c id' s = Some t \<Longrightarrow> ra_pc s id' \<noteq> BootMade \<Longrightarrow> ra_pc t id' = MachineEnded r \<Longrightarrow> \<exists>e. r = Inl e"
  by (cases "ra_pc s id'") (auto simp: boot_next_def act_Some go_on_def split: sum.splits)

lemma machine_rest_unfold:
  "pc = MachineEnded r \<and> (\<exists>e. r = Inl e) \<or> (\<forall>r. pc \<noteq> MachineEnded r) \<Longrightarrow> machine_rest c id' pc q = bindE (boot_rest c id' pc) (\<lambda>_. createDomain c id') q"
  by (cases pc) (auto simp: lift_result_def bindE_apply)

lemma boot_next_rest:
  assumes "boot_next c id' s = Some t"
  shows "machine_rest c id' (ra_pc s id') (ra_sys s) = machine_rest c id' (ra_pc t id') (ra_sys t)"
proof (cases "ra_pc s id' = BootMade")
  case True
  with assms show ?thesis by (auto simp: boot_next_def act_Some lift_result_def)
next
  case False
  have "\<forall>r. ra_pc s id' \<noteq> MachineEnded r" using assms by (auto simp: boot_next_def)
  moreover have "(\<exists>r. ra_pc t id' = MachineEnded r \<and> (\<exists>e. r = Inl e)) \<or> (\<forall>r. ra_pc t id' \<noteq> MachineEnded r)" using boot_next_fails [OF assms False] by blast
  ultimately show ?thesis using boot_next_boot_rest [OF assms False] bindE_same machine_rest_unfold by metis
qed

text \<open>A goroutine has a next step unless it has ended or its next call does not return, and then the rest does not return either.\<close>

definition stuck :: "('w, 'a) io \<Rightarrow> 'w \<Rightarrow> bool" where
  "stuck m q \<longleftrightarrow> (\<forall>y. m q \<noteq> Ret y)"

lemma stuck_intros:
  "stuck m q \<Longrightarrow> stuck (bindR m g) q" "stuck m q \<Longrightarrow> stuck (bindE m f) q" "stuck m q \<Longrightarrow> stuck (deferred m d) q"
  "stuck d q \<Longrightarrow> stuck (deferred (lift_result r) d) q" "stuck d q \<Longrightarrow> stuck (deferred (ret x) d) q"
  by (auto simp: stuck_def deferred_result) (auto simp: deferred_def bindE_def bindR_def split: outcome.splits)

lemma never_stuck: "\<not> stuck (set_boot_path id') q" "\<not> stuck (marshal c n) q" "\<not> stuck (gets f) q" "\<not> stuck (on_instance g) q"
  by (auto simp: stuck_def set_boot_path_def marshal_def on_instance_def io_defs split: option.splits)

lemma act_None: "act s id' m made pc = None \<longleftrightarrow> stuck m (ra_sys s)"
  by (auto simp: act_def stuck_def split: outcome.splits)

lemma boot_next_enabled:
  assumes "boot_next c id' s = None"
  shows "(\<exists>r. ra_pc s id' = MachineEnded r) \<or> stuck (machine_rest c id' (ra_pc s id')) (ra_sys s)"
  using assms by (cases "ra_pc s id'") (auto simp: boot_next_def act_None never_stuck boot_volume_def intro!: stuck_intros)

text \<open>A goroutine that is not interrupted ends with the result and the state of \<open>createInstance\<close>.\<close>

lemma run_alone:
  assumes "machine_rest c id' (ra_pc s id') (ra_sys s) = Ret (r, q)"
  shows "\<exists>n t. run_boot c (replicate n id') s = Some t \<and> ra_sys t = q \<and> ra_pc t id' = MachineEnded r \<and> (\<forall>i. i \<noteq> id' \<longrightarrow> ra_pc t i = ra_pc s i)"
  using assms
proof (induction "steps_left (ra_pc s id')" arbitrary: s rule: less_induct)
  case less
  consider r' where "ra_pc s id' = MachineEnded r'" | t where "boot_next c id' s = Some t" using boot_next_enabled [of c id' s] less.prems by (auto simp: stuck_def)
  then show ?case
  proof cases
    case 1
    with less.prems show ?thesis by (intro exI [of _ 0] exI [of _ s]) (simp add: lift_result_def)
  next
    case 2
    note nx = boot_next_act [OF 2]
    from less.hyps [OF nx(1)] less.prems boot_next_rest [OF 2] obtain n u where "run_boot c (replicate n id') t = Some u" "ra_sys u = q"
      "ra_pc u id' = MachineEnded r" "\<forall>i. i \<noteq> id' \<longrightarrow> ra_pc u i = ra_pc t i" by auto
    with 2 nx(2) show ?thesis by (intro exI [of _ "Suc n"] exI [of _ u]) simp
  qed
qed

section \<open>All goroutines together\<close>

text \<open>The request of a machine: the shared configuration with the name of the machine and the path of some machine.\<close>

definition boot_request :: "string set \<Rightarrow> string \<Rightarrow> volume_xml \<Rightarrow> bool" where
  "boot_request ids id' x \<longleftrightarrow> (\<exists>other \<in> ids. x = VolumeBootXMLConfig\<lparr>vx_Name := id', vx_TargetPath := Join2 LibvirtStoragePoolPath other\<rparr>)"

fun pc_volume :: "boot_pc \<Rightarrow> volume_xml option" where
  "pc_volume (Marshalled x) = Some x" | "pc_volume (PoolFound x _) = Some x" | "pc_volume (VolumeMade x _ _) = Some x"
| "pc_volume (DisksRead x _ _ _) = Some x" | "pc_volume _ = None"

text \<open>Program counters behind the request, and those behind a request that was answered with a volume.\<close>

fun asked :: "boot_pc \<Rightarrow> bool" where
  "asked (VolumeMade _ _ _) = True" | "asked (DisksRead _ _ _ _) = True" | "asked (FreeVolume _ _) = True" | "asked (FreePool _ _) = True"
| "asked BootMade = True" | "asked (MachineEnded _) = True" | "asked _ = False"

fun has_volume :: "boot_pc \<Rightarrow> bool" where
  "has_volume (FreePool _ r) = (r = Inr ())" | "has_volume (MachineEnded r) = (r = Inr ())" | "has_volume pc = asked pc"

definition disks_known :: "string set \<Rightarrow> 'w race \<Rightarrow> string list \<Rightarrow> bool" where
  "disks_known D s ds \<longleftrightarrow> set ds \<subseteq> D \<union> vx_Name ` set (ra_made s)"

text \<open>
  The invariant in three parts: the shared path, the requests, the registered disks (\<open>D\<close> are those registered before).
\<close>

definition path_inv :: "string set \<Rightarrow> 'w race \<Rightarrow> bool" where
  "path_inv ids s \<longleftrightarrow> (\<forall>i. ra_pc s i \<noteq> BootStart \<longrightarrow> i \<in> ids \<and> q_bootPath (ra_sys s) \<in> Join2 LibvirtStoragePoolPath ` ids)"

definition request_inv :: "string set \<Rightarrow> 'w race \<Rightarrow> bool" where
  "request_inv ids s \<longleftrightarrow> (\<forall>i x. pc_volume (ra_pc s i) = Some x \<longrightarrow> boot_request ids i x)
     \<and> (\<forall>x \<in> set (ra_made s). boot_request ids (vx_Name x) x \<and> asked (ra_pc s (vx_Name x)))
     \<and> distinct (map vx_Name (ra_made s)) \<and> (\<forall>i. has_volume (ra_pc s i) \<longrightarrow> i \<in> vx_Name ` set (ra_made s))"

definition disks_inv :: "string set \<Rightarrow> 'w race \<Rightarrow> bool" where
  "disks_inv D s \<longleftrightarrow> disks_known D s (li_RegisteredDisks (q_inst (ra_sys s)))
     \<and> (\<forall>i x p v ds. ra_pc s i = DisksRead x p v ds \<longrightarrow> disks_known D s ds)"

text \<open>Calls of libvirt change neither the path nor the list.\<close>

definition shared_part :: "'w qsys \<Rightarrow> string \<times> string list" where
  "shared_part q = (q_bootPath q, li_RegisteredDisks (q_inst q))"

lemma shared_lv [io_keeps]: "keeps (\<lambda>q. shared_part q = n) (lv m)"
  by (auto simp: keeps_def lv_def shared_part_def split: if_splits outcome.splits)

lemma createDomain_shared: "keeps (\<lambda>q. shared_part q = n) (createDomain c id')"
  unfolding createDomain_def by (intro io_keeps; simp add: keeps_pure split: option.split)

lemma shared_same: "keeps (\<lambda>q. shared_part q = shared_part q0) m \<Longrightarrow> m q0 = Ret (r, q) \<Longrightarrow> shared_part q = shared_part q0"
  unfolding keeps_def by blast

lemma act_shared:
  "act s id' m made pc = Some t \<Longrightarrow> keeps (\<lambda>q. shared_part q = shared_part (ra_sys s)) m \<Longrightarrow> shared_part (ra_sys t) = shared_part (ra_sys s)"
  by (auto simp: act_Some dest: shared_same)

lemma boot_next_shared:
  assumes "boot_next c id' s = Some t"
  shows "shared_part (ra_sys t) = (case ra_pc s id' of
      BootStart \<Rightarrow> (Join2 LibvirtStoragePoolPath id', li_RegisteredDisks (q_inst (ra_sys s)))
    | DisksRead x pool vol ds \<Rightarrow> (q_bootPath (ra_sys s), ds @ [vx_Name x])
    | _ \<Rightarrow> shared_part (ra_sys s))"
proof (cases "ra_pc s id'")
  case BootStart
  with assms show ?thesis by (auto simp: boot_next_def act_Some set_boot_path_def modify_def shared_part_def)
next
  case (DisksRead x pool vol ds)
  with assms show ?thesis by (auto simp: boot_next_def act_Some on_instance_def modify_def shared_part_def)
next
  case (VolumeMade x pool vol)
  with assms show ?thesis by (auto simp: boot_next_def act_Some gets_def)
qed (use assms in \<open>auto simp: boot_next_def intro: act_shared io_keeps createDomain_shared\<close>)

text \<open>How a step moves the program counter, and when it adds a volume.\<close>

fun boot_move :: "string \<Rightarrow> volume_xml \<Rightarrow> string list \<Rightarrow> boot_pc \<Rightarrow> boot_pc \<Rightarrow> volume_xml list \<Rightarrow> bool" where
  "boot_move i y ds BootStart pc v \<longleftrightarrow> pc = PathSet \<and> v = []"
| "boot_move i y ds PathSet pc v \<longleftrightarrow> (pc = Marshalled y \<or> (\<exists>e. pc = MachineEnded (Inl e))) \<and> v = []"
| "boot_move i y ds (Marshalled x) pc v \<longleftrightarrow> ((\<exists>p. pc = PoolFound x p) \<or> (\<exists>e. pc = MachineEnded (Inl e))) \<and> v = []"
| "boot_move i y ds (PoolFound x p) pc v \<longleftrightarrow> (\<exists>vol. pc = VolumeMade x p vol) \<and> v = [x] \<or> (\<exists>e. pc = FreePool p (Inl e)) \<and> v = []"
| "boot_move i y ds (VolumeMade x p vol) pc v \<longleftrightarrow> pc = DisksRead x p vol ds \<and> v = []"
| "boot_move i y ds (DisksRead x p vol _) pc v \<longleftrightarrow> pc = FreeVolume p vol \<and> v = []"
| "boot_move i y ds (FreeVolume p vol) pc v \<longleftrightarrow> pc = FreePool p (Inr ()) \<and> v = []"
| "boot_move i y ds (FreePool p r) pc v \<longleftrightarrow> pc = go_on (\<lambda>_. BootMade) r \<and> v = []"
| "boot_move i y ds BootMade pc v \<longleftrightarrow> (\<exists>r. pc = MachineEnded r) \<and> v = []"
| "boot_move i y ds (MachineEnded r) pc v \<longleftrightarrow> False"

lemma boot_next_move:
  assumes "boot_next c id' s = Some t"
  obtains pc v where "ra_pc t = (ra_pc s)(id' := pc)" "ra_made t = ra_made s @ v"
    "boot_move id' (boot_xml id' (ra_sys s)) (li_RegisteredDisks (q_inst (ra_sys s))) (ra_pc s id') pc v"
proof -
  have "\<exists>pc v. ra_pc t = (ra_pc s)(id' := pc) \<and> ra_made t = ra_made s @ v
    \<and> boot_move id' (boot_xml id' (ra_sys s)) (li_RegisteredDisks (q_inst (ra_sys s))) (ra_pc s id') pc v"
    using assms by (cases "ra_pc s id'") (auto simp: boot_next_def act_Some gets_def)
  with that show thesis by blast
qed

lemma path_inv_step:
  assumes "path_inv ids s" "id' \<in> ids" "boot_next c id' s = Some t"
  shows "path_inv ids t"
proof -
  obtain pc v where m: "ra_pc t = (ra_pc s)(id' := pc)" by (rule boot_next_move [OF assms(3)])
  have "q_bootPath (ra_sys t) = fst (shared_part (ra_sys t))" by (simp add: shared_part_def)
  also have "\<dots> = (if ra_pc s id' = BootStart then Join2 LibvirtStoragePoolPath id' else q_bootPath (ra_sys s))"
    unfolding boot_next_shared [OF assms(3)] by (simp add: shared_part_def split: boot_pc.split)
  finally have "q_bootPath (ra_sys t) \<in> Join2 LibvirtStoragePoolPath ` ids" using assms(1,2) unfolding path_inv_def by auto
  with m assms(1,2) show ?thesis by (auto simp: path_inv_def)
qed

lemma boot_request_parts:
  "boot_request ids i x \<Longrightarrow> vx_Name x = i \<and> vx_BackingStore x = vx_BackingStore VolumeBootXMLConfig
     \<and> (\<exists>other \<in> ids. vx_TargetPath x = Join2 LibvirtStoragePoolPath other)"
  unfolding boot_request_def by (elim bexE) (simp, blast)

lemma pc_volume_request: "request_inv ids s \<Longrightarrow> pc_volume (ra_pc s i) = Some x \<Longrightarrow> boot_request ids i x \<and> vx_Name x = i"
  using boot_request_parts unfolding request_inv_def by metis

lemma request_inv_step:
  assumes "path_inv ids s" "request_inv ids s" "id' \<in> ids" "boot_next c id' s = Some t"
  shows "request_inv ids t"
proof -
  obtain pc v where m: "ra_pc t = (ra_pc s)(id' := pc)" "ra_made t = ra_made s @ v"
    "boot_move id' (boot_xml id' (ra_sys s)) (li_RegisteredDisks (q_inst (ra_sys s))) (ra_pc s id') pc v"
    by (rule boot_next_move [OF assms(4)])
  have new: "boot_request ids id' (boot_xml id' (ra_sys s))" if "ra_pc s id' \<noteq> BootStart"
  proof -
    from assms(1) that obtain other where "other \<in> ids" "q_bootPath (ra_sys s) = Join2 LibvirtStoragePoolPath other" by (auto simp: path_inv_def)
    then show ?thesis by (auto simp: boot_request_def boot_xml_def)
  qed
  have old: "boot_request ids id' x" "vx_Name x = id'" if "pc_volume (ra_pc s id') = Some x" for x
    using pc_volume_request [OF assms(2) that] by simp_all
  have vol: "pc_volume pc = Some x \<Longrightarrow> boot_request ids id' x" for x
    using m(3) new old by (cases "ra_pc s id'") (auto simp: go_on_def split: sum.splits)
  have v: "v = [] \<or> (\<exists>x. v = [x] \<and> pc_volume (ra_pc s id') = Some x \<and> \<not> asked (ra_pc s id') \<and> asked pc)"
    using m(3) by (cases "ra_pc s id'") auto
  have stay: "asked (ra_pc s id') \<Longrightarrow> asked pc" "has_volume pc \<Longrightarrow> has_volume (ra_pc s id') \<or> (\<exists>x. v = [x] \<and> pc_volume (ra_pc s id') = Some x)"
    using m(3) by (cases "ra_pc s id'"; auto simp: go_on_def split: sum.splits)+
  note inv = assms(2) [unfolded request_inv_def]
  have fresh: "id' \<notin> vx_Name ` set (ra_made s)" if "\<not> asked (ra_pc s id')" using inv that by auto
  show ?thesis unfolding request_inv_def
  proof (intro conjI)
    show "\<forall>i x. pc_volume (ra_pc t i) = Some x \<longrightarrow> boot_request ids i x" using inv vol m(1) by simp
    have made: "x \<in> set (ra_made s) \<Longrightarrow> boot_request ids (vx_Name x) x \<and> asked (ra_pc t (vx_Name x))" for x using inv m(1) stay(1) by (metis fun_upd_apply)
    have last: "boot_request ids (vx_Name x) x \<and> asked (ra_pc t (vx_Name x)) \<and> vx_Name x = id' \<and> \<not> asked (ra_pc s id')" if "x \<in> set v" for x
    proof -
      from v that have x: "pc_volume (ra_pc s id') = Some x" "\<not> asked (ra_pc s id')" "asked pc" by auto
      with old [OF x(1)] m(1) show ?thesis by simp
    qed
    show "\<forall>x \<in> set (ra_made t). boot_request ids (vx_Name x) x \<and> asked (ra_pc t (vx_Name x))"
      using made last unfolding m(2) set_append by blast
    show "distinct (map vx_Name (ra_made t))" using inv v last fresh unfolding m(2) by auto
    have "i \<in> vx_Name ` set (ra_made s) \<or> i \<in> vx_Name ` set v" if "has_volume (ra_pc t i)" for i
      using inv that stay(2) old(2) m(1) by (cases "i = id'") auto
    then show "\<forall>i. has_volume (ra_pc t i) \<longrightarrow> i \<in> vx_Name ` set (ra_made t)" unfolding m(2) set_append image_Un by blast
  qed
qed

lemma disks_known_more: "disks_known D s ds \<Longrightarrow> ra_made t = ra_made s @ v \<Longrightarrow> disks_known D t ds"
  by (auto simp: disks_known_def)

lemma disks_inv_step:
  assumes "request_inv ids s" "disks_inv D s" "boot_next c id' s = Some t"
  shows "disks_inv D t"
proof -
  obtain pc v where m: "ra_pc t = (ra_pc s)(id' := pc)" "ra_made t = ra_made s @ v"
    "boot_move id' (boot_xml id' (ra_sys s)) (li_RegisteredDisks (q_inst (ra_sys s))) (ra_pc s id') pc v"
    by (rule boot_next_move [OF assms(3)])
  have read: "disks_known D s ds" if "pc = DisksRead x p u ds" for x p u ds
    using m(3) that assms(2) by (cases "ra_pc s id'") (auto simp: disks_inv_def go_on_def split: sum.splits)
  have "li_RegisteredDisks (q_inst (ra_sys t)) = snd (shared_part (ra_sys t))" by (simp add: shared_part_def)
  also have "\<dots> = (case ra_pc s id' of DisksRead x pool vol ds \<Rightarrow> ds @ [vx_Name x] | _ \<Rightarrow> li_RegisteredDisks (q_inst (ra_sys s)))"
    unfolding boot_next_shared [OF assms(3)] by (simp add: shared_part_def split: boot_pc.split)
  also have "disks_known D s \<dots>"
  proof (cases "ra_pc s id'")
    case (DisksRead x p u ds)
    then have "disks_known D s ds" "vx_Name x = id'" "id' \<in> vx_Name ` set (ra_made s)"
      using assms(1,2) pc_volume_request [OF assms(1), of id' x] by (auto simp: disks_inv_def request_inv_def)
    with DisksRead show ?thesis by (simp add: disks_known_def)
  qed (use assms(2) in \<open>simp_all add: disks_inv_def\<close>)
  finally show ?thesis using m read assms(2) disks_known_more [OF _ m(2)] unfolding disks_inv_def by auto
qed

definition race_inv :: "string set \<Rightarrow> string set \<Rightarrow> 'w race \<Rightarrow> bool" where
  "race_inv ids D s \<longleftrightarrow> path_inv ids s \<and> request_inv ids s \<and> disks_inv D s"

interpretation boot_race: machine "boot_step c ids" "race_init q" "race_inv ids (set (li_RegisteredDisks (q_inst q)))" for c ids q
proof
  show "race_inv ids (set (li_RegisteredDisks (q_inst q))) (race_init q)"
    by (simp add: race_inv_def path_inv_def request_inv_def disks_inv_def disks_known_def race_init_def)
next
  fix s t
  assume "boot_step c ids s t" "race_inv ids (set (li_RegisteredDisks (q_inst q))) s"
  then show "race_inv ids (set (li_RegisteredDisks (q_inst q))) t"
    using path_inv_step request_inv_step disks_inv_step by (auto simp: race_inv_def boot_step.simps)
qed

text \<open>
  C22: Under every interleaving of the goroutines that create the machines, libvirt makes at most one boot volume per machine, on top of the
  base image and with the name of the machine, and a goroutine that ended without an error has its volume; the list of disks names
  only volumes that were made. The path in a request is that of some machine whose goroutine runs; it is the machine's own when
  there is only one. A goroutine that is not interrupted ends exactly as \<^verbatim>\<open>createInstance\<close>.
\<close>

theorem machines_created_concurrently:
  assumes "reach (boot_step c ids) (race_init q) s"
  shows "distinct (map vx_Name (ra_made s))
    \<and> (\<forall>x \<in> set (ra_made s). vx_Name x \<in> ids \<and> vx_BackingStore x = Some (vx_TargetPath VolumeBaseXMLConfig, vx_TargetFormat VolumeBaseXMLConfig)
        \<and> (\<exists>other \<in> ids. vx_TargetPath x = Join2 LibvirtStoragePoolPath other) \<and> (is_singleton ids \<longrightarrow> vx_TargetPath x = Join2 LibvirtStoragePoolPath (vx_Name x)))
    \<and> (\<forall>i. ra_pc s i = MachineEnded (Inr ()) \<longrightarrow> i \<in> vx_Name ` set (ra_made s))
    \<and> set (li_RegisteredDisks (q_inst (ra_sys s))) \<subseteq> set (li_RegisteredDisks (q_inst q)) \<union> vx_Name ` set (ra_made s)
    \<and> (ra_pc s (node_name m number) = BootStart \<and> createInstance c number m (ra_sys s) = Ret (r, q') \<longrightarrow>
        (\<exists>n t. run_boot c (replicate n (node_name m number)) s = Some t \<and> ra_sys t = q' \<and> ra_pc t (node_name m number) = MachineEnded r))"
proof (intro conjI impI)
  have p: "path_inv ids s" and r: "request_inv ids s" and d: "disks_inv (set (li_RegisteredDisks (q_inst q))) s"
    using boot_race.invariant [OF assms] by (auto simp: race_inv_def)
  show "distinct (map vx_Name (ra_made s))" "\<forall>i. ra_pc s i = MachineEnded (Inr ()) \<longrightarrow> i \<in> vx_Name ` set (ra_made s)"
    using r by (auto simp: request_inv_def)
  show "set (li_RegisteredDisks (q_inst (ra_sys s))) \<subseteq> set (li_RegisteredDisks (q_inst q)) \<union> vx_Name ` set (ra_made s)"
    using d by (simp add: disks_inv_def disks_known_def)
  show "\<forall>x \<in> set (ra_made s). vx_Name x \<in> ids \<and> vx_BackingStore x = Some (vx_TargetPath VolumeBaseXMLConfig, vx_TargetFormat VolumeBaseXMLConfig)
        \<and> (\<exists>other \<in> ids. vx_TargetPath x = Join2 LibvirtStoragePoolPath other) \<and> (is_singleton ids \<longrightarrow> vx_TargetPath x = Join2 LibvirtStoragePoolPath (vx_Name x))"
  proof
    fix x
    assume "x \<in> set (ra_made s)"
    then have x: "boot_request ids (vx_Name x) x" "ra_pc s (vx_Name x) \<noteq> BootStart" using r by (auto simp: request_inv_def)
    then have "vx_Name x \<in> ids" using p by (auto simp: path_inv_def)
    moreover from x(1) obtain other where "other \<in> ids" "vx_TargetPath x = Join2 LibvirtStoragePoolPath other"
      "vx_BackingStore x = vx_BackingStore VolumeBootXMLConfig" using boot_request_parts [OF x(1)] by blast
    moreover have "vx_BackingStore VolumeBootXMLConfig = Some (vx_TargetPath VolumeBaseXMLConfig, vx_TargetFormat VolumeBaseXMLConfig)"
      by (simp add: VolumeBootXMLConfig_def VolumeBaseXMLConfig_def)
    ultimately show "vx_Name x \<in> ids \<and> vx_BackingStore x = Some (vx_TargetPath VolumeBaseXMLConfig, vx_TargetFormat VolumeBaseXMLConfig)
        \<and> (\<exists>other \<in> ids. vx_TargetPath x = Join2 LibvirtStoragePoolPath other) \<and> (is_singleton ids \<longrightarrow> vx_TargetPath x = Join2 LibvirtStoragePoolPath (vx_Name x))"
      by (auto elim!: is_singletonE)
  qed
  assume "ra_pc s (node_name m number) = BootStart \<and> createInstance c number m (ra_sys s) = Ret (r, q')"
  then have "machine_rest c (node_name m number) (ra_pc s (node_name m number)) (ra_sys s) = Ret (r, q')" by (simp add: createInstance_def)
  then show "\<exists>n t. run_boot c (replicate n (node_name m number)) s = Some t \<and> ra_sys t = q' \<and> ra_pc t (node_name m number) = MachineEnded r"
    using run_alone by blast
qed

text \<open>
  Two machines: both goroutines write the path before the first one marshals, and both read the list of disks before one writes it. Both
  end without an error; the volume of the first was requested with the path of the second, and its disk is not registered.
\<close>

definition race_schedule :: "string list" where
  "race_schedule = (let a = node_name False ''0''; b = node_name False ''1'' in [a, b] @ replicate 4 a @ replicate 4 b @ replicate 4 a @ replicate 4 b)"

definition raced :: "mem_host race \<Rightarrow> bool" where
  "raced s \<longleftrightarrow> map (\<lambda>x. (vx_Name x, vx_TargetPath x)) (ra_made s)
       = [(node_name False ''0'', Join2 LibvirtStoragePoolPath (node_name False ''1'')), (node_name False ''1'', Join2 LibvirtStoragePoolPath (node_name False ''1''))]
     \<and> li_RegisteredDisks (q_inst (ra_sys s)) = [node_name False ''1'']
     \<and> ra_pc s (node_name False ''0'') = MachineEnded (Inr ()) \<and> ra_pc s (node_name False ''1'') = MachineEnded (Inr ())"

theorem boot_image_race: "\<exists>s. reach (boot_step mem_libvirt {node_name False ''0'', node_name False ''1''}) (race_init (connected_host [])) s \<and> raced s"
proof -
  have "case run_boot mem_libvirt race_schedule (race_init (connected_host [])) of Some s \<Rightarrow> raced s | None \<Rightarrow> False" by code_simp
  then obtain s where "run_boot mem_libvirt race_schedule (race_init (connected_host [])) = Some s" "raced s" by (auto split: option.splits)
  moreover have "set race_schedule \<subseteq> {node_name False ''0'', node_name False ''1''}" by (auto simp: race_schedule_def Let_def)
  ultimately show ?thesis using run_boot_reach by blast
qed

theorem machines_created_concurrently_witness:
  "\<exists>s. run_boot mem_libvirt race_schedule (race_init (connected_host [])) = Some s \<and> distinct (map vx_Name (ra_made s))"
proof -
  have "case run_boot mem_libvirt race_schedule (race_init (connected_host [])) of Some s \<Rightarrow> raced s | None \<Rightarrow> False" by code_simp
  then obtain s where run: "run_boot mem_libvirt race_schedule (race_init (connected_host [])) = Some s" by (auto split: option.splits)
  have "reach (boot_step mem_libvirt {node_name False ''0'', node_name False ''1''}) (race_init (connected_host [])) s"
    by (rule run_boot_reach [OF run]) (auto simp: race_schedule_def Let_def)
  from machines_created_concurrently [OF this] run show ?thesis by blast
qed

end
