(* ===== verification/Flags.thy ===== *)
theory Flags
  imports Decimal
begin

text \<open>
  What the programs use of the package \<^verbatim>\<open>flag\<close>: flags of type bool and string, and \<^verbatim>\<open>flag.Parse\<close> with the error handling of the
  command line, which ends the process (status 0 after \<^verbatim>\<open>-help\<close>, status 2 after an error). Parsing stops at the first argument
  that is not a flag, or after \<^verbatim>\<open>--\<close>.
\<close>

datatype flag_value = FlagBool bool | FlagString string

datatype flag_result = FlagsParsed "flag_value gomap" "string list" | FlagsExit nat

definition ParseBool :: "string \<Rightarrow> bool option" where
  "ParseBool s = (if s \<in> {''1'', ''t'', ''T'', ''true'', ''TRUE'', ''True''} then Some True
     else if s \<in> {''0'', ''f'', ''F'', ''false'', ''FALSE'', ''False''} then Some False else None)"

text \<open>An argument is a flag when it starts with one or two dashes and something follows; an equals sign, which cannot be first, separates the value.\<close>

definition is_flag :: "string \<Rightarrow> bool" where
  "is_flag s \<longleftrightarrow> 2 \<le> length s \<and> hd s = CHR ''-''"

definition flag_text :: "string \<Rightarrow> string" where
  "flag_text s = (if s ! 1 = CHR ''-'' then drop 2 s else drop 1 s)"

definition cut_value :: "string \<Rightarrow> string \<times> string option" where
  "cut_value name = (let rest = dropWhile (\<lambda>c. c \<noteq> CHR ''='') (tl name) in
     (hd name # takeWhile (\<lambda>c. c \<noteq> CHR ''='') (tl name), if rest = [] then None else Some (tl rest)))"

text \<open>
  One flag (\<^verbatim>\<open>parseOne\<close>): the end of the parsing, or the flags and the arguments to go on with. A flag of type bool takes a value
  only after an equals sign, the others also from the next argument.
\<close>

fun set_flag :: "flag_value \<Rightarrow> string option \<Rightarrow> string list \<Rightarrow> (flag_value \<times> string list) option" where
  "set_flag (FlagBool _) None rest = Some (FlagBool True, rest)"
| "set_flag (FlagBool _) (Some v) rest = map_option (\<lambda>b. (FlagBool b, rest)) (ParseBool v)"
| "set_flag (FlagString _) (Some v) rest = Some (FlagString v, rest)"
| "set_flag (FlagString _) None [] = None"
| "set_flag (FlagString _) None (v # rest) = Some (FlagString v, rest)"

definition parse_one :: "flag_value gomap \<Rightarrow> string list \<Rightarrow> flag_result + flag_value gomap \<times> string list" where
  "parse_one fs args = (case args of [] \<Rightarrow> Inl (FlagsParsed fs []) | s # rest \<Rightarrow>
     if \<not> is_flag s then Inl (FlagsParsed fs (s # rest))
     else if s = ''--'' then Inl (FlagsParsed fs rest)
     else if hd (flag_text s) \<in> {CHR ''-'', CHR ''=''} then Inl (FlagsExit 2)
     else (case cut_value (flag_text s) of (name, val) \<Rightarrow> (case map_of fs name of
         None \<Rightarrow> Inl (FlagsExit (if name = ''help'' \<or> name = ''h'' then 0 else 2))
       | Some old \<Rightarrow> (case set_flag old val rest of
           None \<Rightarrow> Inl (FlagsExit 2)
         | Some (v, rest') \<Rightarrow> Inr (AList.update name v fs, rest')))))"

fun flag_type :: "flag_value \<Rightarrow> bool" where
  "flag_type (FlagBool _) = True"
| "flag_type (FlagString _) = False"

lemma set_flag_Some: "set_flag old val rest = Some (v, rest') \<Longrightarrow> flag_type old = flag_type v \<and> (\<exists>used. rest = used @ rest')"
  by (induction old val rest rule: set_flag.induct) auto

text \<open>A flag that is parsed takes one or two arguments and sets the value of a flag that is there, of the same type.\<close>

lemma parse_one_more:
  assumes "parse_one fs args = Inr (fs', rest)"
  obtains n v old used where "args = used @ rest" "used \<noteq> []" "fs' = AList.update n v fs" "map_of fs n = Some old" "flag_type old = flag_type v"
proof -
  from assms obtain s rest1 n val old v where "args = s # rest1" "map_of fs n = Some old" "set_flag old val rest1 = Some (v, rest)"
    "fs' = AList.update n v fs" by (auto simp: parse_one_def split: list.splits if_split_asm prod.splits option.splits)
  with set_flag_Some that show thesis by (metis append_Cons list.distinct(1))
qed

lemma parse_one_end: "parse_one fs args = Inl (FlagsParsed fs' rest) \<Longrightarrow> fs' = fs \<and> (\<exists>used. args = used @ rest)"
  by (auto simp: parse_one_def split: list.splits if_splits prod.splits option.splits)

function parse_flags :: "flag_value gomap \<Rightarrow> string list \<Rightarrow> flag_result" where
  "parse_flags fs args = (case parse_one fs args of Inl r \<Rightarrow> r | Inr (fs', rest) \<Rightarrow> parse_flags fs' rest)"
  by pat_completeness auto
termination
  by (relation "measure (\<lambda>(fs, args). length args)") (auto elim: parse_one_more)

declare parse_flags.simps [simp del]

text \<open>The variables the flags are bound to.\<close>

definition bool_flag :: "flag_value gomap \<Rightarrow> string \<Rightarrow> bool" where
  "bool_flag fs name = (map_of fs name = Some (FlagBool True))"

definition string_flag :: "flag_value gomap \<Rightarrow> string \<Rightarrow> string" where
  "string_flag fs name = (case map_of fs name of Some (FlagString v) \<Rightarrow> v | _ \<Rightarrow> [])"

section \<open>Lemmas\<close>

lemma parse_flags_step: "parse_one fs args = Inr (fs', rest) \<Longrightarrow> parse_flags fs args = parse_flags fs' rest"
  by (subst parse_flags.simps) simp

lemma parse_flags_plain: "args = [] \<or> \<not> is_flag (hd args) \<Longrightarrow> parse_flags fs args = FlagsParsed fs args"
  by (subst parse_flags.simps) (auto simp: parse_one_def split: list.splits)

text \<open>A flag has its name and its type for good, and the arguments that are left are a suffix of the arguments.\<close>

lemma parse_flags_frame:
  assumes "parse_flags fs args = FlagsParsed fs' rest"
  shows "map_option flag_type (map_of fs' n) = map_option flag_type (map_of fs n) \<and> (\<exists>used. args = used @ rest)"
  using assms
proof (induction fs args rule: parse_flags.induct)
  case (1 fs args)
  show ?case
  proof (cases "parse_one fs args")
    case (Inl r)
    with "1.prems" have "parse_one fs args = Inl (FlagsParsed fs' rest)" by (subst (asm) parse_flags.simps) simp
    then show ?thesis using parse_one_end by blast
  next
    case (Inr x)
    obtain fs1 rest1 where x: "x = (fs1, rest1)" by (cases x)
    with Inr have one: "parse_one fs args = Inr (fs1, rest1)" by simp
    with "1.prems" have "parse_flags fs1 rest1 = FlagsParsed fs' rest" using parse_flags_step by simp
    then have "map_option flag_type (map_of fs' n) = map_option flag_type (map_of fs1 n) \<and> (\<exists>used. rest1 = used @ rest)"
      using "1.IH" Inr x by blast
    then show ?thesis using parse_one_more [OF one] by (smt (verit) append_assoc fun_upd_apply gm_update option.simps(9))
  qed
qed

text \<open>A proper name of a flag, and the written form \<^verbatim>\<open>-name=value\<close>.\<close>

definition flag_name :: "string \<Rightarrow> bool" where
  "flag_name n \<longleftrightarrow> n \<noteq> [] \<and> hd n \<noteq> CHR ''-'' \<and> CHR ''='' \<notin> set n"

definition write_flag :: "string \<times> flag_value \<Rightarrow> string" where
  "write_flag = (\<lambda>(n, v). ''-'' @ n @ ''='' @ (case v of FlagString s \<Rightarrow> s | FlagBool b \<Rightarrow> if b then ''true'' else ''false''))"

lemma flag_name_first: "flag_name n \<Longrightarrow> \<exists>c n'. n = c # n' \<and> c \<noteq> CHR ''-'' \<and> c \<noteq> CHR ''='' \<and> (\<forall>x \<in> set n'. x \<noteq> CHR ''='')"
  by (cases n) (auto simp: flag_name_def)

lemma flag_forms:
  assumes "flag_name n"
  shows "is_flag (CHR ''-'' # n @ v)" "flag_text (CHR ''-'' # n @ v) = n @ v" "CHR ''-'' # n @ v \<noteq> ''--''"
    "hd (n @ v) \<notin> {CHR ''-'', CHR ''=''}" "cut_value (n @ CHR ''='' # v) = (n, Some v)" "cut_value n = (n, None)"
proof -
  obtain c n' where n: "n = c # n'" "c \<noteq> CHR ''-''" "c \<noteq> CHR ''=''" "\<forall>x \<in> set n'. x \<noteq> CHR ''=''"
    using flag_name_first [OF assms] by blast
  then have "takeWhile (\<lambda>c. c \<noteq> CHR ''='') n' = n'" "dropWhile (\<lambda>c. c \<noteq> CHR ''='') n' = []" by simp_all
  with n show "is_flag (CHR ''-'' # n @ v)" "flag_text (CHR ''-'' # n @ v) = n @ v" "CHR ''-'' # n @ v \<noteq> ''--''"
    "hd (n @ v) \<notin> {CHR ''-'', CHR ''=''}" "cut_value (n @ CHR ''='' # v) = (n, Some v)" "cut_value n = (n, None)"
    by (auto simp: is_flag_def flag_text_def cut_value_def Let_def)
qed

text \<open>What is written is read: one flag, and a whole list of them in front of other arguments.\<close>

lemma parse_one_flag:
  assumes "flag_name n" "map_of fs n = Some old" "flag_type old = flag_type v"
  shows "parse_flags fs (write_flag (n, v) # rest) = parse_flags (AList.update n v fs) rest"
  using flag_forms [OF assms(1)] assms(2,3)
  by (intro parse_flags_step, cases old; cases v) (simp_all add: parse_one_def write_flag_def ParseBool_def)

lemma parse_bare_bool:
  assumes "flag_name n" "map_of fs n = Some (FlagBool old)"
  shows "parse_flags fs ((''-'' @ n) # rest) = parse_flags (AList.update n (FlagBool True) fs) rest"
  using flag_forms(1-4) [OF assms(1), of "[]"] flag_forms(6) [OF assms(1)] assms(2) by (intro parse_flags_step) (simp add: parse_one_def)

lemma parse_string_argument:
  assumes "flag_name n" "map_of fs n = Some (FlagString old)"
  shows "parse_flags fs ((''-'' @ n) # v # rest) = parse_flags (AList.update n (FlagString v) fs) rest"
  using flag_forms(1-4) [OF assms(1), of "[]"] flag_forms(6) [OF assms(1)] assms(2) by (intro parse_flags_step) (simp add: parse_one_def)

lemma parse_written_flags:
  assumes "\<forall>(n, v) \<in> set vals. flag_name n \<and> map_option flag_type (map_of fs n) = Some (flag_type v)"
    and "rest = [] \<or> \<not> is_flag (hd rest)"
  shows "parse_flags fs (map write_flag vals @ rest) = FlagsParsed (foldl (\<lambda>fs (n, v). AList.update n v fs) fs vals) rest"
  using assms
proof (induction vals arbitrary: fs)
  case Nil
  then show ?case using parse_flags_plain by simp
next
  case (Cons x vals)
  obtain n v where x: "x = (n, v)" by (cases x)
  with Cons.prems(1) obtain old where "map_of fs n = Some old" "flag_type old = flag_type v" "flag_name n" by auto
  then have "parse_flags fs (map write_flag (x # vals) @ rest) = parse_flags (AList.update n v fs) (map write_flag vals @ rest)"
    using parse_one_flag x by simp
  also have "\<dots> = FlagsParsed (foldl (\<lambda>fs (n, v). AList.update n v fs) (AList.update n v fs) vals) rest"
    using Cons.prems x by (intro Cons.IH) (fastforce split: if_splits)+
  finally show ?case using x by simp
qed

end
