(* ===== verification/Grader.thy ===== *)
theory Grader
  imports Agent_Files
begin

text \<open>
  \<^verbatim>\<open>grader\<close>: grading a submitted program. \<^verbatim>\<open>graders\<close> writes the program to a file and runs it on every file of the
  exercise's directory; \<^verbatim>\<open>gradeapi\<close> has the handler of the grading service and the client that runs in a user's
  container. A context is its deadline. Files are named by their paths; the operating system and gRPC are the records
  \<open>grade_lib\<close> and \<open>grade_client\<close>. \<^verbatim>\<open>Fatal\<close> and \<^verbatim>\<open>DPanic\<close> (the loggers have the development configuration) end the
  process and are panics of the model.
\<close>

section \<open>Library code\<close>

record dir_entry =
  de_Name :: string
  de_IsDir :: bool

type_synonym go_context = "int option"

text \<open>\<^verbatim>\<open>context.WithDeadline\<close> keeps the parent's deadline when it is earlier.\<close>

definition earliest :: "go_context \<Rightarrow> int \<Rightarrow> int" where
  "earliest ctx d = (case ctx of None \<Rightarrow> d | Some p \<Rightarrow> min p d)"

definition WithDeadline :: "go_context \<Rightarrow> int \<Rightarrow> go_context" where
  "WithDeadline ctx d = Some (earliest ctx d)"

record 'w grade_lib =
  gl_Now :: "'w \<Rightarrow> int"
  gl_CreateTemp :: "string \<Rightarrow> string \<Rightarrow> ('w, string) io"
  gl_Write :: "string \<Rightarrow> bytes \<Rightarrow> ('w, unit) io"
  gl_Chmod :: "string \<Rightarrow> nat \<Rightarrow> ('w, unit) io"
  gl_Sync :: "string \<Rightarrow> ('w, unit) io"
  gl_Close :: "string \<Rightarrow> ('w, unit) io"
  gl_Remove :: "string \<Rightarrow> ('w, unit) io"
  gl_Open :: "string \<Rightarrow> ('w, string) io"
  gl_Seek :: "string \<Rightarrow> ('w, unit) io"
  gl_Stat :: "string \<Rightarrow> ('w, nat) io"
  gl_Read :: "string \<Rightarrow> nat \<Rightarrow> ('w, bytes) io"
  gl_ReadDir :: "string \<Rightarrow> ('w, dir_entry list) io"
  gl_Output :: "go_context \<Rightarrow> string \<Rightarrow> string list \<Rightarrow> ('w, bytes) io"

section \<open>Running a submission\<close>

text \<open>Durations are in nanoseconds.\<close>

record Graders =
  gr_singleExecTimeout :: int
  gr_totalExecTimeout :: int

definition NewGraders :: Graders where
  "NewGraders = \<lparr>gr_singleExecTimeout = 10 ^ 9, gr_totalExecTimeout = 15 * 10 ^ 9\<rparr>"

definition executeCommand :: "'w grade_lib \<Rightarrow> Graders \<Rightarrow> go_context \<Rightarrow> string \<Rightarrow> string list \<Rightarrow> ('w, bytes) io" where
  "executeCommand L g ctx fileName arg =
     bindE (gets (gl_Now L)) (\<lambda>now. gl_Output L (WithDeadline ctx (now + gr_singleExecTimeout g)) fileName arg)"

text \<open>The permission bits are the octal 0700.\<close>

definition writeFileToDisk :: "'w grade_lib \<Rightarrow> bytes \<Rightarrow> ('w, string) io" where
  "writeFileToDisk L solution =
     bindR (gl_CreateTemp L ''/tmp'' ''request-'') (\<lambda>r. case r of
       Inl _ \<Rightarrow> throw (StatusError Internal ''failed to create content file'')
     | Inr f \<Rightarrow>
         deferred
           (bindE (gl_Write L f solution) (\<lambda>_.
            bindE (gl_Chmod L f 448) (\<lambda>_.
            bindE (gl_Sync L f) (\<lambda>_. ret f))))
           (gl_Close L f))"

text \<open>The loop over the input files; slicing a name of fewer than four characters panics.\<close>

definition expected_output :: "string \<Rightarrow> string" where
  "expected_output name = take (length name - 4) name"

fun grade_files :: "'w grade_lib \<Rightarrow> Graders \<Rightarrow> go_context \<Rightarrow> string \<Rightarrow> string \<Rightarrow> dir_entry list \<Rightarrow> ('w, int \<times> bytes) io" where
  "grade_files L g ctx prog inputDir [] = ret (100, [])"
| "grade_files L g ctx prog inputDir (f # files) =
     (if de_IsDir f then grade_files L g ctx prog inputDir files
      else bindE (executeCommand L g ctx prog [Join2 inputDir (de_Name f)]) (\<lambda>output.
        if length (de_Name f) < 4 then crash ''slice bounds out of range''
        else if \<not> Contains output (expected_output (de_Name f)) then ret (0, output)
        else grade_files L g ctx prog inputDir files))"

definition input_dir :: "int \<Rightarrow> string" where
  "input_dir n = Join2 ''/exercises/'' (''exercise'' @ Itoa n)"

definition GradeExerciseType1 :: "'w grade_lib \<Rightarrow> Graders \<Rightarrow> go_context \<Rightarrow> bytes \<Rightarrow> int \<Rightarrow> ('w, int \<times> bytes) io" where
  "GradeExerciseType1 L g ctx solution n =
     bindE (writeFileToDisk L solution) (\<lambda>file.
     deferred
       (bindE (gl_ReadDir L (input_dir n)) (\<lambda>files.
        bindE (gets (gl_Now L)) (\<lambda>now.
        grade_files L g (WithDeadline ctx (now + gr_totalExecTimeout g)) file (input_dir n) files)))
       (gl_Close L file))"

section \<open>The service\<close>

record RequestGradingRequest =
  rg_Id :: int
  rg_Nonce :: string
  rg_Solution :: bytes
  rg_Submit :: bool

definition checkNonce :: "string \<Rightarrow> go_error option" where
  "checkNonce nonce = None"

definition updatePointsUser :: "int \<Rightarrow> string \<Rightarrow> go_error option" where
  "updatePointsUser points user = None"

text \<open>\<open>grade\<close> is the method of the interface \<^verbatim>\<open>Graders\<close>; a response is the points and the log.\<close>

definition RequestGrading :: "(bytes \<Rightarrow> int \<Rightarrow> ('w, int \<times> bytes) io) \<Rightarrow> RequestGradingRequest \<Rightarrow> ('w, int \<times> bytes) io" where
  "RequestGrading grade in' =
     bindE (if rg_Submit in' then (case checkNonce (rg_Nonce in') of
         Some _ \<Rightarrow> throw (StatusError Unauthenticated ''nonce check failed'')
       | None \<Rightarrow> ret ()) else ret ()) (\<lambda>_.
     bindE (if rg_Id in' = 1 then bindR (grade (rg_Solution in') 1) (\<lambda>r. case r of
         Inl _ \<Rightarrow> throw (StatusError InvalidArgument ''failed to grade exercise one'')
       | Inr x \<Rightarrow> ret x) else ret (0, [])) (\<lambda>(points, log).
     ret (int32 points, log)))"

section \<open>The client\<close>

record 'w grade_client =
  gc_Dial :: "string \<Rightarrow> ('w, nat) io"
  gc_RequestGrading :: "nat \<Rightarrow> RequestGradingRequest \<Rightarrow> ('w, int \<times> bytes) io"

text \<open>What the buffer holds after a read whose length and error are ignored.\<close>

definition fill :: "nat \<Rightarrow> bytes \<Rightarrow> bytes" where
  "fill n b = take n b @ replicate (n - length b) (CHR 0x00)"

definition fileNameToBytes :: "'w grade_lib \<Rightarrow> string \<Rightarrow> ('w, bytes) io" where
  "fileNameToBytes L fileName =
     bindE (gl_Open L fileName) (\<lambda>file.
     deferred
       (bindE (ignoring (gl_Seek L file)) (\<lambda>_.
        bindR (gl_Stat L file) (\<lambda>r. case r of
          Inl _ \<Rightarrow> crash ''invalid memory address or nil pointer dereference''
        | Inr fileSize \<Rightarrow> bindR (gl_Read L file fileSize) (\<lambda>r. ret (fill fileSize (case r of Inl _ \<Rightarrow> [] | Inr b \<Rightarrow> b))))))
       (gl_Close L file))"

definition grader_address :: string where
  "grader_address = ''grader-service.'' @ GraderNamespaceName @ ''.svc.cluster.local:'' @ Itoa GradeAPIport"

text \<open>\<^verbatim>\<open>path.Split\<close>: the part after the last slash.\<close>

definition split_file :: "string \<Rightarrow> string" where
  "split_file p = rev (takeWhile (\<lambda>c. c \<noteq> CHR ''/'') (rev p))"

definition SendGradingRequest :: "'w grade_lib \<Rightarrow> 'w grade_client \<Rightarrow> string \<Rightarrow> ('w, int) io" where
  "SendGradingRequest L G fileName =
     bindE (gl_CreateTemp L ''/tmp'' ''gradingRequest-'') (\<lambda>f.
     deferred (deferred
       (bindE (gl_Sync L f) (\<lambda>_.
        bindR (fileNameToBytes L fileName) (\<lambda>r.
        bindE (gc_Dial G grader_address) (\<lambda>conn.
        bindE (gc_RequestGrading G conn \<lparr>rg_Id = 1, rg_Nonce = split_file f,
            rg_Solution = (case r of Inl _ \<Rightarrow> [] | Inr b \<Rightarrow> b), rg_Submit = False\<rparr>) (\<lambda>(points, log).
        ret points)))))
       (gl_Close L f)) (gl_Remove L f))"

section \<open>The processes\<close>

text \<open>\<^verbatim>\<open>gradeapi.New\<close> with the two steps of making the client and opening the store.\<close>

record ('c, 's) GradeAPI =
  ga_client :: 'c
  ga_grader :: Graders
  ga_store :: 's

definition gradeapi_New :: "(go_error + 'c) \<Rightarrow> ('c \<Rightarrow> ('w, 's) io) \<Rightarrow> ('w, ('c, 's) GradeAPI) io" where
  "gradeapi_New newClient getStore = (case newClient of
      Inl _ \<Rightarrow> crash ''failed to create k8s client''
    | Inr client \<Rightarrow> bindR (getStore client) (\<lambda>r. case r of
        Inl _ \<Rightarrow> crash ''connecting to etcd''
      | Inr store \<Rightarrow> ret \<lparr>ga_client = client, ga_grader = NewGraders, ga_store = store\<rparr>))"

definition user_run :: "string list \<Rightarrow> ('w, ('c, 's) GradeAPI) io \<Rightarrow> 'w grade_lib \<Rightarrow> 'w grade_client \<Rightarrow> ('w, int) io" where
  "user_run args newAPI L G =
     (if length args \<noteq> 2 then crash ''usage: delegatio-agent <solution file>''
      else bindR newAPI (\<lambda>r. case r of
        Inl _ \<Rightarrow> crash ''failed to create gradeapi''
      | Inr api \<Rightarrow> bindR (SendGradingRequest L G (args ! 1)) (\<lambda>r. case r of
          Inl _ \<Rightarrow> crash ''failed to send grading request''
        | Inr points \<Rightarrow> ret points)))"

definition server_address :: string where
  "server_address = JoinHostPort DefaultIP (Itoa GradeAPIport)"

definition server_run ::
  "'w grade_lib \<Rightarrow> ('w, ('c, 's) GradeAPI) io \<Rightarrow> (string \<Rightarrow> ('w, nat) io)
   \<Rightarrow> ((go_context \<Rightarrow> RequestGradingRequest \<Rightarrow> ('w, int \<times> bytes) io) \<Rightarrow> nat \<Rightarrow> ('w, unit) io) \<Rightarrow> ('w, unit) io" where
  "server_run L newAPI listen serve =
     bindR newAPI (\<lambda>r. case r of
       Inl _ \<Rightarrow> crash ''failed to create gradeapi''
     | Inr api \<Rightarrow> bindR (listen server_address) (\<lambda>r. case r of
         Inl _ \<Rightarrow> crash ''failed to create listener''
       | Inr lis \<Rightarrow> bindR (serve (\<lambda>ctx. RequestGrading (GradeExerciseType1 L (ga_grader api) ctx)) lis) (\<lambda>r. case r of
           Inl _ \<Rightarrow> crash ''failed to serve gRPC''
         | Inr _ \<Rightarrow> ret ())))"

section \<open>Verdicts\<close>

text \<open>
  What is used of a submission: started with one input file it would run for \<open>dur\<close> of that file and then print \<open>sem\<close> of it or
  fail; when the deadline of the context comes first, it is killed there and the result is an error.
\<close>

definition runs_as :: "'w grade_lib \<Rightarrow> string \<Rightarrow> (string \<Rightarrow> go_error + bytes) \<Rightarrow> (string \<Rightarrow> int) \<Rightarrow> go_error \<Rightarrow> bool" where
  "runs_as L prog sem dur killed \<longleftrightarrow> (\<forall>path. 0 \<le> dur path) \<and> (\<forall>t path w.
     \<exists>w'. gl_Output L (Some t) prog [path] w = Ret (if gl_Now L w + dur path < t then sem path else Inl killed, w')
        \<and> (gl_Now L w + dur path < t \<longrightarrow> gl_Now L w' = gl_Now L w + dur path))"

text \<open>A file is passed when the output contains its name without the last four characters.\<close>

definition passes :: "(string \<Rightarrow> go_error + bytes) \<Rightarrow> string \<Rightarrow> dir_entry \<Rightarrow> bool" where
  "passes sem dir f \<longleftrightarrow> de_IsDir f \<or>
     (\<exists>name ext a b. de_Name f = name @ ext \<and> length ext = 4 \<and> sem (Join2 dir (de_Name f)) = Inr (a @ name @ b))"

text \<open>The times of the runs on the files of a directory, and that they are within the limits when the first starts at \<open>t\<close>.\<close>

definition run_times :: "(string \<Rightarrow> int) \<Rightarrow> string \<Rightarrow> dir_entry list \<Rightarrow> int list" where
  "run_times dur dir files = map (\<lambda>f. dur (Join2 dir (de_Name f))) (filter (\<lambda>f. \<not> de_IsDir f) files)"

definition in_time :: "Graders \<Rightarrow> int list \<Rightarrow> int \<Rightarrow> int \<Rightarrow> bool" where
  "in_time g ds t D \<longleftrightarrow> (\<forall>d \<in> set ds. d < gr_singleExecTimeout g) \<and> (ds = [] \<or> t + sum_list ds < D)"

lemma run_times_simps [simp]:
  "run_times dur dir [] = []"
  "run_times dur dir (f # fs) = (if de_IsDir f then run_times dur dir fs else dur (Join2 dir (de_Name f)) # run_times dur dir fs)"
  by (simp_all add: run_times_def)

lemma run_times_nonneg: "runs_as L prog sem dur killed \<Longrightarrow> 0 \<le> sum_list (run_times dur dir fs)"
  by (rule sum_list_nonneg) (auto simp: run_times_def runs_as_def)

lemma in_time_Cons:
  assumes "0 \<le> sum_list ds"
  shows "in_time g (d # ds) t D \<longleftrightarrow> t + d < min D (t + gr_singleExecTimeout g) \<and> in_time g ds (t + d) D"
  using assms by (auto simp: in_time_def)

lemma executeCommand_run:
  assumes "runs_as L prog sem dur killed"
  shows "\<exists>w'. executeCommand L g (Some D) prog [path] w
       = Ret (if gl_Now L w + dur path < min D (gl_Now L w + gr_singleExecTimeout g) then sem path else Inl killed, w')
     \<and> (gl_Now L w + dur path < min D (gl_Now L w + gr_singleExecTimeout g) \<longrightarrow> gl_Now L w' = gl_Now L w + dur path)"
proof -
  have "executeCommand L g (Some D) prog [path] w = gl_Output L (Some (min D (gl_Now L w + gr_singleExecTimeout g))) prog [path] w"
    by (simp add: executeCommand_def WithDeadline_def earliest_def bindE_def bindR_def gets_def)
  then show ?thesis using assms unfolding runs_as_def by metis
qed

lemma expected_output_iff:
  assumes "4 \<le> length name"
  shows "Contains out (expected_output name) \<longleftrightarrow> (\<exists>n ext a b. name = n @ ext \<and> length ext = 4 \<and> out = a @ n @ b)"
proof
  assume "Contains out (expected_output name)"
  then obtain a b where "out = a @ expected_output name @ b" by (auto simp: Contains_iff)
  moreover have "name = expected_output name @ drop (length name - 4) name" "length (drop (length name - 4) name) = 4"
    using assms by (simp_all add: expected_output_def)
  ultimately show "\<exists>n ext a b. name = n @ ext \<and> length ext = 4 \<and> out = a @ n @ b" by blast
next
  assume "\<exists>n ext a b. name = n @ ext \<and> length ext = 4 \<and> out = a @ n @ b"
  then obtain n ext a b where "name = n @ ext" "length ext = 4" "out = a @ n @ b" by blast
  then have "out = a @ expected_output name @ b" by (simp add: expected_output_def)
  then show "Contains out (expected_output name)" unfolding Contains_iff by blast
qed

text \<open>How the loop ends: the first file that is not passed decides.\<close>

definition verdict :: "(string \<Rightarrow> go_error + bytes) \<Rightarrow> string \<Rightarrow> dir_entry list \<Rightarrow> (go_error + int \<times> bytes) option" where
  "verdict sem dir files = (case dropWhile (passes sem dir) files of
      [] \<Rightarrow> Some (Inr (100, []))
    | f # _ \<Rightarrow> (case sem (Join2 dir (de_Name f)) of
        Inl e \<Rightarrow> Some (Inl e)
      | Inr out \<Rightarrow> if length (de_Name f) < 4 then None else Some (Inr (0, out))))"

lemma passes_iff:
  assumes "\<not> de_IsDir f"
  shows "passes sem dir f \<longleftrightarrow> 4 \<le> length (de_Name f)
      \<and> (\<exists>out. sem (Join2 dir (de_Name f)) = Inr out \<and> Contains out (expected_output (de_Name f)))"
proof (cases "4 \<le> length (de_Name f)")
  case True
  with assms show ?thesis unfolding passes_def expected_output_iff [OF True] by blast
qed (use assms in \<open>auto simp: passes_def\<close>)

text \<open>Within the time limits the first file that is not passed decides; full marks are given only within the limits.\<close>

lemma grade_files_verdict:
  assumes run: "runs_as L prog sem dur killed"
  shows "in_time g (run_times dur dir files) (gl_Now L w) D \<Longrightarrow>
    \<exists>w'. grade_files L g (Some D) prog dir files w = (case verdict sem dir files of
      Some r \<Rightarrow> Ret (r, w') | None \<Rightarrow> Panic ''slice bounds out of range'')"
proof (induction files arbitrary: w)
  case Nil
  then show ?case by (simp add: verdict_def ret_def)
next
  case (Cons f files)
  show ?case
  proof (cases "de_IsDir f")
    case True
    then have "passes sem dir f" by (simp add: passes_def)
    with True Cons show ?thesis by (simp add: verdict_def)
  next
    case False
    let ?p = "Join2 dir (de_Name f)"
    from Cons.prems False have t: "gl_Now L w + dur ?p < min D (gl_Now L w + gr_singleExecTimeout g)"
      "in_time g (run_times dur dir files) (gl_Now L w + dur ?p) D"
      by (simp_all add: in_time_Cons run_times_nonneg [OF run])
    with executeCommand_run [OF run, of g D ?p w] obtain w1 where e: "executeCommand L g (Some D) prog [?p] w = Ret (sem ?p, w1)"
      and n: "gl_Now L w1 = gl_Now L w + dur ?p" by auto
    from Cons.IH [of w1] t(2) n obtain w' where "grade_files L g (Some D) prog dir files w1 = (case verdict sem dir files of
      Some r \<Rightarrow> Ret (r, w') | None \<Rightarrow> Panic ''slice bounds out of range'')" by auto
    with e False show ?thesis
      by (cases "sem ?p"; cases "passes sem dir f") (auto simp: verdict_def passes_iff bindE_def bindR_def io_defs)
  qed
qed

lemma grade_files_full:
  assumes run: "runs_as L prog sem dur killed"
  shows "grade_files L g (Some D) prog dir files w = Ret (Inr (100, []), w') \<Longrightarrow>
    (\<forall>f \<in> set files. passes sem dir f) \<and> in_time g (run_times dur dir files) (gl_Now L w) D"
proof (induction files arbitrary: w)
  case Nil
  then show ?case by (simp add: in_time_def)
next
  case (Cons f files)
  show ?case
  proof (cases "de_IsDir f")
    case True
    with Cons show ?thesis by (simp add: passes_def)
  next
    case False
    let ?p = "Join2 dir (de_Name f)"
    from Cons.prems False obtain out w1 where e: "executeCommand L g (Some D) prog [?p] w = Ret (Inr out, w1)"
      and l: "4 \<le> length (de_Name f)" "Contains out (expected_output (de_Name f))"
      and r: "grade_files L g (Some D) prog dir files w1 = Ret (Inr (100, []), w')"
      by (auto simp: bindE_Inr_iff io_defs split: if_splits)
    from executeCommand_run [OF run, of g D ?p w] e have t: "gl_Now L w + dur ?p < min D (gl_Now L w + gr_singleExecTimeout g)"
      "sem ?p = Inr out" "gl_Now L w1 = gl_Now L w + dur ?p" by (auto split: if_splits)
    from Cons.IH [OF r] t(3) have rest: "\<forall>f \<in> set files. passes sem dir f" "in_time g (run_times dur dir files) (gl_Now L w + dur ?p) D" by auto
    have "passes sem dir f" unfolding passes_iff [OF False] using t(2) l by blast
    moreover have "in_time g (run_times dur dir (f # files)) (gl_Now L w) D"
      using False t(1) rest(2) by (simp add: in_time_Cons run_times_nonneg [OF run])
    ultimately show ?thesis using rest(1) by simp
  qed
qed

lemma verdict_full: "verdict sem dir files = Some (Inr (100, [])) \<longleftrightarrow> (\<forall>f \<in> set files. passes sem dir f)"
proof (cases "dropWhile (passes sem dir) files")
  case (Cons f fs)
  then have "\<not> (\<forall>f \<in> set files. passes sem dir f)" using dropWhile_eq_Nil_conv [of "passes sem dir" files] by simp
  with Cons show ?thesis by (auto simp: verdict_def split: sum.splits)
next
  case Nil
  from Nil have "verdict sem dir files = Some (Inr (100, []))" by (simp only: verdict_def list.case)
  moreover from Nil have "\<forall>f \<in> set files. passes sem dir f" using dropWhile_eq_Nil_conv [of "passes sem dir" files] by simp
  ultimately show ?thesis by simp
qed

text \<open>
  C18: The grade of a submission. Full marks are given exactly when every file of the exercise is passed, each run takes less
  than the limit for one run and all runs together less than what is left of the total limit (an empty directory gives them to
  everyone). Within the limits the first file that is not passed decides: an error of the run is the result, no points with
  the output as log, or a panic of the service when the file's name is shorter than its expected extension.
\<close>

theorem grading_verdict:
  assumes "writeFileToDisk L solution w = Ret (Inr prog, w1)" "gl_ReadDir L (input_dir n) w1 = Ret (Inr files, w2)"
    and "runs_as L prog sem dur killed" "\<forall>v. \<exists>c v'. gl_Close L prog v = Ret (c, v')"
  shows "((\<exists>w'. GradeExerciseType1 L g ctx solution n w = Ret (Inr (100, []), w')) \<longleftrightarrow>
       (\<forall>f \<in> set files. passes sem (input_dir n) f)
       \<and> in_time g (run_times dur (input_dir n) files) (gl_Now L w2) (earliest ctx (gl_Now L w2 + gr_totalExecTimeout g)))
    \<and> (in_time g (run_times dur (input_dir n) files) (gl_Now L w2) (earliest ctx (gl_Now L w2 + gr_totalExecTimeout g)) \<longrightarrow>
       (\<exists>w'. GradeExerciseType1 L g ctx solution n w = (case verdict sem (input_dir n) files of
          Some r \<Rightarrow> Ret (r, w') | None \<Rightarrow> Panic ''slice bounds out of range'')))"
proof -
  let ?D = "earliest ctx (gl_Now L w2 + gr_totalExecTimeout g)"
  let ?ok = "in_time g (run_times dur (input_dir n) files) (gl_Now L w2) ?D"
  have eq: "GradeExerciseType1 L g ctx solution n w
      = deferred (grade_files L g (Some ?D) prog (input_dir n) files) (gl_Close L prog) w2"
    using assms(1,2) by (simp add: GradeExerciseType1_def WithDeadline_def deferred_def bindE_def bindR_def io_defs)
  have close: "\<exists>w'. deferred m (gl_Close L prog) w2 = Ret (r, w')" if "m w2 = Ret (r, v)" for m r v
    using spec [OF assms(4), of v] that by (auto simp: deferred_Ret_iff)
  have verdict: "\<exists>w'. GradeExerciseType1 L g ctx solution n w = (case verdict sem (input_dir n) files of
      Some r \<Rightarrow> Ret (r, w') | None \<Rightarrow> Panic ''slice bounds out of range'')" if ok: ?ok
  proof -
    obtain w' where w': "grade_files L g (Some ?D) prog (input_dir n) files w2 = (case verdict sem (input_dir n) files of
      Some r \<Rightarrow> Ret (r, w') | None \<Rightarrow> Panic ''slice bounds out of range'')" using grade_files_verdict [OF assms(3) ok] by blast
    show ?thesis
    proof (cases "verdict sem (input_dir n) files")
      case None
      with w' eq show ?thesis by (simp add: deferred_def bindR_def)
    next
      case (Some r)
      with w' close eq show ?thesis by simp
    qed
  qed
  have full: "(\<forall>f \<in> set files. passes sem (input_dir n) f) \<and> ?ok" if "GradeExerciseType1 L g ctx solution n w = Ret (Inr (100, []), w')" for w'
    using grade_files_full [OF assms(3)] that eq by (auto simp: deferred_Ret_iff)
  show ?thesis using verdict full verdict_full [of sem "input_dir n" files] by fastforce
qed

text \<open>A submission that prints the name of its input, on a directory with a file that wants it and a directory.\<close>

definition echo_lib :: "unit grade_lib" where
  "echo_lib = \<lparr>gl_Now = (\<lambda>_. 0), gl_CreateTemp = (\<lambda>d p. ret (d @ ''/'' @ p @ ''1'')), gl_Write = (\<lambda>_ _. ret ()), gl_Chmod = (\<lambda>_ _. ret ()),
     gl_Sync = (\<lambda>_. ret ()), gl_Close = (\<lambda>_. ret ()), gl_Remove = (\<lambda>_. ret ()), gl_Open = ret, gl_Seek = (\<lambda>_. ret ()), gl_Stat = (\<lambda>_. ret 4),
     gl_Read = (\<lambda>_ _. ret ''echo''), gl_ReadDir = (\<lambda>_. ret [\<lparr>de_Name = ''sub'', de_IsDir = True\<rparr>, \<lparr>de_Name = ''42.txt'', de_IsDir = False\<rparr>]),
     gl_Output = (\<lambda>ctx _ args. if 0 < earliest ctx 1 then ret (concat args) else throw EOF)\<rparr>"

lemma echo_lib_runs: "runs_as echo_lib prog Inr (\<lambda>_. 0) EOF"
  by (simp add: runs_as_def echo_lib_def earliest_def ret_def throw_def)

lemma echo_lib_steps:
  "writeFileToDisk echo_lib b () = Ret (Inr ''/tmp/request-1'', ())"
  "gl_ReadDir echo_lib d () = Ret (Inr [\<lparr>de_Name = ''sub'', de_IsDir = True\<rparr>, \<lparr>de_Name = ''42.txt'', de_IsDir = False\<rparr>], ())"
  "gl_Close echo_lib p () = Ret (Inr (), ())"
  by (simp_all add: writeFileToDisk_def echo_lib_def deferred_def bindE_def bindR_def io_defs)

theorem grading_verdict_witness:
  "GradeExerciseType1 echo_lib NewGraders None ''prog'' 1 () = Ret (Inr (100, []), ())"
proof -
  have "verdict Inr (input_dir 1) [\<lparr>de_Name = ''sub'', de_IsDir = True\<rparr>, \<lparr>de_Name = ''42.txt'', de_IsDir = False\<rparr>] = Some (Inr (100, []))"
  proof -
    have "''/exercises/exercise1/42.txt'' = ''/exercises/exercise1/'' @ ''42'' @ ''.txt''" by simp
    moreover have "Join2 (input_dir 1) ''42.txt'' = ''/exercises/exercise1/42.txt''" by code_simp
    ultimately have "passes Inr (input_dir 1) \<lparr>de_Name = ''42.txt'', de_IsDir = False\<rparr>"
      unfolding passes_def by (intro disjI2 exI [of _ "''42''"] exI [of _ "''.txt''"] exI [of _ "''/exercises/exercise1/''"]) simp
    then show ?thesis by (simp add: verdict_full passes_def)
  qed
  moreover have "in_time NewGraders (run_times (\<lambda>_. 0) (input_dir 1) [\<lparr>de_Name = ''sub'', de_IsDir = True\<rparr>, \<lparr>de_Name = ''42.txt'', de_IsDir = False\<rparr>])
      (gl_Now echo_lib ()) (earliest None (gl_Now echo_lib () + gr_totalExecTimeout NewGraders))"
    by (simp add: in_time_def echo_lib_def NewGraders_def earliest_def)
  moreover have "\<forall>v. \<exists>c v'. gl_Close echo_lib ''/tmp/request-1'' v = Ret (c, v')" by (simp add: echo_lib_def ret_def)
  ultimately show ?thesis
    using conjunct2 [OF grading_verdict [OF echo_lib_steps(1) echo_lib_steps(2) [of "input_dir 1"] echo_lib_runs, of NewGraders None "''prog''"]] by simp
qed

section \<open>The service and its clients\<close>

text \<open>
  What the service relies on: the method of \<^verbatim>\<open>Graders\<close> gives no points or all of them.
\<close>

lemma nonce_step:
  "(if rg_Submit req then (case checkNonce (rg_Nonce req) of
      Some _ \<Rightarrow> throw (StatusError Unauthenticated ''nonce check failed'') | None \<Rightarrow> ret ()) else ret ()) = ret ()"
  by (simp add: checkNonce_def)

locale grading =
  fixes grade :: "bytes \<Rightarrow> int \<Rightarrow> ('w, int \<times> bytes) io"
  assumes points: "yields (\<lambda>(p, log). p = 0 \<or> p = 100) (grade b n)"
begin

lemma response_points:
  assumes "RequestGrading grade req w = Ret (Inr (p, log), w')"
  shows "p = 0 \<or> p = 100"
    and "rg_Id req = 1 \<Longrightarrow> grade (rg_Solution req) 1 w = Ret (Inr (p, log), w')"
    and "rg_Id req \<noteq> 1 \<Longrightarrow> p = 0"
proof -
  have id: "int32 0 = 0" "int32 100 = 100" by (simp_all add: int32_id)
  have "(p = 0 \<or> p = 100) \<and> (rg_Id req = 1 \<longrightarrow> grade (rg_Solution req) 1 w = Ret (Inr (p, log), w')) \<and> (rg_Id req \<noteq> 1 \<longrightarrow> p = 0)"
  proof (cases "rg_Id req = 1")
    case True
    with assms obtain r q v where "grade (rg_Solution req) 1 w = Ret (r, v)" "p = int32 q"
      "(case r of Inl _ \<Rightarrow> throw (StatusError InvalidArgument ''failed to grade exercise one'') | Inr x \<Rightarrow> ret x) v = Ret (Inr (q, log), w')"
      by (auto simp: RequestGrading_def nonce_step bindE_Inr_iff bindR_Ret_iff ret_def)
    then have g: "grade (rg_Solution req) 1 w = Ret (Inr (q, log), w')" "p = int32 q"
      by (auto simp: ret_def throw_def split: sum.split_asm)
    from yieldsD [OF points g(1)] g id True show ?thesis by auto
  next
    case False
    with assms show ?thesis
      by (auto simp: RequestGrading_def nonce_step ret_def id)
  qed
  then show "p = 0 \<or> p = 100" "rg_Id req = 1 \<Longrightarrow> grade (rg_Solution req) 1 w = Ret (Inr (p, log), w')"
    "rg_Id req \<noteq> 1 \<Longrightarrow> p = 0" by blast+
qed

end

lemma grade_files_points: "yields (\<lambda>(p, log). p = 0 \<or> p = 100) (grade_files L g ctx prog dir files)"
  by (induction files) (auto simp: yields_pure intro!: yields_bindE)

interpretation type1: grading "GradeExerciseType1 L g ctx"
  by unfold_locales (auto simp: GradeExerciseType1_def intro!: yields_bindE yields_deferred grade_files_points)

text \<open>What is used of gRPC: a call that returns without an error was handled once by the service.\<close>

definition grader_delivers :: "'w grade_client \<Rightarrow> 'w grade_lib \<Rightarrow> Graders \<Rightarrow> bool" where
  "grader_delivers G L g \<longleftrightarrow> (\<forall>conn req w p w'. gc_RequestGrading G conn req w = Ret (Inr p, w') \<longrightarrow>
     (\<exists>ctx. RequestGrading (GradeExerciseType1 L g ctx) req w = Ret (Inr p, w')))"

text \<open>
  The points of a request are all or none, given for the content of the named file, or for nothing at all when the file
  could not be read (the error is only logged).
\<close>

lemma request_graded:
  assumes "SendGradingRequest C G fileName w = Ret (Inr p, w')" "grader_delivers G L g"
  shows "(p = 0 \<or> p = 100) \<and> (\<exists>v1 r v2 v3 ctx log v4. fileNameToBytes C fileName v1 = Ret (r, v2)
      \<and> GradeExerciseType1 L g ctx (case r of Inl _ \<Rightarrow> [] | Inr b \<Rightarrow> b) 1 v3 = Ret (Inr (p, log), v4))"
proof -
  from assms(1) obtain f v1 r v2 conn v3 log v4 where run: "fileNameToBytes C fileName v1 = Ret (r, v2)"
    "gc_RequestGrading G conn \<lparr>rg_Id = 1, rg_Nonce = split_file f, rg_Solution = (case r of Inl _ \<Rightarrow> [] | Inr b \<Rightarrow> b), rg_Submit = False\<rparr> v3
      = Ret (Inr (p, log), v4)"
    by (auto simp: SendGradingRequest_def bindE_Inr_iff deferred_Ret_iff bindR_Ret_iff ret_def)
  from assms(2) run(2) obtain ctx where h: "RequestGrading (GradeExerciseType1 L g ctx)
      \<lparr>rg_Id = 1, rg_Nonce = split_file f, rg_Solution = (case r of Inl _ \<Rightarrow> [] | Inr b \<Rightarrow> b), rg_Submit = False\<rparr> v3 = Ret (Inr (p, log), v4)"
    unfolding grader_delivers_def by blast
  have "p = 0 \<or> p = 100" "GradeExerciseType1 L g ctx (case r of Inl _ \<Rightarrow> [] | Inr b \<Rightarrow> b) 1 v3 = Ret (Inr (p, log), v4)"
    using type1.response_points(1,2) [OF h] by simp_all
  with run(1) show ?thesis by blast
qed

lemma grader_address_eq [code]: "grader_address = ''grader-service.grader.svc.cluster.local:9027''"
  by (simp add: grader_address_def GraderNamespaceName_def GradeAPIport_def Itoa_def nat_dec.simps) code_simp

definition direct_client :: "unit grade_client" where
  "direct_client = \<lparr>gc_Dial = (\<lambda>_. ret 0), gc_RequestGrading = (\<lambda>_. RequestGrading (GradeExerciseType1 echo_lib NewGraders None))\<rparr>"

lemma direct_client_delivers: "grader_delivers direct_client echo_lib NewGraders"
  by (auto simp: grader_delivers_def direct_client_def)

text \<open>The nonce and the submit flag have no influence on the answer: the identity of the caller is not checked.\<close>

lemma nonce_unchecked: "RequestGrading grade (req\<lparr>rg_Nonce := n, rg_Submit := b\<rparr>) = RequestGrading grade req"
  by (simp add: RequestGrading_def checkNonce_def)

text \<open>
  The address that a user's client dials is the DNS name and port of the service the installer creates; the service
  selects the pods of the grader's deployment and forwards to the port the grader listens on.
\<close>

theorem grader_service_reachable:
  "let sv = ServiceClusterIP GraderNamespaceName ''grader'' GradeAPIport; dp = GraderDeployment GraderNamespaceName ''grader'' r in
     grader_address = om_Name (sv_Meta sv) @ ''.'' @ om_Namespace (sv_Meta sv) @ ''.svc.cluster.local:'' @ Itoa (sp_Port (hd (sv_Ports sv)))
     \<and> selects (sv_Selector sv) (om_Labels (pt_Meta (dp_Template dp)))
     \<and> map sp_TargetPort (sv_Ports sv) = map cp_ContainerPort (concat (map ct_Ports (ps_Containers (pt_Spec (dp_Template dp)))))
     \<and> server_address = JoinHostPort DefaultIP (Itoa (sp_TargetPort (hd (sv_Ports sv))))"
  by (simp add: grader_address_def server_address_def GraderDeployment_def deployment_of_def ServiceClusterIP_def
      labelled_def app_label_def selects_def GradeAPIport_def int32_def)

end
