(* ===== verification/Installer.thy ===== *)
theory Installer
  imports Kube_User
begin

text \<open>
  \<^verbatim>\<open>cli/installer\<close>, \<^verbatim>\<open>cli/installer/helm\<close> and \<^verbatim>\<open>cli/terminate\<close>: setting up the applications of a fresh cluster and saving the
  user data at the end. The installer's state is the cluster, the client's shared store (absent until it has connected)
  and the credentials it hands to the servers in the cluster.
\<close>

section \<open>Addresses\<close>

text \<open>\<^verbatim>\<open>net.SplitHostPort\<close>.\<close>

definition last_colon :: "string \<Rightarrow> nat option" where
  "last_colon s = (case filter (\<lambda>i. s ! i = CHR '':'') [0..<length s] of [] \<Rightarrow> None | ks \<Rightarrow> Some (last ks))"

definition first_index :: "char \<Rightarrow> string \<Rightarrow> nat option" where
  "first_index c s = (case filter (\<lambda>i. s ! i = c) [0..<length s] of [] \<Rightarrow> None | i # _ \<Rightarrow> Some i)"

definition SplitHostPort :: "string \<Rightarrow> go_error + string \<times> string" where
  "SplitHostPort hp = (case last_colon hp of
      None \<Rightarrow> Inl (ErrorString ''missing port in address'')
    | Some i \<Rightarrow>
        if hp ! 0 = CHR ''['' then
          (case first_index (CHR '']'') hp of
             None \<Rightarrow> Inl (ErrorString ''missing ']' in address'')
           | Some e \<Rightarrow>
               if e + 1 = length hp then Inl (ErrorString ''missing port in address'')
               else if e + 1 = i then
                 (if CHR ''['' \<in> set (drop 1 hp) then Inl (ErrorString ''unexpected '[' in address'')
                  else if CHR '']'' \<in> set (drop (e + 1) hp) then Inl (ErrorString ''unexpected ']' in address'')
                  else Inr (take (e - 1) (drop 1 hp), drop (i + 1) hp))
               else if hp ! (e + 1) = CHR '':'' then Inl (ErrorString ''too many colons in address'')
               else Inl (ErrorString ''missing port in address''))
        else if CHR '':'' \<in> set (take i hp) then Inl (ErrorString ''too many colons in address'')
        else if CHR ''['' \<in> set hp then Inl (ErrorString ''unexpected '[' in address'')
        else if CHR '']'' \<in> set hp then Inl (ErrorString ''unexpected ']' in address'')
        else Inr (take i hp, drop (i + 1) hp))"

section \<open>The installer\<close>

record ('w, 's) installer =
  in_cluster :: 'w
  in_client :: "(string, 's) Client"
  in_sshData :: "string gomap"

text \<open>\<^verbatim>\<open>NewInstaller\<close>, given the result of \<^verbatim>\<open>NewClient\<close> and the cluster it talks to.\<close>

definition NewInstaller :: "go_error + (string, 's) Client \<Rightarrow> 'w \<Rightarrow> go_error + ('w, 's) installer" where
  "NewInstaller newClient w = (case newClient of
      Inl err \<Rightarrow> Inl err
    | Inr client \<Rightarrow> Inr \<lparr>in_cluster = w, in_client = client, in_sshData = []\<rparr>)"

definition on_cluster :: "('w, 'a) io \<Rightarrow> (('w, 's) installer, 'a) io" where
  "on_cluster m k = (case m (in_cluster k) of
      Ret (r, w) \<Rightarrow> Ret (r, k\<lparr>in_cluster := w\<rparr>) | Panic p \<Rightarrow> Panic p | Block \<Rightarrow> Block)"

text \<open>A method call on the shared store; on a nil interface it panics.\<close>

definition on_store :: "('s etcd_store, 'a) io \<Rightarrow> (('w, 's) installer, 'a) io" where
  "on_store m k = (case SharedStore (in_client k) of
      None \<Rightarrow> Panic ''invalid memory address or nil pointer dereference''
    | Some st \<Rightarrow> (case m st of
        Ret (r, st') \<Rightarrow> Ret (r, k\<lparr>in_client := (in_client k)\<lparr>SharedStore := Some st'\<rparr>\<rparr>) | Panic p \<Rightarrow> Panic p | Block \<Rightarrow> Block))"

text \<open>
  Library code: the host part of a URL, the two functions that make an etcd client, and the steps of a helm
  installation.
\<close>

record ('w, 's) inst_lib =
  lib_url_host :: "string \<Rightarrow> go_error + string"
  lib_X509KeyPair :: "bytes \<Rightarrow> bytes \<Rightarrow> go_error + unit"
  lib_New :: "string list \<Rightarrow> tls_config option \<Rightarrow> go_error + 's etcd_store"
  lib_kube :: "'w kube_client"
  lib_kubeconfig :: "string option"
  lib_stat :: "string \<Rightarrow> go_error option"
  lib_helm_init :: "string \<Rightarrow> ('w, unit) io"
  lib_locate_chart :: "string \<Rightarrow> ('w, string) io"
  lib_read_file :: "string \<Rightarrow> ('w, bytes) io"
  lib_sha256 :: "bytes \<Rightarrow> string"
  lib_load_chart :: "string \<Rightarrow> ('w, bytes) io"
  lib_run_release :: "string \<Rightarrow> string \<Rightarrow> bytes \<Rightarrow> string gomap \<Rightarrow> ('w, unit) io"
  lib_write_file :: "string \<Rightarrow> bytes \<Rightarrow> ('w, unit) io"

definition api_host :: "('w, 's) inst_lib \<Rightarrow> string \<Rightarrow> go_error + string" where
  "api_host lib rest = (case lib_url_host lib rest of
      Inl err \<Rightarrow> Inl err
    | Inr h \<Rightarrow> (case SplitHostPort h of Inl err \<Rightarrow> Inl err | Inr (host, _) \<Rightarrow> Inr host))"

definition connectToEtcd :: "('w, 's) inst_lib \<Rightarrow> EtcdCredentials \<Rightarrow> (('w, 's) installer, unit) io" where
  "connectToEtcd lib creds =
     bindE (gets in_client) (\<lambda>client.
     bindE (lift_result (api_host lib (RestConfig client))) (\<lambda>host.
     case ConnectToStore (lib_X509KeyPair lib) (lib_New lib) client creds [JoinHostPort host ''2379''] of
       (Inl err, _) \<Rightarrow> throw err
     | (Inr _, client') \<Rightarrow> modify (\<lambda>k. k\<lparr>in_client := client',
         in_sshData := [(''key'', KeyData creds), (''cert'', PeerCertData creds), (''caCert'', CaCertData creds), (''advertiseAddr'', host)]\<rparr>)))"

section \<open>Helm\<close>

record helm_installer =
  hi_releaseName :: string
  hi_namespace :: string
  hi_path :: string
  hi_sha256 :: string
  hi_configValue :: "string gomap"

definition NewHelmInstaller :: "string \<Rightarrow> string \<Rightarrow> string \<Rightarrow> string \<Rightarrow> string gomap \<Rightarrow> helm_installer" where
  "NewHelmInstaller releaseName namespace path sha256 configValue =
     \<lparr>hi_releaseName = releaseName, hi_namespace = namespace, hi_path = path, hi_sha256 = sha256, hi_configValue = configValue\<rparr>"

definition CiliumPath :: string where
  "CiliumPath = ''https://github.com/cilium/charts/raw/master/cilium-1.16.1.tgz''"

definition Cilium256Hash :: string where
  "Cilium256Hash = ''406c5bba515262c52e53b859af31af412cd8d2c332e277e98ec3e5f14382ecbf''"

definition helm_Install :: "('w, 's) inst_lib \<Rightarrow> helm_installer \<Rightarrow> ('w, unit) io" where
  "helm_Install lib h =
     bindE (lift_result (GetKubeConfigPath (lib_kubeconfig lib) (lib_stat lib))) (\<lambda>kubeconfig.
     bindE (lib_helm_init lib kubeconfig) (\<lambda>_.
     bindE (lib_locate_chart lib (hi_path h)) (\<lambda>path.
     bindE (lib_read_file lib path) (\<lambda>chartFile.
     let sha256String = lib_sha256 lib chartFile in
     if sha256String \<noteq> hi_sha256 h
     then throw (ErrorString (''sha256 mismatch: got '' @ sha256String @ '', expected '' @ Cilium256Hash))
     else bindE (lib_load_chart lib path) (\<lambda>chart.
          lib_run_release lib (hi_releaseName h) (hi_namespace h) chart (hi_configValue h))))))"

text \<open>Only a chart whose file has the configured digest is ever installed: with another digest the call ends with an error after reading the file.\<close>

lemma helm_Install_verified:
  assumes "helm_Install lib h w = Ret (Inr (), w')"
  shows "\<exists>path v file v'. lib_read_file lib path v = Ret (Inr file, v') \<and> lib_sha256 lib file = hi_sha256 h"
  using assms by (auto simp: helm_Install_def bindE_Inr_iff Let_def throw_def split: if_splits)

lemma helm_Install_mismatch:
  assumes "GetKubeConfigPath (lib_kubeconfig lib) (lib_stat lib) = Inr kubeconfig" "lib_helm_init lib kubeconfig w = Ret (Inr (), w1)"
    and "lib_locate_chart lib (hi_path h) w1 = Ret (Inr path, w2)" "lib_read_file lib path w2 = Ret (Inr file, w3)" "lib_sha256 lib file \<noteq> hi_sha256 h"
  shows "\<exists>e. helm_Install lib h w = Ret (Inl e, w3)"
  using assms by (simp add: helm_Install_def bindE_def bindR_def io_defs Let_def)

definition installCilium :: "('w, 's) inst_lib \<Rightarrow> (('w, 's) installer, unit) io" where
  "installCilium lib =
     bindE (gets in_client) (\<lambda>client.
     bindE (lift_result (api_host lib (RestConfig client))) (\<lambda>host.
     on_cluster (helm_Install lib (NewHelmInstaller ''cilium'' ''cilium'' CiliumPath Cilium256Hash
       [(''kubeProxyReplacement'', ''true''), (''k8sServicePort'', ''6443''), (''k8sServiceHost'', host)]))))"

section \<open>Applications\<close>

text \<open>\<^verbatim>\<open>json.Marshal(nil)\<close>.\<close>

definition nil_codec :: "unit codec" where
  "nil_codec = \<lparr>Marshal = (\<lambda>_. Inr ''null''), Unmarshal = (\<lambda>_. Inr ())\<rparr>"

text \<open>A \<^verbatim>\<open>range\<close> over a map.\<close>

definition for_map :: "range_order \<Rightarrow> 'v gomap \<Rightarrow> (string \<Rightarrow> 'v \<Rightarrow> ('w, unit) io) \<Rightarrow> ('w, unit) io" where
  "for_map ro m f = forE (range_keys ro m) (\<lambda>k. case map_of m k of Some v \<Rightarrow> f k v | None \<Rightarrow> ret ())"

text \<open>The three loops of \<^verbatim>\<open>initalizeChallenges\<close>.\<close>

definition store_users :: "UserInformation codec \<Rightarrow> range_order \<Rightarrow> UserConfiguration \<Rightarrow> ('s etcd_store, unit) io" where
  "store_users cu ro userConfig =
     bindE (for_map ro (Containers userConfig) (\<lambda>namespace _. PutChallengeData etcd_iface nil_codec namespace ())) (\<lambda>_.
     bindE (for_map ro (UUIDToUser userConfig) (\<lambda>uuid userData. PutDataIdxByUuid etcd_iface cu uuid userData)) (\<lambda>_.
     for_map ro (PubKeyToUser userConfig) (\<lambda>pubkey userData. PutDataIdxByPubKey etcd_iface cu pubkey userData)))"

definition initalizeChallenges ::
  "('w, 's) inst_lib \<Rightarrow> UserInformation codec \<Rightarrow> range_order \<Rightarrow> UserConfiguration \<Rightarrow> (('w, 's) installer, unit) io" where
  "initalizeChallenges lib cu ro userConfig =
     bindE (on_cluster (CreateStorageClass (lib_kube lib) ''nfs'' ''Retain'')) (\<lambda>_.
     bindE (on_cluster (CreateNamespace (lib_kube lib) UserNamespace)) (\<lambda>_.
     on_store (store_users cu ro userConfig)))"

definition createConfigMapAndPutData ::
  "'w kube_client \<Rightarrow> range_order \<Rightarrow> string \<Rightarrow> string \<Rightarrow> string gomap \<Rightarrow> ('w, unit) io" where
  "createConfigMapAndPutData c ro namespace configMapName data =
     bindE (CreateConfigMap c namespace configMapName) (\<lambda>_.
     for_map ro data (\<lambda>key v. AddDataToConfigMap c namespace configMapName key v))"

definition initializeSSH :: "('w, 's) inst_lib \<Rightarrow> range_order \<Rightarrow> (('w, 's) installer, unit) io" where
  "initializeSSH lib ro =
     (let c = lib_kube lib in
     bindE (on_cluster (CreateNamespace c SSHNamespaceName)) (\<lambda>_.
     bindE (gets in_sshData) (\<lambda>sshData.
     bindE (on_cluster (createConfigMapAndPutData c ro SSHNamespaceName ''etcd-credentials'' sshData)) (\<lambda>_.
     bindE (on_cluster (lib_read_file lib ''./server_test'')) (\<lambda>privateBytes.
     bindE (gets in_client) (\<lambda>client.
     bindE (if SharedStore client = None then throw ErrNotConnected else on_store (PutPrivKey etcd_iface privateBytes)) (\<lambda>_.
     bindE (on_cluster (CreateServiceAccount c SSHNamespaceName SSHServiceAccountName)) (\<lambda>_.
     bindE (on_cluster (CreateClusterRoleBinding c SSHNamespaceName SSHServiceAccountName)) (\<lambda>_.
     bindE (on_cluster (CreateSSHDeployment c SSHNamespaceName ''ssh-relay'' (int32 (NumberOfWorkers ClusterConfiguration)))) (\<lambda>_.
     bindE (on_cluster (CreateServiceLoadBalancer c SSHNamespaceName ''ssh-relay'' SSHPort)) (\<lambda>_.
     on_cluster (CreateIngress c SSHNamespaceName))))))))))))"

definition initializeGrader :: "('w, 's) inst_lib \<Rightarrow> range_order \<Rightarrow> (('w, 's) installer, unit) io" where
  "initializeGrader lib ro =
     (let c = lib_kube lib in
     bindE (on_cluster (CreateNamespace c GraderNamespaceName)) (\<lambda>_.
     bindE (gets in_sshData) (\<lambda>sshData.
     bindE (on_cluster (createConfigMapAndPutData c ro GraderNamespaceName ''etcd-credentials'' sshData)) (\<lambda>_.
     bindE (on_cluster (CreateServiceAccount c GraderNamespaceName GraderServiceAccountName)) (\<lambda>_.
     bindE (on_cluster (CreateClusterRoleBinding c GraderNamespaceName GraderServiceAccountName)) (\<lambda>_.
     bindE (on_cluster (CreateGraderDeployment c GraderNamespaceName ''grader'' (int32 (NumberOfWorkers ClusterConfiguration)))) (\<lambda>_.
     on_cluster (CreateServiceClusterIP c GraderNamespaceName ''grader'' GradeAPIport))))))))"

definition InstallKubernetesApplications ::
  "('w, 's) inst_lib \<Rightarrow> UserInformation codec \<Rightarrow> range_order \<Rightarrow> EtcdCredentials \<Rightarrow> UserConfiguration \<Rightarrow> (('w, 's) installer, unit) io" where
  "InstallKubernetesApplications lib cu ro creds userConfig =
     bindE (connectToEtcd lib creds) (\<lambda>_.
     bindE (installCilium lib) (\<lambda>_.
     bindE (initalizeChallenges lib cu ro userConfig) (\<lambda>_.
     bindE (initializeSSH lib ro) (\<lambda>_.
     initializeGrader lib ro))))"

section \<open>Saving the state\<close>

definition NewTerminate :: "('w, 's) inst_lib \<Rightarrow> (string, 's) Client \<Rightarrow> EtcdCredentials \<Rightarrow> go_error + (string, 's) Client" where
  "NewTerminate lib client creds = (case api_host lib (RestConfig client) of
      Inl err \<Rightarrow> Inl err
    | Inr host \<Rightarrow> (case ConnectToStore (lib_X509KeyPair lib) (lib_New lib) client creds [JoinHostPort host ''2379''] of
        (Inl err, _) \<Rightarrow> Inl err
      | (Inr _, client') \<Rightarrow> Inr client'))"

definition SaveState ::
  "('w, 's) inst_lib \<Rightarrow> UserConfiguration codec \<Rightarrow> ContainerInformation codec \<Rightarrow> UserInformation codec \<Rightarrow> string
   \<Rightarrow> (('w, 's) installer, unit) io" where
  "SaveState lib cfg cc cu configFile =
     bindE (gets in_client) (\<lambda>client.
     bindE (case SharedStore client of
         None \<Rightarrow> throw ErrNotConnected
       | Some _ \<Rightarrow> on_store (GetStoreUserData (Some etcd_iface) cc cu)) (\<lambda>configData.
     bindE (lift_result (Marshal cfg configData)) (\<lambda>byteData.
     on_cluster (lib_write_file lib configFile byteData))))"

section \<open>Credentials\<close>

lemma AddDataToConfigMap_done:
  assumes "kube_laws c" "AddDataToConfigMap c ns n k v w = Ret (Inr (), w')"
    and "kc_objects c w (''configmaps'', ns, n) = Some (KConfigMap m)" "om_Name (cm_Meta m) = n"
  shows "\<exists>m'. kc_objects c w' (''configmaps'', ns, n) = Some (KConfigMap m') \<and> om_Name (cm_Meta m') = n
    \<and> map_of (cm_Data m') = (map_of (cm_Data m))(k \<mapsto> v)"
proof -
  obtain cm w1 where g: "kc_get_configmap c ns n w = Ret (Inr cm, w1)" and
    u: "kc_update_configmap c ns (if length (cm_Data cm) = 0 then cm\<lparr>cm_Data := [(k, v)]\<rparr>
        else cm\<lparr>cm_Data := AList.update k v (cm_Data cm)\<rparr>) w1 = Ret (Inr (), w')"
    using assms(2) by (auto simp: AddDataToConfigMap_def bindE_Inr_iff Let_def)
  have cm: "cm = m" using readsD(2) [OF kube_lawsD(3) [OF assms(1)] g refl] assms(3) by simp
  show ?thesis using storesD(1) [OF kube_lawsD(8) [OF assms(1)] u refl] assms(4) cm by auto
qed

lemma put_data_loop:
  assumes "kube_laws c" "forE ks (\<lambda>k. case map_of d k of Some v \<Rightarrow> AddDataToConfigMap c ns n k v | None \<Rightarrow> ret ()) w = Ret (Inr (), w')"
    and "kc_objects c w (''configmaps'', ns, n) = Some (KConfigMap m)" "om_Name (cm_Meta m) = n" "set ks \<subseteq> dom (map_of d)"
  shows "\<exists>m'. kc_objects c w' (''configmaps'', ns, n) = Some (KConfigMap m')
    \<and> map_of (cm_Data m') = (\<lambda>x. if x \<in> set ks then map_of d x else map_of (cm_Data m) x)"
  using assms(2-5)
proof (induction ks arbitrary: w m)
  case (Cons k ks)
  then obtain v w1 where v: "map_of d k = Some v" "AddDataToConfigMap c ns n k v w = Ret (Inr (), w1)"
    and rest: "forE ks (\<lambda>k. case map_of d k of Some v \<Rightarrow> AddDataToConfigMap c ns n k v | None \<Rightarrow> ret ()) w1 = Ret (Inr (), w')"
    by (auto simp: bindE_Inr_iff)
  obtain m1 where m1: "kc_objects c w1 (''configmaps'', ns, n) = Some (KConfigMap m1)" "om_Name (cm_Meta m1) = n"
    "map_of (cm_Data m1) = (map_of (cm_Data m))(k \<mapsto> v)"
    using AddDataToConfigMap_done [OF assms(1) v(2) Cons.prems(2,3)] by blast
  from Cons.IH [OF rest m1(1,2)] Cons.prems(4) v(1) m1(3) show ?case by (auto simp: fun_eq_iff)
qed (auto simp: ret_def)

lemma createConfigMapAndPutData_done:
  assumes "kube_laws c" "is_range_order ro" "createConfigMapAndPutData c ro ns n d w = Ret (Inr (), w')"
  shows "\<exists>m. kc_objects c w' (''configmaps'', ns, n) = Some (KConfigMap m) \<and> map_of (cm_Data m) = map_of d"
proof -
  obtain w1 where w1: "kc_create c ns (KConfigMap (ConfigMap ns n)) w = Ret (Inr (), w1)"
    "forE (range_keys ro d) (\<lambda>k. case map_of d k of Some v \<Rightarrow> AddDataToConfigMap c ns n k v | None \<Rightarrow> ret ()) w1 = Ret (Inr (), w')"
    using assms(3) by (auto simp: createConfigMapAndPutData_def for_map_def CreateConfigMap_def bindE_Inr_iff)
  have "kc_objects c w1 (''configmaps'', ns, n) = Some (KConfigMap (ConfigMap ns n))"
    using storesD(1) [OF kube_lawsD(1) [OF assms(1)] w1(1) refl] by (simp add: object_keys)
  from put_data_loop [OF assms(1) w1(2) this] set_range_keys [OF assms(2), of d] show ?thesis
    by (auto simp: ConfigMap_def named_def fun_eq_iff domIff)
qed

text \<open>
  C31: The credentials the installer puts into the cluster are the ones the servers connect with: after
  \<^verbatim>\<open>createConfigMapAndPutData\<close> with the map that \<^verbatim>\<open>connectToEtcd\<close> has made, a server that reads its config map opens
  the etcd client with the same address, certificate, key and authority as the installer itself.
\<close>

theorem credentials_reach_the_server:
  assumes "kube_laws c" "is_range_order ro"
    and "createConfigMapAndPutData c ro ns ''etcd-credentials''
      [(''key'', KeyData creds), (''cert'', PeerCertData creds), (''caCert'', CaCertData creds), (''advertiseAddr'', host)] w = Ret (Inr (), w1)"
    and "kc_get_configmap c ns ''etcd-credentials'' w1 = Ret (Inr m, w2)" "pod_namespace stat content ticks = Inr ns"
  shows "GetStore c X509KeyPair New stat content ticks w1 =
    Ret (NewEtcdStore X509KeyPair New [JoinHostPort host ''2379''] (Some (CaCertData creds)) (Some (PeerCertData creds)) (Some (KeyData creds)), w2)"
proof -
  have "map_of (cm_Data m) = map_of [(''key'', KeyData creds), (''cert'', PeerCertData creds), (''caCert'', CaCertData creds), (''advertiseAddr'', host)]"
    using createConfigMapAndPutData_done [OF assms(1-3)] readsD(2) [OF kube_lawsD(3) [OF assms(1)] assms(4) refl] by auto
  then show ?thesis
    using assms(4,5) by (simp add: GetStore_def GetConfigMapData_def bindE_def bindR_def io_defs lookup_str_def)
qed

definition some_creds :: EtcdCredentials where
  "some_creds = \<lparr>PeerCertData = ''CERT'', KeyData = ''KEY'', CaCertData = ''CA''\<rparr>"

theorem credentials_reach_the_server_witness:
  "\<exists>w1 w2. createConfigMapAndPutData mem_kube rev ''ssh'' ''etcd-credentials''
      [(''key'', KeyData some_creds), (''cert'', PeerCertData some_creds), (''caCert'', CaCertData some_creds), (''advertiseAddr'', ''10.42.0.2'')] []
      = Ret (Inr (), w1)
    \<and> GetStore mem_kube (\<lambda>_ _. Inr ()) (\<lambda>es _. if es = [''10.42.0.2:2379''] then Inr (mem_store []) else Inl EOF) None (Inr ''ssh'') [] w1
      = Ret (Inr (mem_store []), w2)"
proof -
  let ?d = "[(''key'', KeyData some_creds), (''cert'', PeerCertData some_creds), (''caCert'', CaCertData some_creds), (''advertiseAddr'', ''10.42.0.2'')]"
  have "returns_ok (createConfigMapAndPutData mem_kube rev ''ssh'' ''etcd-credentials'' ?d [])" by code_simp
  then obtain w1 where w1: "createConfigMapAndPutData mem_kube rev ''ssh'' ''etcd-credentials'' ?d [] = Ret (Inr (), w1)"
    by (auto simp: returns_ok_iff)
  obtain m where m: "map_of w1 (''configmaps'', ''ssh'', ''etcd-credentials'') = Some (KConfigMap m)"
    using createConfigMapAndPutData_done [OF mem_kube_laws is_range_order_id(2) w1] by auto
  then have g: "kc_get_configmap mem_kube ''ssh'' ''etcd-credentials'' w1 = Ret (Inr m, w1)"
    by (simp add: mem_kube_def mem_get_def)
  have ns: "pod_namespace None (Inr ''ssh'') [] = Inr ''ssh''" by (simp add: pod_namespace_def TrimSpace_def is_space_def)
  have addr: "JoinHostPort ''10.42.0.2'' ''2379'' = ''10.42.0.2:2379''" by (simp add: JoinHostPort_def)
  from credentials_reach_the_server [OF mem_kube_laws is_range_order_id(2) w1 g ns,
      where X509KeyPair = "\<lambda>_ _. Inr ()" and New = "\<lambda>es _. if es = [''10.42.0.2:2379''] then Inr (mem_store []) else Inl EOF"] w1
  show ?thesis
    by (auto simp: NewEtcdStore_def addr)
qed

section \<open>Users\<close>

lemma put_area_loop:
  assumes "forE ks (\<lambda>k. case map_of d k of Some v \<Rightarrow> put_json etcd_iface cu (p @ k) v | None \<Rightarrow> ret ()) w = Ret (Inr (), w')"
    and "etcd_wf w" "set ks \<subseteq> dom (map_of d)"
  shows "etcd_wf w' \<and> (\<forall>x. (\<forall>k \<in> set ks. x \<noteq> p @ k) \<longrightarrow> etcd_kv w' x = etcd_kv w x)
    \<and> (\<forall>k \<in> set ks. \<exists>b. Marshal cu (the (map_of d k)) = Inr b \<and> etcd_kv w' (p @ k) = Some b)"
  using assms
proof (induction ks arbitrary: w)
  case (Cons k ks)
  then obtain v w1 where v: "map_of d k = Some v" "put_json etcd_iface cu (p @ k) v w = Ret (Inr (), w1)"
    and rest: "forE ks (\<lambda>k. case map_of d k of Some v \<Rightarrow> put_json etcd_iface cu (p @ k) v | None \<Rightarrow> ret ()) w1 = Ret (Inr (), w')"
    by (auto simp: bindE_Inr_iff)
  obtain b where b: "Marshal cu v = Inr b" "etcd_wf w1" "etcd_kv w1 = (etcd_kv w)(p @ k \<mapsto> b)"
    using etcd.put_json_done [OF Cons.prems(2) v(2)] by blast
  have IH: "etcd_wf w'" "\<And>x. \<forall>k \<in> set ks. x \<noteq> p @ k \<Longrightarrow> etcd_kv w' x = etcd_kv w1 x"
    "\<And>k. k \<in> set ks \<Longrightarrow> \<exists>b. Marshal cu (the (map_of d k)) = Inr b \<and> etcd_kv w' (p @ k) = Some b"
    using Cons.IH [OF rest b(2)] Cons.prems(3) by auto
  have "\<exists>b. Marshal cu (the (map_of d k)) = Inr b \<and> etcd_kv w' (p @ k) = Some b"
    using IH(2) [of "p @ k"] IH(3) [of k] b v(1) by (cases "k \<in> set ks") auto
  with IH b(3) show ?case by auto
qed (simp add: ret_def)

lemma put_area_all:
  assumes "for_map ro d (\<lambda>k v. put_json etcd_iface cu (p @ k) v) w = Ret (Inr (), w')" "etcd_wf w" "is_range_order ro"
  shows "etcd_wf w'" "\<forall>k. x \<noteq> p @ k \<Longrightarrow> etcd_kv w' x = etcd_kv w x"
    "(\<And>u. u \<in> ran (map_of d) \<Longrightarrow> json_ok cu u) \<Longrightarrow> decode_map cu p (etcd_kv w') = decode_map cu p (etcd_kv w) ++ map_of d"
proof -
  have ks: "set (range_keys ro d) = dom (map_of d)" by (rule set_range_keys [OF assms(3)])
  note loop = put_area_loop [OF assms(1) [unfolded for_map_def] assms(2)]
  show "etcd_wf w'" "\<forall>k. x \<noteq> p @ k \<Longrightarrow> etcd_kv w' x = etcd_kv w x" using loop ks by auto
  show "decode_map cu p (etcd_kv w') = decode_map cu p (etcd_kv w) ++ map_of d" if ok: "\<And>u. u \<in> ran (map_of d) \<Longrightarrow> json_ok cu u"
  proof
    fix k
    show "decode_map cu p (etcd_kv w') k = (decode_map cu p (etcd_kv w) ++ map_of d) k"
    proof (cases "map_of d k")
      case None
      then have "etcd_kv w' (p @ k) = etcd_kv w (p @ k)" using loop ks by (metis domIff order_refl same_append_eq)
      with None show ?thesis by (simp add: decode_map_def map_add_def)
    next
      case (Some u)
      then have "k \<in> set (range_keys ro d)" unfolding ks by (rule domI)
      then obtain b where "Marshal cu u = Inr b" "etcd_kv w' (p @ k) = Some b" using loop ks Some by fastforce
      moreover have "json_ok cu u" using ok Some by (simp add: ranI)
      ultimately show ?thesis using Some by (simp add: decode_map_def json_ok_def)
    qed
  qed
qed

lemma decode_area_frame:
  "(\<And>x. \<forall>k. x \<noteq> q @ k \<Longrightarrow> m' x = m x) \<Longrightarrow> (\<And>k j. p @ k \<noteq> q @ j) \<Longrightarrow> decode_map c p m' = decode_map c p m"
  by (rule ext) (simp add: decode_map_def)

lemma forget_values: "map_of (map (\<lambda>kv. (fst kv, ())) xs) k = map_option (\<lambda>_. ()) (map_of xs k)"
  by (induction xs) auto

lemma store_users_areas:
  fixes w :: "'a etcd_store"
  assumes "etcd_wf w" "is_range_order ro" "store_users cu ro cfg w = Ret (Inr (), w')"
  shows "etcd_wf w'"
    "(\<And>u. u \<in> ran (map_of (UUIDToUser cfg)) \<Longrightarrow> json_ok cu u) \<Longrightarrow>
      decode_map cu uuidKeyPrefix (etcd_kv w') = decode_map cu uuidKeyPrefix (etcd_kv w) ++ map_of (UUIDToUser cfg)"
    "(\<And>u. u \<in> ran (map_of (PubKeyToUser cfg)) \<Longrightarrow> json_ok cu u) \<Longrightarrow>
      decode_map cu publicKeyPrefix (etcd_kv w') = decode_map cu publicKeyPrefix (etcd_kv w) ++ map_of (PubKeyToUser cfg)"
proof -
  obtain w1 w2 where run:
    "for_map ro (Containers cfg) (\<lambda>k _. put_json etcd_iface nil_codec (challengeLocationPrefix @ k) ()) w = Ret (Inr (), w1)"
    "for_map ro (UUIDToUser cfg) (\<lambda>k u. put_json etcd_iface cu (uuidKeyPrefix @ k) u) w1 = Ret (Inr (), w2)"
    "for_map ro (PubKeyToUser cfg) (\<lambda>k u. put_json etcd_iface cu (publicKeyPrefix @ k) u) w2 = Ret (Inr (), w')"
    using assms(3)
    by (auto simp: store_users_def PutChallengeData_def PutDataIdxByUuid_def PutDataIdxByPubKey_def bindE_Inr_iff)
  have units: "for_map ro (map (\<lambda>kv. (fst kv, ())) (Containers cfg)) (\<lambda>k u. put_json etcd_iface nil_codec (challengeLocationPrefix @ k) u) w
      = Ret (Inr (), w1)"
  proof -
    have "(case map_of (map (\<lambda>kv. (fst kv, ())) (Containers cfg)) k of
          Some u \<Rightarrow> put_json etcd_iface nil_codec (challengeLocationPrefix @ k) u | None \<Rightarrow> ret ())
        = (case map_of (Containers cfg) k of Some _ \<Rightarrow> put_json (etcd_iface :: 'a etcd_store store_iface) nil_codec (challengeLocationPrefix @ k) () | None \<Rightarrow> ret ())" for k
      by (simp add: forget_values split: option.split)
    then show ?thesis using run(1) unfolding for_map_def range_keys_def by (simp add: comp_def)
  qed
  note a = put_area_all [OF units assms(1,2)]
  note b = put_area_all [OF run(2) a(1) assms(2)]
  note c = put_area_all [OF run(3) b(1) assms(2)]
  have frames: "decode_map cu uuidKeyPrefix (etcd_kv w') = decode_map cu uuidKeyPrefix (etcd_kv w2)"
    "decode_map cu uuidKeyPrefix (etcd_kv w1) = decode_map cu uuidKeyPrefix (etcd_kv w)"
    "decode_map cu publicKeyPrefix (etcd_kv w2) = decode_map cu publicKeyPrefix (etcd_kv w)"
    using a(2) b(2) c(2) by (auto simp: decode_map_def fun_eq_iff)
  show "etcd_wf w'" by (rule c(1))
  show "decode_map cu uuidKeyPrefix (etcd_kv w') = decode_map cu uuidKeyPrefix (etcd_kv w) ++ map_of (UUIDToUser cfg)"
    if "\<And>u. u \<in> ran (map_of (UUIDToUser cfg)) \<Longrightarrow> json_ok cu u"
    using frames b(3) [OF that] by simp
  show "decode_map cu publicKeyPrefix (etcd_kv w') = decode_map cu publicKeyPrefix (etcd_kv w) ++ map_of (PubKeyToUser cfg)"
    if "\<And>u. u \<in> ran (map_of (PubKeyToUser cfg)) \<Longrightarrow> json_ok cu u"
    using frames c(3) [OF that] by simp
qed

text \<open>
  C33: Installing the user configuration makes both indices: when the loops of \<^verbatim>\<open>initalizeChallenges\<close> return without an
  error, the store holds every configured user under the uuid and under the public key of the configuration, on top
  of what it held before.
\<close>

theorem install_stores_users:
  fixes w :: "'a etcd_store"
  assumes "etcd_wf w" "is_range_order ro" "store_users cu ro cfg w = Ret (Inr (), w')"
    and "\<And>u. u \<in> ran (map_of (UUIDToUser cfg)) \<union> ran (map_of (PubKeyToUser cfg)) \<Longrightarrow> json_ok cu u"
  shows "decode_map cu uuidKeyPrefix (etcd_kv w') = decode_map cu uuidKeyPrefix (etcd_kv w) ++ map_of (UUIDToUser cfg)
    \<and> decode_map cu publicKeyPrefix (etcd_kv w') = decode_map cu publicKeyPrefix (etcd_kv w) ++ map_of (PubKeyToUser cfg)"
  using store_users_areas(2,3) [OF assms(1-3)] assms(4) by blast

definition one_user_config :: UserConfiguration where
  "one_user_config = \<lparr>UUIDToUser = [(''u-7'', user7)], PubKeyToUser = [(''k'', user7)], Containers = [(''testchallenge1'', \<lparr>ContainerName = []\<rparr>)]\<rparr>"

theorem install_stores_users_witness:
  "\<exists>w'. store_users uuid_codec rev one_user_config (mem_store []) = Ret (Inr (), w')
     \<and> decode_map uuid_codec publicKeyPrefix (etcd_kv w') ''k'' = Some user7"
proof -
  have "returns_ok (store_users uuid_codec rev one_user_config (mem_store []))" by code_simp
  then obtain w' where w': "store_users uuid_codec rev one_user_config (mem_store []) = Ret (Inr (), w')"
    by (auto simp: returns_ok_iff)
  have "json_ok uuid_codec u" if "u \<in> ran (map_of (UUIDToUser one_user_config)) \<union> ran (map_of (PubKeyToUser one_user_config))" for u
    using that uuid_codec_user7 by (auto simp: one_user_config_def ran_def split: if_splits)
  from install_stores_users [OF mem_store_wf is_range_order_id(2) w' this] w' show ?thesis
    by (simp add: one_user_config_def map_add_def)
qed

end
