(* ===== verification/Bootstrap.thy ===== *)
theory Bootstrap
  imports Agent_Exec
begin

text \<open>
  \<^verbatim>\<open>cli/bootstrapper\<close> and \<^verbatim>\<open>internal/config/utils\<close>: making a Kubernetes cluster out of the virtual machines, through
  the agents that run in them. The agents are reached through the client of \<open>Agent_Files\<close>; kubeadm's token and
  certificate libraries, the disk of the caller and client-go are parameters (\<open>boot_lib\<close>). The loop that waits for
  the output of kubeadm takes the number of messages it may handle as fuel; running out of it is \<open>Block\<close>.
\<close>

section \<open>The kubeadm configuration\<close>

record kubeadm_config =
  kc_Kind :: string
  kc_Fields :: "(string \<times> string) list"

text \<open>The three documents of \<^verbatim>\<open>initConfiguration\<close>, with the fields that are set, in the order of the struct.\<close>

definition initConfiguration :: "kubeadm_config list" where
  "initConfiguration =
     [\<lparr>kc_Kind = ''InitConfiguration'', kc_Fields = [(''apiVersion'', ''kubeadm.k8s.io/v1beta4''),
        (''nodeRegistration.criSocket'', ''unix:///var/run/crio/crio.sock''),
        (''nodeRegistration.kubeletExtraArgs.cloud-provider'', ''external''), (''localAPIEndpoint.bindPort'', ''6443''),
        (''skipPhases'', ''addon/kube-proxy''), (''skipPhases'', ''show-join-command'')]\<rparr>,
      \<lparr>kc_Kind = ''ClusterConfiguration'', kc_Fields = [(''apiVersion'', ''kubeadm.k8s.io/v1beta4''),
        (''apiServer.certSANs'', ''127.0.0.1''),
        (''controllerManager.extraArgs.flex-volume-plugin-dir'', ''/opt/libexec/kubernetes/kubelet-plugins/volume/exec/''),
        (''controllerManager.extraArgs.cloud-provider'', ''external''),
        (''controllerManager.extraArgs.configure-cloud-routes'', ''false''), (''etcd.local'', [])]\<rparr>,
      \<lparr>kc_Kind = ''KubeletConfiguration'', kc_Fields = [(''apiVersion'', ''kubelet.config.k8s.io/v1beta1''),
        (''cgroupDriver'', ''systemd'')]\<rparr>]"

text \<open>\<^verbatim>\<open>marshalK8SResources\<close>: one YAML document per field of the struct, separated, the first error ends it.\<close>

fun marshal_fields :: "('r \<Rightarrow> go_error + bytes) \<Rightarrow> nat \<Rightarrow> 'r list \<Rightarrow> bytes \<Rightarrow> go_error + bytes" where
  "marshal_fields encode i [] buf = Inr buf"
| "marshal_fields encode i (obj # objs) buf = (case encode obj of
      Inl err \<Rightarrow> Inl err
    | Inr y \<Rightarrow> marshal_fields encode (Suc i) objs (buf @ (if i > 0 then ''---'' @ [CHR 0x0A] else []) @ y))"

definition marshalK8SResources :: "('r \<Rightarrow> go_error + bytes) \<Rightarrow> 'r list \<Rightarrow> go_error + bytes" where
  "marshalK8SResources encode resources = marshal_fields encode 0 resources []"

definition GetKubeInitConfig :: "(kubeadm_config \<Rightarrow> go_error + bytes) \<Rightarrow> go_error + bytes" where
  "GetKubeInitConfig encode = marshalK8SResources encode initConfiguration"

section \<open>The bootstrapper\<close>

record BootstrapTokenDiscovery =
  btd_Token :: string
  btd_APIServerEndpoint :: string
  btd_CACertHashes :: "string list"

record Bootstrapper =
  bs_adminConf :: "bytes option"
  bs_controlPlaneIP :: string
  bs_workerIPs :: "string gomap"
  bs_k8sConfig :: bytes

text \<open>
  Library code: the agents, the context, bootstrap tokens, certificates (\<open>bl_issue\<close> makes a key and a certificate
  signed by the authority: the PEM blocks of the certificate and of the key), files, environment and client-go.
\<close>

record ('w, 'cert, 'priv) boot_lib =
  bl_agent :: "'w agent_client"
  bl_ctx :: "'w \<Rightarrow> go_error option"
  bl_GenerateToken :: "('w, string) io"
  bl_NewTokenString :: "string \<Rightarrow> go_error + string"
  bl_CreateNewTokens :: "string \<Rightarrow> nat \<Rightarrow> ('w, unit) io"
  bl_pem_Decode :: "bytes \<Rightarrow> bytes option"
  bl_ParseCertificate :: "bytes \<Rightarrow> go_error + 'cert"
  bl_ParsePrivateKey :: "bytes \<Rightarrow> go_error + 'priv"
  bl_Hash :: "'cert \<Rightarrow> string"
  bl_issue :: "'cert \<Rightarrow> 'priv \<Rightarrow> ('w, bytes \<times> bytes) io"
  bl_Create :: "string \<Rightarrow> ('w, nat) io"
  bl_Write :: "nat \<Rightarrow> bytes \<Rightarrow> ('w, unit) io"
  bl_CloseFile :: "nat \<Rightarrow> ('w, unit) io"
  bl_Setenv :: "string \<Rightarrow> string \<Rightarrow> ('w, unit) io"
  bl_LookupEnv :: "string \<Rightarrow> 'w \<Rightarrow> string option"
  bl_ConnectClient :: "string \<Rightarrow> ('w, unit) io"

text \<open>The loop over the masters keeps the last one it visits.\<close>

definition NewBootstrapper :: "range_order \<Rightarrow> NodeInformation \<Rightarrow> bytes \<Rightarrow> Bootstrapper" where
  "NewBootstrapper ro nodes k8sConfig =
     \<lparr>bs_adminConf = None,
      bs_controlPlaneIP = fold (\<lambda>n ip. case map_of (Masters nodes) n of Some x \<Rightarrow> x | None \<Rightarrow> ip) (range_keys ro (Masters nodes)) [],
      bs_workerIPs = Workers nodes, bs_k8sConfig = k8sConfig\<rparr>"

section \<open>kubeadm\<close>

text \<open>The common loop of \<^verbatim>\<open>joinCluster\<close> and \<^verbatim>\<open>executeKubeadm\<close>.\<close>

fun recv_output :: "('w \<Rightarrow> go_error option) \<Rightarrow> 'w agent_client \<Rightarrow> nat \<Rightarrow> nat \<Rightarrow> ('w, bytes) io" where
  "recv_output ctx G 0 resp = (\<lambda>w. Block)"
| "recv_output ctx G (Suc n) resp =
     bindE (gets ctx) (\<lambda>done. case done of
       Some e \<Rightarrow> throw e
     | None \<Rightarrow>
         bindE (ac_Recv G resp) (\<lambda>data. case data of
           RetOutput out \<Rightarrow> if length out > 0 then ret out else recv_output ctx G n resp
         | _ \<Rightarrow> recv_output ctx G n resp))"

definition kubeadm_path :: string where
  "kubeadm_path = ''/usr/bin/kubeadm''"

text \<open>\<^verbatim>\<open>CACertHashes[0]\<close> panics when there is none.\<close>

definition joinCluster ::
  "('w, 'cert, 'priv) boot_lib \<Rightarrow> nat \<Rightarrow> ('w \<Rightarrow> go_error option) \<Rightarrow> string \<Rightarrow> string \<Rightarrow> BootstrapTokenDiscovery \<Rightarrow> ('w, unit) io" where
  "joinCluster L fuel ctx nodeName ip joinToken =
     with_conn (bl_agent L) (JoinHostPort ip PublicAPIport) (\<lambda>conn. case btd_CACertHashes joinToken of
       [] \<Rightarrow> crash ''index out of range''
     | hash # _ \<Rightarrow>
         bindE (ac_ExecCommandReturnStream (bl_agent L) conn \<lparr>ecr_Command = kubeadm_path,
           ecr_Args = [''join'', btd_APIServerEndpoint joinToken, ''--token'', btd_Token joinToken,
             ''--discovery-token-ca-cert-hash'', hash, ''--node-name'', nodeName], ecr_Tty = False\<rparr>) (\<lambda>resp.
         bindE (recv_output ctx (bl_agent L) fuel resp) (\<lambda>_. ret ())))"

definition executeKubeadm :: "('w, 'cert, 'priv) boot_lib \<Rightarrow> nat \<Rightarrow> nat \<Rightarrow> ('w, bytes) io" where
  "executeKubeadm L fuel conn =
     bindE (ac_ExecCommandReturnStream (bl_agent L) conn \<lparr>ecr_Command = kubeadm_path,
       ecr_Args = [''init'', ''--config'', ''/tmp/kubeadmconf.yaml'', ''--node-name'', ''delegatio-master-0'', ''--v=1'',
         ''--skip-certificate-key-print''], ecr_Tty = False\<rparr>) (\<lambda>resp.
     recv_output (bl_ctx L) (bl_agent L) fuel resp)"

definition executeWriteInitConfiguration :: "('w, 'cert, 'priv) boot_lib \<Rightarrow> nat \<Rightarrow> bytes \<Rightarrow> ('w, unit) io" where
  "executeWriteInitConfiguration L conn initConfigKubernetes =
     ac_WriteFile (bl_agent L) conn \<lparr>wf_Filepath = ''/tmp'', wf_Filename = ''kubeadmconf.yaml'', wf_Content = initConfigKubernetes\<rparr>"

definition InstallKubernetes :: "('w, 'cert, 'priv) boot_lib \<Rightarrow> nat \<Rightarrow> Bootstrapper \<Rightarrow> bytes \<Rightarrow> ('w, unit) io" where
  "InstallKubernetes L fuel a kubernetesInitConfiguration =
     with_conn (bl_agent L) (JoinHostPort (bs_controlPlaneIP a) PublicAPIport) (\<lambda>conn.
     bindE (executeWriteInitConfiguration L conn kubernetesInitConfiguration) (\<lambda>_.
     bindE (executeKubeadm L fuel conn) (\<lambda>_. ret ())))"

text \<open>
  The joining goroutines work on different machines; they are run one after the other in the order \<open>ro\<close> picks. The
  first error cancels the context of the group and is the result once all have returned.
\<close>

fun join_all :: "('w, 'cert, 'priv) boot_lib \<Rightarrow> nat \<Rightarrow> BootstrapTokenDiscovery \<Rightarrow> (string \<times> string) list \<Rightarrow> go_error option
    \<Rightarrow> ('w, unit) io" where
  "join_all L fuel token [] failed = (case failed of None \<Rightarrow> ret () | Some e \<Rightarrow> throw e)"
| "join_all L fuel token ((name, addr) # nodes) failed =
     bindR (joinCluster L fuel (\<lambda>w. if failed = None then bl_ctx L w else Some Canceled) name addr token) (\<lambda>r.
     join_all L fuel token nodes (case failed of
       Some e \<Rightarrow> Some e
     | None \<Rightarrow> (case r of Inl e \<Rightarrow> Some e | Inr _ \<Rightarrow> None)))"

definition worker_list :: "range_order \<Rightarrow> string gomap \<Rightarrow> (string \<times> string) list" where
  "worker_list ro m = [(n, ip). n \<leftarrow> range_keys ro m, Some ip \<leftarrow> [map_of m n]]"

definition JoinClusterCoordinator ::
  "('w, 'cert, 'priv) boot_lib \<Rightarrow> nat \<Rightarrow> range_order \<Rightarrow> Bootstrapper \<Rightarrow> BootstrapTokenDiscovery \<Rightarrow> ('w, unit) io" where
  "JoinClusterCoordinator L fuel ro a joinToken = join_all L fuel joinToken (worker_list ro (bs_workerIPs a)) None"

section \<open>Reading from the control plane\<close>

definition control_plane_file :: "('w, 'cert, 'priv) boot_lib \<Rightarrow> Bootstrapper \<Rightarrow> string \<Rightarrow> string \<Rightarrow> ('w, bytes) io" where
  "control_plane_file L a path name =
     with_conn (bl_agent L) (JoinHostPort (bs_controlPlaneIP a) PublicAPIport) (\<lambda>conn.
     ac_ReadFile (bl_agent L) conn \<lparr>rf_Filepath = path, rf_Filename = name\<rparr>)"

text \<open>The methods that keep what they read in the bootstrapper return it updated.\<close>

definition getKubernetesConfig :: "('w, 'cert, 'priv) boot_lib \<Rightarrow> Bootstrapper \<Rightarrow> ('w, bytes \<times> Bootstrapper) io" where
  "getKubernetesConfig L a =
     bindE (control_plane_file L a ''/etc/kubernetes'' ''/admin.conf'') (\<lambda>adminConfData.
     ret (adminConfData, a\<lparr>bs_adminConf := Some adminConfData\<rparr>))"

definition getKubernetesRootCert :: "('w, 'cert, 'priv) boot_lib \<Rightarrow> Bootstrapper \<Rightarrow> ('w, bytes) io" where
  "getKubernetesRootCert L a = control_plane_file L a ''/etc/kubernetes/pki/'' ''/ca.crt''"

definition wrap_error :: "string \<Rightarrow> ('w, 'a) io \<Rightarrow> ('w, 'a) io" where
  "wrap_error msg m = bindR m (\<lambda>r. case r of Inl err \<Rightarrow> throw (WrapError msg err) | Inr x \<Rightarrow> ret x)"

definition getJoinToken :: "('w, 'cert, 'priv) boot_lib \<Rightarrow> Bootstrapper \<Rightarrow> nat \<Rightarrow> bytes \<Rightarrow> ('w, BootstrapTokenDiscovery) io" where
  "getJoinToken L a ttl caFileContentPem =
     bindE (wrap_error ''couldn't generate random token'' (bl_GenerateToken L)) (\<lambda>rawToken.
     bindE (wrap_error ''invalid token'' (lift_result (bl_NewTokenString L rawToken))) (\<lambda>tokenStr.
     bindE (wrap_error ''creating bootstrap token'' (bl_CreateNewTokens L tokenStr ttl)) (\<lambda>_.
     case bl_pem_Decode L caFileContentPem of
       None \<Rightarrow> throw (ErrorString ''no PEM data found in CA cert'')
     | Some caFileContent \<Rightarrow>
         bindE (wrap_error ''parsing CA certs'' (lift_result (bl_ParseCertificate L caFileContent))) (\<lambda>caCertX509.
         ret \<lparr>btd_Token = tokenStr, btd_APIServerEndpoint = JoinHostPort (bs_controlPlaneIP a) ''6443'',
              btd_CACertHashes = [bl_Hash L caCertX509]\<rparr>))))"

definition generateEtcdCertificate :: "('w, 'cert, 'priv) boot_lib \<Rightarrow> bytes \<Rightarrow> bytes \<Rightarrow> ('w, EtcdCredentials) io" where
  "generateEtcdCertificate L caCert caKey = (case bl_pem_Decode L caCert of
      None \<Rightarrow> throw (ErrorString ''no PEM data found in CA cert'')
    | Some certBytes \<Rightarrow>
        bindE (lift_result (bl_ParseCertificate L certBytes)) (\<lambda>caCertX509.
        case bl_pem_Decode L caKey of
          None \<Rightarrow> throw (ErrorString ''no PEM data found in CA key'')
        | Some keyBytes \<Rightarrow> (case bl_ParsePrivateKey L keyBytes of
            Inl _ \<Rightarrow> throw (ErrorString ''cannot parse pkcs1 CA key pem block'')
          | Inr caPrivateKey \<Rightarrow>
              bindE (bl_issue L caCertX509 caPrivateKey) (\<lambda>(certPem, keyPem).
              ret \<lparr>PeerCertData = certPem, KeyData = keyPem, CaCertData = caCert\<rparr>))))"

text \<open>A file that cannot be read gives nil credentials and no error.\<close>

definition getEtcdCredentials :: "('w, 'cert, 'priv) boot_lib \<Rightarrow> Bootstrapper \<Rightarrow> ('w, EtcdCredentials option) io" where
  "getEtcdCredentials L a =
     with_conn (bl_agent L) (JoinHostPort (bs_controlPlaneIP a) PublicAPIport) (\<lambda>conn.
     bindR (ac_ReadFile (bl_agent L) conn \<lparr>rf_Filepath = ''/etc/kubernetes/pki/etcd/'', rf_Filename = ''ca.key''\<rparr>) (\<lambda>r. case r of
       Inl _ \<Rightarrow> ret None
     | Inr caKey \<Rightarrow>
         bindR (ac_ReadFile (bl_agent L) conn \<lparr>rf_Filepath = ''/etc/kubernetes/pki/etcd/'', rf_Filename = ''ca.crt''\<rparr>) (\<lambda>r. case r of
           Inl _ \<Rightarrow> ret None
         | Inr caCert \<Rightarrow> bindE (generateEtcdCertificate L caCert caKey) (\<lambda>creds. ret (Some creds)))))"

section \<open>Configuration of the caller\<close>

text \<open>
  A failing \<^verbatim>\<open>os.Create\<close> returns a nil file, whose \<^verbatim>\<open>Name\<close> the error message dereferences. The deferred function joins
  the error of closing the file.
\<close>

definition writeKubeconfigToDisk :: "('w, 'cert, 'priv) boot_lib \<Rightarrow> Bootstrapper \<Rightarrow> ('w, Bootstrapper) io" where
  "writeKubeconfigToDisk L a =
     bindE (getKubernetesConfig L a) (\<lambda>(content, a').
     bindR (bl_Create L ''admin.conf'') (\<lambda>r. case r of
       Inl _ \<Rightarrow> crash ''invalid memory address or nil pointer dereference''
     | Inr f \<Rightarrow>
         bindR (bindE (wrap_error ''writing kubeadm init yaml config admin.conf failed'' (bl_Write L f content)) (\<lambda>_.
                bl_Setenv L ''KUBECONFIG'' ''admin.conf'')) (\<lambda>r.
         bindR (bl_CloseFile L f) (\<lambda>c.
         case errors_Join [case r of Inl e \<Rightarrow> Some e | Inr _ \<Rightarrow> None, case c of Inl e \<Rightarrow> Some e | Inr _ \<Rightarrow> None] of
           Some err \<Rightarrow> throw err
         | None \<Rightarrow> ret a'))))"

definition establishClientGoConnection :: "('w, 'cert, 'priv) boot_lib \<Rightarrow> ('w, unit) io" where
  "establishClientGoConnection L =
     bindE (gets (bl_LookupEnv L ''KUBECONFIG'')) (\<lambda>val. case val of
       None \<Rightarrow> throw (ErrorString ''KUBECONFIG environment variable not set'')
     | Some path \<Rightarrow> bl_ConnectClient L path)"

definition DefaultTimeout :: nat where
  "DefaultTimeout = 120"

definition configureKubernetes :: "('w, 'cert, 'priv) boot_lib \<Rightarrow> Bootstrapper \<Rightarrow> ('w, BootstrapTokenDiscovery \<times> Bootstrapper) io" where
  "configureKubernetes L a =
     bindE (writeKubeconfigToDisk L a) (\<lambda>a'.
     bindE (establishClientGoConnection L) (\<lambda>_.
     bindE (wrap_error ''loading ca.crt file'' (getKubernetesRootCert L a')) (\<lambda>caFileContentPem.
     bindE (getJoinToken L a' DefaultTimeout caFileContentPem) (\<lambda>joinToken. ret (joinToken, a')))))"

definition BootstrapKubernetes ::
  "('w, 'cert, 'priv) boot_lib \<Rightarrow> nat \<Rightarrow> range_order \<Rightarrow> Bootstrapper \<Rightarrow> ('w, EtcdCredentials option) io" where
  "BootstrapKubernetes L fuel ro a =
     bindE (InstallKubernetes L fuel a (bs_k8sConfig a)) (\<lambda>_.
     bindE (configureKubernetes L a) (\<lambda>(joinToken, a').
     bindE (JoinClusterCoordinator L fuel ro a' joinToken) (\<lambda>_.
     getEtcdCredentials L a')))"

section \<open>Properties\<close>

text \<open>The messages of a handler whose sends all arrive, collected in a list.\<close>

definition send_to_list :: "return_response \<Rightarrow> (return_response list, unit) io" where
  "send_to_list m = modify (\<lambda>l. l @ [m])"

text \<open>What the agent answers for a command: the messages, then the status of the call (\<^verbatim>\<open>EOF\<close> for success).\<close>

definition agent_answers :: "return_response list exec_lib \<Rightarrow> ExecCommandRequest \<Rightarrow> (go_error + return_response) list" where
  "agent_answers X req = (case ExecCommandReturnStream X send_to_list req [] of
      Ret (Inl err, l) \<Rightarrow> map Inr l @ [Inl err]
    | Ret (Inr _, l) \<Rightarrow> map Inr l @ [Inl EOF]
    | _ \<Rightarrow> [])"

text \<open>A command that starts or not, writes some chunks and ends.\<close>

definition scripted :: "go_error option \<Rightarrow> (bool \<times> bytes) list \<Rightarrow> go_error option \<Rightarrow> 'w exec_lib" where
  "scripted start chunks result = \<lparr>ex_Output = (\<lambda>_. throw EOF), ex_Start = (\<lambda>_. case start of None \<Rightarrow> ret () | Some e \<Rightarrow> throw e),
     ex_Chunks = ret (chunks, result)\<rparr>"

definition stdout_of :: "(bool \<times> bytes) list \<Rightarrow> bytes" where
  "stdout_of chunks = concat [b. (False, b) \<leftarrow> chunks]"

text \<open>A client whose stream delivers the given answers.\<close>

definition stream_client :: "(go_error + return_response) list agent_client" where
  "stream_client = \<lparr>ac_Dial = (\<lambda>_. ret 0), ac_Close = (\<lambda>_. ret ()), ac_WriteFile = (\<lambda>_ _. ret ()), ac_ReadFile = (\<lambda>_ _. throw EOF),
     ac_ExecCommand = (\<lambda>_ _. ret []), ac_ExecCommandStream = (\<lambda>_. ret 0), ac_Send = (\<lambda>_ _. ret ()), ac_ExecCommandReturnStream = (\<lambda>_ _. ret 0),
     ac_Recv = (\<lambda>_ w. case w of [] \<Rightarrow> Block | r # rs \<Rightarrow> Ret (r, rs))\<rparr>"

lemma copy_chunks_to_list:
  "copy_chunks send_to_list cs (buf, None, None) l =
     Ret (Inr (buf @ stdout_of cs, None, None), l @ map (\<lambda>(_, b). RetLog b) cs)"
proof (induction cs arbitrary: buf l)
  case (Cons c cs)
  obtain f b where c: "c = (f, b)" by (cases c)
  have s: "streamWriter_Write (\<lambda>b. send_to_list (RetLog b)) b l = Ret (Inr (length b), l @ [RetLog b])"
    by (simp add: streamWriter_Write_def send_to_list_def bindE_def bindR_def io_defs)
  show ?case by (cases f) (simp_all add: c bindR_def s Cons.IH stdout_of_def)
qed (simp add: stdout_of_def ret_def)

lemma agent_answers_scripted:
  "agent_answers (scripted start chunks result) req = (case start of
      Some e \<Rightarrow> [Inl (exit_message e [])]
    | None \<Rightarrow> map (\<lambda>(_, b). Inr (RetLog b)) chunks @ (case result of
        Some e \<Rightarrow> [Inl (exit_message e (stdout_of chunks))]
      | None \<Rightarrow> [Inr (RetOutput (stdout_of chunks)), Inl EOF]))"
  by (auto simp: agent_answers_def ExecCommandReturnStream_def scripted_def bindE_def bindR_def io_defs copy_chunks_to_list
      wait_error_def send_to_list_def split: option.splits)

abbreviation stream_output :: "nat \<Rightarrow> nat \<Rightarrow> ((go_error + return_response) list, bytes) io" where
  "stream_output \<equiv> recv_output (\<lambda>_. None) stream_client"

lemma stream_output_steps:
  "stream_output (Suc n) resp (Inl e # rs) = Ret (Inl e, rs)"
  "stream_output (Suc n) resp (Inr (RetOutput out) # rs) = (if out \<noteq> [] then Ret (Inr out, rs) else stream_output n resp rs)"
  "stream_output (Suc n) resp (Inr (RetLog b) # rs) = stream_output n resp rs"
  by (simp_all add: stream_client_def bindE_def bindR_def io_defs)

lemma recv_output_logs:
  "stream_output (length cs + n) resp (map (\<lambda>(_, b). Inr (RetLog b)) cs @ rest) = stream_output n resp rest"
  by (induction cs) (auto simp: stream_output_steps simp del: recv_output.simps)

text \<open>
  C19: Running kubeadm through the agent, end to end: the client's loop over the agent's answers ends after at most two
  messages more than the command wrote chunks, and it returns an output exactly when the command started, ended without
  an error and wrote something to its standard output, which is then the output returned. In particular a command that
  succeeds silently is reported as failed.
\<close>

theorem kubeadm_success_iff:
  assumes "length chunks + 2 \<le> n"
  shows "\<exists>r rest. stream_output n resp (agent_answers (scripted start chunks result) req) = Ret (r, rest)
    \<and> (\<forall>out. r = Inr out \<longleftrightarrow> start = None \<and> result = None \<and> out = stdout_of chunks \<and> out \<noteq> [])"
proof -
  obtain m where m: "n = length chunks + Suc (Suc m)" using assms by (auto simp: le_iff_add)
  show ?thesis
  proof (cases start)
    case (Some e)
    then show ?thesis by (simp add: m agent_answers_scripted stream_output_steps del: recv_output.simps)
  next
    case None
    then show ?thesis
      by (cases result) (auto simp add: m agent_answers_scripted recv_output_logs stream_output_steps simp del: recv_output.simps add_Suc_right)
  qed
qed

theorem kubeadm_success_iff_witness:
  "\<exists>rest. stream_output 4 0 (agent_answers (scripted None [(True, ''warn''), (False, ''done'')] None)
       \<lparr>ecr_Command = kubeadm_path, ecr_Args = [], ecr_Tty = False\<rparr>) = Ret (Inr ''done'', rest)"
proof -
  let ?cs = "[(True, ''warn''), (False, ''done'')]" and ?req = "\<lparr>ecr_Command = kubeadm_path, ecr_Args = [], ecr_Tty = False\<rparr>"
  have "length ?cs + 2 \<le> 4" by simp
  from kubeadm_success_iff [OF this, of 0 None None ?req]
  obtain r rest where "stream_output 4 0 (agent_answers (scripted None ?cs None) ?req) = Ret (r, rest)"
    "\<forall>out. r = Inr out \<longleftrightarrow> out = stdout_of ?cs \<and> out \<noteq> []" by blast
  moreover have "stdout_of ?cs = ''done''" by (simp add: stdout_of_def)
  ultimately show ?thesis by (metis list.distinct(1))
qed

lemma join_all_failed: "join_all L fuel t nodes (Some e) w = Ret (r, w') \<Longrightarrow> r = Inl e"
  by (induction nodes arbitrary: w) (auto simp: throw_def bindR_Ret_iff)

lemma join_all_joins:
  assumes "join_all L fuel t nodes None w = Ret (Inr (), w')" "(name, ip) \<in> set nodes"
  shows "\<exists>w1 w2. joinCluster L fuel (bl_ctx L) name ip t w1 = Ret (Inr (), w2)"
  using assms
proof (induction nodes arbitrary: w)
  case (Cons node nodes)
  obtain n i where node: "node = (n, i)" by (cases node)
  from Cons.prems(1) obtain r w1 where run: "joinCluster L fuel (bl_ctx L) n i t w = Ret (r, w1)"
    "join_all L fuel t nodes (case r of Inl e \<Rightarrow> Some e | Inr _ \<Rightarrow> None) w1 = Ret (Inr (), w')"
    by (auto simp: node bindR_Ret_iff)
  then have r: "r = Inr ()" by (cases r) (auto dest: join_all_failed)
  with run Cons.IH [of w1] Cons.prems(2) show ?case by (auto simp: node)
qed simp

lemma worker_list_set: "is_range_order ro \<Longrightarrow> map_of m n = Some ip \<Longrightarrow> (n, ip) \<in> set (worker_list ro m)"
  using set_range_keys [of ro m] by (force simp: worker_list_def)

lemma getJoinToken_endpoint:
  "getJoinToken L a ttl ca w = Ret (Inr t, w') \<Longrightarrow>
     btd_APIServerEndpoint t = JoinHostPort (bs_controlPlaneIP a) ''6443'' \<and> length (btd_CACertHashes t) = 1"
  by (auto simp: getJoinToken_def bindE_Inr_iff ret_def throw_def split: option.splits)

lemma writeKubeconfigToDisk_keeps:
  assumes "writeKubeconfigToDisk L a w = Ret (Inr a', w')"
  shows "bs_controlPlaneIP a' = bs_controlPlaneIP a" "bs_workerIPs a' = bs_workerIPs a"
proof -
  have "yields (\<lambda>a'. bs_controlPlaneIP a' = bs_controlPlaneIP a \<and> bs_workerIPs a' = bs_workerIPs a) (writeKubeconfigToDisk L a)"
    unfolding writeKubeconfigToDisk_def getKubernetesConfig_def bindE_assoc bindE_ret prod.case
    by (intro yields_bindE) (auto simp: yields_pure intro!: yields_bindR split: sum.split option.split)
  from yieldsD [OF this assms] show "bs_controlPlaneIP a' = bs_controlPlaneIP a" "bs_workerIPs a' = bs_workerIPs a" by simp_all
qed

text \<open>The workers that were joined, and with which token.\<close>

lemma bootstrap_joins:
  assumes "BootstrapKubernetes L fuel ro a w = Ret (Inr creds, w')" "is_range_order ro"
  shows "\<exists>token. btd_APIServerEndpoint token = JoinHostPort (bs_controlPlaneIP a) ''6443'' \<and>
    (\<forall>name ip. map_of (bs_workerIPs a) name = Some ip \<longrightarrow>
       (\<exists>w1 w2. joinCluster L fuel (bl_ctx L) name ip token w1 = Ret (Inr (), w2)))"
proof -
  from assms(1) obtain token a1 v1 v2 v3 where run: "configureKubernetes L a v1 = Ret (Inr (token, a1), v2)"
    "JoinClusterCoordinator L fuel ro a1 token v2 = Ret (Inr (), v3)"
    by (auto simp: BootstrapKubernetes_def bindE_Inr_iff split: prod.splits)
  from run(1) obtain u1 u2 ca u3 where conf: "writeKubeconfigToDisk L a v1 = Ret (Inr a1, u1)"
    "getJoinToken L a1 DefaultTimeout ca u2 = Ret (Inr token, u3)"
    by (auto simp: configureKubernetes_def bindE_Inr_iff ret_def)
  note keeps = writeKubeconfigToDisk_keeps [OF conf(1)]
  have "\<exists>w1 w2. joinCluster L fuel (bl_ctx L) name ip token w1 = Ret (Inr (), w2)" if "map_of (bs_workerIPs a) name = Some ip" for name ip
    using join_all_joins run(2) worker_list_set [OF assms(2)] that keeps(2) unfolding JoinClusterCoordinator_def by metis
  with getJoinToken_endpoint [OF conf(2)] keeps(1) show ?thesis by auto
qed

text \<open>
  A bootstrap that returns without an error has joined every worker: for each of them \<^verbatim>\<open>joinCluster\<close> returned without an
  error, called with the name and address of that worker and with one token, whose endpoint is the API server on the
  control plane.
\<close>

theorem bootstrap_joins_every_worker:
  assumes "BootstrapKubernetes L fuel ro a w = Ret (Inr creds, w')" "is_range_order ro"
  shows "\<exists>token. btd_APIServerEndpoint token = JoinHostPort (bs_controlPlaneIP a) ''6443'' \<and>
    (\<forall>name ip. map_of (bs_workerIPs a) name = Some ip \<longrightarrow>
       (\<exists>w1 w2. joinCluster L fuel (bl_ctx L) name ip token w1 = Ret (Inr (), w2)))"
  by (rule bootstrap_joins [OF assms])

text \<open>Machines that do what they are told, and libraries that never fail.\<close>

definition obedient_agent :: "'w agent_client" where
  "obedient_agent = \<lparr>ac_Dial = (\<lambda>_. ret 0), ac_Close = (\<lambda>_. ret ()), ac_WriteFile = (\<lambda>_ _. ret ()), ac_ReadFile = (\<lambda>_ _. ret ''PEM''),
     ac_ExecCommand = (\<lambda>_ _. ret []), ac_ExecCommandStream = (\<lambda>_. ret 0), ac_Send = (\<lambda>_ _. ret ()), ac_ExecCommandReturnStream = (\<lambda>_ _. ret 0),
     ac_Recv = (\<lambda>_. ret (RetOutput ''ok''))\<rparr>"

definition obedient_lib :: "('w, unit, unit) boot_lib" where
  "obedient_lib = \<lparr>bl_agent = obedient_agent, bl_ctx = (\<lambda>_. None), bl_GenerateToken = ret ''abc.def'', bl_NewTokenString = Inr,
     bl_CreateNewTokens = (\<lambda>_ _. ret ()), bl_pem_Decode = Some, bl_ParseCertificate = (\<lambda>_. Inr ()), bl_ParsePrivateKey = (\<lambda>_. Inr ()),
     bl_Hash = (\<lambda>_. ''sha256:0''), bl_issue = (\<lambda>_ _. ret (''CERT'', ''KEY'')), bl_Create = (\<lambda>_. ret 0), bl_Write = (\<lambda>_ _. ret ()),
     bl_CloseFile = (\<lambda>_. ret ()), bl_Setenv = (\<lambda>_ _. ret ()), bl_LookupEnv = (\<lambda>_ _. Some ''admin.conf''), bl_ConnectClient = (\<lambda>_. ret ())\<rparr>"

definition two_workers :: Bootstrapper where
  "two_workers = NewBootstrapper id \<lparr>Masters = [(''m0'', ''10.42.0.2'')], Workers = [(''w0'', ''10.42.0.3''), (''w1'', ''10.42.0.4'')]\<rparr> ''yaml''"

theorem bootstrap_joins_every_worker_witness:
  "\<exists>creds. BootstrapKubernetes obedient_lib 1 id two_workers () = Ret (Inr creds, ())
   \<and> (\<exists>token. btd_APIServerEndpoint token = ''10.42.0.2:6443''
        \<and> joinCluster obedient_lib 1 (bl_ctx obedient_lib) ''w1'' ''10.42.0.4'' token () = Ret (Inr (), ()))"
proof -
  have "returns_ok (BootstrapKubernetes obedient_lib 1 id two_workers ())" by code_simp
  then obtain creds where run: "BootstrapKubernetes obedient_lib 1 id two_workers () = Ret (Inr creds, ())" by (auto simp: returns_ok_iff)
  have w: "map_of (bs_workerIPs two_workers) ''w1'' = Some ''10.42.0.4''" by code_simp
  have "JoinHostPort (bs_controlPlaneIP two_workers) ''6443'' = ''10.42.0.2:6443''" by code_simp
  with bootstrap_joins_every_worker [OF run is_range_order_id(1)] w run show ?thesis by fastforce
qed

lemma control_plane_file_reads:
  assumes "fs_laws OS fs" "delivers (bl_agent L) OS fs peer" "control_plane_file L a path name w = Ret (Inr b, w')"
  shows "fs w (JoinHostPort (bs_controlPlaneIP a) PublicAPIport) (Join2 path name) = Some b"
proof -
  let ?ep = "JoinHostPort (bs_controlPlaneIP a) PublicAPIport" and ?req = "\<lparr>rf_Filepath = path, rf_Filename = name\<rparr>"
  from assms(3) obtain c w1 w2 r where run: "ac_Dial (bl_agent L) ?ep w = Ret (Inr c, w1)"
    "ac_ReadFile (bl_agent L) c ?req w1 = Ret (Inr b, w2)" "ac_Close (bl_agent L) c w2 = Ret (r, w')"
    unfolding control_plane_file_def by (rule with_conn_Inr)
  have d: "fs w1 = fs w" "peer w1 c = Some ?ep" using assms(2) run(1) unfolding delivers_def by blast+
  with assms(2) run(2) have "ReadFile (OS ?ep) ?req w1 = Ret (Inr b, w2)" unfolding delivers_def by fastforce
  from ReadFile_reads(1) [OF assms(1) this] d(1) show ?thesis by simp
qed

lemma kubeadm_paths:
  "Join2 ''/tmp'' ''kubeadmconf.yaml'' = ''/tmp/kubeadmconf.yaml''"
  "Join2 ''/etc/kubernetes'' ''/admin.conf'' = ''/etc/kubernetes/admin.conf''"
  "Join2 ''/etc/kubernetes/pki/'' ''/ca.crt'' = ''/etc/kubernetes/pki/ca.crt''"
  by code_simp+

text \<open>
  The files go where kubeadm looks for them: when \<^verbatim>\<open>InstallKubernetes\<close> returns without an error, kubeadm was started
  over a connection to the control plane's agent at a moment when \<^verbatim>\<open>/tmp/kubeadmconf.yaml\<close> on that machine held
  exactly the given configuration; and what \<^verbatim>\<open>getKubernetesConfig\<close> and \<^verbatim>\<open>getKubernetesRootCert\<close> return is the content
  of \<^verbatim>\<open>/etc/kubernetes/admin.conf\<close> and of \<^verbatim>\<open>/etc/kubernetes/pki/ca.crt\<close> there.
\<close>

theorem kubeadm_files_in_place:
  assumes "fs_laws OS fs" "delivers (bl_agent L) OS fs peer" "ep = JoinHostPort (bs_controlPlaneIP a) PublicAPIport"
  shows "(\<forall>w w'. InstallKubernetes L fuel a conf w = Ret (Inr (), w') \<longrightarrow> (\<exists>conn w1 w2 w3 out.
       ac_Dial (bl_agent L) ep w = Ret (Inr conn, w1) \<and> fs w2 ep ''/tmp/kubeadmconf.yaml'' = Some conf
       \<and> executeKubeadm L fuel conn w2 = Ret (Inr out, w3)))
    \<and> (\<forall>w w' b a'. getKubernetesConfig L a w = Ret (Inr (b, a'), w') \<longrightarrow> fs w ep ''/etc/kubernetes/admin.conf'' = Some b)
    \<and> (\<forall>w w' b. getKubernetesRootCert L a w = Ret (Inr b, w') \<longrightarrow> fs w ep ''/etc/kubernetes/pki/ca.crt'' = Some b)"
proof (intro conjI allI impI)
  fix w w'
  assume "InstallKubernetes L fuel a conf w = Ret (Inr (), w')"
  then obtain conn w1 w4 r where run: "ac_Dial (bl_agent L) ep w = Ret (Inr conn, w1)"
    "bindE (executeWriteInitConfiguration L conn conf) (\<lambda>_. bindE (executeKubeadm L fuel conn) (\<lambda>_. ret ())) w1 = Ret (Inr (), w4)"
    unfolding InstallKubernetes_def assms(3) [symmetric] by (rule with_conn_Inr)
  then obtain w2 out w3 where steps: "executeWriteInitConfiguration L conn conf w1 = Ret (Inr (), w2)"
    "executeKubeadm L fuel conn w2 = Ret (Inr out, w3)" by (auto simp: bindE_Inr_iff)
  have d: "fs w1 = fs w" "peer w1 conn = Some ep" using assms(2) run(1) unfolding delivers_def by blast+
  let ?req = "\<lparr>wf_Filepath = ''/tmp'', wf_Filename = ''kubeadmconf.yaml'', wf_Content = conf\<rparr>"
  have "WriteFile (OS ep) ?req w1 = Ret (Inr (), w2)"
    using assms(2) steps(1) d(2) unfolding executeWriteInitConfiguration_def delivers_def by fastforce
  from WriteFile_writes [OF assms(1) this] have "fs w2 ep ''/tmp/kubeadmconf.yaml'' = Some conf" by (simp add: kubeadm_paths)
  with run(1) steps(2) show "\<exists>conn w1 w2 w3 out. ac_Dial (bl_agent L) ep w = Ret (Inr conn, w1)
       \<and> fs w2 ep ''/tmp/kubeadmconf.yaml'' = Some conf \<and> executeKubeadm L fuel conn w2 = Ret (Inr out, w3)" by blast
next
  fix w w' b a'
  assume "getKubernetesConfig L a w = Ret (Inr (b, a'), w')"
  then have "control_plane_file L a ''/etc/kubernetes'' ''/admin.conf'' w = Ret (Inr b, w')"
    by (auto simp: getKubernetesConfig_def bindE_Inr_iff ret_def)
  from control_plane_file_reads [OF assms(1,2) this] show "fs w ep ''/etc/kubernetes/admin.conf'' = Some b"
    by (simp add: kubeadm_paths assms(3))
next
  fix w w' b
  assume "getKubernetesRootCert L a w = Ret (Inr b, w')"
  from control_plane_file_reads [OF assms(1,2) this [unfolded getKubernetesRootCert_def]]
  show "fs w ep ''/etc/kubernetes/pki/ca.crt'' = Some b" by (simp add: kubeadm_paths assms(3))
qed

text \<open>The machines of \<open>Agent_Files\<close>, with a kubeadm that prints something.\<close>

definition mem_boot :: "(mem_net, unit, unit) boot_lib" where
  "mem_boot = \<lparr>bl_agent = mem_agent\<lparr>ac_Recv := (\<lambda>_. ret (RetOutput ''ok''))\<rparr>, bl_ctx = (\<lambda>_. None), bl_GenerateToken = ret ''abc.def'',
     bl_NewTokenString = Inr, bl_CreateNewTokens = (\<lambda>_ _. ret ()), bl_pem_Decode = Some, bl_ParseCertificate = (\<lambda>_. Inr ()),
     bl_ParsePrivateKey = (\<lambda>_. Inr ()), bl_Hash = (\<lambda>_. ''sha256:0''), bl_issue = (\<lambda>_ _. ret (''CERT'', ''KEY'')), bl_Create = (\<lambda>_. ret 0),
     bl_Write = (\<lambda>_ _. ret ()), bl_CloseFile = (\<lambda>_. ret ()), bl_Setenv = (\<lambda>_ _. ret ()), bl_LookupEnv = (\<lambda>_ _. Some ''admin.conf''),
     bl_ConnectClient = (\<lambda>_. ret ())\<rparr>"

lemma mem_boot_delivers: "delivers (bl_agent mem_boot) mem_os mem_files mem_peer"
  using mem_delivers by (simp add: mem_boot_def delivers_def)

theorem kubeadm_files_in_place_witness:
  "\<exists>w' conn w2 w3 out. InstallKubernetes mem_boot 1 two_workers ''yaml'' ([], []) = Ret (Inr (), w')
     \<and> mem_files w2 ''10.42.0.2:9000'' ''/tmp/kubeadmconf.yaml'' = Some ''yaml'' \<and> executeKubeadm mem_boot 1 conn w2 = Ret (Inr out, w3)"
proof -
  have "returns_ok (InstallKubernetes mem_boot 1 two_workers ''yaml'' ([], []))" by code_simp
  then obtain w' where run: "InstallKubernetes mem_boot 1 two_workers ''yaml'' ([], []) = Ret (Inr (), w')" by (auto simp: returns_ok_iff)
  have ep: "''10.42.0.2:9000'' = JoinHostPort (bs_controlPlaneIP two_workers) PublicAPIport" by code_simp
  from conjunct1 [OF kubeadm_files_in_place [OF mem_fs_laws mem_boot_delivers ep, where fuel = 1 and conf = "''yaml''"]] run
  show ?thesis by metis
qed

text \<open>
  Etcd credentials that cannot be read are not an error: when the agent refuses to read the key of the authority,
  \<^verbatim>\<open>getEtcdCredentials\<close> returns nil credentials and a nil error.
\<close>

theorem unreadable_etcd_key_is_no_error:
  assumes "ac_Dial (bl_agent L) (JoinHostPort (bs_controlPlaneIP a) PublicAPIport) w = Ret (Inr c, w1)"
    and "ac_ReadFile (bl_agent L) c \<lparr>rf_Filepath = ''/etc/kubernetes/pki/etcd/'', rf_Filename = ''ca.key''\<rparr> w1 = Ret (Inl e, w2)"
    and "ac_Close (bl_agent L) c w2 = Ret (r, w3)"
  shows "getEtcdCredentials L a w = Ret (Inr None, w3)"
  using assms by (simp add: getEtcdCredentials_def with_conn_def deferred_def bindE_def bindR_def io_defs)

end
