(* ===== verification/Cli.thy ===== *)
theory Cli
  imports Installer Bootstrap Qemu_Correct
begin

text \<open>
  \<^verbatim>\<open>cli/run.go\<close> and \<^verbatim>\<open>cli/main.go\<close>: the whole life of a cluster. \<open>cli_run\<close> composes the infrastructure, the bootstrapper, the
  installer and the saving of the state. The loggers have the development configuration, so \<^verbatim>\<open>DPanic\<close> panics: the
  function is left, but its deferred calls run. Such an end is a value (\<open>Panicked\<close>); the outcome \<open>Panic\<close> is left to
  panics whose state the model does not know.
\<close>

section \<open>Pieces\<close>

datatype 'a ended = Finished 'a | Panicked string

text \<open>
  Going on after a call that may have panicked; \<^verbatim>\<open>DPanic\<close> on an error; a call that does not panic by itself.
\<close>

definition bindP :: "('w, 'a ended) io \<Rightarrow> ('a \<Rightarrow> ('w, 'b ended) io) \<Rightarrow> ('w, 'b ended) io" where
  "bindP m f = bindE m (\<lambda>e. case e of Panicked p \<Rightarrow> ret (Panicked p) | Finished x \<Rightarrow> f x)"

definition DPanic :: "string \<Rightarrow> ('w, 'a ended) io \<Rightarrow> ('w, 'a ended) io" where
  "DPanic msg m = bindR m (\<lambda>r. case r of Inl _ \<Rightarrow> ret (Panicked msg) | Inr e \<Rightarrow> ret e)"

definition finish :: "('w, 'a) io \<Rightarrow> ('w, 'a ended) io" where
  "finish m = bindE m (\<lambda>x. ret (Finished x))"

text \<open>Library code and the parameters of the parts. \<open>cl_newClient\<close> is \<^verbatim>\<open>k8sapi.NewClient\<close>; \<open>cl_await\<close> waits for the context.\<close>

record ('w, 's, 'cert, 'priv) cli_lib =
  cl_libvirt :: "'w libvirt_conn"
  cl_NewConnect :: "string \<Rightarrow> ('w, unit) io"
  cl_image :: "'w image_lib"
  cl_wait :: "'w wait_lib"
  cl_sched :: schedule
  cl_encode :: "kubeadm_config \<Rightarrow> go_error + bytes"
  cl_boot :: "('w, 'cert, 'priv) boot_lib"
  cl_inst :: "('w, 's) inst_lib"
  cl_newClient :: "'w \<Rightarrow> go_error + (string, 's) Client"
  cl_users :: "UserInformation codec"
  cl_containers :: "ContainerInformation codec"
  cl_config :: "UserConfiguration codec"
  cl_range :: range_order
  cl_await :: "('w, unit) io"
  cl_fuel :: nat

definition on_host :: "('w, 'a) io \<Rightarrow> ('w qsys, 'a) io" where
  "on_host m s = (case m (q_world s) of Ret (r, w) \<Rightarrow> Ret (r, s\<lparr>q_world := w\<rparr>) | Panic p \<Rightarrow> Panic p | Block \<Rightarrow> Block)"

definition createInfrastructure :: "('w, 's, 'cert, 'priv) cli_lib \<Rightarrow> ('w qsys, NodeInformation) io" where
  "createInfrastructure L =
     bindE (ConnectWithInfrastructureService (cl_NewConnect L ''qemu:///system'')) (\<lambda>_.
     InitializeInfrastructure (connectionWrapper (cl_libvirt L)) (cl_image L) (cl_wait L) (cl_fuel L) (cl_sched L))"

definition bootstrapKubernetes :: "('w, 's, 'cert, 'priv) cli_lib \<Rightarrow> NodeInformation \<Rightarrow> ('w qsys, EtcdCredentials option ended) io" where
  "bootstrapKubernetes L nodes = (case GetKubeInitConfig (cl_encode L) of
      Inl _ \<Rightarrow> ret (Panicked ''failed to get kubeConfig'')
    | Inr kubeConf \<Rightarrow>
        finish (on_host (BootstrapKubernetes (cl_boot L) (cl_fuel L) (cl_range L) (NewBootstrapper (cl_range L) nodes kubeConf))))"

text \<open>A program of the installer, whose state is not used afterwards.\<close>

definition with_installer :: "('w, 's) installer \<Rightarrow> (('w, 's) installer, 'a) io \<Rightarrow> ('w, 'a) io" where
  "with_installer k m w = (case m k of
      Ret (r, k') \<Rightarrow> Ret (r, in_cluster k') | Panic p \<Rightarrow> Panic p | Block \<Rightarrow> Block)"

text \<open>Without credentials (a nil pointer), connecting dereferences them once the address of the API server is known.\<close>

definition installKubernetesApplications ::
  "('w, 's, 'cert, 'priv) cli_lib \<Rightarrow> EtcdCredentials option \<Rightarrow> UserConfiguration \<Rightarrow> ('w, unit ended) io" where
  "installKubernetesApplications L creds userConfig =
     bindE (gets (\<lambda>w. NewInstaller (cl_newClient L w) w)) (\<lambda>r. case r of
       Inl err \<Rightarrow> throw err
     | Inr kubeInstaller \<Rightarrow> (case creds of
         None \<Rightarrow> bindE (lift_result (api_host (cl_inst L) (RestConfig (in_client kubeInstaller)))) (\<lambda>_.
           ret (Panicked ''invalid memory address or nil pointer dereference''))
       | Some c \<Rightarrow>
           finish (with_installer kubeInstaller (InstallKubernetesApplications (cl_inst L) (cl_users L) (cl_range L) c userConfig))))"

definition example_config :: UserConfiguration where
  "example_config = \<lparr>UUIDToUser = [], PubKeyToUser = [], Containers = [(''testchallenge1'', \<lparr>ContainerName = []\<rparr>)]\<rparr>"

definition GetExampleConfig :: "('w, 's, 'cert, 'priv) cli_lib \<Rightarrow> ('w, UserConfiguration ended) io" where
  "GetExampleConfig L = (case Marshal (cl_config L) example_config of
      Inl err \<Rightarrow> ret (Panicked (Error err))
    | Inr out \<Rightarrow> bindR (lib_write_file (cl_inst L) ''config.json'' out) (\<lambda>r. case r of
        Inl err \<Rightarrow> ret (Panicked (Error err))
      | Inr _ \<Rightarrow> ret (Finished example_config)))"

text \<open>Saving the state: a new client, connected with the credentials.\<close>

definition handleTermination :: "('w, 's, 'cert, 'priv) cli_lib \<Rightarrow> EtcdCredentials option \<Rightarrow> ('w, unit ended) io" where
  "handleTermination L creds =
     bindE (gets (cl_newClient L)) (\<lambda>r. case r of
       Inl _ \<Rightarrow> ret (Panicked ''new terminate'')
     | Inr client \<Rightarrow> (case creds of
         None \<Rightarrow> (case api_host (cl_inst L) (RestConfig client) of
           Inl _ \<Rightarrow> ret (Panicked ''new terminate'')
         | Inr _ \<Rightarrow> ret (Panicked ''invalid memory address or nil pointer dereference''))
       | Some c \<Rightarrow> (case NewTerminate (cl_inst L) client c of
           Inl _ \<Rightarrow> ret (Panicked ''new terminate'')
         | Inr client' \<Rightarrow>
             finish (\<lambda>w. with_installer \<lparr>in_cluster = w, in_client = client', in_sshData = []\<rparr>
               (SaveState (cl_inst L) (cl_config L) (cl_containers L) (cl_users L) ''./kubernetes-state.json'') w))))"

section \<open>The whole run\<close>

definition run_body :: "('w, 's, 'cert, 'priv) cli_lib \<Rightarrow> ('w qsys, unit ended) io" where
  "run_body L =
     bindP (DPanic ''create infrastructure'' (finish (createInfrastructure L))) (\<lambda>nodes.
     bindP (DPanic ''bootstrap kubernetes'' (bootstrapKubernetes L nodes)) (\<lambda>creds.
     bindP (on_host (GetExampleConfig L)) (\<lambda>userConfig.
     bindP (DPanic ''failed to initialize kubernetes'' (on_host (installKubernetesApplications L creds userConfig))) (\<lambda>_.
     bindE (on_host (cl_await L)) (\<lambda>_.
     on_host (handleTermination L creds))))))"

text \<open>The deferred function runs however the body ends; its errors are only logged.\<close>

definition cli_run :: "('w, 's, 'cert, 'priv) cli_lib \<Rightarrow> ('w qsys, unit ended) io" where
  "cli_run L =
     bindR (run_body L) (\<lambda>r.
     bindR (TerminateInfrastructure (connectionWrapper (cl_libvirt L))) (\<lambda>_.
     bindR (TerminateConnection (connectionWrapper (cl_libvirt L))) (\<lambda>_.
     lift_result r)))"

definition new_infrastructure :: "string \<Rightarrow> 'w \<Rightarrow> 'w qsys" where
  "new_infrastructure imageLocation w = \<lparr>q_world = w, q_inst = NewQemu imageLocation, q_bootPath = vx_TargetPath VolumeBootXMLConfig\<rparr>"

definition run :: "('w, 's, 'cert, 'priv) cli_lib \<Rightarrow> string \<Rightarrow> ('w, unit ended) io" where
  "run L imageLocation w = (case cli_run L (new_infrastructure imageLocation w) of
      Ret (r, s) \<Rightarrow> Ret (r, q_world s) | Panic p \<Rightarrow> Panic p | Block \<Rightarrow> Block)"

text \<open>\<^verbatim>\<open>main\<close>: no image location ends the process, and an error of \<^verbatim>\<open>run\<close> panics.\<close>

definition cli_main :: "('w, 's, 'cert, 'priv) cli_lib \<Rightarrow> string \<Rightarrow> ('w, unit ended) io" where
  "cli_main L imageLocation =
     (if imageLocation = [] then crash ''exit status 1''
      else DPanic ''run'' (run L imageLocation))"

section \<open>Ends of a run\<close>

lemma on_host_Ret: "on_host m s = Ret (r, s') \<longleftrightarrow> (\<exists>w. m (q_world s) = Ret (r, w) \<and> s' = s\<lparr>q_world := w\<rparr>)"
  by (auto simp: on_host_def split: outcome.splits)

lemma ended_iffs:
  "bindP m f w = Ret (Inr (Finished y), w'') \<longleftrightarrow> (\<exists>x w'. m w = Ret (Inr (Finished x), w') \<and> f x w' = Ret (Inr (Finished y), w''))"
  "DPanic msg n w = Ret (Inr (Finished y), w'') \<longleftrightarrow> n w = Ret (Inr (Finished y), w'')"
  "finish k w = Ret (Inr (Finished y), w'') \<longleftrightarrow> k w = Ret (Inr y, w'')"
  by (auto simp: bindP_def DPanic_def finish_def bindE_def bindR_def io_defs split: outcome.splits sum.splits ended.splits)

lemma run_parts:
  assumes "run L img w = Ret (r, w')"
  obtains s1 q s2 c s' where "run_body L (new_infrastructure img w) = Ret (r, s1)"
    "TerminateInfrastructure (cl_libvirt L) s1 = Ret (q, s2)" "TerminateConnection (cl_libvirt L) s2 = Ret (c, s')" "w' = q_world s'"
  using assms
  by (auto simp: run_def cli_run_def connectionWrapper_transparent bindR_Ret_iff lift_result_def split: outcome.split_asm)


text \<open>A run that cannot connect to libvirt panics in its deferred function, and the error of the connection is lost.\<close>

lemma connection_error_lost:
  assumes "cl_NewConnect L ''qemu:///system'' w = Ret (Inl e, w1)"
  shows "run L img w = Panic ''invalid memory address or nil pointer dereference''"
  using assms
  by (simp add: run_def cli_run_def run_body_def createInfrastructure_def ConnectWithInfrastructureService_def bindP_def DPanic_def finish_def bindE_def bindR_def
      TerminateInfrastructure_def lv_def new_infrastructure_def NewQemu_def io_defs)

text \<open>What a run that ends well has done.\<close>

lemma run_stages:
  assumes "run_body L s = Ret (Inr (Finished ()), s')"
  obtains s0 nodes s1 conf creds w2 w3 client w4 k
  where "ConnectWithInfrastructureService (cl_NewConnect L ''qemu:///system'') s = Ret (Inr (), s0)"
    "InitializeInfrastructure (cl_libvirt L) (cl_image L) (cl_wait L) (cl_fuel L) (cl_sched L) s0 = Ret (Inr nodes, s1)"
    "GetKubeInitConfig (cl_encode L) = Inr conf"
    "BootstrapKubernetes (cl_boot L) (cl_fuel L) (cl_range L) (NewBootstrapper (cl_range L) nodes conf) (q_world s1) = Ret (Inr (Some creds), w2)"
    "cl_newClient L w3 = Inr client"
    "InstallKubernetesApplications (cl_inst L) (cl_users L) (cl_range L) creds example_config \<lparr>in_cluster = w3, in_client = client, in_sshData = []\<rparr> = Ret (Inr (), k)"
proof -
  from assms obtain s0 nodes s1 c s2 cfg w3 s4 where A: "ConnectWithInfrastructureService (cl_NewConnect L ''qemu:///system'') s = Ret (Inr (), s0)"
    "InitializeInfrastructure (cl_libvirt L) (cl_image L) (cl_wait L) (cl_fuel L) (cl_sched L) s0 = Ret (Inr nodes, s1)"
    "bootstrapKubernetes L nodes s1 = Ret (Inr (Finished c), s2)" "GetExampleConfig L (q_world s2) = Ret (Inr (Finished cfg), w3)"
    "on_host (installKubernetesApplications L c cfg) (s2\<lparr>q_world := w3\<rparr>) = Ret (Inr (Finished ()), s4)"
    unfolding run_body_def createInfrastructure_def connectionWrapper_transparent
    by (auto simp: ended_iffs bindE_Inr_iff) (auto simp: on_host_Ret)
  from A(3) obtain conf w2 where boot: "GetKubeInitConfig (cl_encode L) = Inr conf"
    "BootstrapKubernetes (cl_boot L) (cl_fuel L) (cl_range L) (NewBootstrapper (cl_range L) nodes conf) (q_world s1) = Ret (Inr c, w2)"
    by (auto simp: bootstrapKubernetes_def ended_iffs on_host_Ret ret_def split: sum.split_asm)
  have cfg: "cfg = example_config"
    using A(4) by (auto simp: GetExampleConfig_def bindR_case_iff ret_def split: sum.split_asm)
  from A(5) obtain w4 where "installKubernetesApplications L c cfg w3 = Ret (Inr (Finished ()), w4)" by (auto simp: on_host_Ret)
  then obtain client creds k where "cl_newClient L w3 = Inr client" "c = Some creds"
    "InstallKubernetesApplications (cl_inst L) (cl_users L) (cl_range L) creds cfg \<lparr>in_cluster = w3, in_client = client, in_sshData = []\<rparr> = Ret (Inr (), k)"
    by (auto simp: installKubernetesApplications_def bindE_Inr_iff ended_iffs gets_def throw_def ret_def lift_result_def with_installer_def NewInstaller_def
        split: sum.split_asm option.split_asm outcome.split_asm)
  with A boot cfg that show ?thesis by blast
qed

lemma connect_keeps: "ConnectWithInfrastructureService m s = Ret (Inr (), s') \<Longrightarrow> li_workerNodeNum (q_inst s') = li_workerNodeNum (q_inst s)"
  by (auto simp: ConnectWithInfrastructureService_def split: outcome.split_asm sum.split_asm)

lemma single_master:
  assumes "is_range_order ro" "Masters nodes = [(n, ip)]"
  shows "bs_controlPlaneIP (NewBootstrapper ro nodes conf) = ip"
proof -
  have "set (range_keys ro (Masters nodes)) = {n}" "distinct (range_keys ro (Masters nodes))"
    using set_range_keys [OF assms(1), of "Masters nodes"] distinct_range_keys [OF assms(1), of "Masters nodes"] assms(2)
    by (simp_all add: gm_wf_def)
  then have "range_keys ro (Masters nodes) = [n]" by (cases "range_keys ro (Masters nodes)") (auto simp: subset_singleton_iff)
  with assms(2) show ?thesis by (simp add: NewBootstrapper_def)
qed


text \<open>A host, machines, a cluster and libraries that do what they are asked to.\<close>

definition smooth_kube :: "'w kube_client" where
  "smooth_kube = \<lparr>kc_create = (\<lambda>_ _. ret ()), kc_get_configmap = (\<lambda>ns n. ret (ConfigMap ns n)), kc_update_configmap = (\<lambda>_ _. ret ()),
     kc_get_namespace = (\<lambda>n. ret (Namespace n)), kc_get_statefulset = (\<lambda>_ n. throw (NotFound n)), kc_get_service = (\<lambda>_ n. throw (NotFound n)),
     kc_get_crb = (\<lambda>n. throw (NotFound n)), kc_update_crb = (\<lambda>_. ret ()), kc_get_pod = (\<lambda>_ n. throw (NotFound n)), kc_list_pods = (\<lambda>_. ret []),
     kc_poll = (\<lambda>_ _ _. ret ()), kc_poll_immediate = (\<lambda>_ _ _. ret ()), kc_objects = (\<lambda>_. Map.empty)\<rparr>"

definition smooth_inst :: "('w, bytes gomap) inst_lib" where
  "smooth_inst = \<lparr>lib_url_host = (\<lambda>_. Inr ''10.42.0.2:6443''), lib_X509KeyPair = (\<lambda>_ _. Inr ()), lib_New = (\<lambda>_ _. Inr (mem_store [])),
     lib_kube = smooth_kube, lib_kubeconfig = Some ''admin.conf'', lib_stat = (\<lambda>_. None), lib_helm_init = (\<lambda>_. ret ()), lib_locate_chart = ret,
     lib_read_file = (\<lambda>_. ret ''bytes''), lib_sha256 = (\<lambda>_. Cilium256Hash), lib_load_chart = (\<lambda>_. ret ''chart''),
     lib_run_release = (\<lambda>_ _ _ _. ret ()), lib_write_file = (\<lambda>_ _. ret ())\<rparr>"

definition smooth_cli :: "(mem_host, bytes gomap, unit, unit) cli_lib" where
  "smooth_cli = \<lparr>cl_libvirt = mem_libvirt, cl_NewConnect = (\<lambda>_. ret ()), cl_image = small_image, cl_wait = ready_machines, cl_sched = rev,
     cl_encode = (\<lambda>_. Inr ''yaml''), cl_boot = obedient_lib, cl_inst = smooth_inst,
     cl_newClient = (\<lambda>_. Inr \<lparr>RestConfig = ''https://10.42.0.2:6443'', requestID = 1, SharedStore = None\<rparr>),
     cl_users = \<lparr>Marshal = (\<lambda>_. Inr ''u''), Unmarshal = (\<lambda>_. Inr zero_user)\<rparr>,
     cl_containers = \<lparr>Marshal = (\<lambda>_. Inr ''c''), Unmarshal = (\<lambda>_. Inr \<lparr>ContainerName = []\<rparr>)\<rparr>,
     cl_config = \<lparr>Marshal = (\<lambda>_. Inr ''{}''), Unmarshal = (\<lambda>_. Inr example_config)\<rparr>, cl_range = rev, cl_await = ret (), cl_fuel = 1\<rparr>"

text \<open>A host with a network of its own and a worker left over from an earlier run.\<close>

definition used_host :: mem_host where
  "used_host = [((LvNet, 0), ''default''), ((LvDom, 1), ''delegatio-worker-0'')]"

definition ends_well :: "((go_error + unit ended) \<times> mem_host) outcome \<Rightarrow> bool" where
  "ends_well r = (case r of Ret (Inr (Finished _), _) \<Rightarrow> True | _ \<Rightarrow> False)"

lemma ends_well_iff: "ends_well r \<longleftrightarrow> (\<exists>w. r = Ret (Inr (Finished ()), w))"
  unfolding ends_well_def by (cases r) (auto split: sum.splits ended.splits)

lemma smooth_run: "\<exists>w'. run smooth_cli ''image'' used_host = Ret (Inr (Finished ()), w')"
proof -
  have "ends_well (run smooth_cli ''image'' used_host)" by code_simp
  then show ?thesis by (simp add: ends_well_iff)
qed



section \<open>Signals\<close>

text \<open>
  \<^verbatim>\<open>registerSignalHandler\<close> of \<^verbatim>\<open>cli/main.go\<close>: the goroutine waits for the context or for \<^verbatim>\<open>done\<close>, then cancels the context and
  reports on \<^verbatim>\<open>stopped\<close>; the returned function sends on \<^verbatim>\<open>done\<close> and waits for the report. Both channels have room for one
  message.
\<close>

datatype sig_main = CNot | CSent | CReturned

record sig_sys =
  sg_ctx :: bool
  sg_done :: nat
  sg_stopped :: nat
  sg_running :: bool
  sg_main :: sig_main

definition sig_init :: sig_sys where
  "sig_init = \<lparr>sg_ctx = False, sg_done = 0, sg_stopped = 0, sg_running = True, sg_main = CNot\<rparr>"

inductive sig_step :: "sig_sys \<Rightarrow> sig_sys \<Rightarrow> bool" where
  signal: "sig_step s (s\<lparr>sg_ctx := True\<rparr>)"
| on_ctx: "sg_running s \<Longrightarrow> sg_ctx s \<Longrightarrow> sg_stopped s < 1 \<Longrightarrow> sig_step s (s\<lparr>sg_running := False, sg_stopped := sg_stopped s + 1\<rparr>)"
| on_done: "sg_running s \<Longrightarrow> sg_done s > 0 \<Longrightarrow> sg_stopped s < 1 \<Longrightarrow>
    sig_step s (s\<lparr>sg_running := False, sg_done := sg_done s - 1, sg_ctx := True, sg_stopped := sg_stopped s + 1\<rparr>)"
| main_sends: "sg_main s = CNot \<Longrightarrow> sg_done s < 1 \<Longrightarrow> sig_step s (s\<lparr>sg_main := CSent, sg_done := sg_done s + 1\<rparr>)"
| main_returns: "sg_main s = CSent \<Longrightarrow> sg_stopped s > 0 \<Longrightarrow> sig_step s (s\<lparr>sg_main := CReturned, sg_stopped := sg_stopped s - 1\<rparr>)"

definition sig_inv :: "sig_sys \<Rightarrow> bool" where
  "sig_inv s \<longleftrightarrow> sg_done s \<le> 1 \<and> sg_stopped s \<le> 1 \<and> (sg_main s = CNot \<longrightarrow> sg_done s = 0)
     \<and> (sg_running s \<longrightarrow> sg_stopped s = 0 \<and> sg_main s \<noteq> CReturned \<and> (sg_main s = CSent \<longrightarrow> sg_done s = 1))
     \<and> (\<not> sg_running s \<longrightarrow> sg_ctx s \<and> (sg_main s \<noteq> CReturned \<longrightarrow> sg_stopped s = 1))"

lemma sig_inv_init: "sig_inv sig_init"
  by (simp add: sig_inv_def sig_init_def)

lemma sig_inv_step: "sig_step s s' \<Longrightarrow> sig_inv s \<Longrightarrow> sig_inv s'"
  by (induction rule: sig_step.induct) (auto simp: sig_inv_def)

interpretation sig: machine sig_step sig_init sig_inv
  by unfold_locales (fact sig_inv_init sig_inv_step)+

text \<open>
  The function that \<^verbatim>\<open>main\<close> defers never blocks for good: before it returns there is always a step other than a signal, and when
  it has returned the context is cancelled and the goroutine has ended.
\<close>

theorem signal_handler_stops:
  assumes "reach sig_step sig_init s"
  shows "(sg_main s = CReturned \<longrightarrow> sg_ctx s \<and> \<not> sg_running s)
    \<and> (sg_main s \<noteq> CReturned \<longrightarrow> (\<exists>t. reach sig_step s t \<and> sg_main t = CReturned))"
proof -
  note inv = sig.invariant [OF assms]
  have sent: "\<exists>t. reach sig_step u t \<and> sg_main t = CReturned" if "sig_inv u" "sg_main u = CSent" for u
  proof (cases "sg_running u")
    case True
    let ?v = "u\<lparr>sg_running := False, sg_done := sg_done u - 1, sg_ctx := True, sg_stopped := sg_stopped u + 1\<rparr>"
    have "sig_step u ?v" using True that by (intro on_done) (auto simp: sig_inv_def)
    from reach.next_step [OF reach_one [of sig_step, OF this] main_returns] that show ?thesis by (intro exI conjI) (assumption | simp)+
  next
    case False
    with that have "sig_step u (u\<lparr>sg_main := CReturned, sg_stopped := sg_stopped u - 1\<rparr>)" by (intro main_returns) (auto simp: sig_inv_def)
    from reach_one [of sig_step, OF this] show ?thesis by (intro exI conjI) (assumption, simp)
  qed
  have "\<exists>t. reach sig_step s t \<and> sg_main t = CReturned" if "sg_main s = CNot"
  proof -
    let ?v = "s\<lparr>sg_main := CSent, sg_done := sg_done s + 1\<rparr>"
    have st: "sig_step s ?v" using that inv by (intro main_sends) (auto simp: sig_inv_def)
    obtain t where "reach sig_step ?v t" "sg_main t = CReturned" using sent [OF sig_inv_step [OF st inv]] by auto
    with reach_trans [OF _ reach_one [of sig_step, OF st]] show ?thesis by blast
  qed
  with sent [OF inv] inv show ?thesis by (cases "sg_main s") (auto simp: sig_inv_def)
qed

theorem signal_handler_stops_witness: "\<exists>t. reach sig_step (sig_init\<lparr>sg_ctx := True\<rparr>) t \<and> sg_main t = CReturned"
proof -
  have "reach sig_step sig_init (sig_init\<lparr>sg_ctx := True\<rparr>)" by (rule reach_one [of sig_step, OF sig_step.signal])
  from signal_handler_stops [OF this] show ?thesis by (simp add: sig_init_def)
qed

end
