(* ===== verification/Processes.thy ===== *)
theory Processes
  imports Flags Agent_Client Grader Cli
begin

text \<open>
  The processes from their command lines: the \<^verbatim>\<open>main\<close> functions of the agent (\<^verbatim>\<open>agent/server/main.go\<close>), the grader and its client
  (\<^verbatim>\<open>grader/server/main.go\<close>, \<^verbatim>\<open>grader/user/main.go\<close>) and the command line tool (\<^verbatim>\<open>cli/main.go\<close>). Building the logger is a parameter
  that may fail; the global logger of gRPC is part of the world and is set by \<open>setLog\<close>. The end of the process by \<^verbatim>\<open>os.Exit\<close>, \<^verbatim>\<open>log.Fatal\<close>
  or a panic is \<open>crash\<close>.
\<close>

section \<open>The main functions\<close>

definition exit_process :: "nat \<Rightarrow> ('w, 'a) io" where
  "exit_process n = crash (''exit status '' @ nat_dec n)"

datatype log_level = DebugLevel | WarnLevel

text \<open>The three services begin alike: flags, logger, level of gRPC's own messages.\<close>

definition grpc_level :: "flag_value gomap \<Rightarrow> log_level" where
  "grpc_level fs = (if bool_flag fs ''debug'' then DebugLevel else WarnLevel)"

definition service_main ::
  "flag_value gomap \<Rightarrow> go_error option \<Rightarrow> (log_level \<Rightarrow> 'w \<Rightarrow> 'w) \<Rightarrow> string list \<Rightarrow> ('w, 'a) io \<Rightarrow> ('w, 'a) io" where
  "service_main flags build setLog args serve = (case parse_flags flags (drop 1 args) of
      FlagsExit n \<Rightarrow> exit_process n
    | FlagsParsed fs _ \<Rightarrow> (case build of
        Some err \<Rightarrow> crash (Error err)
      | None \<Rightarrow> bindE (modify (setLog (grpc_level fs))) (\<lambda>_. serve)))"

definition agent_flags :: "flag_value gomap" where
  "agent_flags = [(''debug'', FlagBool False), (''container'', FlagBool False)]"

definition debug_flags :: "flag_value gomap" where
  "debug_flags = [(''debug'', FlagBool False)]"

definition agent_main ::
  "go_error option \<Rightarrow> (log_level \<Rightarrow> 'w \<Rightarrow> 'w) \<Rightarrow> string list \<Rightarrow> 'w os_lib \<Rightarrow> 'w exec_lib \<Rightarrow> (string \<Rightarrow> ('w, nat) io)
   \<Rightarrow> ('w agent_api \<Rightarrow> nat \<Rightarrow> ('w, unit) io) \<Rightarrow> ('w, unit) io" where
  "agent_main build setLog args os ex listen serve = service_main agent_flags build setLog args (agent_run os ex listen serve)"

definition grader_main ::
  "go_error option \<Rightarrow> (log_level \<Rightarrow> 'w \<Rightarrow> 'w) \<Rightarrow> string list \<Rightarrow> 'w grade_lib \<Rightarrow> ('w, ('c, 's) GradeAPI) io \<Rightarrow> (string \<Rightarrow> ('w, nat) io)
   \<Rightarrow> ((go_context \<Rightarrow> RequestGradingRequest \<Rightarrow> ('w, int \<times> bytes) io) \<Rightarrow> nat \<Rightarrow> ('w, unit) io) \<Rightarrow> ('w, unit) io" where
  "grader_main build setLog args L newAPI listen serve = service_main debug_flags build setLog args (server_run L newAPI listen serve)"

text \<open>The client counts \<^verbatim>\<open>os.Args\<close>, the arguments before \<^verbatim>\<open>flag.Parse\<close>.\<close>

definition user_main ::
  "go_error option \<Rightarrow> (log_level \<Rightarrow> 'w \<Rightarrow> 'w) \<Rightarrow> string list \<Rightarrow> ('w, ('c, 's) GradeAPI) io \<Rightarrow> 'w grade_lib \<Rightarrow> 'w grade_client \<Rightarrow> ('w, int) io" where
  "user_main build setLog args newAPI L G = service_main debug_flags build setLog args (user_run args newAPI L G)"

text \<open>The tool calls a method of the nil logger when building it failed.\<close>

definition cli_process :: "go_error option \<Rightarrow> string list \<Rightarrow> ('w, 's, 'cert, 'priv) cli_lib \<Rightarrow> ('w, unit ended) io" where
  "cli_process build args L = (case parse_flags [(''path'', FlagString [])] (drop 1 args) of
      FlagsExit n \<Rightarrow> exit_process n
    | FlagsParsed fs _ \<Rightarrow> (case build of
        Some _ \<Rightarrow> crash ''invalid memory address or nil pointer dereference''
      | None \<Rightarrow> cli_main L (string_flag fs ''path'')))"

section \<open>Arguments and behaviour\<close>

lemma service_main_Ret:
  "service_main flags build setLog args serve w = Ret (r, w') \<Longrightarrow>
     build = None \<and> (\<exists>fs rest. parse_flags flags (drop 1 args) = FlagsParsed fs rest \<and> serve (setLog (grpc_level fs) w) = Ret (r, w'))"
  by (auto simp: service_main_def exit_process_def crash_def modify_def bindE_def bindR_def split: flag_result.splits option.splits)

lemma service_main_plain:
  "drop 1 args = [] \<or> \<not> is_flag (hd (drop 1 args)) \<Longrightarrow>
     service_main flags None setLog args serve w = serve (setLog (grpc_level flags) w)"
  by (simp add: service_main_def parse_flags_plain modify_def bindE_def bindR_def)

lemma process_flag_names: "flag_name ''debug''" "flag_name ''container''" "flag_name ''path''"
  by (simp_all add: flag_name_def)

lemma service_main_debug:
  assumes "map_of flags ''debug'' = Some (FlagBool b)" "rest = [] \<or> \<not> is_flag (hd rest)"
  shows "service_main flags None setLog (prog # ''-debug'' # rest) serve w = serve (setLog DebugLevel w)"
proof -
  have "parse_flags flags (''-debug'' # rest) = FlagsParsed (AList.update ''debug'' (FlagBool True) flags) rest"
    using parse_bare_bool [OF process_flag_names(1) assms(1), of rest] parse_flags_plain [OF assms(2)] by simp
  then show ?thesis by (simp add: service_main_def grpc_level_def bool_flag_def modify_def bindE_def bindR_def)
qed

lemma user_run_Ret:
  "user_run args newAPI L G w = Ret (r, w') \<Longrightarrow> \<exists>prog file api w1 points. args = [prog, file] \<and> newAPI w = Ret (Inr api, w1)
     \<and> SendGradingRequest L G file w1 = Ret (Inr points, w') \<and> r = Inr points"
  by (cases args rule: list.exhaust; cases "tl args")
    (auto simp: user_run_def crash_def ret_def bindR_case_iff split: if_split_asm)


definition quiet_api :: "(unit, (unit, unit) GradeAPI) io" where
  "quiet_api = ret \<lparr>ga_client = (), ga_grader = NewGraders, ga_store = ()\<rparr>"


text \<open>
  The image that is given to the tool, in either spelling, is the image the machines are made from, and without one the tool ends
  with status 1. The agent serves the same interface on the same address whatever its flags are; they only choose how much is logged.
\<close>

theorem cli_image_given:
  assumes "rest = [] \<or> \<not> is_flag (hd rest)"
  shows "cli_process None (prog # ''-path'' # img # rest) L = cli_main L img"
    and "cli_process None (prog # (''-path='' @ img) # rest) L = cli_main L img"
    and "cli_process None (prog # rest) L = exit_process 1"
proof -
  have path: "map_of [(''path'', FlagString [])] ''path'' = Some (FlagString [])" by simp
  show "cli_process None (prog # ''-path'' # img # rest) L = cli_main L img"
    using parse_string_argument [OF process_flag_names(3) path, of img rest] parse_flags_plain [OF assms]
    by (simp add: cli_process_def string_flag_def)
  show "cli_process None (prog # (''-path='' @ img) # rest) L = cli_main L img"
    using parse_one_flag [OF process_flag_names(3) path, of "FlagString img" rest] parse_flags_plain [OF assms]
    by (simp add: cli_process_def string_flag_def write_flag_def)
  have "nat_dec 1 = ''1''" by code_simp
  then show "cli_process None (prog # rest) L = exit_process 1"
    using parse_flags_plain [OF assms] by (simp add: cli_process_def string_flag_def cli_main_def exit_process_def)
qed

theorem agent_flags_only_log:
  assumes "\<forall>(n, v) \<in> set vals. (n = ''debug'' \<or> n = ''container'') \<and> flag_type v" "rest = [] \<or> \<not> is_flag (hd rest)"
  shows "\<exists>level. agent_main None setLog (prog # map write_flag vals @ rest) os ex listen serve w = agent_run os ex listen serve (setLog level w)"
proof -
  have "\<forall>(n, v) \<in> set vals. flag_name n \<and> map_option flag_type (map_of agent_flags n) = Some (flag_type v)"
    using assms(1) process_flag_names by (force simp: agent_flags_def)
  from parse_written_flags [OF this assms(2)] show ?thesis
    by (auto simp: agent_main_def service_main_def modify_def bindE_def bindR_def)
qed

end
