(* ===== verification/Spec2Isabelle.thy ===== *)
theory Spec2Isabelle
  imports Transactions Std_Concurrency Ssh_Loop Port_Forward Shell Qemu_Race Processes
begin

text \<open>
  A verification of delegatio, a system that gives every student an ssh login to a container of their own in a Kubernetes
  cluster. A command line (\<^verbatim>\<open>cli\<close>) makes virtual machines with libvirt, bootstraps Kubernetes in them and installs the
  applications; an ssh server (\<^verbatim>\<open>ssh\<close>) in the cluster authenticates users against a directory server and relays their sessions
  to their pods; an agent (\<^verbatim>\<open>agent\<close>) in every machine and every pod runs commands and writes files; a grader (\<^verbatim>\<open>grader\<close>) runs
  submitted programs. The ssh server and the command line share an etcd store (\<^verbatim>\<open>internal/store\<close>, \<^verbatim>\<open>internal/storewrapper\<close>) and a
  client of the Kubernetes API (\<^verbatim>\<open>internal/k8sapi\<close>).

  \<^bold>\<open>How code is modelled.\<close> A function of the source is a definition of the same name, in the order of the source. A Go function
  with effects is a program \<open>io\<close>: it maps a world to an \<open>outcome\<close>, which is a result with a new world, a panic, or blocking for
  ever; a result is an error (\<open>Inl\<close>, of type \<open>go_error\<close>) or a value. \<open>bindE\<close> is the return on an error, \<open>bindR\<close> hands the error
  on, \<open>deferred\<close> runs a deferred call. Errors of the source are constructors, so that tests with \<^verbatim>\<open>errors.As\<close> and \<^verbatim>\<open>errors.Is\<close>
  are computed. Go maps are association lists, and each \<^verbatim>\<open>range\<close> over a map takes its visiting order as an argument. Machine integers
  that can wrap are words or carry the bounds of Go's \<^verbatim>\<open>int\<close>. Goroutines that run beside each other are step relations, with one
  rule per action that other goroutines can see; a property of all interleavings is an invariant of \<open>reach\<close>. Code outside the
  repository (etcd, client-go, libvirt, gRPC, ldap, helm, kubeadm, the file system, \<^verbatim>\<open>encoding/json\<close>) is a record of functions
  that is passed in, and what is used of it is a named predicate on that record: \<open>etcd_laws\<close>, \<open>kube_laws\<close>, \<open>lv_laws\<close>, \<open>fs_laws\<close>,
  \<open>delivers\<close>, \<open>json_ok\<close>, \<open>runs_as\<close>, \<open>grader_delivers\<close>. For each of them a small concrete instance that has the property is defined
  and used in the witnesses (\<open>mem_client\<close>, \<open>mem_kube\<close>, \<open>mem_libvirt\<close>, \<open>mem_os\<close>, \<open>mem_agent\<close> and others).

  \<^bold>\<open>Theories.\<close>
  \<^item> \<open>Prelude\<close>: outcomes, programs and their rules, Go maps, reachability, the locale \<open>machine\<close>. \<open>Decimal\<close>: decimal text of integers,
    \<^verbatim>\<open>strconv\<close>, addresses. \<open>Flags\<close>: the part of the package \<^verbatim>\<open>flag\<close> that is used. \<open>Config\<close>: \<^verbatim>\<open>internal/config\<close>.
  \<^item> \<open>Store_Spec\<close>: the store interface and its locales. \<open>Std_Store\<close>, \<open>Std_Correct\<close>, \<open>Std_Concurrency\<close>: \<^verbatim>\<open>stdstore.go\<close>, whose maps
    live in a heap because a committed transaction shares its map with the store. \<open>Etcd_Store\<close>, \<open>Etcd_Correct\<close>: \<^verbatim>\<open>etcdstore.go\<close>.
    \<open>Transactions\<close>: both against one reference. \<open>Store_Wrapper\<close>: \<^verbatim>\<open>storewrapper.go\<close>, proved once for every store.
  \<^item> \<open>Kube_Templates\<close>, \<open>Kube_Api\<close>, \<open>Kube_Correct\<close>: \<^verbatim>\<open>internal/k8sapi\<close>. \<open>Port_Forward\<close>: its \<^verbatim>\<open>portForward.go\<close> and \<^verbatim>\<open>exec.go\<close>.
    \<open>Kube_User\<close>: \<^verbatim>\<open>ssh/kubernetes\<close>.
  \<^item> \<open>Term_Size\<close>: the size queues of the ssh server and of the agent. \<open>Channels\<close>, \<open>Channel_Serve\<close>, \<open>Connection\<close>: \<^verbatim>\<open>ssh/connection\<close>.
    \<open>Ssh_Server\<close>: authentication, \<^verbatim>\<open>ssh/ldap\<close>, \<^verbatim>\<open>ssh/util\<close>. \<open>Ssh_Loop\<close>: the accept loop of \<^verbatim>\<open>ssh/server.go\<close> and \<^verbatim>\<open>ssh/main.go\<close>.
  \<^item> \<open>Agent_Files\<close>, \<open>Agent_Exec\<close>, \<open>Agent_Client\<close>: \<^verbatim>\<open>agent\<close>, on the side of the agent and on the side of its clients. \<open>Shell\<close>: both
    sides of an interactive command connected by a stream.
  \<^item> \<open>Installer\<close>: \<^verbatim>\<open>cli/installer\<close>, \<^verbatim>\<open>cli/terminate\<close>. \<open>Bootstrap\<close>: \<^verbatim>\<open>cli/bootstrapper\<close>, \<^verbatim>\<open>internal/config/utils\<close>. \<open>Qemu_Defs\<close>, \<open>Qemu\<close>,
    \<open>Qemu_Correct\<close>: \<^verbatim>\<open>cli/infrastructure\<close>, \<^verbatim>\<open>internal/config/definitions\<close>. \<open>Qemu_Race\<close>: the goroutines of \<^verbatim>\<open>createInstances\<close>. \<open>Cli\<close>: \<^verbatim>\<open>cli/run.go\<close>, \<^verbatim>\<open>cli/main.go\<close>.
  \<^item> \<open>Grader\<close>: \<^verbatim>\<open>grader\<close>. \<open>Processes\<close>: the \<^verbatim>\<open>main\<close> functions of the agent, the grader, its client and the command line, from their arguments.
  \<^item> This theory: properties of the ssh server together with installer, Kubernetes wrapper and agent.

  \<^bold>\<open>Interfaces.\<close> \<open>key_iterator\<close>, \<open>kv_store\<close>, \<open>live_store\<close> and \<open>reliable_store\<close> are what a store promises its clients (what a read
  returns after a write, that a drained iterator gives exactly the keys with its prefix, that calls return when no lock is held);
  they are interpreted for both backends, and the store wrapper, the login and the installer use them only through the
  interpretations \<open>std\<close> and \<open>etcd\<close>. \<open>transactions\<close> and \<open>reliable_transactions\<close> are the contract of \<^verbatim>\<open>Transaction\<close> (reads see the writes so
  far, Commit makes all of them, Rollback none), interpreted for both backends as \<open>std_txs\<close> and \<open>etcd_txs\<close>. \<open>term_queue\<close> is the contract of both size queues. \<open>machine\<close> is a step relation with an
  invariant, interpreted for each of the concurrent parts: transactions of the in-memory store, the size queue, serving a
  channel, a connection, the ssh server, a command in the agent, a session, a whole shell, a port forward, the signal handler, the
  creation of the machines.
  \<open>grading\<close> is what the grading service relies on, interpreted for \<^verbatim>\<open>GradeExerciseType1\<close>.

  \<^bold>\<open>What is shown.\<close>
  \<^item> Stores: the in-memory store answers like a map, and its transactions are serialisable and never stuck while each is ended once; an
    etcd transaction reads its own writes, applies all of them or none, and is dead afterwards; whole transactions of both refine one
    reference on a plain map; the wrapper's reads are exact.
  \<^item> Logins: permissions are given only to a user the directory accepted or for a stored key; a first password login enables the
    login by key; the private key reaches exactly the file in the pod of that user; a connection handler is bound to the
    authenticated user, and commands reach only that user's pod; the server starts with the key the installer stored.
  \<^item> Concurrency: wait groups count what runs, handlers leave no goroutine, shutdowns cannot deadlock, queues stay bounded and in
    order, the bytes of a shell arrive in order at both ends, and every machine gets at most one boot volume, its own, for every
    interleaving; one goroutine alone does what the sequential definition says.
  \<^item> Clusters: the objects created for a user, a deployment and a machine refer to each other; credentials and users that are
    installed are what the servers read; a run that ends well has joined every worker to the control plane, and however a
    run ends the machines are removed and nothing else on the host is.
  \<^item> Grading: full marks exactly for a submission that passes every file within the time limits; the points a client process
    prints are those of the file on its command line.
  \<^item> Behaviour that surprises is stated as well, with the theorem on what the code does: a failing \<^verbatim>\<open>Transfer\<close> leaves a lock, a Put after
    a Commit changes the store, a saved state loses the key logins, a second password login has no key, sftp never reaches the
    pod, a command that succeeds is reported as an error, a silent kubeadm is a failure, an accepted connection can outlive the
    server, a port forward leaks a goroutine, two boot images can get one path
    and a disk can be missing from the list, the client's flag cannot be used.

  \<^bold>\<open>Bounds and fuel.\<close> The loops that poll libvirt and the agents (\<open>poll_network\<close>, \<open>poll_agent\<close>) and the loop over kubeadm's output
  (\<open>recv_output\<close>) may run for ever and take fuel; out of fuel is \<open>Block\<close>, never a result, so that a theorem about a result holds for
  every amount of fuel, and the theorem on running kubeadm gives an amount that is enough. The upload loop is a terminating function; the size of
  its buffer is a parameter, so that witnesses evaluate. The number of goroutines, connections, users and messages is not bounded.

  \<^bold>\<open>Simplifications.\<close> In the definitions of whole runs the goroutines of an error group that creates machines or joins workers run one
  after the other, in an arbitrary order; \<open>Qemu_Race\<close> interleaves those that create machines, with the calls of libvirt as atomic steps. Contexts are what can be observed of them (done
  or not, a deadline). Log output, and the text of wrapped errors of libraries, is not modelled. Panics of \<^verbatim>\<open>DPanic\<close> in the command
  line are values, because its deferred calls run; other panics end the model's run.

  \<^bold>\<open>Not modelled.\<close> The code that protoc generates (the messages appear as datatypes); the interceptors of gRPC and what
  loggers do; the text of XML and YAML documents (the objects they are made of are); constants that nothing uses
  (\<^verbatim>\<open>TetratePath\<close>, \<^verbatim>\<open>Tetragon256Hash\<close>) and the timeout of the last context (\<^verbatim>\<open>CleanUpTimeout\<close>); the empty packages \<^verbatim>\<open>agent/core\<close> and
  \<^verbatim>\<open>grader/gradeapi/graders/exercises\<close>.
\<close>

section \<open>Properties that span components\<close>

lemma saved_state:
  assumes "etcd_wf w" "GetStoreUserData (Some etcd_iface) cc cu w = Ret (Inr cfg, w')"
  shows "map_of (UUIDToUser cfg) = decode_map cu publicKeyPrefix (etcd_kv w)" "PubKeyToUser cfg = []"
    "map_of (Containers cfg) = decode_map cc challengeLocationPrefix (etcd_kv w)"
proof -
  obtain ch us w1 where run: "load_area etcd_iface cc challengeLocationPrefix w = Ret (Inr ch, w1)"
    "load_area etcd_iface cu publicKeyPrefix w1 = Ret (Inr us, w')" "cfg = \<lparr>UUIDToUser = us, PubKeyToUser = [], Containers = ch\<rparr>"
    using assms(2) by (auto simp: GetStoreUserData_def load_area_eqs bindE_Inr_iff ret_def)
  have c: "map_of ch = decode_map cc challengeLocationPrefix (etcd_kv w)" "etcd_kv w1 = etcd_kv w"
    using etcd.load_area_value [OF assms(1) run(1)] by auto
  have "etcd_wf w1" using etcd.load_area_frame [OF assms(1) run(1)] by simp
  from etcd.load_area_value [OF this run(2)] c run(3)
  show "map_of (UUIDToUser cfg) = decode_map cu publicKeyPrefix (etcd_kv w)" "PubKeyToUser cfg = []"
    "map_of (Containers cfg) = decode_map cc challengeLocationPrefix (etcd_kv w)" by auto
qed

text \<open>
  Saving the state and installing it again loses every public-key login: \<^verbatim>\<open>SaveState\<close> files the users it read by
  public key under \<^verbatim>\<open>uuidToUser\<close>, so that after an installation from that configuration into an empty store the
  public keys are stored where uuids belong, and the ssh server accepts no key at all.
\<close>

theorem saved_state_loses_key_logins:
  assumes "etcd_wf w" "GetStoreUserData (Some etcd_iface) cc cu w = Ret (Inr cfg, w1)"
    and "etcd_wf v" "etcd_kv v = Map.empty" "is_range_order ro" "store_users cu ro cfg v = Ret (Inr (), v1)"
    and "PublicKeyCallback etcd_iface cu key v1 = Ret (r, v2)"
  shows "(\<exists>e. r = Inl e) \<and> map_of (UUIDToUser cfg) = decode_map cu publicKeyPrefix (etcd_kv w)"
proof -
  note saved = saved_state [OF assms(1,2)]
  note areas = store_users_areas [OF assms(3,5,6)]
  have none: "decode_map cu publicKeyPrefix (etcd_kv v1) key = None"
    using areas(3) saved(2) assms(4) by (simp add: decode_map_def)
  have "\<exists>e. r = Inl e"
  proof (cases r)
    case (Inr perms)
    with assms(7) obtain u where "get_json etcd_iface cu (publicKeyPrefix @ key) v1 = Ret (Inr u, v2)"
      by (auto simp: PublicKeyCallback_def GetPublicKeyData_def bindE_Inr_iff wrap_Inr_iff ret_def)
    from etcd.get_json_value [OF areas(1) this] none show ?thesis by (auto simp: decode_map_def)
  qed simp
  with saved(1) show ?thesis by simp
qed

theorem saved_state_loses_key_logins_witness:
  "\<exists>cfg w1 v1 e v2. GetStoreUserData (Some etcd_iface) (one_codec \<lparr>ContainerName = []\<rparr>) uuid_codec
       (mem_store [(etcdPrefix @ ''publickey-k'', ''@u-7'')]) = Ret (Inr cfg, w1)
     \<and> store_users uuid_codec id cfg (mem_store []) = Ret (Inr (), v1)
     \<and> PublicKeyCallback etcd_iface uuid_codec ''k'' v1 = Ret (Inl e, v2)"
proof -
  let ?w = "mem_store [(etcdPrefix @ ''publickey-k'', ''@u-7'')]" and ?cc = "one_codec \<lparr>ContainerName = []\<rparr>"
  have "returns_ok (GetStoreUserData (Some etcd_iface) ?cc uuid_codec ?w)" by code_simp
  then obtain cfg w1 where g: "GetStoreUserData (Some etcd_iface) ?cc uuid_codec ?w = Ret (Inr cfg, w1)"
    by (auto simp: returns_ok_iff)
  have "returns_ok (bindE (on_fst (GetStoreUserData (Some etcd_iface) ?cc uuid_codec)) (\<lambda>cfg. on_snd (store_users uuid_codec id cfg)) (?w, mem_store []))"
    by code_simp
  then obtain v1 where s: "store_users uuid_codec id cfg (mem_store []) = Ret (Inr (), v1)"
    using g by (auto simp: returns_ok_iff bindE_Inr_iff on_fst_def on_snd_def split: outcome.splits)
  have e: "etcd_kv (mem_store []) = Map.empty" by (simp add: etcd_kv_def mem_store_def mem_client_def fun_eq_iff)
  have wf: "etcd_wf v1" by (rule store_users_areas(1) [OF mem_store_wf is_range_order_id(1) s])
  obtain q v2 where q: "etcd_Get (publicKeyPrefix @ ''k'') v1 = Ret (q, v2)" using etcd.get_returns [OF wf] by fastforce
  have "\<exists>r. PublicKeyCallback etcd_iface uuid_codec ''k'' v1 = Ret (r, v2)"
  proof (cases q)
    case (Inr x)
    with q show ?thesis
      by (cases "Unmarshal uuid_codec x")
        (simp_all add: PublicKeyCallback_def GetPublicKeyData_def get_json_def wrap_def bindE_def bindR_def io_defs etcd_iface_def)
  qed (simp add: q PublicKeyCallback_def GetPublicKeyData_def get_json_def wrap_def bindE_def bindR_def io_defs etcd_iface_def)
  then obtain r where p: "PublicKeyCallback etcd_iface uuid_codec ''k'' v1 = Ret (r, v2)" by blast
  from saved_state_loses_key_logins [OF mem_store_wf g mem_store_wf e is_range_order_id(1) s p] g s p show ?thesis by blast
qed

text \<open>
  C8: The private key of a password login arrives where it belongs: when the connection handler's write succeeds, through the
  Kubernetes wrapper of the ssh server and the agent behind it, the file \<^verbatim>\<open>/root/.ssh/delegatio_priv_key\<close> on the pod of the
  authenticated user holds exactly the key that the authentication put into the permissions, and no other file
  of any pod has changed.
\<close>

theorem login_key_reaches_pod:
  assumes "fs_laws OS fs" "delivers G OS fs peer"
    and "\<forall>ns n w q w'. kc_get_service C ns n w = Ret (q, w') \<longrightarrow> fs w' = fs w"
    and "\<forall>ns n w q w'. kc_get_pod C ns n w = Ret (q, w') \<longrightarrow> fs w' = fs w"
    and "user_api api = wrapper_api fwd \<lparr>kw_Client = C, kw_API = \<lparr>CreateExecInPodgRPC = ex, WriteFileInPodgRPC = api_WriteFileInPodgRPC G\<rparr>\<rparr>"
    and "extension conn AuthenticationType = ''pw''" "writeFileToContainer conn api w = Ret (Inr (), w')"
  shows "\<exists>pod v v'. kc_get_pod C UserNamespace (extension conn AuthenticatedUserID @ ''-statefulset-0'') v = Ret (Inr pod, v') \<and>
    (let ep = JoinHostPort (pod_PodIP pod) PublicAPIport in
     fs w' = (fs w)(ep := (fs w ep)(''/root/.ssh/delegatio_priv_key'' \<mapsto> extension conn AuthenticatedPrivKey)))"
proof -
  let ?uid = "extension conn AuthenticatedUserID"
  let ?conf = "\<lparr>kfw_UserIdentifier = ?uid, kfw_Namespace = UserNamespace, kfw_FileName = ''delegatio_priv_key'',
    kfw_FilePath = ''/root/.ssh'', kfw_FileData = extension conn AuthenticatedPrivKey\<rparr>"
  have path: "Join2 ''/root/.ssh'' ''delegatio_priv_key'' = ''/root/.ssh/delegatio_priv_key''" by code_simp
  from assms(5-7) obtain v svc pod v' where run: "kc_get_service C UserNamespace (?uid @ ''-service'') w = Ret (Inr svc, v)"
    "kc_get_pod C UserNamespace (?uid @ ''-statefulset-0'') v = Ret (Inr pod, v')"
    "api_WriteFileInPodgRPC G (JoinHostPort (pod_PodIP pod) (Itoa AgentPort)) ?conf v' = Ret (Inr (), w')"
    by (auto simp: writeFileToContainer_def wrapper_api_def wrapper_WriteFileInPod_def agent_endpoint_def GetService_def GetPod_def
        bindE_Inr_iff ret_def)
  have fs: "fs v' = fs w" using assms(3,4) run(1,2) by metis
  show ?thesis using conjunct1 [OF agent_writes [OF assms(1,2) run(3)]] run(2)
    by (intro exI [of _ pod] exI [of _ v] exI [of _ v']) (simp add: path fs agent_port(1) Let_def)
qed

text \<open>The cluster with one pod per user, in front of the agents of \<open>mem_net\<close>.\<close>

definition pod_kube :: "mem_net kube_client" where
  "pod_kube = smooth_kube\<lparr>kc_get_service := (\<lambda>ns n. ret (ServiceClusterIP ns n 9000)),
     kc_get_pod := (\<lambda>ns n. ret \<lparr>pod_Phase = ''Running'', pod_PodIP = ''10.0.0.7''\<rparr>)\<rparr>"

definition alice_api :: "mem_net K8sAPIUser" where
  "alice_api = \<lparr>UserInformation_of = \<lparr>kri_UserIdentifier = ''alice-1'', kri_Namespace = UserNamespace, kri_ContainerIdentifier = [],
       kri_NodeName = [], kri_StorageClass = []\<rparr>,
     user_api = wrapper_api (\<lambda>_. ret ()) \<lparr>kw_Client = pod_kube, kw_API = \<lparr>CreateExecInPodgRPC = (\<lambda>_ _. ret ()),
       WriteFileInPodgRPC = api_WriteFileInPodgRPC mem_agent\<rparr>\<rparr>\<rparr>"

theorem login_key_reaches_pod_witness:
  "\<exists>w'. writeFileToContainer pw_conn alice_api ([], []) = Ret (Inr (), w')
     \<and> mem_files w' ''10.0.0.7:9000'' ''/root/.ssh/delegatio_priv_key'' = Some ''KEY''"
proof -
  have "returns_ok (writeFileToContainer pw_conn alice_api ([], []))" by code_simp
  then obtain w' where run: "writeFileToContainer pw_conn alice_api ([], []) = Ret (Inr (), w')" by (auto simp: returns_ok_iff)
  have ext: "extension pw_conn AuthenticationType = ''pw''" "extension pw_conn AuthenticatedPrivKey = ''KEY''" by code_simp+
  have kube: "\<forall>ns n w q w'. kc_get_service pod_kube ns n w = Ret (q, w') \<longrightarrow> mem_files w' = mem_files w"
    "\<forall>ns n w q w'. kc_get_pod pod_kube ns n w = Ret (q, w') \<longrightarrow> mem_files w' = mem_files w"
    by (simp_all add: pod_kube_def ret_def)
  have api: "user_api alice_api = wrapper_api (\<lambda>_. ret ()) \<lparr>kw_Client = pod_kube, kw_API = \<lparr>CreateExecInPodgRPC = (\<lambda>_ _. ret ()),
       WriteFileInPodgRPC = api_WriteFileInPodgRPC mem_agent\<rparr>\<rparr>" by (simp add: alice_api_def)
  have ep: "JoinHostPort ''10.0.0.7'' PublicAPIport = ''10.0.0.7:9000''" by code_simp
  from login_key_reaches_pod [OF mem_fs_laws mem_delivers kube api ext(1) run] obtain pod v v' where
    p: "kc_get_pod pod_kube UserNamespace (extension pw_conn AuthenticatedUserID @ ''-statefulset-0'') v = Ret (Inr pod, v')"
    "let ep = JoinHostPort (pod_PodIP pod) PublicAPIport in mem_files w' = (mem_files ([], []))(ep :=
       (mem_files ([], []) ep)(''/root/.ssh/delegatio_priv_key'' \<mapsto> extension pw_conn AuthenticatedPrivKey))" by blast
  from p(1) have "pod_PodIP pod = ''10.0.0.7''" by (auto simp: pod_kube_def ret_def)
  with p(2) ep ext(2) have "mem_files w' ''10.0.0.7:9000'' ''/root/.ssh/delegatio_priv_key'' = Some ''KEY''" by (simp add: Let_def)
  with run show ?thesis by blast
qed

end
